(* ===== verification/Prelude.thy ===== *)
theory Prelude
  imports Main "HOL-Library.Word"
begin

text \<open>
  What the components share: the development's theorem collections, the parts of Go's standard
  library that the sources use (package \<open>net/netip\<close> addresses and prefixes, package \<open>time\<close> instants
  and saturating differences, package \<open>unicode/utf8\<close> decoding, ASCII case mapping and the byte
  searches of package \<open>strings\<close>), results with errors as sums, and generic lemmas on lists and maps.
  Go strings are byte strings, so they are \<^typ>\<open>string\<close> (lists of 8-bit characters) throughout.
\<close>

named_theorems model_defs \<open>definitions of operations, unfolded by the component proofs\<close>
named_theorems inv_defs \<open>definitions of the component invariants\<close>
named_theorems inv_intros \<open>lemmas that an operation preserves an invariant\<close>

subsection \<open>Results\<close>

type_synonym ('e, 'a) result = "'e + 'a"

abbreviation is_ok :: "('e, 'a) result \<Rightarrow> bool" where
  "is_ok r \<equiv> Sum_Type.isl r = False"

subsection \<open>Package net/netip: addresses, prefixes, address-port pairs\<close>

text \<open>
  The zero \<^verbatim>\<open>netip.Addr{}\<close>, an IPv4 address, or an IPv6 address with its zone (empty when there is
  none).  Two addresses are equal in Go exactly when they are equal here.
\<close>

datatype addr = AddrZero | Addr4 "32 word" | Addr6 "128 word" string

fun addr_is4 :: "addr \<Rightarrow> bool" where
  "addr_is4 (Addr4 _) = True"
| "addr_is4 _ = False"

fun addr_is6 :: "addr \<Rightarrow> bool" where
  "addr_is6 (Addr6 _ _) = True"
| "addr_is6 _ = False"

definition addr_is_valid :: "addr \<Rightarrow> bool" where
  "addr_is_valid a \<longleftrightarrow> a \<noteq> AddrZero"

fun addr_bit_len :: "addr \<Rightarrow> nat" where
  "addr_bit_len AddrZero = 0"
| "addr_bit_len (Addr4 _) = 32"
| "addr_bit_len (Addr6 _ _) = 128"

fun addr_is4in6 :: "addr \<Rightarrow> bool" where
  "addr_is4in6 (Addr6 w _) = (drop_bit 32 w = 0xffff)"
| "addr_is4in6 _ = False"

fun addr_unmap :: "addr \<Rightarrow> addr" where
  "addr_unmap (Addr6 w z) = (if addr_is4in6 (Addr6 w z) then Addr4 (ucast w) else Addr6 w z)"
| "addr_unmap a = a"

record addr_port =
  ap_addr :: addr
  ap_port :: "16 word"

text \<open>
  A \<^verbatim>\<open>netip.Prefix\<close>: its bit count is \<open>-1\<close> for the invalid prefix.  \<open>prefix_contains\<close> follows the
  documentation of \<^verbatim>\<open>Prefix.Contains\<close>: families never mix, a zone never matches.
\<close>

record prefix =
  pfx_addr :: addr
  pfx_bits :: int

definition prefix_invalid :: prefix where
  "prefix_invalid = \<lparr>pfx_addr = AddrZero, pfx_bits = -1\<rparr>"

definition prefix_is_valid :: "prefix \<Rightarrow> bool" where
  "prefix_is_valid p \<longleftrightarrow> 0 \<le> pfx_bits p"

fun addr_without_zone :: "addr \<Rightarrow> addr" where
  "addr_without_zone (Addr6 w _) = Addr6 w []"
| "addr_without_zone a = a"

definition prefix_from :: "addr \<Rightarrow> int \<Rightarrow> prefix" where
  "prefix_from a n =
     (if addr_is_valid a \<and> 0 \<le> n \<and> n \<le> int (addr_bit_len a)
      then \<lparr>pfx_addr = addr_without_zone a, pfx_bits = n\<rparr>
      else \<lparr>pfx_addr = addr_without_zone a, pfx_bits = -1\<rparr>)"

definition prefix_is_single_ip :: "prefix \<Rightarrow> bool" where
  "prefix_is_single_ip p \<longleftrightarrow>
     pfx_bits p \<noteq> 0 \<and> pfx_bits p = int (addr_bit_len (pfx_addr p))"

fun same_top_bits :: "addr \<Rightarrow> addr \<Rightarrow> nat \<Rightarrow> bool" where
  "same_top_bits (Addr4 a) (Addr4 b) n = (drop_bit (32 - n) a = drop_bit (32 - n) b)"
| "same_top_bits (Addr6 a _) (Addr6 b z) n =
     (z = [] \<and> drop_bit (128 - n) a = drop_bit (128 - n) b)"
| "same_top_bits _ _ _ = False"

definition prefix_contains :: "prefix \<Rightarrow> addr \<Rightarrow> bool" where
  "prefix_contains p a \<longleftrightarrow>
     prefix_is_valid p \<and> same_top_bits (pfx_addr p) a (nat (pfx_bits p))"

fun addr_mask :: "addr \<Rightarrow> nat \<Rightarrow> addr" where
  "addr_mask (Addr4 a) n = Addr4 (push_bit (32 - n) (drop_bit (32 - n) a))"
| "addr_mask (Addr6 a _) n = Addr6 (push_bit (128 - n) (drop_bit (128 - n) a)) []"
| "addr_mask AddrZero _ = AddrZero"

text \<open>\<^verbatim>\<open>Addr.Prefix(b)\<close>: the masked prefix, or an error when the length does not fit the family.\<close>

definition addr_prefix :: "addr \<Rightarrow> int \<Rightarrow> prefix option" where
  "addr_prefix a n =
     (if a = AddrZero then Some \<lparr>pfx_addr = AddrZero, pfx_bits = 0\<rparr>
      else if n < 0 \<or> int (addr_bit_len a) < n then None
      else Some \<lparr>pfx_addr = addr_mask a (nat n), pfx_bits = n\<rparr>)"

lemma drop_push_drop_bit:
  fixes w :: "'a::len word"
  shows "drop_bit n (push_bit n (drop_bit n w)) = drop_bit n w"
proof (rule bit_eqI)
  fix k
  show "bit (drop_bit n (push_bit n (drop_bit n w))) k = bit (drop_bit n w) k"
    by (auto simp: bit_simps dest: bit_imp_le_length)
qed

lemma same_top_bits_mask: "a \<noteq> AddrZero \<Longrightarrow> same_top_bits (addr_mask a n) (addr_without_zone a) n"
  by (cases a) (simp_all add: drop_push_drop_bit)

lemma same_top_bits_refl: "a \<noteq> AddrZero \<Longrightarrow> same_top_bits a (addr_without_zone a) n"
  by (cases a) simp_all

lemma addr_prefix_contains:
  "addr_prefix a n = Some p \<Longrightarrow> a \<noteq> AddrZero \<Longrightarrow> prefix_contains p (addr_without_zone a)"
  by (auto simp: addr_prefix_def prefix_contains_def prefix_is_valid_def same_top_bits_mask
      split: if_splits)

subsection \<open>Package time: instants and durations\<close>

text \<open>
  A \<^verbatim>\<open>time.Time\<close> is the number of nanoseconds since the zero time, so the zero value is \<open>0\<close>; a
  \<^verbatim>\<open>time.Duration\<close> is a signed 64-bit count of nanoseconds.  \<^verbatim>\<open>Time.Sub\<close> saturates at the ends of
  that range.
\<close>

type_synonym time = int
type_synonym duration = int

definition zero_time :: time where
  "zero_time = 0"

definition time_is_zero :: "time \<Rightarrow> bool" where
  "time_is_zero t \<longleftrightarrow> t = zero_time"

definition max_duration :: duration where
  "max_duration = 2 ^ 63 - 1"

definition min_duration :: duration where
  "min_duration = - (2 ^ 63)"

definition time_sub :: "time \<Rightarrow> time \<Rightarrow> duration" where
  "time_sub t u = max min_duration (min max_duration (t - u))"

definition nsec_per_sec :: duration where
  "nsec_per_sec = 1000000000"

lemma time_sub_exact:
  "min_duration \<le> t - u \<Longrightarrow> t - u \<le> max_duration \<Longrightarrow> time_sub t u = t - u"
  by (simp add: time_sub_def)

lemma time_sub_mono: "t \<le> t' \<Longrightarrow> time_sub t u \<le> time_sub t' u"
  by (simp add: time_sub_def)

lemma time_sub_ge_iff:
  "min_duration < d \<Longrightarrow> d \<le> max_duration \<Longrightarrow> d \<le> time_sub t u \<longleftrightarrow> d \<le> t - u"
  by (auto simp: time_sub_def)

text \<open>\<open>unix_epoch\<close> is 1970-01-01 on the scale of \<^typ>\<open>time\<close>; \<open>UnixNano\<close> counts from it in an int64.\<close>

definition unix_epoch :: time where
  "unix_epoch = 62135596800 * nsec_per_sec"

definition UnixNano :: "time \<Rightarrow> 64 word" where
  "UnixNano t = word_of_int (t - unix_epoch)"

text \<open>The instants that fit an int64 of nanoseconds after the Unix epoch.\<close>

definition modern :: "time \<Rightarrow> bool" where
  "modern t \<longleftrightarrow> unix_epoch < t \<and> t < unix_epoch + 2 ^ 63"

lemma sint_word_of_int_small:
  "- (2 ^ 63) \<le> k \<Longrightarrow> k < 2 ^ 63 \<Longrightarrow> sint (word_of_int k :: 64 word) = k"
  by transfer (simp add: signed_take_bit_int_eq_self)

lemma sint_UnixNano: "modern t \<Longrightarrow> sint (UnixNano t) = t - unix_epoch"
  unfolding UnixNano_def modern_def by (rule sint_word_of_int_small) auto

lemma UnixNano_diff:
  assumes "modern t" "modern u"
  shows "sint (UnixNano t - UnixNano u) = t - u"
proof -
  have "UnixNano t - UnixNano u = word_of_int (t - u)" by (simp add: UnixNano_def)
  moreover have "sint (word_of_int (t - u) :: 64 word) = t - u"
    using assms by (intro sint_word_of_int_small) (auto simp: modern_def)
  ultimately show ?thesis by simp
qed

subsection \<open>Package unicode/utf8\<close>

text \<open>
  \<^verbatim>\<open>utf8.DecodeRuneInString\<close>: the first rune and the bytes it takes; an ill-formed prefix gives
  \<^verbatim>\<open>RuneError\<close> with width 1, the empty string width 0.
\<close>

type_synonym rune = nat

definition rune_error :: rune where
  "rune_error = 0xFFFD"

abbreviation byte :: "char \<Rightarrow> nat" where
  "byte c \<equiv> of_char c"

definition is_cont :: "nat \<Rightarrow> bool" where
  "is_cont b \<longleftrightarrow> 0x80 \<le> b \<and> b \<le> 0xBF"

definition decode_rune :: "string \<Rightarrow> rune \<times> nat" where
  "decode_rune s =
     (case map byte s of
        [] \<Rightarrow> (rune_error, 0)
      | b0 # bs \<Rightarrow>
          if b0 < 0x80 then (b0, 1)
          else if 0xC2 \<le> b0 \<and> b0 \<le> 0xDF then
            (case bs of
               b1 # _ \<Rightarrow> if is_cont b1 then ((b0 - 0xC0) * 64 + (b1 - 0x80), 2) else (rune_error, 1)
             | _ \<Rightarrow> (rune_error, 1))
          else if 0xE0 \<le> b0 \<and> b0 \<le> 0xEF then
            (case bs of
               b1 # b2 # _ \<Rightarrow>
                 if (if b0 = 0xE0 then 0xA0 \<le> b1 \<and> b1 \<le> 0xBF
                     else if b0 = 0xED then 0x80 \<le> b1 \<and> b1 \<le> 0x9F else is_cont b1) \<and> is_cont b2
                 then ((b0 - 0xE0) * 4096 + (b1 - 0x80) * 64 + (b2 - 0x80), 3)
                 else (rune_error, 1)
             | _ \<Rightarrow> (rune_error, 1))
          else if 0xF0 \<le> b0 \<and> b0 \<le> 0xF4 then
            (case bs of
               b1 # b2 # b3 # _ \<Rightarrow>
                 if (if b0 = 0xF0 then 0x90 \<le> b1 \<and> b1 \<le> 0xBF
                     else if b0 = 0xF4 then 0x80 \<le> b1 \<and> b1 \<le> 0x8F else is_cont b1)
                    \<and> is_cont b2 \<and> is_cont b3
                 then ((b0 - 0xF0) * 262144 + (b1 - 0x80) * 4096 + (b2 - 0x80) * 64 + (b3 - 0x80), 4)
                 else (rune_error, 1)
             | _ \<Rightarrow> (rune_error, 1))
          else (rune_error, 1))"

lemma decode_rune_width: "s \<noteq> [] \<Longrightarrow> 0 < snd (decode_rune s)"
  by (cases s) (auto simp: decode_rune_def split: list.splits)

lemma decode_rune_ascii: "byte c < (0x80::nat) \<Longrightarrow> decode_rune (c # s) = (byte c, 1)"
  by (simp add: decode_rune_def)

lemma decode_rune_ascii_iff:
  "fst (decode_rune (c # s)) < 0x80 \<Longrightarrow>
     byte c < (0x80::nat) \<and> decode_rune (c # s) = (byte c, 1)"
  by (auto simp: decode_rune_def rune_error_def is_cont_def split: list.splits if_splits)

text \<open>The runes of a string with their byte offsets, as \<^verbatim>\<open>for i, r := range s\<close> visits them.\<close>

function runes_from :: "nat \<Rightarrow> string \<Rightarrow> (nat \<times> rune) list" where
  "runes_from i s =
     (if s = [] then []
      else (i, fst (decode_rune s))
           # runes_from (i + snd (decode_rune s)) (drop (snd (decode_rune s)) s))"
  by pat_completeness auto
termination
  by (relation "measure (\<lambda>(i, s). length s)") (auto simp: decode_rune_width)

declare runes_from.simps [simp del]

definition runes :: "string \<Rightarrow> rune list" where
  "runes s = map snd (runes_from 0 s)"

lemma runes_from_Nil [simp]: "runes_from i [] = []"
  by (simp add: runes_from.simps)

lemma runes_Nil [simp]: "runes [] = []"
  by (simp add: runes_def)

lemma runes_from_shift: "map snd (runes_from i s) = map snd (runes_from j s)"
proof (induction i s arbitrary: j rule: runes_from.induct)
  case (1 i s)
  show ?case
  proof (cases "s = []")
    case False
    with "1.IH" show ?thesis
      by (simp add: runes_from.simps [of i s] runes_from.simps [of j s])
  qed simp
qed

lemma runes_step:
  "s \<noteq> [] \<Longrightarrow> runes s = fst (decode_rune s) # runes (drop (snd (decode_rune s)) s)"
  unfolding runes_def
  using runes_from_shift [of "snd (decode_rune s)" "drop (snd (decode_rune s)) s" 0]
  by (simp add: runes_from.simps [of 0 s])

lemma runes_ascii_Cons: "byte c < (0x80::nat) \<Longrightarrow> runes (c # s) = byte c # runes s"
  using runes_step [of "c # s"] by (simp add: decode_rune_ascii)

lemma runes_ascii: "\<forall>c \<in> set s. byte c < (0x80::nat) \<Longrightarrow> runes s = map byte s"
  by (induction s) (simp_all add: runes_ascii_Cons)

lemma length_runes_from_le: "length (runes_from i s) \<le> length s"
proof (induction i s rule: runes_from.induct)
  case (1 i s)
  show ?case
  proof (cases "s = []")
    case False
    have "length (runes_from (i + snd (decode_rune s)) (drop (snd (decode_rune s)) s))
        \<le> length s - snd (decode_rune s)"
      using "1.IH" [OF False] by simp
    with decode_rune_width [OF False] False show ?thesis
      by (subst runes_from.simps) (cases s; simp)
  qed simp
qed

subsection \<open>Package strings: ASCII case mapping, searching, splitting\<close>

definition char_to_lower :: "char \<Rightarrow> char" where
  "char_to_lower c = (if 65 \<le> byte c \<and> byte c \<le> (90::nat) then char_of (byte c + 32 :: nat) else c)"

definition to_lower :: "string \<Rightarrow> string" where
  "to_lower s = map char_to_lower s"

definition equal_fold :: "string \<Rightarrow> string \<Rightarrow> bool" where
  "equal_fold s t \<longleftrightarrow> to_lower s = to_lower t"

lemma length_to_lower [simp]: "length (to_lower s) = length s"
  by (simp add: to_lower_def)

lemma char_to_lower_idem [simp]: "char_to_lower (char_to_lower c) = char_to_lower c"
  by (simp add: char_to_lower_def)

lemma to_lower_idem [simp]: "to_lower (to_lower s) = to_lower s"
  by (simp add: to_lower_def)

definition has_prefix :: "string \<Rightarrow> string \<Rightarrow> bool" where
  "has_prefix s p \<longleftrightarrow> take (length p) s = p"

definition has_suffix :: "string \<Rightarrow> string \<Rightarrow> bool" where
  "has_suffix s p \<longleftrightarrow> length p \<le> length s \<and> drop (length s - length p) s = p"

fun str_index :: "string \<Rightarrow> string \<Rightarrow> nat option" where
  "str_index [] p = (if p = [] then Some 0 else None)"
| "str_index (c # s) p = (if has_prefix (c # s) p then Some 0 else map_option Suc (str_index s p))"

definition str_contains :: "string \<Rightarrow> string \<Rightarrow> bool" where
  "str_contains s p \<longleftrightarrow> str_index s p \<noteq> None"

definition trim_suffix :: "string \<Rightarrow> string \<Rightarrow> string" where
  "trim_suffix s p = (if has_suffix s p then take (length s - length p) s else s)"

lemma has_prefix_iff: "has_prefix s p \<longleftrightarrow> (\<exists>t. s = p @ t)"
  by (auto simp: has_prefix_def) (metis append_take_drop_id)

lemma has_suffix_iff: "has_suffix s p \<longleftrightarrow> (\<exists>t. s = t @ p)"
  by (auto simp: has_suffix_def) (metis append_take_drop_id)

lemma has_suffix_append [simp]: "has_suffix (s @ p) p"
  by (simp add: has_suffix_def)

lemma str_contains_iff: "str_contains s p \<longleftrightarrow> (\<exists>u v. s = u @ p @ v)"
proof (induction s)
  case Nil
  then show ?case by (simp add: str_contains_def)
next
  case (Cons c s)
  have "(\<exists>u v. c # s = u @ p @ v) \<longleftrightarrow> (\<exists>v. c # s = p @ v) \<or> (\<exists>u v. s = u @ p @ v)"
    by (metis append_Cons append_Nil list.exhaust list.inject)
  with Cons.IH show ?case
    by (auto simp: str_contains_def has_prefix_iff)
qed

subsection \<open>Finite iteration\<close>

text \<open>
  A Go loop \<^verbatim>\<open>for _, x := range xs { s = f(x, s) }\<close> is \<^term>\<open>fold f xs s\<close>; an invariant that each
  round keeps holds at the end.
\<close>

lemma fold_invariant_set:
  assumes "\<And>x s. x \<in> set xs \<Longrightarrow> I s \<Longrightarrow> I (f x s)" and "I s"
  shows "I (fold f xs s)"
  using assms by (induction xs arbitrary: s) auto

lemma fold_map_upd_distinct:
  "distinct (map k xs) \<Longrightarrow> x \<in> set xs \<Longrightarrow> fold (\<lambda>x m. m(k x \<mapsto> v x)) xs m (k x) = Some (v x)"
proof (induction xs arbitrary: m)
  case (Cons a xs)
  have keep: "y \<notin> k ` set xs \<Longrightarrow> fold (\<lambda>x m. m(k x \<mapsto> v x)) xs m' y = m' y" for m' y
    by (induction xs arbitrary: m') auto
  show ?case
  proof (cases "x = a")
    case True
    with Cons.prems have "k a \<notin> k ` set xs" by auto
    from keep [OF this, of "m(k a \<mapsto> v a)"] True show ?thesis
      by (simp del: fun_upd_apply add: fun_upd_same)
  next
    case False
    with Cons show ?thesis by auto
  qed
qed simp

lemma fold_frame: "(\<And>x s. x \<in> set xs \<Longrightarrow> g (f x s) = g s) \<Longrightarrow> g (fold f xs s) = g s"
  by (induction xs arbitrary: s) auto

text \<open>Storing pairs into a map one by one, later pairs winning.\<close>

lemma fold_map_upds: "fold (\<lambda>(k, v) m. m(k \<mapsto> v)) kvs m = m ++ map_of (rev kvs)"
  by (induction kvs arbitrary: m) (auto simp: map_add_upd_left fun_eq_iff map_add_def split: option.splits)

lemma fold_map_upds_empty:
  "distinct (map fst kvs) \<Longrightarrow>
     fold (\<lambda>(k, v) m. m(k \<mapsto> v)) kvs Map.empty k = Some v \<longleftrightarrow> (k, v) \<in> set kvs"
  by (simp add: fold_map_upds map_of_eq_Some_iff rev_map [symmetric] del: fun_upd_apply)

end
