(* ===== verification/Agd_Profile.thy ===== *)
theory Agd_Profile
  imports Prelude
begin

text \<open>
  Profiles, devices, authentication settings and custom domains of package \<open>internal/agd\<close>, and the
  password authenticators of \<open>internal/agdpasswd\<close>.  A profile carries the fields that the profile
  database and the device finder read; it is an extensible record, so the middlewares add the
  filtering configuration, the blocking modes and the access and rate-limiting settings as an
  extension and the database works on any such extension.  A container.MapSet of device IDs is a
  set.  Bcrypt is not part of the repository: its comparison is a parameter.
\<close>

type_synonym profile_id = string
type_synonym device_id = string
type_synonym human_id_lower = string

datatype authenticator = AllowAuthenticator | PasswordHashBcrypt string

definition Authenticate :: "(string \<Rightarrow> string \<Rightarrow> bool) \<Rightarrow> authenticator \<Rightarrow> string \<Rightarrow> bool" where
  "Authenticate bcrypt a passwd =
     (case a of
        AllowAuthenticator \<Rightarrow> True
      | PasswordHashBcrypt hash \<Rightarrow> bcrypt hash passwd)"

record auth_settings =
  PasswordHash :: authenticator
  auth_Enabled :: bool
  DoHAuthOnly :: bool

record device =
  d_Auth :: auth_settings
  d_ID :: device_id
  LinkedIP :: addr
  d_Name :: string
  d_HumanIDLower :: human_id_lower
  DedicatedIPs :: "addr list"
  d_FilteringEnabled :: bool

text \<open>The last constructor stands for a state of another dynamic type, such as nil.\<close>

datatype custom_domain_state =
    CustomDomainStateCurrent (cds_NotBefore: time) (cds_NotAfter: time) (cds_CertName: string)
      (cds_Enabled: bool)
  | CustomDomainStatePending (cds_Expire: time) (cds_WellKnownPath: string)
  | CustomDomainStateOther

record custom_domain_config =
  cd_State :: custom_domain_state
  cd_Domains :: "string list"

record account_custom_domains =
  acd_Domains :: "custom_domain_config list"
  acd_Enabled :: bool

record profile =
  p_CustomDomains :: account_custom_domains
  p_DeviceIDs :: "device_id set"
  p_ID :: profile_id
  FilteredResponseTTL :: duration
  p_AccountID :: "32 word"
  AutoDevicesEnabled :: bool
  BlockChromePrefetch :: bool
  BlockFirefoxCanary :: bool
  BlockPrivateRelay :: bool
  p_Deleted :: bool
  p_FilteringEnabled :: bool
  IPLogEnabled :: bool
  QueryLogEnabled :: bool
  QueryLogStream :: bool

end
