(* ===== verification/Profile_DB.thy ===== *)
theory Profile_DB
  imports Agd_Profile
begin

text \<open>
  The in-memory profile database, \<open>internal/profiledb/default.go\<close>.  Its six maps and its
  synchronisation times are one record; every method is a function on it.  The storage that answers
  profile requests, the file cache and the clock are outside the database: the first two are
  function arguments, the readings of the clock a record.  The calls made on the custom-domain
  database are appended to a log in call order.  The goroutines that lookups start to drop stale
  entries are values of \<open>db_task\<close>; \<open>db_step\<close> interleaves them with refreshes and lookups in any order,
  each holding the lock \<open>mapsMu\<close> and so running alone.  Logging and metrics are left out.
\<close>

subsection \<open>State\<close>

datatype lookup_error = ErrDeviceNotFound | ErrProfileNotFound

datatype 'e db_error = ErrLookup lookup_error | ErrStorage 'e | ErrCache 'e

type_synonym human_id_key = "human_id_lower \<times> profile_id"

datatype cd_call =
    AddCertificate profile_id "string list" custom_domain_state
  | SetWellKnownPath custom_domain_state
  | DeleteAllWellKnownPaths

record 'x db =
  profiles :: "profile_id \<rightharpoonup> 'x profile_scheme"
  devices :: "device_id \<rightharpoonup> device"
  dedicatedIPToDeviceID :: "addr \<rightharpoonup> device_id"
  deviceIDToProfileID :: "device_id \<rightharpoonup> profile_id"
  humanIDToDeviceID :: "human_id_key \<rightharpoonup> device_id"
  linkedIPToDeviceID :: "addr \<rightharpoonup> device_id"
  syncTime :: time
  lastCacheSync :: time
  lastFullSync :: time
  lastFullSyncError :: time
  cacheIvl :: duration
  fullSyncIvl :: duration
  fullSyncRetryIvl :: duration
  cd_log :: "cd_call list"

record device_change =
  DeletedDeviceIDs :: "device_id list"
  IsPartial :: bool

record 'x storage_resp =
  sr_SyncTime :: time
  sr_DeviceChanges :: "profile_id \<rightharpoonup> device_change"
  sr_Profiles :: "'x profile_scheme list"
  sr_Devices :: "device list"

record 'x file_cache =
  fc_SyncTime :: time
  fc_Profiles :: "'x profile_scheme list"
  fc_Devices :: "device list"

text \<open>The clock readings of one refresh, by their place in the code.\<close>

record clock =
  now_check :: time
  now_full :: time
  now_cache_check :: time
  now_stored :: time

subsection \<open>Devices and profiles\<close>

definition setDevice :: "device \<Rightarrow> 'x db \<Rightarrow> 'x db" where
  "setDevice d db =
     (let devID = d_ID d;
          db = db\<lparr>devices := (devices db)(devID \<mapsto> d)\<rparr>;
          db = db\<lparr>dedicatedIPToDeviceID :=
                   fold (\<lambda>ip m. m(ip \<mapsto> devID)) (DedicatedIPs d) (dedicatedIPToDeviceID db)\<rparr>;
          db = (if LinkedIP d \<noteq> AddrZero
                then db\<lparr>linkedIPToDeviceID := (linkedIPToDeviceID db)(LinkedIP d \<mapsto> devID)\<rparr>
                else db)
      in if d_HumanIDLower d = [] then db
         else case deviceIDToProfileID db devID of
                None \<Rightarrow> db
              | Some profID \<Rightarrow>
                  db\<lparr>humanIDToDeviceID :=
                       (humanIDToDeviceID db)((d_HumanIDLower d, profID) \<mapsto> devID)\<rparr>)"

definition setDevices :: "device list \<Rightarrow> 'x db \<Rightarrow> 'x db" where
  "setDevices ds db = fold setDevice ds db"

text \<open>The calls that \<open>setProfileCerts\<close> makes and the indexes of the states it reports as errors.\<close>

fun cert_calls :: "profile_id \<Rightarrow> custom_domain_config list \<Rightarrow> nat \<Rightarrow> cd_call list \<times> nat list" where
  "cert_calls pid [] i = ([], [])"
| "cert_calls pid (c # cs) i =
     (let (calls, errs) = cert_calls pid cs (Suc i)
      in case cd_State c of
           CustomDomainStateCurrent _ _ _ _ \<Rightarrow>
             (AddCertificate pid (cd_Domains c) (cd_State c) # calls, errs)
         | CustomDomainStatePending _ _ \<Rightarrow> (SetWellKnownPath (cd_State c) # calls, errs)
         | CustomDomainStateOther \<Rightarrow> (calls, i # errs))"

definition setProfileCerts :: "'x profile_scheme \<Rightarrow> 'x db \<Rightarrow> 'x db \<times> nat list" where
  "setProfileCerts p db =
     (if \<not> acd_Enabled (p_CustomDomains p) then (db, [])
      else
        (let (calls, errs) = cert_calls (p_ID p) (acd_Domains (p_CustomDomains p)) 0
         in (db\<lparr>cd_log := cd_log db @ calls\<rparr>, errs)))"

definition attachDevices :: "'x profile_scheme \<Rightarrow> 'x db \<Rightarrow> 'x db" where
  "attachDevices p db =
     db\<lparr>deviceIDToProfileID :=
          (\<lambda>d. if d \<in> p_DeviceIDs p then Some (p_ID p) else deviceIDToProfileID db d)\<rparr>"

definition applyChanges ::
  "'x profile_scheme \<Rightarrow> device_change option \<Rightarrow> 'x db \<Rightarrow> 'x profile_scheme \<times> 'x db" where
  "applyChanges p devChg db =
     (case devChg of
        None \<Rightarrow> (p, db)
      | Some c \<Rightarrow>
          if \<not> IsPartial c then (p, db)
          else (case profiles db (p_ID p) of
                  None \<Rightarrow> (p, db)
                | Some prev \<Rightarrow>
                    fold (\<lambda>d (p, db).
                            (p\<lparr>p_DeviceIDs := p_DeviceIDs p - {d}\<rparr>,
                             db\<lparr>deviceIDToProfileID := (deviceIDToProfileID db)(d := None)\<rparr>))
                         (DeletedDeviceIDs c)
                         (p\<lparr>p_DeviceIDs := p_DeviceIDs p \<union> p_DeviceIDs prev\<rparr>, db)))"

definition setProfile ::
  "(profile_id \<rightharpoonup> device_change) \<Rightarrow> 'x profile_scheme \<Rightarrow> 'x db \<Rightarrow> 'x db" where
  "setProfile devChanges p db =
     (let (p, db) = applyChanges p (devChanges (p_ID p)) db;
          db = db\<lparr>profiles := (profiles db)(p_ID p \<mapsto> p)\<rparr>;
          (db, errs) = setProfileCerts p db
      in attachDevices p db)"

definition setProfiles ::
  "'x profile_scheme list \<Rightarrow> device list \<Rightarrow> (profile_id \<rightharpoonup> device_change) \<Rightarrow> 'x db \<Rightarrow> 'x db" where
  "setProfiles ps ds devChanges db = setDevices ds (fold (setProfile devChanges) ps db)"

definition setProfileFull :: "'x profile_scheme \<Rightarrow> 'x db \<Rightarrow> 'x db" where
  "setProfileFull p db =
     fst (setProfileCerts p (attachDevices p (db\<lparr>profiles := (profiles db)(p_ID p \<mapsto> p)\<rparr>)))"

definition setProfilesFull :: "'x profile_scheme list \<Rightarrow> device list \<Rightarrow> 'x db \<Rightarrow> 'x db" where
  "setProfilesFull ps ds db =
     (let db = db\<lparr>profiles := Map.empty, devices := Map.empty, dedicatedIPToDeviceID := Map.empty,
                  deviceIDToProfileID := Map.empty, humanIDToDeviceID := Map.empty,
                  linkedIPToDeviceID := Map.empty,
                  cd_log := cd_log db @ [DeleteAllWellKnownPaths]\<rparr>
      in setDevices ds (fold setProfileFull ps db))"

subsection \<open>Synchronisation\<close>

definition needsFullSync :: "time \<Rightarrow> 'x db \<Rightarrow> bool" where
  "needsFullSync now db =
     (let sinceFull = time_sub now (lastFullSync db)
      in if time_is_zero (lastFullSyncError db) then fullSyncIvl db \<le> sinceFull
         else fullSyncRetryIvl db \<le> time_sub now (lastFullSyncError db))"

definition syncTimeFull :: time where
  "syncTimeFull = zero_time"

definition requestSyncTime :: "bool \<Rightarrow> 'x db \<Rightarrow> time" where
  "requestSyncTime isFullSync db = (if \<not> isFullSync then syncTime db else syncTimeFull)"

text \<open>
  The outside world of a refresh: the profile requests and the file cache.  \<open>storeCache\<close> hands the
  values of two maps to the file cache in the unspecified iteration order of Go's maps, which the two
  enumeration functions pick.
\<close>

record ('e, 'x) backend =
  be_Profiles :: "time \<Rightarrow> ('e, 'x storage_resp) result"
  be_Store :: "'x file_cache \<Rightarrow> 'e option"
  be_enumProfiles :: "(profile_id \<rightharpoonup> 'x profile_scheme) \<Rightarrow> 'x profile_scheme list"
  be_enumDevices :: "(device_id \<rightharpoonup> device) \<Rightarrow> device list"

definition fetchProfiles ::
  "('e, 'x) backend \<Rightarrow> bool \<Rightarrow> 'x db \<Rightarrow> ('e db_error, 'x storage_resp) result \<times> 'x db" where
  "fetchProfiles be isFullSync db =
     (case be_Profiles be (requestSyncTime isFullSync db) of
        Inl e \<Rightarrow> (Inl (ErrStorage e), db)
      | Inr sr \<Rightarrow> (Inr sr, db\<lparr>syncTime := sr_SyncTime sr\<rparr>))"

definition storeCache :: "('e, 'x) backend \<Rightarrow> time \<Rightarrow> 'x db \<Rightarrow> 'e db_error option \<times> 'x db" where
  "storeCache be now db =
     (case be_Store be \<lparr>fc_SyncTime = syncTime db, fc_Profiles = be_enumProfiles be (profiles db),
                       fc_Devices = be_enumDevices be (devices db)\<rparr> of
        Some e \<Rightarrow> (Some (ErrCache e), db)
      | None \<Rightarrow> (None, db\<lparr>lastCacheSync := now\<rparr>))"

definition refreshFull ::
  "('e, 'x) backend \<Rightarrow> clock \<Rightarrow> 'x db \<Rightarrow> 'e db_error option \<times> 'x db" where
  "refreshFull be ck db =
     (case fetchProfiles be True db of
        (Inl e, db) \<Rightarrow> (Some e, db\<lparr>lastFullSyncError := now_full ck\<rparr>)
      | (Inr resp, db) \<Rightarrow>
          (let db = setProfilesFull (sr_Profiles resp) (sr_Devices resp) db;
               db = db\<lparr>lastFullSync := now_full ck, lastFullSyncError := zero_time\<rparr>
           in storeCache be (now_stored ck) db))"

definition Refresh :: "('e, 'x) backend \<Rightarrow> clock \<Rightarrow> 'x db \<Rightarrow> 'e db_error option \<times> 'x db" where
  "Refresh be ck db =
     (if needsFullSync (now_check ck) db then refreshFull be ck db
      else
        (case fetchProfiles be False db of
           (Inl e, db) \<Rightarrow> (Some e, db)
         | (Inr resp, db) \<Rightarrow>
             (let db = setProfiles (sr_Profiles resp) (sr_Devices resp) (sr_DeviceChanges resp) db
              in if cacheIvl db \<le> time_sub (now_cache_check ck) (lastCacheSync db)
                 then storeCache be (now_stored ck) db
                 else (None, db))))"

datatype 'e cache_load_error = CacheVersionError | CacheLoadError 'e

definition loadFileCache ::
  "('e cache_load_error, 'x file_cache option) result \<Rightarrow> 'x db \<Rightarrow> 'e option \<times> 'x db" where
  "loadFileCache loaded db =
     (case loaded of
        Inl CacheVersionError \<Rightarrow> (None, db)
      | Inl (CacheLoadError e) \<Rightarrow> (Some e, db)
      | Inr None \<Rightarrow> (None, db)
      | Inr (Some c) \<Rightarrow>
          if length (fc_Profiles c) = 0 \<or> length (fc_Devices c) = 0 then (None, db)
          else (None,
                (setProfilesFull (fc_Profiles c) (fc_Devices c) db)
                  \<lparr>syncTime := fc_SyncTime c, lastFullSync := fc_SyncTime c,
                   lastCacheSync := fc_SyncTime c\<rparr>))"

definition empty_db :: "duration \<Rightarrow> duration \<Rightarrow> duration \<Rightarrow> 'x db" where
  "empty_db cIvl fIvl rIvl =
     \<lparr>profiles = Map.empty, devices = Map.empty, dedicatedIPToDeviceID = Map.empty,
      deviceIDToProfileID = Map.empty, humanIDToDeviceID = Map.empty,
      linkedIPToDeviceID = Map.empty, syncTime = zero_time, lastCacheSync = zero_time,
      lastFullSync = zero_time, lastFullSyncError = zero_time, cacheIvl = cIvl,
      fullSyncIvl = fIvl, fullSyncRetryIvl = rIvl, cd_log = []\<rparr>"

definition new_db ::
  "duration \<Rightarrow> duration \<Rightarrow> duration \<Rightarrow> ('e cache_load_error, 'x file_cache option) result \<Rightarrow> 'x db" where
  "new_db cIvl fIvl rIvl loaded = snd (loadFileCache loaded (empty_db cIvl fIvl rIvl))"

subsection \<open>Lookups and the tasks they start\<close>

datatype db_task =
    RemoveDevice device_id
  | RemoveDedicatedIP addr
  | RemoveHumanID human_id_key
  | RemoveLinkedIP addr

type_synonym 'x lookup = "(lookup_error, 'x profile_scheme \<times> device) result \<times> db_task list"

definition removeDevice :: "device_id \<Rightarrow> 'x db \<Rightarrow> 'x db" where
  "removeDevice devID db = db\<lparr>deviceIDToProfileID := (deviceIDToProfileID db)(devID := None)\<rparr>"

definition removeDedicatedIP :: "addr \<Rightarrow> 'x db \<Rightarrow> 'x db" where
  "removeDedicatedIP ip db = db\<lparr>dedicatedIPToDeviceID := (dedicatedIPToDeviceID db)(ip := None)\<rparr>"

definition removeHumanID :: "human_id_key \<Rightarrow> 'x db \<Rightarrow> 'x db" where
  "removeHumanID k db = db\<lparr>humanIDToDeviceID := (humanIDToDeviceID db)(k := None)\<rparr>"

definition removeLinkedIP :: "addr \<Rightarrow> 'x db \<Rightarrow> 'x db" where
  "removeLinkedIP ip db = db\<lparr>linkedIPToDeviceID := (linkedIPToDeviceID db)(ip := None)\<rparr>"

fun run_task :: "db_task \<Rightarrow> 'x db \<Rightarrow> 'x db" where
  "run_task (RemoveDevice devID) db = removeDevice devID db"
| "run_task (RemoveDedicatedIP ip) db = removeDedicatedIP ip db"
| "run_task (RemoveHumanID k) db = removeHumanID k db"
| "run_task (RemoveLinkedIP ip) db = removeLinkedIP ip db"

definition profileByDeviceID :: "device_id \<Rightarrow> 'x db \<Rightarrow> 'x lookup" where
  "profileByDeviceID devID db =
     (case deviceIDToProfileID db devID of
        None \<Rightarrow> (Inl ErrDeviceNotFound, [])
      | Some profID \<Rightarrow>
          (case profiles db profID of
             None \<Rightarrow> (Inl ErrProfileNotFound, [RemoveDevice devID])
           | Some p \<Rightarrow>
               (case (if devID \<in> p_DeviceIDs p then devices db devID else None) of
                  None \<Rightarrow>
                    (Inl ErrDeviceNotFound, if \<not> AutoDevicesEnabled p then [RemoveDevice devID] else [])
                | Some d \<Rightarrow> (Inr (p, d), []))))"

definition ProfileByDeviceID :: "device_id \<Rightarrow> 'x db \<Rightarrow> 'x lookup" where
  "ProfileByDeviceID devID db = profileByDeviceID devID db"

definition ProfileByDedicatedIP :: "addr \<Rightarrow> 'x db \<Rightarrow> 'x lookup" where
  "ProfileByDedicatedIP ip db =
     (case dedicatedIPToDeviceID db ip of
        None \<Rightarrow> (Inl ErrDeviceNotFound, [])
      | Some devID \<Rightarrow>
          (case profileByDeviceID devID db of
             (Inl e, ts) \<Rightarrow>
               (Inl e, ts @ (if e = ErrDeviceNotFound then [RemoveDedicatedIP ip] else []))
           | (Inr (p, d), ts) \<Rightarrow>
               if ip \<notin> set (DedicatedIPs d)
               then (Inl ErrDeviceNotFound, ts @ [RemoveDedicatedIP ip])
               else (Inr (p, d), ts)))"

definition ProfileByHumanID :: "profile_id \<Rightarrow> human_id_lower \<Rightarrow> 'x db \<Rightarrow> 'x lookup" where
  "ProfileByHumanID pid humanID db =
     (case profiles db pid of
        None \<Rightarrow> (Inl ErrProfileNotFound, [])
      | Some _ \<Rightarrow>
          (let k = (humanID, pid)
           in case humanIDToDeviceID db k of
                None \<Rightarrow> (Inl ErrDeviceNotFound, [])
              | Some devID \<Rightarrow>
                  (case profileByDeviceID devID db of
                     (Inl e, ts) \<Rightarrow>
                       (Inl e, ts @ (if e = ErrDeviceNotFound then [RemoveHumanID k] else []))
                   | (Inr (p, d), ts) \<Rightarrow>
                       if humanID \<noteq> d_HumanIDLower d
                       then (Inl ErrDeviceNotFound, ts @ [RemoveHumanID k])
                       else (Inr (p, d), ts))))"

definition ProfileByLinkedIP :: "addr \<Rightarrow> 'x db \<Rightarrow> 'x lookup" where
  "ProfileByLinkedIP ip db =
     (case linkedIPToDeviceID db ip of
        None \<Rightarrow> (Inl ErrDeviceNotFound, [])
      | Some devID \<Rightarrow>
          (case profileByDeviceID devID db of
             (Inl e, ts) \<Rightarrow>
               (Inl e, ts @ (if e = ErrDeviceNotFound then [RemoveLinkedIP ip] else []))
           | (Inr (p, d), ts) \<Rightarrow>
               if LinkedIP d = AddrZero then (Inl ErrDeviceNotFound, ts)
               else if LinkedIP d \<noteq> ip then (Inl ErrDeviceNotFound, ts @ [RemoveLinkedIP ip])
               else (Inr (p, d), ts)))"

definition CreateAutoDevice ::
  "(profile_id \<Rightarrow> string \<Rightarrow> nat \<Rightarrow> ('e, device) result) \<Rightarrow> profile_id \<Rightarrow> string \<Rightarrow> nat \<Rightarrow> 'x db \<Rightarrow>
     ('e db_error, 'x profile_scheme \<times> device) result \<times> 'x db" where
  "CreateAutoDevice storage pid humanID devType db =
     (case profiles db pid of
        None \<Rightarrow> (Inl (ErrLookup ErrProfileNotFound), db)
      | Some p \<Rightarrow>
          if \<not> AutoDevicesEnabled p then (Inl (ErrLookup ErrProfileNotFound), db)
          else (case storage pid humanID devType of
                  Inl e \<Rightarrow> (Inl (ErrStorage e), db)
                | Inr d \<Rightarrow> (Inr (p, d), setDevices [d] db)))"

subsection \<open>The state machine\<close>

text \<open>
  One step of the running database with its pending removal tasks: a refresh or a full refresh with
  any backend and clock, the insertion of a device that the backend created, a lookup, or a pending
  task.  Every change of the maps happens in one critical section of \<open>mapsMu\<close>.
\<close>

inductive db_step :: "'x db \<times> db_task list \<Rightarrow> 'x db \<times> db_task list \<Rightarrow> bool" where
  refresh: "Refresh (be :: (unit, 'x) backend) ck db = (r, db') \<Longrightarrow> db_step (db, ts) (db', ts)"
| refresh_full: "refreshFull (be :: (unit, 'x) backend) ck db = (r, db') \<Longrightarrow> db_step (db, ts) (db', ts)"
| auto_device: "CreateAutoDevice st pid h dt db = (r :: (unit db_error, 'x profile_scheme \<times> device) result, db') \<Longrightarrow>
     db_step (db, ts) (db', ts)"
| by_device: "ProfileByDeviceID devID db = ((r, new) :: 'x lookup) \<Longrightarrow> db_step (db, ts) (db, ts @ new)"
| by_dedicated: "ProfileByDedicatedIP ip db = ((r, new) :: 'x lookup) \<Longrightarrow> db_step (db, ts) (db, ts @ new)"
| by_human: "ProfileByHumanID pid h db = ((r, new) :: 'x lookup) \<Longrightarrow> db_step (db, ts) (db, ts @ new)"
| by_linked: "ProfileByLinkedIP ip db = ((r, new) :: 'x lookup) \<Longrightarrow> db_step (db, ts) (db, ts @ new)"
| task: "t \<in> set ts \<Longrightarrow> db_step (db, ts) (run_task t db, remove1 t ts)"

inductive db_reachable :: "'x db \<times> db_task list \<Rightarrow> bool" where
  start: "db_reachable (new_db cIvl fIvl rIvl (loaded :: (unit cache_load_error, 'x file_cache option) result), [])"
| step: "db_reachable s \<Longrightarrow> db_step s s' \<Longrightarrow> db_reachable s'"

subsection \<open>Well-formedness\<close>

definition db_wf :: "'x db \<Rightarrow> bool" where
  "db_wf db \<longleftrightarrow>
     (\<forall>pid p. profiles db pid = Some p \<longrightarrow> p_ID p = pid) \<and>
     (\<forall>devID d. devices db devID = Some d \<longrightarrow> d_ID d = devID) \<and>
     ran (dedicatedIPToDeviceID db) \<subseteq> dom (devices db) \<and>
     ran (linkedIPToDeviceID db) \<subseteq> dom (devices db) \<and>
     ran (humanIDToDeviceID db) \<subseteq> dom (devices db) \<and>
     AddrZero \<notin> dom (linkedIPToDeviceID db) \<and>
     (\<forall>k \<in> dom (humanIDToDeviceID db). fst k \<noteq> [])"

declare db_wf_def [inv_defs]

lemma setDevice_sel [simp]:
  "profiles (setDevice d db) = profiles db"
  "deviceIDToProfileID (setDevice d db) = deviceIDToProfileID db"
  "devices (setDevice d db) = (devices db)(d_ID d \<mapsto> d)"
  "dedicatedIPToDeviceID (setDevice d db) =
     fold (\<lambda>ip m. m(ip \<mapsto> d_ID d)) (DedicatedIPs d) (dedicatedIPToDeviceID db)"
  "linkedIPToDeviceID (setDevice d db) =
     (if LinkedIP d \<noteq> AddrZero then (linkedIPToDeviceID db)(LinkedIP d \<mapsto> d_ID d)
      else linkedIPToDeviceID db)"
  "humanIDToDeviceID (setDevice d db) =
     (case (d_HumanIDLower d, deviceIDToProfileID db (d_ID d)) of
        (_ # _, Some pid) \<Rightarrow> (humanIDToDeviceID db)((d_HumanIDLower d, pid) \<mapsto> d_ID d)
      | _ \<Rightarrow> humanIDToDeviceID db)"
  by (auto simp: setDevice_def Let_def split: option.splits list.splits)

lemma setProfileCerts_sel [simp]:
  "profiles (fst (setProfileCerts p db)) = profiles db"
  "devices (fst (setProfileCerts p db)) = devices db"
  "deviceIDToProfileID (fst (setProfileCerts p db)) = deviceIDToProfileID db"
  "dedicatedIPToDeviceID (fst (setProfileCerts p db)) = dedicatedIPToDeviceID db"
  "linkedIPToDeviceID (fst (setProfileCerts p db)) = linkedIPToDeviceID db"
  "humanIDToDeviceID (fst (setProfileCerts p db)) = humanIDToDeviceID db"
  by (auto simp: setProfileCerts_def split: prod.splits)

lemma attachDevices_sel [simp]:
  "profiles (attachDevices p db) = profiles db"
  "devices (attachDevices p db) = devices db"
  "dedicatedIPToDeviceID (attachDevices p db) = dedicatedIPToDeviceID db"
  "linkedIPToDeviceID (attachDevices p db) = linkedIPToDeviceID db"
  "humanIDToDeviceID (attachDevices p db) = humanIDToDeviceID db"
  "deviceIDToProfileID (attachDevices p db) d =
     (if d \<in> p_DeviceIDs p then Some (p_ID p) else deviceIDToProfileID db d)"
  by (simp_all add: attachDevices_def)

lemma applyChanges_fold:
  "fold (\<lambda>d (p, db).
            (p\<lparr>p_DeviceIDs := p_DeviceIDs p - {d}\<rparr>,
             db\<lparr>deviceIDToProfileID := (deviceIDToProfileID db)(d := None)\<rparr>)) ds (p, db) =
   (p\<lparr>p_DeviceIDs := p_DeviceIDs p - set ds\<rparr>,
    db\<lparr>deviceIDToProfileID := (\<lambda>d. if d \<in> set ds then None else deviceIDToProfileID db d)\<rparr>)"
proof (induction ds arbitrary: p db)
  case (Cons d ds)
  have "p_DeviceIDs p - insert d (set ds) = p_DeviceIDs p - {d} - set ds" by auto
  moreover have "(\<lambda>x. if x = d \<or> x \<in> set ds then None else deviceIDToProfileID db x) =
      (\<lambda>x. if x \<in> set ds then None else ((deviceIDToProfileID db)(d := None)) x)"
    by auto
  ultimately show ?case
    unfolding fold_simps case_prod_conv Cons.IH by (simp cong: if_cong)
qed simp

lemma applyChanges_eq:
  "applyChanges p devChg db =
     (case (devChg, profiles db (p_ID p)) of
        (Some c, Some prev) \<Rightarrow>
          if IsPartial c then
            (p\<lparr>p_DeviceIDs := p_DeviceIDs p \<union> p_DeviceIDs prev - set (DeletedDeviceIDs c)\<rparr>,
             db\<lparr>deviceIDToProfileID :=
                  (\<lambda>d. if d \<in> set (DeletedDeviceIDs c) then None else deviceIDToProfileID db d)\<rparr>)
          else (p, db)
      | _ \<Rightarrow> (p, db))"
  by (simp add: applyChanges_def applyChanges_fold split: option.splits)

lemma setProfile_sel [simp]:
  "devices (setProfile chg p db) = devices db"
  "dedicatedIPToDeviceID (setProfile chg p db) = dedicatedIPToDeviceID db"
  "linkedIPToDeviceID (setProfile chg p db) = linkedIPToDeviceID db"
  "humanIDToDeviceID (setProfile chg p db) = humanIDToDeviceID db"
  by (auto simp: setProfile_def applyChanges_eq Let_def case_prod_beta split: option.splits)

lemma setProfile_profiles:
  "\<exists>q. p_ID q = p_ID p \<and> profiles (setProfile chg p db) = (profiles db)(p_ID p \<mapsto> q)"
proof -
  obtain q db1 where ac: "applyChanges p (chg (p_ID p)) db = (q, db1)" by fastforce
  then have "p_ID q = p_ID p" "profiles db1 = profiles db"
    by (auto simp: applyChanges_eq split: option.splits if_splits)
  with ac show ?thesis
    by (intro exI [of _ q]) (simp add: setProfile_def case_prod_beta)
qed

lemma setProfileFull_sel [simp]:
  "profiles (setProfileFull p db) = (profiles db)(p_ID p \<mapsto> p)"
  "devices (setProfileFull p db) = devices db"
  "dedicatedIPToDeviceID (setProfileFull p db) = dedicatedIPToDeviceID db"
  "linkedIPToDeviceID (setProfileFull p db) = linkedIPToDeviceID db"
  "humanIDToDeviceID (setProfileFull p db) = humanIDToDeviceID db"
  "deviceIDToProfileID (setProfileFull p db) d =
     (if d \<in> p_DeviceIDs p then Some (p_ID p) else deviceIDToProfileID db d)"
  by (simp_all add: setProfileFull_def)

lemma ran_fold_upd_const: "ran (fold (\<lambda>ip m. m(ip \<mapsto> v)) ips m) \<subseteq> insert v (ran m)"
proof (induction ips arbitrary: m)
  case (Cons a ips)
  have "ran (m(a \<mapsto> v)) \<subseteq> insert v (ran m)" by (auto simp: ran_def)
  with Cons.IH [of "m(a \<mapsto> v)"] show ?case by (auto simp del: fun_upd_apply)
qed auto

lemma ran_upd_subset: "ran m \<subseteq> A \<Longrightarrow> v \<in> A \<Longrightarrow> ran (m(k \<mapsto> v)) \<subseteq> A"
  by (auto simp: ran_def)

lemma ran_del_subset: "ran m \<subseteq> A \<Longrightarrow> ran (m(k := None)) \<subseteq> A"
  by (auto simp: ran_def)

lemma setDevice_wf [inv_intros]:
  assumes "db_wf db"
  shows "db_wf (setDevice d db)"
proof -
  let ?D = "insert (d_ID d) (dom (devices db))"
  have "ran (dedicatedIPToDeviceID (setDevice d db)) \<subseteq> ?D"
    using assms ran_fold_upd_const [of "d_ID d" "DedicatedIPs d" "dedicatedIPToDeviceID db"]
    by (auto simp: db_wf_def)
  moreover have "ran (linkedIPToDeviceID (setDevice d db)) \<subseteq> ?D"
    using assms ran_upd_subset [of "linkedIPToDeviceID db" ?D "d_ID d"]
    by (simp add: db_wf_def subset_insertI2)
  moreover have "ran (humanIDToDeviceID (setDevice d db)) \<subseteq> ?D"
    using assms ran_upd_subset [of "humanIDToDeviceID db" ?D "d_ID d"]
    by (simp add: db_wf_def subset_insertI2 split: list.split option.split)
  ultimately show ?thesis
    using assms by (auto simp: db_wf_def split: list.splits option.splits)
qed

lemma setDevices_wf [inv_intros]: "db_wf db \<Longrightarrow> db_wf (setDevices ds db)"
  unfolding setDevices_def by (rule fold_invariant_set) (auto intro: setDevice_wf)

lemma setProfile_wf [inv_intros]: "db_wf db \<Longrightarrow> db_wf (setProfile chg p db)"
  using setProfile_profiles [of p chg db] by (auto simp: db_wf_def split: if_splits)

lemma setProfileFull_wf [inv_intros]: "db_wf db \<Longrightarrow> db_wf (setProfileFull p db)"
  by (auto simp: db_wf_def)

lemma setProfiles_wf [inv_intros]: "db_wf db \<Longrightarrow> db_wf (setProfiles ps ds chg db)"
  unfolding setProfiles_def
  by (intro setDevices_wf fold_invariant_set [where I = db_wf]) (auto intro: setProfile_wf)

lemma setProfilesFull_wf [inv_intros]: "db_wf (setProfilesFull ps ds db)"
  unfolding setProfilesFull_def Let_def
  by (intro setDevices_wf fold_invariant_set [where I = db_wf] setProfileFull_wf)
     (auto simp: db_wf_def)

lemma db_wf_times [simp]:
  "db_wf (db\<lparr>syncTime := t\<rparr>) = db_wf db"
  "db_wf (db\<lparr>lastCacheSync := t\<rparr>) = db_wf db"
  "db_wf (db\<lparr>lastFullSync := t\<rparr>) = db_wf db"
  "db_wf (db\<lparr>lastFullSyncError := t\<rparr>) = db_wf db"
  by (simp_all add: db_wf_def)

lemma storeCache_wf: "storeCache be t db = (r, db') \<Longrightarrow> db_wf db \<Longrightarrow> db_wf db'"
  by (auto simp: storeCache_def split: option.splits)

lemma refreshFull_wf: "refreshFull be ck db = (r, db') \<Longrightarrow> db_wf db \<Longrightarrow> db_wf db'"
  by (auto simp: refreshFull_def fetchProfiles_def Let_def setProfilesFull_wf
      split: sum.splits elim!: storeCache_wf)

lemma Refresh_wf: "Refresh be ck db = (r, db') \<Longrightarrow> db_wf db \<Longrightarrow> db_wf db'"
  by (auto simp: Refresh_def fetchProfiles_def Let_def setProfiles_wf
      split: sum.splits if_splits elim!: storeCache_wf refreshFull_wf)

lemma CreateAutoDevice_wf: "CreateAutoDevice st pid h dt db = (r, db') \<Longrightarrow> db_wf db \<Longrightarrow> db_wf db'"
  by (auto simp: CreateAutoDevice_def setDevices_wf split: option.splits if_splits sum.splits)

lemma run_task_wf: "db_wf db \<Longrightarrow> db_wf (run_task t db)"
  by (cases t)
     (simp_all add: db_wf_def removeDevice_def removeDedicatedIP_def removeHumanID_def
       removeLinkedIP_def ran_del_subset del: fun_upd_apply)

lemma empty_db_wf: "db_wf (empty_db cIvl fIvl rIvl)"
  by (simp add: db_wf_def empty_db_def)

lemma new_db_wf: "db_wf (new_db cIvl fIvl rIvl loaded)"
  by (auto simp: new_db_def loadFileCache_def setProfilesFull_wf empty_db_wf
      split: sum.splits cache_load_error.splits option.splits)

lemma db_step_wf: "db_step s s' \<Longrightarrow> db_wf (fst s) \<Longrightarrow> db_wf (fst s')"
  by (induction rule: db_step.induct)
     (auto intro: Refresh_wf refreshFull_wf CreateAutoDevice_wf run_task_wf)

lemma reachable_wf: "db_reachable s \<Longrightarrow> db_wf (fst s)"
  by (induction rule: db_reachable.induct) (auto intro: new_db_wf db_step_wf)

subsection \<open>What a successful lookup guarantees\<close>

definition attached :: "'x db \<Rightarrow> 'x profile_scheme \<Rightarrow> device \<Rightarrow> bool" where
  "attached db p d \<longleftrightarrow>
     profiles db (p_ID p) = Some p \<and> devices db (d_ID d) = Some d \<and> d_ID d \<in> p_DeviceIDs p \<and>
     deviceIDToProfileID db (d_ID d) = Some (p_ID p)"

lemma attached_unique:
  "attached db p d \<Longrightarrow> attached db p' d' \<Longrightarrow> d_ID d = d_ID d' \<Longrightarrow> p = p' \<and> d = d'"
  unfolding attached_def by (metis option.inject)

lemma db_wfD:
  assumes "db_wf db"
  shows "profiles db pid = Some p \<Longrightarrow> p_ID p = pid"
    and "devices db i = Some d \<Longrightarrow> d_ID d = i"
  using assms by (simp_all add: db_wf_def)

lemma profileByDeviceID_iff:
  assumes "db_wf db"
  shows "profileByDeviceID i db = (Inr (p, d), ts) \<longleftrightarrow> attached db p d \<and> d_ID d = i \<and> ts = []"
proof
  assume "profileByDeviceID i db = (Inr (p, d), ts)"
  then obtain pid where "deviceIDToProfileID db i = Some pid" "profiles db pid = Some p"
    "i \<in> p_DeviceIDs p" "devices db i = Some d" "ts = []"
    by (auto simp: profileByDeviceID_def split: option.splits if_splits)
  with db_wfD [OF assms] show "attached db p d \<and> d_ID d = i \<and> ts = []"
    by (auto simp: attached_def)
qed (auto simp: profileByDeviceID_def attached_def)

text \<open>
  The interface of the four lookups: each goes through \<open>profileByDeviceID\<close> and then rechecks that
  the device still has the key it was found by.
\<close>

locale profile_lookup =
  fixes lookup :: "'k \<Rightarrow> 'x db \<Rightarrow> 'x lookup"
    and key :: "'k \<Rightarrow> 'x db \<Rightarrow> device_id option"
    and matches :: "'k \<Rightarrow> device \<Rightarrow> bool"
  assumes lookup_iff:
    "db_wf db \<Longrightarrow> lookup k db = (Inr (p, d), ts) \<longleftrightarrow>
       key k db = Some (d_ID d) \<and> attached db p d \<and> matches k d \<and> ts = []"
begin

lemma sound:
  assumes "db_wf db" and "lookup k db = (Inr (p, d), ts)"
  shows "attached db p d" and "matches k d" and "ts = []"
  using assms by (simp_all add: lookup_iff)

lemma results:
  "db_wf db \<Longrightarrow>
     {(p, d). \<exists>us. lookup k db = (Inr (p, d), us)} =
     {(p, d). key k db = Some (d_ID d) \<and> attached db p d \<and> matches k d}"
  by (simp add: lookup_iff)

lemma unique:
  assumes "db_wf db" and "lookup k db = (Inr r, ts)" and "lookup k' db = (Inr r', ts')"
    and "d_ID (snd r) = d_ID (snd r')"
  shows "r = r'"
proof -
  obtain p d where r: "r = (p, d)" by (cases r)
  obtain p' d' where r': "r' = (p', d')" by (cases r')
  from assms(2) r sound(1) [OF assms(1)] have "attached db p d" by blast
  moreover from assms(3) r' sound(1) [OF assms(1)] have "attached db p' d'" by blast
  ultimately show ?thesis using assms(4) r r' attached_unique by (metis snd_conv)
qed

end

lemma profileByDeviceID_cases:
  assumes "db_wf db"
  obtains (miss) e us where "profileByDeviceID i db = (Inl e, us)"
      and "\<And>p d. attached db p d \<Longrightarrow> d_ID d \<noteq> i"
    | (hit) p d where "profileByDeviceID i db = (Inr (p, d), [])" and "attached db p d" and "d_ID d = i"
      and "\<And>p' d'. attached db p' d' \<Longrightarrow> d_ID d' = i \<Longrightarrow> p' = p \<and> d' = d"
proof -
  obtain r us where r: "profileByDeviceID i db = (r, us)" by fastforce
  show thesis
  proof (cases r)
    case (Inl e)
    have "d_ID d \<noteq> i" if "attached db p d" for p d
      using that r Inl profileByDeviceID_iff [OF assms, of i p d "[]"] by auto
    with r Inl show thesis by (intro miss [of e us]) simp_all
  next
    case (Inr pd)
    then obtain p d where pd: "r = Inr (p, d)" by (cases pd) simp
    with r have hitd: "attached db p d" "d_ID d = i" "us = []"
      using profileByDeviceID_iff [OF assms, of i p d us] by simp_all
    have res: "profileByDeviceID i db = (Inr (p, d), [])" using r pd hitd(3) by simp
    show thesis
    proof (rule hit [OF res hitd(1,2)])
      fix p' d'
      assume "attached db p' d'" and "d_ID d' = i"
      with hitd(1,2) attached_unique show "p' = p \<and> d' = d" by metis
    qed
  qed
qed

definition hid_key :: "profile_id \<times> human_id_lower \<Rightarrow> 'x db \<Rightarrow> device_id option" where
  "hid_key k db =
     (case profiles db (fst k) of None \<Rightarrow> None | Some _ \<Rightarrow> humanIDToDeviceID db (snd k, fst k))"

interpretation by_id: profile_lookup ProfileByDeviceID "\<lambda>i db. Some i" "\<lambda>i d. d_ID d = i"
  by unfold_locales (auto simp: ProfileByDeviceID_def profileByDeviceID_iff)

interpretation by_ded: profile_lookup ProfileByDedicatedIP
  "\<lambda>ip db. dedicatedIPToDeviceID db ip" "\<lambda>ip d. ip \<in> set (DedicatedIPs d)"
proof unfold_locales
  fix db :: "'a db" and ip p d ts
  assume wf: "db_wf db"
  show "(ProfileByDedicatedIP ip db = (Inr (p, d), ts)) =
    (dedicatedIPToDeviceID db ip = Some (d_ID d) \<and> attached db p d \<and> ip \<in> set (DedicatedIPs d) \<and> ts = [])"
  proof (cases "dedicatedIPToDeviceID db ip")
    case None
    then show ?thesis by (auto simp: ProfileByDedicatedIP_def split: option.splits)
  next
    case (Some i)
    show ?thesis
    proof (cases rule: profileByDeviceID_cases [OF wf, of i, case_names miss hit])
      case miss
      from Some miss(1) have "fst (ProfileByDedicatedIP ip db) \<noteq> Inr (p, d)" by (auto simp: ProfileByDedicatedIP_def split: option.splits)
      with miss(2) [of p d] Some show ?thesis by auto
    next
      case (hit q e)
      from Some hit(1) have "(ProfileByDedicatedIP ip db = (Inr (p, d), ts)) =
          (q = p \<and> e = d \<and> ip \<in> set (DedicatedIPs e) \<and> ts = [])"
        by (auto simp: ProfileByDedicatedIP_def split: option.splits)
      moreover have "(q = p \<and> e = d) = (i = d_ID d \<and> attached db p d)"
        using hit(2,3) hit(4) [of p d] by blast
      ultimately show ?thesis unfolding Some option.inject by blast
    qed
  qed
qed

interpretation by_linked: profile_lookup ProfileByLinkedIP
  "\<lambda>ip db. linkedIPToDeviceID db ip" "\<lambda>ip d. LinkedIP d = ip \<and> ip \<noteq> AddrZero"
proof unfold_locales
  fix db :: "'a db" and ip p d ts
  assume wf: "db_wf db"
  show "(ProfileByLinkedIP ip db = (Inr (p, d), ts)) =
    (linkedIPToDeviceID db ip = Some (d_ID d) \<and> attached db p d \<and> (LinkedIP d = ip \<and> ip \<noteq> AddrZero) \<and> ts = [])"
  proof (cases "linkedIPToDeviceID db ip")
    case None
    then show ?thesis by (auto simp: ProfileByLinkedIP_def split: option.splits)
  next
    case (Some i)
    show ?thesis
    proof (cases rule: profileByDeviceID_cases [OF wf, of i, case_names miss hit])
      case miss
      from Some miss(1) have "fst (ProfileByLinkedIP ip db) \<noteq> Inr (p, d)" by (auto simp: ProfileByLinkedIP_def split: option.splits)
      with miss(2) [of p d] Some show ?thesis by auto
    next
      case (hit q e)
      from Some hit(1) have "(ProfileByLinkedIP ip db = (Inr (p, d), ts)) =
          (q = p \<and> e = d \<and> (LinkedIP e = ip \<and> ip \<noteq> AddrZero) \<and> ts = [])"
        by (auto simp: ProfileByLinkedIP_def split: option.splits)
      moreover have "(q = p \<and> e = d) = (i = d_ID d \<and> attached db p d)"
        using hit(2,3) hit(4) [of p d] by blast
      ultimately show ?thesis unfolding Some option.inject by blast
    qed
  qed
qed

interpretation by_hid: profile_lookup "\<lambda>k. ProfileByHumanID (fst k) (snd k)"
  hid_key "\<lambda>k d. d_HumanIDLower d = snd k"
proof unfold_locales
  fix db :: "'a db" and k p d ts
  assume wf: "db_wf db"
  show "(ProfileByHumanID (fst k) (snd k) db = (Inr (p, d), ts)) =
    (hid_key k db = Some (d_ID d) \<and> attached db p d \<and> d_HumanIDLower d = snd k \<and> ts = [])"
  proof (cases "hid_key k db")
    case None
    then show ?thesis by (auto simp: ProfileByHumanID_def hid_key_def Let_def split: option.splits)
  next
    case (Some i)
    show ?thesis
    proof (cases rule: profileByDeviceID_cases [OF wf, of i, case_names miss hit])
      case miss
      from Some miss(1) have "fst (ProfileByHumanID (fst k) (snd k) db) \<noteq> Inr (p, d)" by (auto simp: ProfileByHumanID_def hid_key_def Let_def split: option.splits)
      with miss(2) [of p d] Some show ?thesis by auto
    next
      case (hit q e)
      from Some hit(1) have "(ProfileByHumanID (fst k) (snd k) db = (Inr (p, d), ts)) =
          (q = p \<and> e = d \<and> d_HumanIDLower e = snd k \<and> ts = [])"
        by (auto simp: ProfileByHumanID_def hid_key_def Let_def split: option.splits)
      moreover have "(q = p \<and> e = d) = (i = d_ID d \<and> attached db p d)"
        using hit(2,3) hit(4) [of p d] by blast
      ultimately show ?thesis unfolding Some option.inject by blast
    qed
  qed
qed

end
