(* ===== verification/Profile_DB_Sync.thy ===== *)
theory Profile_DB_Sync
  imports Profile_DB "HOL-Library.Multiset"
begin

text \<open>
  What the lookups of the profile database promise: soundness in every reachable state, exactness
  after a full synchronisation, the effect of a partial update, the scheduling of full
  synchronisations, and three behaviours that the lookups do not protect against.
\<close>

subsection \<open>Soundness in every reachable state\<close>

text \<open>
  C1: in every state that the database can reach, with any backend answers, any interleaving of
  refreshes, lookups, device creations and delayed removals, a lookup that succeeds returns a
  profile and a device that are both current, the device is listed by the profile and still has
  the identifier, the dedicated address, the linked address or the human-readable ID it was looked
  up by.
\<close>

theorem reachable_lookup_sound:
  assumes "db_reachable (db, ts)"
  shows "(\<forall>us. ProfileByDeviceID i db = (Inr (p, d), us) \<longrightarrow> attached db p d \<and> d_ID d = i) \<and>
         (\<forall>us. ProfileByDedicatedIP ip db = (Inr (p, d), us) \<longrightarrow>
            attached db p d \<and> ip \<in> set (DedicatedIPs d)) \<and>
         (\<forall>us. ProfileByLinkedIP ip db = (Inr (p, d), us) \<longrightarrow>
            attached db p d \<and> LinkedIP d = ip \<and> ip \<noteq> AddrZero) \<and>
         (\<forall>us. ProfileByHumanID pid h db = (Inr (p, d), us) \<longrightarrow>
            attached db p d \<and> d_HumanIDLower d = h)"
proof -
  from reachable_wf [OF assms] have wf: "db_wf db" by simp
  show ?thesis
    using by_id.sound [OF wf, of i p d] by_ded.sound [OF wf, of ip p d]
      by_linked.sound [OF wf, of ip p d] by_hid.sound [OF wf, of "(pid, h)" p d]
    by auto
qed

text \<open>A database that has loaded one profile with one device from its file cache.\<close>

definition ex_dev :: "device_id \<Rightarrow> addr \<Rightarrow> human_id_lower \<Rightarrow> device" where
  "ex_dev i ip h =
     \<lparr>d_Auth = \<lparr>PasswordHash = AllowAuthenticator, auth_Enabled = False, DoHAuthOnly = False\<rparr>,
      d_ID = i, LinkedIP = ip, d_Name = ''dev'', d_HumanIDLower = h, DedicatedIPs = [],
      d_FilteringEnabled = True\<rparr>"

definition ex_prof :: "profile_id \<Rightarrow> device_id set \<Rightarrow> profile" where
  "ex_prof pid ids =
     \<lparr>p_CustomDomains = \<lparr>acd_Domains = [], acd_Enabled = False\<rparr>, p_DeviceIDs = ids, p_ID = pid,
      FilteredResponseTTL = 10 * nsec_per_sec, p_AccountID = 1, AutoDevicesEnabled = True,
      BlockChromePrefetch = False, BlockFirefoxCanary = False, BlockPrivateRelay = False,
      p_Deleted = False, p_FilteringEnabled = True, IPLogEnabled = False, QueryLogEnabled = False,
      QueryLogStream = False\<rparr>"

definition ex_cached :: "profile list \<Rightarrow> device list \<Rightarrow> unit db" where
  "ex_cached ps ds =
     new_db 1 1 1 (Inr (Some \<lparr>fc_SyncTime = 1, fc_Profiles = ps, fc_Devices = ds\<rparr>)
       :: (unit cache_load_error, unit file_cache option) result)"

lemma ex_cached_reachable: "db_reachable (ex_cached ps ds, [])"
  unfolding ex_cached_def by (rule db_reachable.start)

lemmas ex_simps =
  ex_dev_def ex_prof_def ex_cached_def new_db_def loadFileCache_def setProfilesFull_def setDevices_def
  Let_def setDevice_def setProfileFull_def setProfileCerts_def attachDevices_def empty_db_def

theorem reachable_lookup_sound_witness:
  "ProfileByLinkedIP (Addr4 7) (ex_cached [ex_prof ''a'' {''d''}] [ex_dev ''d'' (Addr4 7) []]) =
     (Inr (ex_prof ''a'' {''d''}, ex_dev ''d'' (Addr4 7) []), []) \<and>
   attached (ex_cached [ex_prof ''a'' {''d''}] [ex_dev ''d'' (Addr4 7) []])
     (ex_prof ''a'' {''d''}) (ex_dev ''d'' (Addr4 7) [])"
proof -
  have "ProfileByLinkedIP (Addr4 7) (ex_cached [ex_prof ''a'' {''d''}] [ex_dev ''d'' (Addr4 7) []]) =
      (Inr (ex_prof ''a'' {''d''}, ex_dev ''d'' (Addr4 7) []), [])"
    by (simp add: ProfileByLinkedIP_def profileByDeviceID_def ex_simps)
  with reachable_lookup_sound [OF ex_cached_reachable] show ?thesis by blast
qed

subsection \<open>Exactness after a full synchronisation\<close>

definition ded_kvs :: "device list \<Rightarrow> (addr \<times> device_id) list" where
  "ded_kvs ds = concat (map (\<lambda>d. map (\<lambda>ip. (ip, d_ID d)) (DedicatedIPs d)) ds)"

definition linked_kvs :: "device list \<Rightarrow> (addr \<times> device_id) list" where
  "linked_kvs ds = map (\<lambda>d. (LinkedIP d, d_ID d)) (filter (\<lambda>d. LinkedIP d \<noteq> AddrZero) ds)"

definition hid_kvs :: "(device_id \<rightharpoonup> profile_id) \<Rightarrow> device list \<Rightarrow> (human_id_key \<times> device_id) list" where
  "hid_kvs own ds =
     concat (map (\<lambda>d. case own (d_ID d) of
                        None \<Rightarrow> []
                      | Some pid \<Rightarrow> if d_HumanIDLower d = [] then []
                                    else [((d_HumanIDLower d, pid), d_ID d)]) ds)"

definition owner :: "'x profile_scheme list \<Rightarrow> device_id \<rightharpoonup> profile_id" where
  "owner ps i = map_option p_ID (find (\<lambda>p. i \<in> p_DeviceIDs p) ps)"

text \<open>
  A snapshot is consistent when profile IDs and device IDs do not repeat, no device is listed by two
  profiles, and no dedicated address, linked address or human-readable ID within a profile is shared
  by two devices.
\<close>

definition snapshot_ok :: "'x profile_scheme list \<Rightarrow> device list \<Rightarrow> bool" where
  "snapshot_ok ps ds \<longleftrightarrow>
     distinct (map p_ID ps) \<and> distinct (map d_ID ds) \<and>
     (\<forall>p \<in> set ps. \<forall>q \<in> set ps. p_DeviceIDs p \<inter> p_DeviceIDs q \<noteq> {} \<longrightarrow> p = q) \<and>
     distinct (map fst (ded_kvs ds)) \<and> distinct (map fst (linked_kvs ds)) \<and>
     distinct (map fst (hid_kvs (owner ps) ds))"

text \<open>The pairs of a profile and one of its devices that satisfy a condition.\<close>

definition spec_lookup ::
  "'x profile_scheme list \<Rightarrow> device list \<Rightarrow> ('x profile_scheme \<Rightarrow> device \<Rightarrow> bool) \<Rightarrow>
     ('x profile_scheme \<times> device) set" where
  "spec_lookup ps ds P = {(p, d). p \<in> set ps \<and> d \<in> set ds \<and> d_ID d \<in> p_DeviceIDs p \<and> P p d}"

lemma fold_setProfileFull:
  "profiles (fold setProfileFull ps db) =
     fold (\<lambda>(k, v) m. m(k \<mapsto> v)) (map (\<lambda>p. (p_ID p, p)) ps) (profiles db)"
  "devices (fold setProfileFull ps db) = devices db"
  "dedicatedIPToDeviceID (fold setProfileFull ps db) = dedicatedIPToDeviceID db"
  "linkedIPToDeviceID (fold setProfileFull ps db) = linkedIPToDeviceID db"
  "humanIDToDeviceID (fold setProfileFull ps db) = humanIDToDeviceID db"
  by (induction ps arbitrary: db) simp_all

lemma fold_setDevice:
  "profiles (fold setDevice ds db) = profiles db"
  "deviceIDToProfileID (fold setDevice ds db) = deviceIDToProfileID db"
  "devices (fold setDevice ds db) =
     fold (\<lambda>(k, v) m. m(k \<mapsto> v)) (map (\<lambda>d. (d_ID d, d)) ds) (devices db)"
  "linkedIPToDeviceID (fold setDevice ds db) =
     fold (\<lambda>(k, v) m. m(k \<mapsto> v)) (linked_kvs ds) (linkedIPToDeviceID db)"
  by (induction ds arbitrary: db) (simp_all add: linked_kvs_def)

lemma fold_pairs_const: "fold (\<lambda>(k, v) m. m(k \<mapsto> v)) (map (\<lambda>x. (x, c)) xs) m = fold (\<lambda>x m. m(x \<mapsto> c)) xs m"
  by (induction xs arbitrary: m) (simp_all del: fun_upd_apply)

lemma fold_setDevice_ded:
  "dedicatedIPToDeviceID (fold setDevice ds db) =
     fold (\<lambda>(k, v) m. m(k \<mapsto> v)) (ded_kvs ds) (dedicatedIPToDeviceID db)"
  by (induction ds arbitrary: db) (simp_all add: ded_kvs_def fold_pairs_const del: fun_upd_apply)

lemma fold_setDevice_hid:
  "humanIDToDeviceID (fold setDevice ds db) =
     fold (\<lambda>(k, v) m. m(k \<mapsto> v)) (hid_kvs (deviceIDToProfileID db) ds) (humanIDToDeviceID db)"
proof (induction ds arbitrary: db)
  case (Cons d ds)
  show ?case
    by (cases "deviceIDToProfileID db (d_ID d)"; cases "d_HumanIDLower d")
       (simp_all add: Cons.IH hid_kvs_def del: fun_upd_apply)
qed (simp add: hid_kvs_def)

lemma fold_setProfileFull_owner:
  assumes "\<forall>p \<in> set ps. \<forall>q \<in> set ps. p_DeviceIDs p \<inter> p_DeviceIDs q \<noteq> {} \<longrightarrow> p = q"
  shows "deviceIDToProfileID (fold setProfileFull ps db) i =
           (case owner ps i of Some pid \<Rightarrow> Some pid | None \<Rightarrow> deviceIDToProfileID db i)"
  using assms
proof (induction ps arbitrary: db)
  case (Cons p ps)
  show ?case
  proof (cases "i \<in> p_DeviceIDs p")
    case True
    have "q = p" if "find (\<lambda>p. i \<in> p_DeviceIDs p) ps = Some q" for q
      using that True Cons.prems by (fastforce simp: find_Some_iff)
    with Cons True show ?thesis by (auto simp: owner_def split: option.splits)
  next
    case False
    with Cons show ?thesis by (simp add: owner_def split: option.split)
  qed
qed (simp add: owner_def)

lemma fold_setProfileFull_clear:
  assumes "snapshot_ok ps ds" and "profiles db = Map.empty" and "deviceIDToProfileID db = Map.empty"
  shows "profiles (fold setProfileFull ps db) pid = Some p \<longleftrightarrow> p \<in> set ps \<and> p_ID p = pid"
    and "deviceIDToProfileID (fold setProfileFull ps db) = owner ps"
proof -
  have "distinct (map fst (map (\<lambda>p. (p_ID p, p)) ps))"
    using assms(1) by (simp add: snapshot_ok_def comp_def)
  from fold_map_upds_empty [OF this, of pid p]
  show "profiles (fold setProfileFull ps db) pid = Some p \<longleftrightarrow> p \<in> set ps \<and> p_ID p = pid"
    using assms(2) by (auto simp: fold_setProfileFull(1))
  show "deviceIDToProfileID (fold setProfileFull ps db) = owner ps"
    using assms fold_setProfileFull_owner [of ps db]
    by (auto simp: snapshot_ok_def split: option.splits)
qed

lemma owner_iff:
  assumes "snapshot_ok ps ds"
  shows "owner ps i = Some pid \<longleftrightarrow> (\<exists>p \<in> set ps. i \<in> p_DeviceIDs p \<and> p_ID p = pid)"
proof
  assume "owner ps i = Some pid"
  then obtain p where "find (\<lambda>p. i \<in> p_DeviceIDs p) ps = Some p" "p_ID p = pid"
    by (auto simp: owner_def)
  then show "\<exists>p \<in> set ps. i \<in> p_DeviceIDs p \<and> p_ID p = pid"
    by (auto simp: find_Some_iff)
next
  assume "\<exists>p \<in> set ps. i \<in> p_DeviceIDs p \<and> p_ID p = pid"
  then obtain p where p: "p \<in> set ps" "i \<in> p_DeviceIDs p" "p_ID p = pid" by blast
  then obtain q where q: "find (\<lambda>p. i \<in> p_DeviceIDs p) ps = Some q"
    by (cases "find (\<lambda>p. i \<in> p_DeviceIDs p) ps") (auto simp: find_None_iff)
  then have "q \<in> set ps" "i \<in> p_DeviceIDs q" by (auto simp: find_Some_iff)
  with p assms have "q = p" by (auto simp: snapshot_ok_def)
  with q p show "owner ps i = Some pid" by (simp add: owner_def)
qed

lemma setProfilesFull_maps:
  assumes "snapshot_ok ps ds"
  shows "profiles (setProfilesFull ps ds db) pid = Some p \<longleftrightarrow> p \<in> set ps \<and> p_ID p = pid"
    and "devices (setProfilesFull ps ds db) i = Some d \<longleftrightarrow> d \<in> set ds \<and> d_ID d = i"
    and "deviceIDToProfileID (setProfilesFull ps ds db) = owner ps"
    and "dedicatedIPToDeviceID (setProfilesFull ps ds db) ip = Some i \<longleftrightarrow> (ip, i) \<in> set (ded_kvs ds)"
    and "linkedIPToDeviceID (setProfilesFull ps ds db) ip = Some i \<longleftrightarrow> (ip, i) \<in> set (linked_kvs ds)"
    and "humanIDToDeviceID (setProfilesFull ps ds db) k = Some i \<longleftrightarrow>
           (k, i) \<in> set (hid_kvs (owner ps) ds)"
proof -
  let ?db = "db\<lparr>profiles := Map.empty, devices := Map.empty, dedicatedIPToDeviceID := Map.empty,
                deviceIDToProfileID := Map.empty, humanIDToDeviceID := Map.empty,
                linkedIPToDeviceID := Map.empty,
                cd_log := cd_log db @ [DeleteAllWellKnownPaths]\<rparr>"
  have eq: "setProfilesFull ps ds db = fold setDevice ds (fold setProfileFull ps ?db)"
    by (simp add: setProfilesFull_def setDevices_def Let_def)
  note clear = fold_setProfileFull_clear [OF assms, of ?db]
  from clear show "profiles (setProfilesFull ps ds db) pid = Some p \<longleftrightarrow> p \<in> set ps \<and> p_ID p = pid"
    by (simp add: eq fold_setDevice)
  from clear show "deviceIDToProfileID (setProfilesFull ps ds db) = owner ps"
    by (simp add: eq fold_setDevice)
  have dev: "distinct (map fst (map (\<lambda>d. (d_ID d, d)) ds))"
    using assms by (simp add: snapshot_ok_def comp_def)
  from fold_map_upds_empty [OF dev, of i d]
  show "devices (setProfilesFull ps ds db) i = Some d \<longleftrightarrow> d \<in> set ds \<and> d_ID d = i"
    by (auto simp: eq fold_setDevice fold_setProfileFull)
  show "dedicatedIPToDeviceID (setProfilesFull ps ds db) ip = Some i \<longleftrightarrow> (ip, i) \<in> set (ded_kvs ds)"
    using assms by (simp add: eq fold_setDevice_ded fold_setProfileFull fold_map_upds_empty snapshot_ok_def)
  show "linkedIPToDeviceID (setProfilesFull ps ds db) ip = Some i \<longleftrightarrow> (ip, i) \<in> set (linked_kvs ds)"
    using assms by (simp add: eq fold_setDevice fold_setProfileFull fold_map_upds_empty snapshot_ok_def)
  show "humanIDToDeviceID (setProfilesFull ps ds db) k = Some i \<longleftrightarrow> (k, i) \<in> set (hid_kvs (owner ps) ds)"
    using assms clear(2)
    by (simp add: eq fold_setDevice_hid fold_setProfileFull fold_map_upds_empty snapshot_ok_def)
qed

lemma ded_kvs_iff: "(ip, i) \<in> set (ded_kvs ds) \<longleftrightarrow> (\<exists>d \<in> set ds. d_ID d = i \<and> ip \<in> set (DedicatedIPs d))"
  by (auto simp: ded_kvs_def)

lemma linked_kvs_iff:
  "(ip, i) \<in> set (linked_kvs ds) \<longleftrightarrow> (\<exists>d \<in> set ds. d_ID d = i \<and> LinkedIP d = ip \<and> ip \<noteq> AddrZero)"
  by (auto simp: linked_kvs_def)

lemma hid_kvs_iff:
  "((h, pid), i) \<in> set (hid_kvs own ds) \<longleftrightarrow>
     (\<exists>d \<in> set ds. d_ID d = i \<and> own i = Some pid \<and> d_HumanIDLower d = h \<and> h \<noteq> [])"
  by (fastforce simp: hid_kvs_def split: option.splits if_splits)

lemma setProfilesFull_attached:
  assumes "snapshot_ok ps ds"
  shows "attached (setProfilesFull ps ds db) p d \<longleftrightarrow> (p, d) \<in> spec_lookup ps ds (\<lambda>_ _. True)"
  using assms by (auto simp: attached_def spec_lookup_def setProfilesFull_maps owner_iff)

lemma full_sync_lookups:
  assumes ok: "snapshot_ok ps ds"
  shows "{(p, d). \<exists>us. ProfileByDeviceID i (setProfilesFull ps ds db) = (Inr (p, d), us)} =
           spec_lookup ps ds (\<lambda>p d. d_ID d = i)"
    and "{(p, d). \<exists>us. ProfileByDedicatedIP ip (setProfilesFull ps ds db) = (Inr (p, d), us)} =
           spec_lookup ps ds (\<lambda>p d. ip \<in> set (DedicatedIPs d))"
    and "{(p, d). \<exists>us. ProfileByLinkedIP ip (setProfilesFull ps ds db) = (Inr (p, d), us)} =
           spec_lookup ps ds (\<lambda>p d. LinkedIP d = ip \<and> ip \<noteq> AddrZero)"
    and "{(p, d). \<exists>us. ProfileByHumanID pid h (setProfilesFull ps ds db) = (Inr (p, d), us)} =
           spec_lookup ps ds (\<lambda>p d. d_HumanIDLower d = h \<and> h \<noteq> [] \<and> p_ID p = pid)"
proof -
  let ?db = "setProfilesFull ps ds db"
  have wf: "db_wf ?db" by (rule setProfilesFull_wf)
  note maps = setProfilesFull_maps [OF ok] setProfilesFull_attached [OF ok]
  show "{(p, d). \<exists>us. ProfileByDeviceID i ?db = (Inr (p, d), us)} = spec_lookup ps ds (\<lambda>p d. d_ID d = i)"
    unfolding by_id.results [OF wf] maps spec_lookup_def by blast
  show "{(p, d). \<exists>us. ProfileByDedicatedIP ip ?db = (Inr (p, d), us)} =
      spec_lookup ps ds (\<lambda>p d. ip \<in> set (DedicatedIPs d))"
    unfolding by_ded.results [OF wf] maps spec_lookup_def ded_kvs_iff by blast
  show "{(p, d). \<exists>us. ProfileByLinkedIP ip ?db = (Inr (p, d), us)} =
      spec_lookup ps ds (\<lambda>p d. LinkedIP d = ip \<and> ip \<noteq> AddrZero)"
    unfolding by_linked.results [OF wf] maps spec_lookup_def linked_kvs_iff by blast
  show "{(p, d). \<exists>us. ProfileByHumanID pid h ?db = (Inr (p, d), us)} =
      spec_lookup ps ds (\<lambda>p d. d_HumanIDLower d = h \<and> h \<noteq> [] \<and> p_ID p = pid)"
  proof -
    have key: "hid_key (pid, h) ?db = Some i \<longleftrightarrow>
        (\<exists>q \<in> set ps. p_ID q = pid) \<and> ((h, pid), i) \<in> set (hid_kvs (owner ps) ds)" for i
      using maps(1) [of db pid] maps(6) [of db "(h, pid)" i]
      by (cases "profiles ?db pid") (auto simp: hid_key_def)
    have pair: "hid_key (pid, h) ?db = Some (d_ID d) \<longleftrightarrow> h \<noteq> [] \<and> p_ID p = pid"
      if pd: "p \<in> set ps" "d \<in> set ds" "d_ID d \<in> p_DeviceIDs p" "d_HumanIDLower d = h" for p d
    proof -
      have "owner ps (d_ID d) = Some (p_ID p)" using pd owner_iff [OF ok] by blast
      with pd show ?thesis unfolding key hid_kvs_iff by auto
    qed
    show ?thesis
      using by_hid.results [OF wf, of "(pid, h)"] pair
      unfolding maps(7) spec_lookup_def by auto
  qed
qed

text \<open>
  C2: a full synchronisation is exact.  From a consistent snapshot of profiles and devices, whatever
  the database held before, each of the four lookups returns precisely the pairs of the snapshot
  that have the requested key: nothing of the old state survives and no device of the snapshot is
  unreachable.
\<close>

theorem full_sync_exact:
  assumes "snapshot_ok ps ds"
  shows "{(p, d). \<exists>us. ProfileByDeviceID i (setProfilesFull ps ds db) = (Inr (p, d), us)} =
           spec_lookup ps ds (\<lambda>p d. d_ID d = i) \<and>
         {(p, d). \<exists>us. ProfileByDedicatedIP ip (setProfilesFull ps ds db) = (Inr (p, d), us)} =
           spec_lookup ps ds (\<lambda>p d. ip \<in> set (DedicatedIPs d)) \<and>
         {(p, d). \<exists>us. ProfileByLinkedIP ip (setProfilesFull ps ds db) = (Inr (p, d), us)} =
           spec_lookup ps ds (\<lambda>p d. LinkedIP d = ip \<and> ip \<noteq> AddrZero) \<and>
         {(p, d). \<exists>us. ProfileByHumanID pid h (setProfilesFull ps ds db) = (Inr (p, d), us)} =
           spec_lookup ps ds (\<lambda>p d. d_HumanIDLower d = h \<and> h \<noteq> [] \<and> p_ID p = pid)"
  using full_sync_lookups [OF assms] by blast

theorem full_sync_exact_witness:
  "snapshot_ok [ex_prof ''a'' {''d''}] [ex_dev ''d'' (Addr4 7) []] \<and>
   {(p, d). \<exists>us. ProfileByLinkedIP (Addr4 7)
       (setProfilesFull [ex_prof ''a'' {''d''}] [ex_dev ''d'' (Addr4 7) []] (ex_cached [] [])) =
         (Inr (p, d), us)} =
     spec_lookup [ex_prof ''a'' {''d''}] [ex_dev ''d'' (Addr4 7) []]
       (\<lambda>p d. LinkedIP d = Addr4 7 \<and> Addr4 7 \<noteq> AddrZero)"
proof -
  have ok: "snapshot_ok [ex_prof ''a'' {''d''}] [ex_dev ''d'' (Addr4 7) []]"
    by (simp add: snapshot_ok_def ded_kvs_def linked_kvs_def hid_kvs_def owner_def ex_dev_def ex_prof_def)
  from full_sync_exact [OF ok, of _ "ex_cached [] []" "Addr4 7"] ok show ?thesis by blast
qed

subsection \<open>Partial updates\<close>

text \<open>
  C32: a partial update of a profile keeps the devices it had, adds the ones it lists and drops the
  deleted ones; a deleted device can no longer be found by its identifier, and every other entry of
  the device index that the profile does not claim is untouched.
\<close>

theorem partial_update_devices:
  assumes prev: "profiles db (p_ID p) = Some prev" and chg: "chg (p_ID p) = Some c" "IsPartial c"
  shows "\<exists>q. profiles (setProfile chg p db) = (profiles db)(p_ID p \<mapsto> q) \<and>
           p_DeviceIDs q = p_DeviceIDs p \<union> p_DeviceIDs prev - set (DeletedDeviceIDs c) \<and>
           (\<forall>i \<in> set (DeletedDeviceIDs c). profileByDeviceID i (setProfile chg p db) = (Inl ErrDeviceNotFound, [])) \<and>
           (\<forall>i. i \<notin> set (DeletedDeviceIDs c) \<and> i \<notin> p_DeviceIDs q \<longrightarrow>
              deviceIDToProfileID (setProfile chg p db) i = deviceIDToProfileID db i)"
proof -
  let ?q = "p\<lparr>p_DeviceIDs := p_DeviceIDs p \<union> p_DeviceIDs prev - set (DeletedDeviceIDs c)\<rparr>"
  have eq: "setProfile chg p db =
      attachDevices ?q (fst (setProfileCerts ?q
        (db\<lparr>deviceIDToProfileID :=
              (\<lambda>d. if d \<in> set (DeletedDeviceIDs c) then None else deviceIDToProfileID db d),
            profiles := (profiles db)(p_ID p \<mapsto> ?q)\<rparr>)))"
    using prev chg by (simp add: setProfile_def applyChanges_eq case_prod_beta)
  have idx: "deviceIDToProfileID (setProfile chg p db) i =
      (if i \<in> p_DeviceIDs ?q then Some (p_ID p)
       else if i \<in> set (DeletedDeviceIDs c) then None else deviceIDToProfileID db i)" for i
    by (simp add: eq)
  show ?thesis
  proof (intro exI [of _ ?q] conjI)
    show "profiles (setProfile chg p db) = (profiles db)(p_ID p \<mapsto> ?q)" by (simp add: eq)
    show "\<forall>i \<in> set (DeletedDeviceIDs c).
        profileByDeviceID i (setProfile chg p db) = (Inl ErrDeviceNotFound, [])"
      by (simp add: profileByDeviceID_def idx)
    show "\<forall>i. i \<notin> set (DeletedDeviceIDs c) \<and> i \<notin> p_DeviceIDs ?q \<longrightarrow>
        deviceIDToProfileID (setProfile chg p db) i = deviceIDToProfileID db i"
      by (simp add: idx)
  qed simp
qed

definition ex_deleted :: "device_id list \<Rightarrow> device_change" where
  "ex_deleted ids = \<lparr>DeletedDeviceIDs = ids, IsPartial = True\<rparr>"

theorem partial_update_devices_witness:
  "\<exists>q. profiles (setProfile [''a'' \<mapsto> ex_deleted [''d'']] (ex_prof ''a'' {''e''})
                  (ex_cached [ex_prof ''a'' {''d'', ''f''}] [ex_dev ''d'' AddrZero []])) ''a'' = Some q \<and>
       p_DeviceIDs q = {''e''} \<union> {''d'', ''f''} - {''d''}"
proof -
  let ?db = "ex_cached [ex_prof ''a'' {''d'', ''f''}] [ex_dev ''d'' AddrZero []]"
  have "profiles ?db (p_ID (ex_prof ''a'' {''e''})) = Some (ex_prof ''a'' {''d'', ''f''})"
    by (simp add: ex_simps)
  moreover have "[''a'' \<mapsto> ex_deleted [''d'']] (p_ID (ex_prof ''a'' {''e''})) = Some (ex_deleted [''d''])"
    by (simp add: ex_prof_def)
  moreover have "IsPartial (ex_deleted [''d''])" by (simp add: ex_deleted_def)
  ultimately show ?thesis
    using partial_update_devices [of ?db "ex_prof ''a'' {''e''}" _ "[''a'' \<mapsto> ex_deleted [''d'']]"]
    by (fastforce simp: ex_prof_def ex_deleted_def)
qed

subsection \<open>The file cache\<close>

lemma distinct_concat_map_mset:
  "mset xs = mset ys \<Longrightarrow> distinct (map f (concat (map g xs))) = distinct (map f (concat (map g ys)))"
proof -
  assume "mset xs = mset ys"
  have mset_concat_map: "mset (concat (map g zs)) = (\<Sum>z \<in># mset zs. mset (g z))" for zs
    by (induction zs) simp_all
  from \<open>mset xs = mset ys\<close> have "mset (map f (concat (map g xs))) = mset (map f (concat (map g ys)))"
    by (simp add: mset_concat_map)
  then show ?thesis by (rule mset_eq_imp_distinct_iff)
qed

lemma linked_kvs_concat:
  "linked_kvs ds = concat (map (\<lambda>d. if LinkedIP d \<noteq> AddrZero then [(LinkedIP d, d_ID d)] else []) ds)"
  by (induction ds) (simp_all add: linked_kvs_def)

lemma snapshot_ok_mset:
  assumes ok: "snapshot_ok ps ds" and ps: "mset ps' = mset ps" and ds: "mset ds' = mset ds"
  shows "snapshot_ok ps' ds'"
proof -
  have sets: "set ps' = set ps" "set ds' = set ds" using ps ds by (metis set_mset_mset)+
  have p: "distinct (map p_ID ps')" "distinct (map d_ID ds')"
    using ok ps ds by (metis mset_eq_imp_distinct_iff mset_map snapshot_ok_def)+
  have "owner ps' i = owner ps i" for i
  proof -
    have sub: "\<forall>p \<in> set ps'. \<forall>q \<in> set ps'. p_DeviceIDs p \<inter> p_DeviceIDs q \<noteq> {} \<longrightarrow> p = q"
      using ok sets by (simp add: snapshot_ok_def)
    show ?thesis
    proof (cases "find (\<lambda>p. i \<in> p_DeviceIDs p) ps'")
      case None
      then have "find (\<lambda>p. i \<in> p_DeviceIDs p) ps = None" using sets by (simp add: find_None_iff)
      with None show ?thesis by (simp add: owner_def)
    next
      case (Some q)
      then have "q \<in> set ps" "i \<in> p_DeviceIDs q" using sets by (auto simp: find_Some_iff)
      then have "owner ps i = Some (p_ID q)" using owner_iff [OF ok, of i "p_ID q"] by blast
      then show ?thesis using Some unfolding owner_def [of ps'] by simp
    qed
  qed
  then have own: "owner ps' = owner ps" by blast
  have "distinct (map fst (ded_kvs ds'))" "distinct (map fst (linked_kvs ds'))"
    "distinct (map fst (hid_kvs (owner ps) ds'))"
    using ok distinct_concat_map_mset [OF ds]
    unfolding snapshot_ok_def ded_kvs_def linked_kvs_concat hid_kvs_def by blast+
  with ok p sets own show ?thesis by (simp add: snapshot_ok_def)
qed

lemma lookup_ignores_times:
  fixes db :: "'x db" and t1 t2 t3 :: time
  defines "db' \<equiv> db\<lparr>syncTime := t1, lastFullSync := t2, lastCacheSync := t3\<rparr>"
  shows "ProfileByDeviceID i db' = ProfileByDeviceID i db"
    and "ProfileByDedicatedIP ip db' = ProfileByDedicatedIP ip db"
    and "ProfileByLinkedIP ip db' = ProfileByLinkedIP ip db"
    and "ProfileByHumanID pid h db' = ProfileByHumanID pid h db"
proof -
  have maps: "profiles db' = profiles db" "devices db' = devices db"
    "deviceIDToProfileID db' = deviceIDToProfileID db" "humanIDToDeviceID db' = humanIDToDeviceID db"
    "dedicatedIPToDeviceID db' = dedicatedIPToDeviceID db" "linkedIPToDeviceID db' = linkedIPToDeviceID db"
    by (simp_all add: db'_def)
  have pbd: "profileByDeviceID j db' = profileByDeviceID j db" for j
    unfolding profileByDeviceID_def maps ..
  show "ProfileByDeviceID i db' = ProfileByDeviceID i db"
    and "ProfileByDedicatedIP ip db' = ProfileByDedicatedIP ip db"
    and "ProfileByLinkedIP ip db' = ProfileByLinkedIP ip db"
    and "ProfileByHumanID pid h db' = ProfileByHumanID pid h db"
    unfolding ProfileByDeviceID_def ProfileByDedicatedIP_def ProfileByLinkedIP_def ProfileByHumanID_def
      maps pbd by (rule refl)+
qed



subsection \<open>Scheduling of full synchronisations\<close>

lemma setDevice_keeps [simp]:
  "syncTime (setDevice d db) = syncTime db" "fullSyncIvl (setDevice d db) = fullSyncIvl db"
  "lastCacheSync (setDevice d db) = lastCacheSync db" "cacheIvl (setDevice d db) = cacheIvl db"
  by (simp_all add: setDevice_def Let_def split: option.split)

lemma setProfileFull_keeps [simp]:
  "syncTime (setProfileFull p db) = syncTime db" "fullSyncIvl (setProfileFull p db) = fullSyncIvl db"
  by (simp_all add: setProfileFull_def setProfileCerts_def attachDevices_def case_prod_beta)

lemma setProfile_keeps [simp]:
  "lastCacheSync (setProfile chg p db) = lastCacheSync db" "cacheIvl (setProfile chg p db) = cacheIvl db"
  by (auto simp: setProfile_def setProfileCerts_def attachDevices_def applyChanges_eq Let_def
      split: option.splits prod.splits)

lemma setProfiles_keeps:
  "lastCacheSync (setProfiles ps ds chg db) = lastCacheSync db"
  "cacheIvl (setProfiles ps ds chg db) = cacheIvl db"
  by (simp_all add: setProfiles_def setDevices_def fold_frame)

lemma setProfilesFull_keeps:
  "syncTime (setProfilesFull ps ds db) = syncTime db"
  "fullSyncIvl (setProfilesFull ps ds db) = fullSyncIvl db"
  by (simp_all add: setProfilesFull_def setDevices_def Let_def fold_frame)

text \<open>
  C33: a failed full synchronisation changes nothing but the time of the error, and the next one is
  due exactly when the retry interval has passed since; a successful one resets the error and the
  next one is due when the full interval has passed, also when writing the file cache fails.
\<close>

theorem full_sync_schedule:
  assumes "now_full ck \<noteq> zero_time" and "refreshFull be ck db = (r, db')"
  shows "(case be_Profiles be syncTimeFull of
            Inl e \<Rightarrow> r = Some (ErrStorage e) \<and> db' = db\<lparr>lastFullSyncError := now_full ck\<rparr> \<and>
              (\<forall>now. needsFullSync now db' \<longleftrightarrow> fullSyncRetryIvl db \<le> time_sub now (now_full ck))
          | Inr sr \<Rightarrow> syncTime db' = sr_SyncTime sr \<and> lastFullSync db' = now_full ck \<and>
              (\<forall>now. needsFullSync now db' \<longleftrightarrow> fullSyncIvl db \<le> time_sub now (now_full ck)))"
proof (cases "be_Profiles be syncTimeFull")
  case (Inl e)
  with assms show ?thesis
    by (auto simp: refreshFull_def fetchProfiles_def requestSyncTime_def needsFullSync_def time_is_zero_def)
next
  case (Inr sr)
  let ?db = "setProfilesFull (sr_Profiles sr) (sr_Devices sr) (db\<lparr>syncTime := sr_SyncTime sr\<rparr>)"
  have keep: "fullSyncIvl ?db = fullSyncIvl db" "syncTime ?db = sr_SyncTime sr"
    by (simp_all add: setProfilesFull_keeps)
  from Inr assms have "storeCache be (now_stored ck)
      (?db\<lparr>lastFullSync := now_full ck, lastFullSyncError := zero_time\<rparr>) = (r, db')"
    by (simp add: refreshFull_def fetchProfiles_def requestSyncTime_def Let_def)
  with keep Inr show ?thesis
    by (auto simp: storeCache_def needsFullSync_def time_is_zero_def split: option.splits)
qed

definition ex_clock :: "time \<Rightarrow> clock" where
  "ex_clock t = \<lparr>now_check = t, now_full = t, now_cache_check = t, now_stored = t\<rparr>"

definition ex_backend ::
  "profile list \<Rightarrow> device list \<Rightarrow> (profile_id \<rightharpoonup> device_change) \<Rightarrow> (unit, unit) backend" where
  "ex_backend ps ds chg =
     \<lparr>be_Profiles = (\<lambda>t. Inr \<lparr>sr_SyncTime = 2, sr_DeviceChanges = chg, sr_Profiles = ps, sr_Devices = ds\<rparr>),
      be_Store = (\<lambda>_. Some ()), be_enumProfiles = (\<lambda>_. []), be_enumDevices = (\<lambda>_. [])\<rparr>"

theorem full_sync_schedule_witness:
  "let db' = snd (refreshFull (ex_backend [] [] Map.empty) (ex_clock 5) (ex_cached [] []))
   in syncTime db' = 2 \<and> \<not> needsFullSync 5 db' \<and> needsFullSync 6 db'"
proof -
  obtain r db' where r: "refreshFull (ex_backend [] [] Map.empty) (ex_clock 5) (ex_cached [] []) = (r, db')"
    by fastforce
  have "now_full (ex_clock 5) \<noteq> zero_time" by (simp add: ex_clock_def zero_time_def)
  from full_sync_schedule [OF this r]
  have "syncTime db' = 2"
    "needsFullSync now db' \<longleftrightarrow> fullSyncIvl (ex_cached [] []) \<le> time_sub now (now_full (ex_clock 5))" for now
    by (simp_all add: ex_backend_def)
  moreover have "fullSyncIvl (ex_cached [] []) = 1" by (simp add: ex_simps)
  moreover have "time_sub 5 (now_full (ex_clock 5)) = 0" "time_sub 6 (now_full (ex_clock 5)) = 1"
    by (simp_all add: ex_clock_def time_sub_def max_duration_def min_duration_def)
  ultimately show ?thesis by (simp add: r)
qed

subsection \<open>Behaviours that the lookups do not protect against\<close>

lemma fold_setProfile_dom:
  "profiles db pid \<noteq> None \<Longrightarrow> profiles (fold (setProfile chg) ps db) pid \<noteq> None"
proof (induction ps arbitrary: db)
  case (Cons p ps)
  from Cons.prems setProfile_profiles [of p chg db] have "profiles (setProfile chg p db) pid \<noteq> None"
    by (auto split: if_splits)
  with Cons.IH show ?case by simp
qed simp

lemma fold_setDevice_profileByDeviceID:
  "deviceIDToProfileID db i = None \<Longrightarrow> profileByDeviceID i (fold setDevice ds db) = (Inl ErrDeviceNotFound, [])"
  by (simp add: profileByDeviceID_def fold_setDevice)

text \<open>
  within one partial response the deletions of the last profile win.  If it has deleted a device,
  the device cannot be found afterwards, even when the same response assigns it to another profile
  that comes earlier in the list.
\<close>

theorem deletion_wins_over_move:
  assumes "profiles db (p_ID p) \<noteq> None" and "chg (p_ID p) = Some c" and "IsPartial c"
    and "i \<in> set (DeletedDeviceIDs c)"
  shows "ProfileByDeviceID i (setProfiles (ps @ [p]) ds chg db) = (Inl ErrDeviceNotFound, [])"
proof -
  let ?db = "fold (setProfile chg) ps db"
  from fold_setProfile_dom [OF assms(1)] obtain prev where prev: "profiles ?db (p_ID p) = Some prev" by blast
  have "deviceIDToProfileID (setProfile chg p ?db) i = None"
    using prev assms by (simp add: setProfile_def applyChanges_eq case_prod_beta)
  then show ?thesis
    by (simp add: ProfileByDeviceID_def setProfiles_def setDevices_def fold_setDevice_profileByDeviceID)
qed

theorem deletion_wins_over_move_witness:
  "let db = ex_cached [ex_prof ''a'' {''d''}, ex_prof ''b'' {}] [ex_dev ''d'' AddrZero []];
       chg = [''a'' \<mapsto> ex_deleted [''d''], ''b'' \<mapsto> ex_deleted []];
       moved = [ex_prof ''b'' {''d''}, ex_prof ''a'' {}]
   in ProfileByDeviceID ''d'' (setProfiles moved [ex_dev ''d'' AddrZero []] chg db) =
        (Inl ErrDeviceNotFound, []) \<and>
      fst (ProfileByDeviceID ''d'' (setProfiles (rev moved) [ex_dev ''d'' AddrZero []] chg db)) =
        Inr (ex_prof ''b'' {''d''}, ex_dev ''d'' AddrZero [])"
proof -
  let ?db = "ex_cached [ex_prof ''a'' {''d''}, ex_prof ''b'' {}] [ex_dev ''d'' AddrZero []]"
  let ?chg = "[''a'' \<mapsto> ex_deleted [''d''], ''b'' \<mapsto> ex_deleted []]"
  have "profiles ?db (p_ID (ex_prof ''a'' {})) \<noteq> None" "?chg (p_ID (ex_prof ''a'' {})) = Some (ex_deleted [''d''])"
    "IsPartial (ex_deleted [''d''])" "''d'' \<in> set (DeletedDeviceIDs (ex_deleted [''d'']))"
    by (simp_all add: ex_simps ex_deleted_def)
  from deletion_wins_over_move [of ?db "ex_prof ''a'' {}" ?chg "ex_deleted [''d'']" "''d''", OF this,
      of "[ex_prof ''b'' {''d''}]" "[ex_dev ''d'' AddrZero []]"]
  have "ProfileByDeviceID ''d'' (setProfiles [ex_prof ''b'' {''d''}, ex_prof ''a'' {}]
      [ex_dev ''d'' AddrZero []] ?chg ?db) = (Inl ErrDeviceNotFound, [])" by simp
  moreover have "fst (ProfileByDeviceID ''d'' (setProfiles [ex_prof ''a'' {}, ex_prof ''b'' {''d''}]
      [ex_dev ''d'' AddrZero []] ?chg ?db)) = Inr (ex_prof ''b'' {''d''}, ex_dev ''d'' AddrZero [])"
    by (simp add: ex_simps ex_deleted_def ProfileByDeviceID_def profileByDeviceID_def setProfiles_def
        setProfile_def applyChanges_eq)
  ultimately show ?thesis by (simp add: Let_def)
qed

text \<open>
  a lookup by human-readable ID can return a profile that is not the requested one.  A device
  with a human-readable ID that a refresh moves from profile a to profile b stays findable under a,
  and the answer is profile b, in a reachable state.
\<close>

theorem human_id_cross_profile:
  "\<exists>db. db_reachable (db, []) \<and> profiles db ''a'' = Some (ex_prof ''a'' {}) \<and>
        ProfileByHumanID ''a'' ''h'' db =
          (Inr (ex_prof ''b'' {''d''}, ex_dev ''d'' AddrZero ''h''), [])"
proof -
  let ?d = "ex_dev ''d'' AddrZero ''h''"
  let ?db0 = "ex_cached [ex_prof ''a'' {''d''}] [?d]"
  let ?be = "ex_backend [ex_prof ''a'' {}, ex_prof ''b'' {''d''}] [?d] [''a'' \<mapsto> ex_deleted [''d'']]"
  obtain r db where r: "Refresh ?be (ex_clock 1) ?db0 = (r, db)" by fastforce
  have "db_step (?db0, []) (db, [])" using r by (rule db_step.refresh)
  then have "db_reachable (db, [])" by (rule db_reachable.step [OF ex_cached_reachable])
  moreover have "db = setProfiles [ex_prof ''a'' {}, ex_prof ''b'' {''d''}] [?d]
      [''a'' \<mapsto> ex_deleted [''d'']] (?db0\<lparr>syncTime := 2\<rparr>)"
  proof -
    have "\<not> needsFullSync 1 ?db0" "lastCacheSync ?db0 = 1" "cacheIvl ?db0 = 1"
      by (simp_all add: needsFullSync_def time_sub_def time_is_zero_def ex_simps
          max_duration_def min_duration_def)
    with r show ?thesis
      by (simp add: Refresh_def fetchProfiles_def ex_backend_def ex_clock_def setProfiles_keeps
          time_sub_def max_duration_def min_duration_def)
  qed
  ultimately show ?thesis
    by (intro exI [of _ db])
       (simp add: ex_simps ex_deleted_def ProfileByHumanID_def profileByDeviceID_def setProfiles_def
         setProfile_def applyChanges_eq)
qed

text \<open>
  a device that \<open>CreateAutoDevice\<close> has created and returned is not found by the next lookup with
  its human-readable ID, if its identifier was not attached to the profile before: the lookup
  returns the error that makes the caller create the device again.
\<close>

theorem auto_device_not_cached:
  assumes "profiles db pid = Some p" and "AutoDevicesEnabled p"
    and "storage pid hid dt = Inr d" and "deviceIDToProfileID db (d_ID d) = None"
    and "humanIDToDeviceID db (h, pid) = None"
  shows "\<exists>db'. CreateAutoDevice storage pid hid dt db = (Inr (p, d), db') \<and>
           devices db' (d_ID d) = Some d \<and> ProfileByHumanID pid h db' = (Inl ErrDeviceNotFound, [])"
  using assms
  by (simp add: CreateAutoDevice_def setDevices_def ProfileByHumanID_def Let_def split: list.split)

theorem auto_device_not_cached_witness:
  "\<exists>db'. CreateAutoDevice (\<lambda>_ _ _. Inr (ex_dev ''d'' AddrZero ''h'') :: (unit, device) result)
           ''a'' ''H'' 1 (ex_cached [ex_prof ''a'' {''e''}] [ex_dev ''e'' AddrZero []]) =
           (Inr (ex_prof ''a'' {''e''}, ex_dev ''d'' AddrZero ''h''), db') \<and>
         ProfileByHumanID ''a'' ''h'' db' = (Inl ErrDeviceNotFound, [])"
proof -
  let ?db = "ex_cached [ex_prof ''a'' {''e''}] [ex_dev ''e'' AddrZero []]"
  let ?st = "\<lambda>_ _ _. Inr (ex_dev ''d'' AddrZero ''h'') :: (unit, device) result"
  have "profiles ?db ''a'' = Some (ex_prof ''a'' {''e''})" "AutoDevicesEnabled (ex_prof ''a'' {''e''})"
    "deviceIDToProfileID ?db (d_ID (ex_dev ''d'' AddrZero ''h'')) = None"
    "humanIDToDeviceID ?db (''h'', ''a'') = None"
    by (simp_all add: ex_simps)
  from auto_device_not_cached [OF this(1,2), of ?st "''H''" 1, OF refl this(3,4)] show ?thesis by blast
qed

end
