(* ===== verification/Conn_Limiter.thy ===== *)
theory Conn_Limiter
  imports Prelude
begin

text \<open>
  The limiter of stream connections, \<open>internal/connlimiter\<close>: a counter shared by several listeners
  behind one condition variable.  \<open>conn_step\<close> is the transition system of the goroutines that call
  \<open>Accept\<close> on the listeners and of the connections: every step is one critical section of the lock of
  the condition variable, or the return of the wrapped listener's \<open>Accept\<close>, which happens outside of
  it.  A waiting goroutine is represented by its listener.  Metrics and logging are left out.
\<close>

subsection \<open>The counter\<close>

record counter =
  current :: "64 word"
  stop :: "64 word"
  resume :: "64 word"
  isAccepting :: bool

definition increment :: "counter \<Rightarrow> bool \<times> counter" where
  "increment c =
     (if \<not> isAccepting c then (False, c)
      else (let c = c\<lparr>current := current c + 1\<rparr>
            in (True, c\<lparr>isAccepting := (current c < stop c)\<rparr>)))"

definition decrement :: "counter \<Rightarrow> counter" where
  "decrement c =
     (let c = c\<lparr>current := current c - 1\<rparr>
      in c\<lparr>isAccepting := (isAccepting c \<or> current c \<le> resume c)\<rparr>)"

subsection \<open>Listeners, waiting goroutines and connections\<close>

type_synonym listener = nat

record conn_sys =
  ctr :: counter
  closed :: "listener set"
  waiting :: "listener list"
  woken :: "listener list"
  accepting :: "listener list"
  conns :: "listener list"

definition New :: "64 word \<Rightarrow> 64 word \<Rightarrow> conn_sys" where
  "New stp res =
     \<lparr>ctr = \<lparr>current = 0, stop = stp, resume = res, isAccepting = True\<rparr>, closed = {}, waiting = [],
      woken = [], accepting = [], conns = []\<rparr>"

text \<open>
  One round of the loop of \<open>limitListener.increment\<close>: it ends with the flag that the listener is closed,
  or the goroutine waits.
\<close>

datatype round = Returned bool | Waits

definition lsnr_increment :: "listener \<Rightarrow> conn_sys \<Rightarrow> round \<times> conn_sys" where
  "lsnr_increment l s =
     (let (ok, c) = increment (ctr s);
          s = s\<lparr>ctr := c\<rparr>
      in if \<not> ok \<and> l \<notin> closed s then (Waits, s) else (Returned (l \<in> closed s), s))"

text \<open>
  \<open>Accept\<close> up to the call of the wrapped listener: it gives up with an error on a closed listener, goes
  on to accept a connection, or waits.
\<close>

definition accept_round :: "listener \<Rightarrow> conn_sys \<Rightarrow> conn_sys" where
  "accept_round l s =
     (case lsnr_increment l s of
        (Returned True, s) \<Rightarrow> s
      | (Returned False, s) \<Rightarrow> s\<lparr>accepting := l # accepting s\<rparr>
      | (Waits, s) \<Rightarrow> s\<lparr>waiting := l # waiting s\<rparr>)"

definition lsnr_decrement :: "conn_sys \<Rightarrow> conn_sys" where
  "lsnr_decrement s = s\<lparr>ctr := decrement (ctr s)\<rparr>"

text \<open>\<^verbatim>\<open>Cond.Signal\<close> wakes one waiting goroutine, if there is any; \<^verbatim>\<open>Cond.Broadcast\<close> wakes all.\<close>

inductive signal :: "conn_sys \<Rightarrow> conn_sys \<Rightarrow> bool" where
  nobody: "waiting s = [] \<Longrightarrow> signal s s"
| somebody: "l \<in> set (waiting s) \<Longrightarrow>
     signal s (s\<lparr>waiting := remove1 l (waiting s), woken := l # woken s\<rparr>)"

definition broadcast :: "conn_sys \<Rightarrow> conn_sys" where
  "broadcast s = s\<lparr>waiting := [], woken := waiting s @ woken s\<rparr>"

definition lsnr_Close :: "listener \<Rightarrow> conn_sys \<Rightarrow> conn_sys" where
  "lsnr_Close l s = (if l \<in> closed s then s else broadcast (s\<lparr>closed := insert l (closed s)\<rparr>))"

inductive conn_step :: "conn_sys \<Rightarrow> conn_sys \<Rightarrow> bool" where
  accept: "conn_step s (accept_round l s)"
| wake: "l \<in> set (woken s) \<Longrightarrow> conn_step s (accept_round l (s\<lparr>woken := remove1 l (woken s)\<rparr>))"
| accepted: "l \<in> set (accepting s) \<Longrightarrow>
     conn_step s (s\<lparr>accepting := remove1 l (accepting s), conns := l # conns s\<rparr>)"
| accept_failed: "l \<in> set (accepting s) \<Longrightarrow>
     signal (lsnr_decrement (s\<lparr>accepting := remove1 l (accepting s)\<rparr>)) s' \<Longrightarrow> conn_step s s'"
| conn_close: "l \<in> set (conns s) \<Longrightarrow>
     signal (lsnr_decrement (s\<lparr>conns := remove1 l (conns s)\<rparr>)) s' \<Longrightarrow> conn_step s s'"
| close: "conn_step s (lsnr_Close l s)"

inductive conn_reachable :: "64 word \<Rightarrow> 64 word \<Rightarrow> conn_sys \<Rightarrow> bool" for stp res where
  start: "conn_reachable stp res (New stp res)"
| step: "conn_reachable stp res s \<Longrightarrow> conn_step s s' \<Longrightarrow> conn_reachable stp res s'"

inductive_cases signalE: "signal s s'"

subsection \<open>Invariant\<close>

definition counter_ok :: "counter \<Rightarrow> bool" where
  "counter_ok c \<longleftrightarrow>
     current c \<le> stop c \<and>
     (if isAccepting c then current c < stop c else resume c < current c \<or> current c = stop c)"

definition conn_inv :: "64 word \<Rightarrow> 64 word \<Rightarrow> conn_sys \<Rightarrow> bool" where
  "conn_inv stp res s \<longleftrightarrow>
     counter_ok (ctr s) \<and> stop (ctr s) = stp \<and> resume (ctr s) = res \<and>
     length (accepting s) + length (conns s) \<le> unat (current (ctr s)) \<and>
     (closed s = {} \<longrightarrow> length (accepting s) + length (conns s) = unat (current (ctr s)))"

declare counter_ok_def [inv_defs] conn_inv_def [inv_defs]

lemma increment_True:
  assumes "counter_ok c" "increment c = (True, c')"
  shows "counter_ok c'" "unat (current c') = Suc (unat (current c))" "stop c' = stop c" "resume c' = resume c"
proof -
  from assms have lt: "current c < stop c" and c': "c' = c\<lparr>current := current c + 1,
      isAccepting := (current c + 1 < stop c)\<rparr>"
    by (auto simp: increment_def counter_ok_def Let_def split: if_splits)
  have "current c + 1 \<noteq> 0" using lt by (metis add_diff_cancel_right' diff_0 word_not_simps(1) word_order.extremum_strict)
  then have suc: "unat (current c + 1) = Suc (unat (current c))"
    using unatSuc [of "current c"] by (simp add: add.commute)
  then show "unat (current c') = Suc (unat (current c))" by (simp add: c')
  have "current c + 1 \<le> stop c" using lt suc by (simp add: word_le_nat_alt word_less_nat_alt)
  then show "counter_ok c'" by (auto simp: counter_ok_def c')
qed (use assms in \<open>auto simp: increment_def Let_def split: if_splits\<close>)

lemma increment_False: "increment c = (False, c') \<Longrightarrow> c' = c \<and> \<not> isAccepting c"
  by (auto simp: increment_def Let_def split: if_splits)

lemma decrement_ok:
  assumes "counter_ok c" "0 < current c" "res = resume c" "res \<le> stop c"
  shows "counter_ok (decrement c)" "unat (current (decrement c)) = unat (current c) - 1"
    "stop (decrement c) = stop c" "resume (decrement c) = resume c"
proof -
  have m: "unat (current c - 1) = unat (current c) - 1" using assms(2)
    by (metis unat_eq_zero unat_minus_one word_neq_0_conv)
  moreover have "0 < unat (current c)" using assms(2) by (simp add: unat_gt_0)
  ultimately have "current c - 1 < stop c" using assms(1)
    by (auto simp: counter_ok_def word_le_nat_alt word_less_nat_alt)
  then show "counter_ok (decrement c)" by (auto simp: counter_ok_def decrement_def Let_def not_le)
  show "unat (current (decrement c)) = unat (current c) - 1" by (simp add: decrement_def Let_def m)
qed (simp_all add: decrement_def Let_def)

lemma accept_round_inv:
  assumes "conn_inv stp res s"
  shows "conn_inv stp res (accept_round l s)"
proof -
  obtain ok c where inc: "increment (ctr s) = (ok, c)" by fastforce
  from assms have ok_ctr: "counter_ok (ctr s)" by (simp add: conn_inv_def)
  show ?thesis
  proof (cases ok)
    case True
    with inc increment_True [OF ok_ctr] have
      "counter_ok c" "unat (current c) = Suc (unat (current (ctr s)))" "stop c = stop (ctr s)" "resume c = resume (ctr s)"
      by auto
    with assms inc True show ?thesis
      by (cases "l \<in> closed s") (auto simp: conn_inv_def accept_round_def lsnr_increment_def)
  next
    case False
    with inc increment_False [of "ctr s" c] have "c = ctr s" by simp
    with assms inc False show ?thesis
      by (cases "l \<in> closed s") (auto simp: conn_inv_def accept_round_def lsnr_increment_def)
  qed
qed

lemma conn_inv_tasks [simp]:
  "conn_inv stp res (s\<lparr>woken := w\<rparr>) = conn_inv stp res s"
  "conn_inv stp res (s\<lparr>waiting := w\<rparr>) = conn_inv stp res s"
  by (simp_all add: conn_inv_def)

lemma signal_inv: "signal s s' \<Longrightarrow> conn_inv stp res s' = conn_inv stp res s"
  by (erule signalE) simp_all

lemma release_inv:
  assumes inv: "conn_inv stp res s" and le: "res \<le> stp"
    and cut: "Suc (length (accepting s') + length (conns s')) = length (accepting s) + length (conns s)"
    and frame: "ctr s' = ctr s" "closed s' = closed s"
  shows "conn_inv stp res (lsnr_decrement s')"
proof -
  from inv cut have pos: "0 < unat (current (ctr s))" by (simp add: conn_inv_def)
  then have cur: "0 < current (ctr s)" by (simp add: unat_gt_0 word_neq_0_conv)
  have c: "counter_ok (ctr s)" "stop (ctr s) = stp" "resume (ctr s) = res"
    and n: "length (accepting s) + length (conns s) \<le> unat (current (ctr s))"
    and e: "closed s = {} \<Longrightarrow> length (accepting s) + length (conns s) = unat (current (ctr s))"
    using inv unfolding conn_inv_def by blast+
  define d where "d = decrement (ctr s)"
  have d: "counter_ok d" "unat (current d) = unat (current (ctr s)) - 1" "stop d = stp" "resume d = res"
    using decrement_ok [OF c(1) cur, of res] c le unfolding d_def by simp_all
  have "lsnr_decrement s' = s'\<lparr>ctr := d\<rparr>" by (simp add: lsnr_decrement_def d_def frame)
  moreover have "length (accepting s') + length (conns s') \<le> unat (current d)" using n cut pos d(2) by linarith
  moreover have "closed s' = {} \<Longrightarrow> length (accepting s') + length (conns s') = unat (current d)"
    using e frame(2) cut d(2) by simp
  ultimately show ?thesis using d by (simp add: conn_inv_def)
qed

lemma Suc_length_remove1: "x \<in> set xs \<Longrightarrow> Suc (length (remove1 x xs)) = length xs"
  by (induction xs) auto

lemma conn_inv_cong:
  "ctr s' = ctr s \<Longrightarrow> closed s' = closed s \<Longrightarrow>
     length (accepting s') + length (conns s') = length (accepting s) + length (conns s) \<Longrightarrow>
     conn_inv stp res s' = conn_inv stp res s"
  by (simp add: conn_inv_def)

lemma conn_step_inv:
  assumes "conn_step s s'" and "conn_inv stp res s" and "res \<le> stp"
  shows "conn_inv stp res s'"
  using assms
proof (induction rule: conn_step.induct)
  case (accept_failed l s s')
  have "conn_inv stp res (lsnr_decrement (s\<lparr>accepting := remove1 l (accepting s)\<rparr>))"
    using accept_failed(3,4) Suc_length_remove1 [OF accept_failed(1)] by (intro release_inv [of stp res s]) simp_all
  with signal_inv [OF accept_failed(2)] show ?case by simp
next
  case (conn_close l s s')
  have "conn_inv stp res (lsnr_decrement (s\<lparr>conns := remove1 l (conns s)\<rparr>))"
    using conn_close(3,4) Suc_length_remove1 [OF conn_close(1)] by (intro release_inv [of stp res s]) simp_all
  with signal_inv [OF conn_close(2)] show ?case by simp
next
  case (accepted l s)
  have "length (remove1 l (accepting s)) + length (l # conns s) = length (accepting s) + length (conns s)"
    using Suc_length_remove1 [OF accepted(1)] by simp
  then have "conn_inv stp res (s\<lparr>accepting := remove1 l (accepting s), conns := l # conns s\<rparr>) = conn_inv stp res s"
    by (intro conn_inv_cong) simp_all
  with accepted(2) show ?case by simp
next
  case (close s l)
  then show ?case by (simp add: lsnr_Close_def broadcast_def conn_inv_def)
qed (simp_all add: accept_round_inv)

lemma reachable_inv:
  "conn_reachable stp res s \<Longrightarrow> 0 < stp \<Longrightarrow> res \<le> stp \<Longrightarrow> conn_inv stp res s"
proof (induction rule: conn_reachable.induct)
  case start
  then show ?case by (simp add: New_def conn_inv_def counter_ok_def)
next
  case (step s s')
  then show ?case using conn_step_inv by blast
qed

subsection \<open>What the limiter guarantees\<close>

text \<open>
  C8: in every reachable state the open connections and the goroutines that are accepting one are at
  most the configured limit, whatever the number of listeners; and as long as no listener is closed,
  the limiter does not refuse connections for good: when the last connection is closed and nobody is
  accepting, it accepts again.
\<close>

theorem connection_limit:
  assumes "conn_reachable stp res s" and "0 < stp" and "res \<le> stp"
  shows "length (conns s) + length (accepting s) \<le> unat stp \<and>
         (closed s = {} \<longrightarrow> conns s = [] \<longrightarrow> accepting s = [] \<longrightarrow> isAccepting (ctr s))"
proof -
  from reachable_inv [OF assms] have inv: "conn_inv stp res s" .
  then have "current (ctr s) \<le> stp" by (auto simp: conn_inv_def counter_ok_def)
  then have "unat (current (ctr s)) \<le> unat stp" by (simp add: word_le_nat_alt)
  with inv have "length (conns s) + length (accepting s) \<le> unat stp" by (simp add: conn_inv_def)
  moreover have "isAccepting (ctr s)" if "closed s = {}" "conns s = []" "accepting s = []"
  proof -
    from inv that have "current (ctr s) = 0" by (simp add: conn_inv_def unat_eq_0)
    with inv assms(2) show ?thesis by (auto simp: conn_inv_def counter_ok_def split: if_splits)
  qed
  ultimately show ?thesis by simp
qed

lemma reach_accept: "conn_reachable stp res s \<Longrightarrow> conn_reachable stp res (accept_round l s)"
  by (rule conn_reachable.step [OF _ conn_step.accept])

lemma reach_accepted:
  "conn_reachable stp res s \<Longrightarrow> l \<in> set (accepting s) \<Longrightarrow>
     conn_reachable stp res (s\<lparr>accepting := remove1 l (accepting s), conns := l # conns s\<rparr>)"
  by (rule conn_reachable.step [OF _ conn_step.accepted])

lemma reach_close: "conn_reachable stp res s \<Longrightarrow> conn_reachable stp res (lsnr_Close l s)"
  by (rule conn_reachable.step [OF _ conn_step.close])

lemma reach_conn_close:
  "conn_reachable stp res s \<Longrightarrow> l \<in> set (conns s) \<Longrightarrow>
     signal (lsnr_decrement (s\<lparr>conns := remove1 l (conns s)\<rparr>)) s' \<Longrightarrow> conn_reachable stp res s'"
  by (rule conn_reachable.step [OF _ conn_step.conn_close])

lemma reach_wake:
  "conn_reachable stp res s \<Longrightarrow> l \<in> set (woken s) \<Longrightarrow>
     conn_reachable stp res (accept_round l (s\<lparr>woken := remove1 l (woken s)\<rparr>))"
  by (rule conn_reachable.step [OF _ conn_step.wake])

lemmas round_simps =
  accept_round_def lsnr_increment_def increment_def lsnr_Close_def broadcast_def
  lsnr_decrement_def decrement_def Let_def word_le_nat_alt

theorem connection_limit_witness:
  "let s = accept_round 2 (accept_round 1 (New 1 1))
   in waiting s = [2] \<and> length (conns s) + length (accepting s) \<le> unat (1 :: 64 word)"
proof -
  let ?s = "accept_round 2 (accept_round 1 (New 1 1))"
  have "conn_reachable 1 1 ?s" by (intro reach_accept conn_reachable.start)
  from connection_limit [OF this] have "length (conns ?s) + length (accepting ?s) \<le> unat (1 :: 64 word)" by simp
  moreover have "waiting ?s = [2]" by (simp add: New_def round_simps)
  ultimately show ?thesis by (simp add: Let_def)
qed

subsection \<open>Two ways to lose slots\<close>

text \<open>
  a call of \<open>Accept\<close> on a listener that has been closed takes a slot of the shared counter and never
  gives it back: with a limit of one connection, after such a call no connection is open and nobody
  is accepting, and yet another listener that is still open is made to wait.
\<close>

theorem accept_on_closed_listener_leaks:
  "\<exists>s. conn_reachable 1 1 s \<and> conns s = [] \<and> accepting s = [] \<and> woken s = [] \<and>
       2 \<notin> closed s \<and> waiting s = [2] \<and> \<not> isAccepting (ctr s)"
proof -
  let ?s = "accept_round 2 (accept_round 1 (lsnr_Close 1 (New 1 1)))"
  have "conn_reachable 1 1 ?s" by (intro reach_accept reach_close conn_reachable.start)
  moreover have "?s = (New 1 1)\<lparr>ctr := \<lparr>current = 1, stop = 1, resume = 1, isAccepting = False\<rparr>,
      closed := {1}, waiting := [2]\<rparr>"
    by (simp add: New_def round_simps)
  ultimately show ?thesis by (intro exI [of _ ?s]) (simp add: New_def)
qed

definition ex_full :: conn_sys where
  "ex_full =
     \<lparr>ctr = \<lparr>current = 3, stop = 3, resume = 1, isAccepting = False\<rparr>, closed = {}, waiting = [2, 1],
      woken = [], accepting = [], conns = [1, 1, 1]\<rparr>"

lemma ex_full_reachable: "conn_reachable 3 1 ex_full"
proof -
  let ?acc = "\<lambda>s. (accept_round 1 s)\<lparr>accepting := [], conns := 1 # conns s\<rparr>"
  have r: "conn_reachable 3 1 (?acc s)"
    if "conn_reachable 3 1 s" "isAccepting (ctr s)" "closed s = {}" "accepting s = []" for s
    using reach_accepted [OF reach_accept [OF that(1), of 1], of 1] that
    by (simp add: round_simps)
  have "conn_reachable 3 1 (accept_round 2 (accept_round 1 (?acc (?acc (?acc (New 3 1))))))"
    by (intro reach_accept r conn_reachable.start) (simp_all add: New_def round_simps)
  then show ?thesis by (simp add: ex_full_def New_def round_simps)
qed

text \<open>
  the counter can accept connections while goroutines wait and nothing is going to wake them.  A
  closed connection wakes one waiting goroutine; when it brings the number of connections down to
  the resume threshold, several connections are allowed again, but the other goroutines keep
  waiting until further connections are closed.
\<close>

theorem waiting_although_accepting:
  "\<exists>s. conn_reachable 3 1 s \<and> isAccepting (ctr s) \<and> waiting s \<noteq> [] \<and> woken s = [] \<and> closed s = {}"
proof -
  define s1 where "s1 = ex_full\<lparr>ctr := \<lparr>current = 2, stop = 3, resume = 1, isAccepting = False\<rparr>,
      waiting := [2], woken := [1], conns := [1, 1]\<rparr>"
  define s2 where "s2 = s1\<lparr>waiting := [1, 2], woken := []\<rparr>"
  define s3 where "s3 = s2\<lparr>ctr := \<lparr>current = 1, stop = 3, resume = 1, isAccepting = True\<rparr>,
      waiting := [2], woken := [1], conns := [1]\<rparr>"
  have "signal (lsnr_decrement (ex_full\<lparr>conns := remove1 1 (conns ex_full)\<rparr>)) s1"
    using signal.somebody [of 1 "lsnr_decrement (ex_full\<lparr>conns := remove1 1 (conns ex_full)\<rparr>)"]
    by (simp add: s1_def ex_full_def round_simps)
  from reach_conn_close [OF ex_full_reachable _ this] have "conn_reachable 3 1 s1"
    by (simp add: ex_full_def)
  then have "conn_reachable 3 1 (accept_round 1 (s1\<lparr>woken := remove1 1 (woken s1)\<rparr>))"
    by (rule reach_wake) (simp add: s1_def)
  then have r2: "conn_reachable 3 1 s2" by (simp add: s1_def s2_def ex_full_def round_simps)
  have "signal (lsnr_decrement (s2\<lparr>conns := remove1 1 (conns s2)\<rparr>)) s3"
    using signal.somebody [of 1 "lsnr_decrement (s2\<lparr>conns := remove1 1 (conns s2)\<rparr>)"]
    by (simp add: s3_def s2_def s1_def ex_full_def round_simps)
  from reach_conn_close [OF r2 _ this] have "conn_reachable 3 1 s3"
    by (simp add: s2_def s1_def)
  then have "conn_reachable 3 1 (accept_round 1 (s3\<lparr>woken := remove1 1 (woken s3)\<rparr>))"
    by (rule reach_wake) (simp add: s3_def)
  then show ?thesis
    by (intro exI [of _ "accept_round 1 (s3\<lparr>woken := remove1 1 (woken s3)\<rparr>)"])
       (simp add: s3_def s2_def s1_def ex_full_def round_simps)
qed

end
