(* ===== verification/Dns_Types.thy ===== *)
theory Dns_Types
  imports Prelude
begin

text \<open>
  DNS messages as data.  The message structures are those of the DNS library that the program uses
  (github.com/miekg/dns), with a constructor for each kind of resource record and EDNS option that
  the sources inspect or build.  The functions of that library which the sources call are not part
  of the repository: they are the fields of the record \<open>dnslib\<close>, an argument of every definition
  that calls one, and \<open>dnslib_ok\<close> states what is relied on of them.  A nil slice and an empty slice
  are both the empty list; a \<^verbatim>\<open>net.IP\<close> is a list of bytes.
\<close>

subsection \<open>Constants\<close>

abbreviation (input) "TypeNone \<equiv> 0 :: 16 word"
abbreviation (input) "TypeA \<equiv> 1 :: 16 word"
abbreviation (input) "TypeNS \<equiv> 2 :: 16 word"
abbreviation (input) "TypeCNAME \<equiv> 5 :: 16 word"
abbreviation (input) "TypeSOA \<equiv> 6 :: 16 word"
abbreviation (input) "TypePTR \<equiv> 12 :: 16 word"
abbreviation (input) "TypeMX \<equiv> 15 :: 16 word"
abbreviation (input) "TypeTXT \<equiv> 16 :: 16 word"
abbreviation (input) "TypeAAAA \<equiv> 28 :: 16 word"
abbreviation (input) "TypeSRV \<equiv> 33 :: 16 word"
abbreviation (input) "TypeOPT \<equiv> 41 :: 16 word"
abbreviation (input) "TypeDS \<equiv> 43 :: 16 word"
abbreviation (input) "TypeRRSIG \<equiv> 46 :: 16 word"
abbreviation (input) "TypeNSEC \<equiv> 47 :: 16 word"
abbreviation (input) "TypeDNSKEY \<equiv> 48 :: 16 word"
abbreviation (input) "TypeNSEC3 \<equiv> 50 :: 16 word"
abbreviation (input) "TypeSVCB \<equiv> 64 :: 16 word"
abbreviation (input) "TypeHTTPS \<equiv> 65 :: 16 word"
abbreviation (input) "TypeSIG \<equiv> 24 :: 16 word"
abbreviation (input) "TypeIXFR \<equiv> 251 :: 16 word"
abbreviation (input) "TypeAXFR \<equiv> 252 :: 16 word"
abbreviation (input) "TypeANY \<equiv> 255 :: 16 word"

abbreviation (input) "ClassINET \<equiv> 1 :: 16 word"
abbreviation (input) "ClassCHAOS \<equiv> 3 :: 16 word"

abbreviation (input) "RcodeSuccess \<equiv> 0 :: int"
abbreviation (input) "RcodeFormatError \<equiv> 1 :: int"
abbreviation (input) "RcodeServerFailure \<equiv> 2 :: int"
abbreviation (input) "RcodeNameError \<equiv> 3 :: int"
abbreviation (input) "RcodeNotImplemented \<equiv> 4 :: int"
abbreviation (input) "RcodeRefused \<equiv> 5 :: int"

abbreviation (input) "OpcodeQuery \<equiv> 0 :: int"
abbreviation (input) "OpcodeNotify \<equiv> 4 :: int"

abbreviation (input) "ExtendedErrorCodeFiltered \<equiv> 17 :: 16 word"
abbreviation (input) "ExtendedErrorCodeNetworkError \<equiv> 23 :: 16 word"

subsection \<open>Resource records\<close>

type_synonym net_ip = "8 word list"

datatype svcb_kv =
    SVCBAlpn "string list"
  | SVCBDoHPath string
  | SVCBECHConfig string
  | SVCBIPv4Hint "net_ip list"
  | SVCBIPv6Hint "net_ip list"
  | SVCBLocal "16 word" string
  | SVCBMandatory "16 word list"
  | SVCBNoDefaultAlpn
  | SVCBOhttp
  | SVCBPort "16 word"

record svcb =
  svcb_Priority :: "16 word"
  svcb_Target :: string
  svcb_Value :: "svcb_kv list"

record edns_subnet =
  es_Family :: "16 word"
  SourceNetmask :: "8 word"
  SourceScope :: "8 word"
  es_Address :: net_ip

datatype edns0 =
    EDNS0_SUBNET edns_subnet
  | EDNS0_EDE "16 word" string
  | EDNS0_COOKIE string
  | EDNS0_PADDING string
  | EDNS0_TCP_KEEPALIVE "16 word"
  | EDNS0_LOCAL "16 word" string
  | EDNS0_OTHER "16 word" string

record soa =
  soa_Ns :: string
  soa_Mbox :: string
  soa_Serial :: "32 word"
  soa_Refresh :: "32 word"
  soa_Retry :: "32 word"
  soa_Expire :: "32 word"
  soa_Minttl :: "32 word"

text \<open>The last constructor stands for every record type that the sources do not inspect.\<close>

datatype rdata =
    RD_A net_ip
  | RD_AAAA net_ip
  | RD_CNAME string
  | RD_MX "16 word" string
  | RD_PTR string
  | RD_SRV "16 word" "16 word" "16 word" string
  | RD_TXT "string list"
  | RD_SVCB svcb
  | RD_HTTPS svcb
  | RD_SOA soa
  | RD_OPT "edns0 list"
  | RD_OTHER string

record rr_header =
  rr_Name :: string
  Rrtype :: "16 word"
  rr_Class :: "16 word"
  Ttl :: "32 word"

record rr =
  Hdr :: rr_header
  Data :: rdata

fun is_opt_data :: "rdata \<Rightarrow> bool" where
  "is_opt_data (RD_OPT _) = True"
| "is_opt_data _ = False"

abbreviation is_opt :: "rr \<Rightarrow> bool" where
  "is_opt r \<equiv> is_opt_data (Data r)"

fun opt_options :: "rdata \<Rightarrow> edns0 list" where
  "opt_options (RD_OPT os) = os"
| "opt_options _ = []"

subsection \<open>Messages\<close>

record question =
  q_Name :: string
  Qtype :: "16 word"
  Qclass :: "16 word"

record msg =
  Id :: "16 word"
  Response :: bool
  Opcode :: int
  Authoritative :: bool
  Truncated :: bool
  RecursionDesired :: bool
  RecursionAvailable :: bool
  Zero :: bool
  AuthenticatedData :: bool
  CheckingDisabled :: bool
  Rcode :: int
  Compress :: bool
  Question :: "question list"
  Answer :: "rr list"
  Ns :: "rr list"
  Extra :: "rr list"

definition empty_msg :: msg where
  "empty_msg =
     \<lparr>Id = 0, Response = False, Opcode = 0, Authoritative = False, Truncated = False,
      RecursionDesired = False, RecursionAvailable = False, Zero = False,
      AuthenticatedData = False, CheckingDisabled = False, Rcode = 0, Compress = False,
      Question = [], Answer = [], Ns = [], Extra = []\<rparr>"

text \<open>
  The first question of a message, which the sources index without a check: a message without a
  question makes the program panic, so the statements about requests assume that there is one.
\<close>

definition question0 :: "msg \<Rightarrow> question" where
  "question0 m = hd (Question m)"

text \<open>
  The records of a parsed message have the header type of their structure, at least for OPT records.
\<close>

definition opt_consistent :: "msg \<Rightarrow> bool" where
  "opt_consistent m \<longleftrightarrow> (\<forall>r \<in> set (Extra m). is_opt r \<longleftrightarrow> Rrtype (Hdr r) = TypeOPT)"

subsection \<open>The functions of the DNS library\<close>

text \<open>
  \<open>dl_IsEdns0\<close> returns the position in the additional section of the OPT record that the library
  returns a pointer to; the accessors of the DO bit and of the UDP size work on the header of that
  record; \<open>dl_IsSubDomain\<close> takes the parent first.
\<close>

record dnslib =
  dl_SetReply :: "msg \<Rightarrow> msg \<Rightarrow> msg"
  dl_IsEdns0 :: "msg \<Rightarrow> nat option"
  dl_Do :: "rr_header \<Rightarrow> bool"
  dl_SetDo :: "bool \<Rightarrow> rr_header \<Rightarrow> rr_header"
  dl_UDPSize :: "rr_header \<Rightarrow> 16 word"
  dl_SetUDPSize :: "16 word \<Rightarrow> rr_header \<Rightarrow> rr_header"
  dl_Fqdn :: "string \<Rightarrow> string"
  dl_Len :: "msg \<Rightarrow> nat"
  dl_IsSubDomain :: "string \<Rightarrow> string \<Rightarrow> bool"

definition dnslib_ok :: "dnslib \<Rightarrow> bool" where
  "dnslib_ok L \<longleftrightarrow>
     (\<forall>m req.
        Id (dl_SetReply L m req) = Id req \<and> Response (dl_SetReply L m req) \<and>
        Rcode (dl_SetReply L m req) = RcodeSuccess \<and>
        Question (dl_SetReply L m req) = (if Question req = [] then Question m else [question0 req]) \<and>
        RecursionAvailable (dl_SetReply L m req) = RecursionAvailable m \<and>
        Compress (dl_SetReply L m req) = Compress m \<and>
        Truncated (dl_SetReply L m req) = Truncated m \<and>
        AuthenticatedData (dl_SetReply L m req) = AuthenticatedData m \<and>
        Answer (dl_SetReply L m req) = Answer m \<and> Ns (dl_SetReply L m req) = Ns m \<and>
        Extra (dl_SetReply L m req) = Extra m) \<and>
     (\<forall>m i. opt_consistent m \<longrightarrow> dl_IsEdns0 L m = Some i \<longrightarrow> i < length (Extra m) \<and> is_opt (Extra m ! i)) \<and>
     (\<forall>m. opt_consistent m \<longrightarrow> (dl_IsEdns0 L m = None \<longleftrightarrow> (\<forall>r \<in> set (Extra m). \<not> is_opt r))) \<and>
     (\<forall>b h. dl_Do L (dl_SetDo L b h) = b \<and> dl_UDPSize L (dl_SetDo L b h) = dl_UDPSize L h \<and>
        rr_Name (dl_SetDo L b h) = rr_Name h \<and> Rrtype (dl_SetDo L b h) = Rrtype h) \<and>
     (\<forall>n h. dl_UDPSize L (dl_SetUDPSize L n h) = n \<and> dl_Do L (dl_SetUDPSize L n h) = dl_Do L h \<and>
        rr_Name (dl_SetUDPSize L n h) = rr_Name h \<and> Rrtype (dl_SetUDPSize L n h) = Rrtype h) \<and>
     (\<forall>s. CHR 0x5C \<notin> set s \<longrightarrow> dl_Fqdn L s = (if has_suffix s ''.'' then s else s @ ''.''))"

text \<open>
  A concrete library that satisfies the laws, for evaluating the model on examples.  The DO bit is bit
  15 of the TTL field of an OPT header and the UDP size is its class field.
\<close>

fun find_opt :: "nat \<Rightarrow> rr list \<Rightarrow> nat option" where
  "find_opt i [] = None"
| "find_opt i (r # rs) = (if Rrtype (Hdr r) = TypeOPT then Some i else find_opt (Suc i) rs)"

definition set_bit15 :: "bool \<Rightarrow> 32 word \<Rightarrow> 32 word" where
  "set_bit15 b w = (if b then or w 0x8000 else and w (not 0x8000))"

definition dnslib_std :: dnslib where
  "dnslib_std =
     \<lparr>dl_SetReply = (\<lambda>m req. m\<lparr>Id := Id req, Response := True, Opcode := Opcode req,
        RecursionDesired := (if Opcode req = OpcodeQuery then RecursionDesired req else RecursionDesired m),
        CheckingDisabled := (if Opcode req = OpcodeQuery then CheckingDisabled req else CheckingDisabled m),
        Rcode := RcodeSuccess,
        Question := (if Question req = [] then Question m else [question0 req])\<rparr>),
      dl_IsEdns0 = (\<lambda>m. find_opt 0 (Extra m)),
      dl_Do = (\<lambda>h. bit (Ttl h) 15),
      dl_SetDo = (\<lambda>b h. h\<lparr>Ttl := set_bit15 b (Ttl h)\<rparr>),
      dl_UDPSize = rr_Class,
      dl_SetUDPSize = (\<lambda>n h. h\<lparr>rr_Class := n\<rparr>),
      dl_Fqdn = (\<lambda>s. if has_suffix s ''.'' then s else s @ ''.''),
      dl_Len = (\<lambda>m. 12 + 16 * (length (Answer m) + length (Ns m) + length (Extra m))),
      dl_IsSubDomain = (\<lambda>p s. has_suffix s p)\<rparr>"

lemma find_opt_Some: "find_opt k rs = Some i \<Longrightarrow> k \<le> i \<and> i - k < length rs \<and> Rrtype (Hdr (rs ! (i - k))) = TypeOPT"
proof (induction k rs rule: find_opt.induct)
  case (2 k r rs)
  then show ?case by (auto simp: nth_Cons' Suc_diff_le split: if_splits)
qed simp

lemma find_opt_None: "find_opt k rs = None \<longleftrightarrow> (\<forall>r \<in> set rs. Rrtype (Hdr r) \<noteq> TypeOPT)"
  by (induction k rs rule: find_opt.induct) auto

lemma set_bit15_bit [simp]: "bit (set_bit15 b w) 15 = b"
  by (simp add: set_bit15_def bit_simps)

lemma dnslib_std_ok: "dnslib_ok dnslib_std"
proof -
  have some: "\<forall>m i. opt_consistent m \<longrightarrow> dl_IsEdns0 dnslib_std m = Some i \<longrightarrow>
      i < length (Extra m) \<and> is_opt (Extra m ! i)"
    using find_opt_Some [of 0] by (fastforce simp: dnslib_std_def opt_consistent_def)
  have none: "\<forall>m. opt_consistent m \<longrightarrow>
      (dl_IsEdns0 dnslib_std m = None) = (\<forall>r \<in> set (Extra m). \<not> is_opt r)"
    by (simp add: dnslib_std_def find_opt_None opt_consistent_def)
  show ?thesis
    unfolding dnslib_ok_def
    by (intro conjI some none) (simp_all add: dnslib_std_def)
qed

lemma dnslib_okD:
  assumes "dnslib_ok L"
  shows "Id (dl_SetReply L m req) = Id req" and "Response (dl_SetReply L m req)"
    and "Rcode (dl_SetReply L m req) = RcodeSuccess"
    and "Question (dl_SetReply L m req) = (if Question req = [] then Question m else [question0 req])"
    and "RecursionAvailable (dl_SetReply L m req) = RecursionAvailable m"
    and "Answer (dl_SetReply L m req) = Answer m" and "Ns (dl_SetReply L m req) = Ns m"
    and "Extra (dl_SetReply L m req) = Extra m"
  using assms by (simp_all add: dnslib_ok_def)

lemma dnslib_ok_edns:
  assumes "dnslib_ok L" and "opt_consistent m"
  shows "dl_IsEdns0 L m = Some i \<Longrightarrow> i < length (Extra m) \<and> is_opt (Extra m ! i)"
    and "dl_IsEdns0 L m = None \<longleftrightarrow> (\<forall>r \<in> set (Extra m). \<not> is_opt r)"
  using assms by (simp_all add: dnslib_ok_def)

end
