(* ===== verification/Dns_Msg.thy ===== *)
theory Dns_Msg
  imports Dns_Types
begin

text \<open>
  Inspection and construction of DNS messages, \<open>internal/dnsmsg\<close>: the EDNS Client Subnet option, the
  lowest TTL of a message, and the constructor of blocked and modified responses with its blocking
  modes and extended errors.  The constructor takes OPT records from the pool of its cloner; as
  \<open>newOPT\<close> does not overwrite the whole header, the header that the pool hands out is part of the state of
  the constructor (the zero header for a new record).  All other records of the pool are overwritten
  completely.
\<close>

subsection \<open>Inspection\<close>

definition IsDO :: "dnslib \<Rightarrow> msg \<Rightarrow> bool" where
  "IsDO L m = (case dl_IsEdns0 L m of None \<Rightarrow> False | Some i \<Rightarrow> dl_Do L (Hdr (Extra m ! i)))"

datatype ecs_error = BadFamily "16 word" | BadAddr | BadNetmask int | NonZeroBits

definition AddrFamilyIPv4 :: "16 word" where
  "AddrFamilyIPv4 = 1"

definition AddrFamilyIPv6 :: "16 word" where
  "AddrFamilyIPv6 = 2"

definition prefix_masked :: "prefix \<Rightarrow> prefix" where
  "prefix_masked p =
     (if prefix_is_valid p then \<lparr>pfx_addr = addr_mask (pfx_addr p) (nat (pfx_bits p)), pfx_bits = pfx_bits p\<rparr>
      else prefix_invalid)"

text \<open>\<open>ipToAddr\<close> is the conversion of golibs from a byte slice to an address of a family.\<close>

definition ecsData ::
  "(net_ip \<Rightarrow> 16 word \<Rightarrow> addr option) \<Rightarrow> edns_subnet \<Rightarrow> (ecs_error, prefix \<times> 8 word) result" where
  "ecsData ipToAddr esn =
     (let fam = es_Family esn
      in if fam \<noteq> AddrFamilyIPv4 \<and> fam \<noteq> AddrFamilyIPv6 then Inl (BadFamily fam)
         else (case ipToAddr (es_Address esn) fam of
                 None \<Rightarrow> Inl BadAddr
               | Some ip \<Rightarrow>
                   (let prefixLen = uint (SourceNetmask esn);
                        subnet = prefix_from ip prefixLen
                    in if \<not> prefix_is_valid subnet then Inl (BadNetmask prefixLen)
                       else if prefix_masked subnet \<noteq> subnet then Inl NonZeroBits
                       else Inr (subnet, SourceScope esn))))"

fun ecs_options ::
  "(net_ip \<Rightarrow> 16 word \<Rightarrow> addr option) \<Rightarrow> edns0 list \<Rightarrow> (ecs_error, prefix \<times> 8 word) result" where
  "ecs_options ipToAddr [] = Inr (prefix_invalid, 0)"
| "ecs_options ipToAddr (EDNS0_SUBNET esn # os) =
     (case ecsData ipToAddr esn of
        Inl e \<Rightarrow> Inl e
      | Inr (subnet, scope) \<Rightarrow>
          if subnet \<noteq> prefix_invalid then Inr (subnet, scope) else ecs_options ipToAddr os)"
| "ecs_options ipToAddr (_ # os) = ecs_options ipToAddr os"

definition ECSFromMsg ::
  "dnslib \<Rightarrow> (net_ip \<Rightarrow> 16 word \<Rightarrow> addr option) \<Rightarrow> msg \<Rightarrow> (ecs_error, prefix \<times> 8 word) result" where
  "ECSFromMsg L ipToAddr m =
     (case dl_IsEdns0 L m of
        None \<Rightarrow> Inr (prefix_invalid, 0)
      | Some i \<Rightarrow> ecs_options ipToAddr (opt_options (Data (Extra m ! i))))"

definition set_ttl :: "32 word \<Rightarrow> rr \<Rightarrow> rr" where
  "set_ttl t r = r\<lparr>Hdr := (Hdr r)\<lparr>Ttl := t\<rparr>\<rparr>"

definition SetMinTTL :: "32 word \<Rightarrow> msg \<Rightarrow> msg" where
  "SetMinTTL minTTL m = m\<lparr>Answer := map (\<lambda>r. set_ttl (max (Ttl (Hdr r)) minTTL) r) (Answer m)\<rparr>"

definition ServFailMaxCacheTTL :: "32 word" where
  "ServFailMaxCacheTTL = 30"

definition getTTLIfLower :: "rr \<Rightarrow> 32 word \<Rightarrow> 32 word" where
  "getTTLIfLower r ttl =
     (case Data r of
        RD_OPT _ \<Rightarrow> ttl
      | RD_SOA s \<Rightarrow>
          (let ttl = (if 0 < soa_Minttl s \<and> soa_Minttl s < ttl then soa_Minttl s else ttl)
           in min (Ttl (Hdr r)) ttl)
      | _ \<Rightarrow> min (Ttl (Hdr r)) ttl)"

text \<open>The two nested loops over the records of the three sections; \<open>None\<close> is the early return of zero.\<close>

fun lowest_ttl :: "rr list \<Rightarrow> 32 word \<Rightarrow> 32 word option" where
  "lowest_ttl [] ttl = Some ttl"
| "lowest_ttl (r # rs) ttl =
     (let ttl = getTTLIfLower r ttl in if ttl = 0 then None else lowest_ttl rs ttl)"

definition FindLowestTTL :: "msg \<Rightarrow> 32 word" where
  "FindLowestTTL m =
     (case lowest_ttl (Answer m @ Ns m @ Extra m) (- 1) of
        None \<Rightarrow> 0
      | Some ttl \<Rightarrow>
          if Rcode m = RcodeServerFailure \<and> ServFailMaxCacheTTL < ttl then ServFailMaxCacheTTL
          else if ttl = - 1 then 0
          else ttl)"

subsection \<open>The constructor\<close>

datatype blocking_mode =
    BlockingModeCustomIP "addr list" "addr list"
  | BlockingModeNullIP
  | BlockingModeNXDOMAIN
  | BlockingModeREFUSED

record constructor =
  c_optPool :: rr_header
  c_blockingMode :: blocking_mode
  c_sde :: string
  c_fltRespTTL :: duration
  c_edeEnabled :: bool

datatype msg_error = BadQtype | BadIPv4 | BadIPv6 | TxtTooLong nat

definition MaxTXTStringLen :: nat where
  "MaxTXTStringLen = 255"

definition newHdrWithClass :: "constructor \<Rightarrow> string \<Rightarrow> 16 word \<Rightarrow> 16 word \<Rightarrow> rr_header" where
  "newHdrWithClass c fqdn rrType cl =
     \<lparr>rr_Name = fqdn, Rrtype = rrType, rr_Class = cl, Ttl = word_of_int (c_fltRespTTL c div nsec_per_sec)\<rparr>"

definition newHdr :: "constructor \<Rightarrow> msg \<Rightarrow> 16 word \<Rightarrow> rr_header" where
  "newHdr c req rrType = newHdrWithClass c (q_Name (question0 req)) rrType ClassINET"

text \<open>The strings of a debug TXT record: the whole string, or its cuts of the maximal length.\<close>

definition debug_strings :: "string \<Rightarrow> string list" where
  "debug_strings str =
     (let strLen = length str
      in if strLen \<le> MaxTXTStringLen then [str]
         else
           (let strNum = (strLen + MaxTXTStringLen - 1) div MaxTXTStringLen
            in map (\<lambda>i. let start = i * MaxTXTStringLen
                        in if i = strNum - 1 then drop start str
                           else take MaxTXTStringLen (drop start str)) [0..<strNum]))"

definition AppendDebugExtra :: "constructor \<Rightarrow> msg \<Rightarrow> msg \<Rightarrow> string \<Rightarrow> (msg_error, msg) result" where
  "AppendDebugExtra c req resp str =
     (if Qtype (question0 req) \<noteq> TypeTXT then Inl BadQtype
      else Inr (resp\<lparr>Extra := Extra resp @
        [\<lparr>Hdr = newHdrWithClass c (q_Name (question0 req)) TypeTXT ClassCHAOS,
          Data = RD_TXT (debug_strings str)\<rparr>]\<rparr>))"

definition addr_bytes :: "addr \<Rightarrow> net_ip" where
  "addr_bytes a =
     (case a of
        AddrZero \<Rightarrow> []
      | Addr4 w \<Rightarrow> map (\<lambda>i. ucast (drop_bit (8 * (3 - i)) w)) [0..<4]
      | Addr6 w _ \<Rightarrow> map (\<lambda>i. ucast (drop_bit (8 * (15 - i)) w)) [0..<16])"

definition NewAnswerA :: "constructor \<Rightarrow> string \<Rightarrow> addr \<Rightarrow> (msg_error, rr) result" where
  "NewAnswerA c fqdn ip =
     (if ip \<noteq> AddrZero \<and> \<not> addr_is4 ip then Inl BadIPv4
      else Inr \<lparr>Hdr = newHdrWithClass c fqdn TypeA ClassINET,
                Data = RD_A (addr_bytes (if ip = AddrZero then Addr4 0 else ip))\<rparr>)"

definition NewAnswerAAAA :: "constructor \<Rightarrow> string \<Rightarrow> addr \<Rightarrow> (msg_error, rr) result" where
  "NewAnswerAAAA c fqdn ip =
     (if ip \<noteq> AddrZero \<and> \<not> addr_is6 ip then Inl BadIPv6
      else Inr \<lparr>Hdr = newHdrWithClass c fqdn TypeAAAA ClassINET,
                Data = RD_AAAA (addr_bytes (if ip = AddrZero then Addr6 0 [] else ip))\<rparr>)"

definition NewAnswerCNAME :: "dnslib \<Rightarrow> constructor \<Rightarrow> msg \<Rightarrow> string \<Rightarrow> rr" where
  "NewAnswerCNAME L c req target = \<lparr>Hdr = newHdr c req TypeCNAME, Data = RD_CNAME (dl_Fqdn L target)\<rparr>"

definition NewAnswerMX :: "dnslib \<Rightarrow> constructor \<Rightarrow> msg \<Rightarrow> string \<Rightarrow> 16 word \<Rightarrow> rr" where
  "NewAnswerMX L c req exchange preference =
     \<lparr>Hdr = newHdr c req TypeMX, Data = RD_MX preference (dl_Fqdn L exchange)\<rparr>"

definition NewAnswerPTR :: "dnslib \<Rightarrow> constructor \<Rightarrow> msg \<Rightarrow> string \<Rightarrow> rr" where
  "NewAnswerPTR L c req ptr = \<lparr>Hdr = newHdr c req TypePTR, Data = RD_PTR (dl_Fqdn L ptr)\<rparr>"

definition NewAnswerSRV ::
  "dnslib \<Rightarrow> constructor \<Rightarrow> msg \<Rightarrow> string \<Rightarrow> 16 word \<Rightarrow> 16 word \<Rightarrow> 16 word \<Rightarrow> rr" where
  "NewAnswerSRV L c req target prio weight port =
     \<lparr>Hdr = newHdr c req TypeSRV, Data = RD_SRV prio weight port (dl_Fqdn L target)\<rparr>"

fun too_long :: "nat \<Rightarrow> string list \<Rightarrow> nat option" where
  "too_long i [] = None"
| "too_long i (s # ss) = (if MaxTXTStringLen < length s then Some i else too_long (Suc i) ss)"

definition NewAnswerTXT :: "constructor \<Rightarrow> msg \<Rightarrow> string list \<Rightarrow> (msg_error, rr) result" where
  "NewAnswerTXT c req strs =
     (if Qtype (question0 req) \<noteq> TypeTXT then Inl BadQtype
      else (case too_long 0 strs of
              Some i \<Rightarrow> Inl (TxtTooLong i)
            | None \<Rightarrow> Inr \<lparr>Hdr = newHdr c req TypeTXT, Data = RD_TXT strs\<rparr>))"

definition newSOARecords :: "constructor \<Rightarrow> msg \<Rightarrow> rr list" where
  "newSOARecords c req =
     (let zone = (if Question req \<noteq> [] then q_Name (question0 req) else [])
      in [\<lparr>Hdr = newHdrWithClass c zone TypeSOA ClassINET,
           Data = RD_SOA \<lparr>soa_Ns = ''fake-for-negative-caching.adguard.com.'',
             soa_Mbox = ''hostmaster.'' @ (if zone \<noteq> [] \<and> hd zone \<noteq> CHR ''.'' then zone else []),
             soa_Serial = 100500, soa_Refresh = 1800, soa_Retry = 900, soa_Expire = 604800,
             soa_Minttl = 86400\<rparr>\<rparr>])"

definition NewResp :: "dnslib \<Rightarrow> msg \<Rightarrow> msg" where
  "NewResp L req = dl_SetReply L (empty_msg\<lparr>RecursionAvailable := True, Compress := True\<rparr>) req"

fun add_answers ::
  "(addr \<Rightarrow> (msg_error, rr) result) \<Rightarrow> addr list \<Rightarrow> msg \<Rightarrow> (msg_error, msg) result" where
  "add_answers newAns [] m = Inr m"
| "add_answers newAns (ip # ips) m =
     (case newAns ip of
        Inl e \<Rightarrow> Inl e
      | Inr ans \<Rightarrow> add_answers newAns ips (m\<lparr>Answer := Answer m @ [ans]\<rparr>))"

definition newMsgA :: "dnslib \<Rightarrow> constructor \<Rightarrow> msg \<Rightarrow> addr list \<Rightarrow> (msg_error, msg) result" where
  "newMsgA L c req ips = add_answers (NewAnswerA c (q_Name (question0 req))) ips (NewResp L req)"

definition newMsgAAAA :: "dnslib \<Rightarrow> constructor \<Rightarrow> msg \<Rightarrow> addr list \<Rightarrow> (msg_error, msg) result" where
  "newMsgAAAA L c req ips = add_answers (NewAnswerAAAA c (q_Name (question0 req))) ips (NewResp L req)"

subsection \<open>Responses\<close>

fun findEDE :: "edns0 list \<Rightarrow> (16 word \<times> string) option" where
  "findEDE [] = None"
| "findEDE (EDNS0_EDE code text # os) = Some (code, text)"
| "findEDE (_ # os) = findEDE os"

definition sdeForReqOpt :: "constructor \<Rightarrow> edns0 list \<Rightarrow> string" where
  "sdeForReqOpt c os = (case findEDE os of Some (code, text) \<Rightarrow> if code = 0 \<and> text = [] then c_sde c else [] | None \<Rightarrow> [])"

definition newOPT :: "dnslib \<Rightarrow> constructor \<Rightarrow> 16 word \<Rightarrow> bool \<Rightarrow> rr" where
  "newOPT L c udpSize doBit =
     \<lparr>Hdr = dl_SetDo L doBit (dl_SetUDPSize L udpSize ((c_optPool c)\<lparr>rr_Name := ''.'', Rrtype := TypeOPT\<rparr>)),
      Data = RD_OPT []\<rparr>"

text \<open>Appending an option to the OPT record at a position of the additional section.\<close>

definition add_option :: "nat \<Rightarrow> edns0 \<Rightarrow> msg \<Rightarrow> msg" where
  "add_option i opt m =
     m\<lparr>Extra := (Extra m)[i := (Extra m ! i)\<lparr>Data := RD_OPT (opt_options (Data (Extra m ! i)) @ [opt])\<rparr>]\<rparr>"

definition AddEDE :: "dnslib \<Rightarrow> constructor \<Rightarrow> msg \<Rightarrow> 16 word \<Rightarrow> msg \<Rightarrow> msg" where
  "AddEDE L c req code resp =
     (if \<not> c_edeEnabled c then resp
      else (case dl_IsEdns0 L req of
              None \<Rightarrow> resp
            | Some i \<Rightarrow>
                (let reqOpt = Extra req ! i;
                     ede = EDNS0_EDE code (sdeForReqOpt c (opt_options (Data reqOpt)))
                 in case dl_IsEdns0 L resp of
                      None \<Rightarrow>
                        add_option (length (Extra resp)) ede
                          (resp\<lparr>Extra := Extra resp @
                             [newOPT L c (dl_UDPSize L (Hdr reqOpt)) (dl_Do L (Hdr reqOpt))]\<rparr>)
                    | Some j \<Rightarrow>
                        if findEDE (opt_options (Data (Extra resp ! j))) \<noteq> None then resp
                        else add_option j ede resp)))"

definition NewRespRCode :: "dnslib \<Rightarrow> constructor \<Rightarrow> msg \<Rightarrow> int \<Rightarrow> msg" where
  "NewRespRCode L c req rc = (NewResp L req)\<lparr>Rcode := rc, Ns := newSOARecords c req\<rparr>"

definition NewBlockedRespRCode :: "dnslib \<Rightarrow> constructor \<Rightarrow> msg \<Rightarrow> int \<Rightarrow> msg" where
  "NewBlockedRespRCode L c req rc =
     AddEDE L c req ExtendedErrorCodeFiltered ((NewResp L req)\<lparr>Rcode := rc\<rparr>)"

definition NewRespTXT :: "dnslib \<Rightarrow> constructor \<Rightarrow> msg \<Rightarrow> string list \<Rightarrow> (msg_error, msg) result" where
  "NewRespTXT L c req strs =
     (case NewAnswerTXT c req strs of
        Inl e \<Rightarrow> Inl e
      | Inr ans \<Rightarrow> Inr ((NewResp L req)\<lparr>Answer := Answer (NewResp L req) @ [ans]\<rparr>))"

definition NewRespIP :: "dnslib \<Rightarrow> constructor \<Rightarrow> msg \<Rightarrow> addr list \<Rightarrow> (msg_error, msg) result" where
  "NewRespIP L c req ips =
     (let qt = Qtype (question0 req)
      in if qt = TypeA then newMsgA L c req ips
         else if qt = TypeAAAA then newMsgAAAA L c req ips
         else Inl BadQtype)"

definition NewBlockedRespIP :: "dnslib \<Rightarrow> constructor \<Rightarrow> msg \<Rightarrow> addr list \<Rightarrow> (msg_error, msg) result" where
  "NewBlockedRespIP L c req ips =
     (let qt = Qtype (question0 req)
      in if qt = TypeA then newMsgA L c req ips
         else if qt = TypeAAAA then newMsgAAAA L c req ips
         else Inl BadQtype)"

definition NewBlockedNullIPResp :: "dnslib \<Rightarrow> constructor \<Rightarrow> msg \<Rightarrow> (msg_error, msg) result" where
  "NewBlockedNullIPResp L c req =
     (let qt = Qtype (question0 req);
          r = (if qt = TypeA then newMsgA L c req [AddrZero]
               else if qt = TypeAAAA then newMsgAAAA L c req [AddrZero]
               else Inl BadQtype)
      in case r of
           Inl e \<Rightarrow> Inl e
         | Inr resp \<Rightarrow> Inr (AddEDE L c req ExtendedErrorCodeFiltered resp))"

definition newBlockedCustomIPResp ::
  "dnslib \<Rightarrow> constructor \<Rightarrow> msg \<Rightarrow> addr list \<Rightarrow> addr list \<Rightarrow> (msg_error, msg) result" where
  "newBlockedCustomIPResp L c req ipv4 ipv6 =
     (let qt = Qtype (question0 req)
      in if qt = TypeA \<and> 0 < length ipv4 then NewBlockedRespIP L c req ipv4
         else if qt = TypeAAAA \<and> 0 < length ipv6 then NewBlockedRespIP L c req ipv6
         else Inr ((NewBlockedRespRCode L c req RcodeSuccess)\<lparr>Ns := newSOARecords c req\<rparr>))"

definition NewBlockedResp ::
  "dnslib \<Rightarrow> constructor \<Rightarrow> msg \<Rightarrow> blocking_mode option \<Rightarrow> (msg_error, msg) result" where
  "NewBlockedResp L c req mode =
     (case (case mode of None \<Rightarrow> c_blockingMode c | Some m \<Rightarrow> m) of
        BlockingModeCustomIP ipv4 ipv6 \<Rightarrow> newBlockedCustomIPResp L c req ipv4 ipv6
      | BlockingModeNullIP \<Rightarrow>
          if Qtype (question0 req) = TypeA \<or> Qtype (question0 req) = TypeAAAA
          then NewBlockedNullIPResp L c req
          else Inr ((NewBlockedRespRCode L c req RcodeSuccess)\<lparr>Ns := newSOARecords c req\<rparr>)
      | BlockingModeNXDOMAIN \<Rightarrow>
          Inr ((NewBlockedRespRCode L c req RcodeNameError)\<lparr>Ns := newSOARecords c req\<rparr>)
      | BlockingModeREFUSED \<Rightarrow>
          Inr ((NewBlockedRespRCode L c req RcodeRefused)\<lparr>Ns := newSOARecords c req\<rparr>))"

end
