(* ===== verification/Dns_Msg_Laws.thy ===== *)
theory Dns_Msg_Laws
  imports Dns_Msg
begin

text \<open>
  The properties of the message constructor: the shape of blocked responses in every blocking mode,
  extended errors, the lowest TTL, the cutting of long debug strings, and valid client subnets.
\<close>

subsection \<open>Blocked responses\<close>

text \<open>The addresses that a blocking mode answers with for a question type, if any.\<close>

fun mode_answers :: "blocking_mode \<Rightarrow> 16 word \<Rightarrow> addr list" where
  "mode_answers (BlockingModeCustomIP ipv4 ipv6) qt =
     (if qt = TypeA then ipv4 else if qt = TypeAAAA then ipv6 else [])"
| "mode_answers BlockingModeNullIP qt =
     (if qt = TypeA then [Addr4 0] else if qt = TypeAAAA then [Addr6 0 []] else [])"
| "mode_answers _ qt = []"

fun mode_rcode :: "blocking_mode \<Rightarrow> int" where
  "mode_rcode BlockingModeNXDOMAIN = RcodeNameError"
| "mode_rcode BlockingModeREFUSED = RcodeRefused"
| "mode_rcode _ = RcodeSuccess"

text \<open>The custom addresses are of the right family, as their documentation requires.\<close>

fun mode_ok :: "blocking_mode \<Rightarrow> bool" where
  "mode_ok (BlockingModeCustomIP ipv4 ipv6) \<longleftrightarrow> list_all addr_is4 ipv4 \<and> list_all addr_is6 ipv6"
| "mode_ok _ \<longleftrightarrow> True"

definition ip_answer :: "constructor \<Rightarrow> msg \<Rightarrow> addr \<Rightarrow> rr" where
  "ip_answer c req ip =
     \<lparr>Hdr = newHdr c req (Qtype (question0 req)),
      Data = (if addr_is4 ip then RD_A (addr_bytes ip) else RD_AAAA (addr_bytes ip))\<rparr>"

lemma AddEDE_sel [simp]:
  "Id (AddEDE L c req code m) = Id m" "Response (AddEDE L c req code m) = Response m"
  "Rcode (AddEDE L c req code m) = Rcode m" "Question (AddEDE L c req code m) = Question m"
  "Answer (AddEDE L c req code m) = Answer m" "Ns (AddEDE L c req code m) = Ns m"
  by (simp_all add: AddEDE_def add_option_def Let_def split: option.splits)

lemma NewResp_sel:
  assumes "dnslib_ok L"
  shows "Id (NewResp L req) = Id req" "Response (NewResp L req)" "Rcode (NewResp L req) = RcodeSuccess"
    "Question req \<noteq> [] \<Longrightarrow> Question (NewResp L req) = [question0 req]"
    "Answer (NewResp L req) = []" "Ns (NewResp L req) = []" "Extra (NewResp L req) = []"
  by (simp_all add: NewResp_def dnslib_okD [OF assms] empty_msg_def)

lemma add_answers_ok:
  assumes "\<And>ip. ip \<in> set ips \<Longrightarrow> newAns ip = Inr (f ip)"
  shows "add_answers newAns ips m = Inr (m\<lparr>Answer := Answer m @ map f ips\<rparr>)"
  using assms by (induction ips arbitrary: m) simp_all

lemma newMsgA_ok:
  assumes "dnslib_ok L" "Qtype (question0 req) = TypeA" "list_all addr_is4 ips"
  shows "newMsgA L c req ips = Inr ((NewResp L req)\<lparr>Answer := map (ip_answer c req) ips\<rparr>)"
proof -
  have "NewAnswerA c (q_Name (question0 req)) ip = Inr (ip_answer c req ip)" if "ip \<in> set ips" for ip
  proof -
    from that assms(3) have "addr_is4 ip" by (simp add: list_all_iff)
    with assms(2) show ?thesis by (cases ip) (simp_all add: NewAnswerA_def ip_answer_def newHdr_def)
  qed
  from add_answers_ok [OF this] show ?thesis by (simp add: newMsgA_def NewResp_sel [OF assms(1)])
qed

lemma newMsgAAAA_ok:
  assumes "dnslib_ok L" "Qtype (question0 req) = TypeAAAA" "list_all addr_is6 ips"
  shows "newMsgAAAA L c req ips = Inr ((NewResp L req)\<lparr>Answer := map (ip_answer c req) ips\<rparr>)"
proof -
  have "NewAnswerAAAA c (q_Name (question0 req)) ip = Inr (ip_answer c req ip)" if "ip \<in> set ips" for ip
  proof -
    from that assms(3) have "addr_is6 ip" by (simp add: list_all_iff)
    with assms(2) show ?thesis by (cases ip) (simp_all add: NewAnswerAAAA_def ip_answer_def newHdr_def)
  qed
  from add_answers_ok [OF this] show ?thesis by (simp add: newMsgAAAA_def NewResp_sel [OF assms(1)])
qed

lemma newMsg_null:
  assumes "dnslib_ok L"
  shows "Qtype (question0 req) = TypeA \<Longrightarrow>
      newMsgA L c req [AddrZero] = Inr ((NewResp L req)\<lparr>Answer := [ip_answer c req (Addr4 0)]\<rparr>)"
    and "Qtype (question0 req) = TypeAAAA \<Longrightarrow>
      newMsgAAAA L c req [AddrZero] = Inr ((NewResp L req)\<lparr>Answer := [ip_answer c req (Addr6 0 [])]\<rparr>)"
  by (simp_all add: newMsgA_def newMsgAAAA_def NewAnswerA_def NewAnswerAAAA_def ip_answer_def newHdr_def
      NewResp_sel [OF assms])


definition ex_constructor :: constructor where
  "ex_constructor =
     \<lparr>c_optPool = \<lparr>rr_Name = [], Rrtype = 0, rr_Class = 0, Ttl = 0\<rparr>, c_blockingMode = BlockingModeNullIP,
      c_sde = [], c_fltRespTTL = 10 * nsec_per_sec, c_edeEnabled = True\<rparr>"

definition ex_request :: "string \<Rightarrow> 16 word \<Rightarrow> msg" where
  "ex_request name qt = empty_msg\<lparr>Id := 7, Question := [\<lparr>q_Name = name, Qtype = qt, Qclass = ClassINET\<rparr>]\<rparr>"


subsection \<open>Extended errors\<close>

definition opts :: "msg \<Rightarrow> rr list" where
  "opts m = filter is_opt (Extra m)"

lemma filter_opt_nth:
  assumes "length (filter P xs) \<le> 1" "i < length xs" "P (xs ! i)" "j < length xs" "P (xs ! j)"
  shows "i = j"
proof (rule ccontr)
  assume "i \<noteq> j"
  have "card {k. k < length xs \<and> P (xs ! k)} \<le> 1" using assms(1) by (simp add: length_filter_conv_card)
  moreover have "{i, j} \<subseteq> {k. k < length xs \<and> P (xs ! k)}" using assms by auto
  then have "card {i, j} \<le> card {k. k < length xs \<and> P (xs ! k)}" by (intro card_mono) auto
  ultimately show False using \<open>i \<noteq> j\<close> by simp
qed

lemma filter_update_true:
  "i < length xs \<Longrightarrow> P (xs ! i) \<Longrightarrow> P y \<Longrightarrow> length (filter P (xs[i := y])) = length (filter P xs)"
proof (induction xs arbitrary: i)
  case (Cons x xs)
  then show ?case by (cases i) auto
qed simp

lemma findEDE_append: "findEDE (os @ [EDNS0_EDE code text]) = (case findEDE os of None \<Rightarrow> Some (code, text) | Some e \<Rightarrow> Some e)"
  by (induction os rule: findEDE.induct) simp_all

text \<open>
  The response has an OPT record with an extended error and no second OPT record.
\<close>

definition has_ede :: "msg \<Rightarrow> bool" where
  "has_ede m \<longleftrightarrow> (\<exists>i < length (Extra m). is_opt (Extra m ! i) \<and> findEDE (opt_options (Data (Extra m ! i))) \<noteq> None)"

lemma add_option_props:
  assumes i: "i < length (Extra m)" "is_opt (Extra m ! i)" and con: "opt_consistent m" and one: "length (opts m) \<le> 1"
  shows "opt_consistent (add_option i (EDNS0_EDE code text) m)"
    "length (opts (add_option i (EDNS0_EDE code text) m)) \<le> 1" "has_ede (add_option i (EDNS0_EDE code text) m)"
proof -
  let ?r = "(Extra m ! i)\<lparr>Data := RD_OPT (opt_options (Data (Extra m ! i)) @ [EDNS0_EDE code text])\<rparr>"
  have ex: "Extra (add_option i (EDNS0_EDE code text) m) = (Extra m)[i := ?r]" by (simp add: add_option_def)
  have "Rrtype (Hdr ?r) = TypeOPT" using i con by (auto simp: opt_consistent_def)
  moreover have "set ((Extra m)[i := ?r]) \<subseteq> insert ?r (set (Extra m))" by (rule set_update_subset_insert)
  ultimately show "opt_consistent (add_option i (EDNS0_EDE code text) m)"
    using con unfolding opt_consistent_def ex by auto
  show "length (opts (add_option i (EDNS0_EDE code text) m)) \<le> 1"
    unfolding opts_def ex using filter_update_true [where P = is_opt, OF i, of ?r] one by (simp add: opts_def)
  show "has_ede (add_option i (EDNS0_EDE code text) m)"
    unfolding has_ede_def ex using i by (intro exI [of _ i]) (simp add: findEDE_append split: option.split)
qed

lemma newOPT_opt: "dnslib_ok L \<Longrightarrow> is_opt (newOPT L c sz b) \<and> Rrtype (Hdr (newOPT L c sz b)) = TypeOPT"
  by (simp add: newOPT_def dnslib_ok_def)

lemma AddEDE_has_ede:
  fixes code :: "16 word"
  assumes L: "dnslib_ok L" and con: "opt_consistent resp" and one: "length (opts resp) \<le> 1"
    and on: "c_edeEnabled c" "dl_IsEdns0 L req \<noteq> None"
  defines "resp' \<equiv> AddEDE L c req code resp"
  shows "opt_consistent resp'" "length (opts resp') \<le> 1" "has_ede resp'"
proof -
  from on obtain i where req: "dl_IsEdns0 L req = Some i" by blast
  define sde where "sde = sdeForReqOpt c (opt_options (Data (Extra req ! i)))"
  have "opt_consistent resp' \<and> length (opts resp') \<le> 1 \<and> has_ede resp'"
  proof (cases "dl_IsEdns0 L resp")
    case None
    define r where "r = newOPT L c (dl_UDPSize L (Hdr (Extra req ! i))) (dl_Do L (Hdr (Extra req ! i)))"
    define m where "m = resp\<lparr>Extra := Extra resp @ [r]\<rparr>"
    have r: "is_opt r" "Rrtype (Hdr r) = TypeOPT" using newOPT_opt [OF L] by (simp_all add: r_def)
    have none: "\<forall>r \<in> set (Extra resp). \<not> is_opt r" using None dnslib_ok_edns(2) [OF L con] by simp
    have "resp' = add_option (length (Extra resp)) (EDNS0_EDE code sde) m"
      using None on(1) req by (simp add: resp'_def AddEDE_def Let_def sde_def m_def r_def)
    moreover have "opt_consistent m" using con r by (simp add: opt_consistent_def m_def)
    moreover have "length (opts m) \<le> 1" using none by (simp add: opts_def m_def filter_empty_conv)
    moreover have "length (Extra resp) < length (Extra m)" "is_opt (Extra m ! length (Extra resp))"
      using r by (simp_all add: m_def)
    ultimately show ?thesis using add_option_props by metis
  next
    case (Some j)
    then have j: "j < length (Extra resp)" "is_opt (Extra resp ! j)" using dnslib_ok_edns(1) [OF L con] by simp_all
    show ?thesis
    proof (cases "findEDE (opt_options (Data (Extra resp ! j)))")
      case None
      then have "resp' = add_option j (EDNS0_EDE code sde) resp"
        using Some on(1) req by (simp add: resp'_def AddEDE_def Let_def sde_def)
      with add_option_props [OF j con one] show ?thesis by simp
    next
      case (Some e)
      then have "resp' = resp" using \<open>dl_IsEdns0 L resp = Some j\<close> on(1) req by (simp add: resp'_def AddEDE_def Let_def)
      with con one j Some show ?thesis by (auto simp: has_ede_def)
    qed
  qed
  then show "opt_consistent resp'" "length (opts resp') \<le> 1" "has_ede resp'" by blast+
qed

lemma AddEDE_noop:
  assumes L: "dnslib_ok L" and con: "opt_consistent resp" and one: "length (opts resp) \<le> 1" and ede: "has_ede resp"
  shows "AddEDE L c req code resp = resp"
proof -
  from ede obtain k where k: "k < length (Extra resp)" "is_opt (Extra resp ! k)"
    "findEDE (opt_options (Data (Extra resp ! k))) \<noteq> None" by (auto simp: has_ede_def)
  then have "dl_IsEdns0 L resp \<noteq> None" using dnslib_ok_edns(2) [OF L con] nth_mem by metis
  then obtain j where j: "dl_IsEdns0 L resp = Some j" by blast
  then have "j < length (Extra resp)" "is_opt (Extra resp ! j)" using dnslib_ok_edns(1) [OF L con] by simp_all
  with k one have "j = k" by (intro filter_opt_nth [where P = is_opt and xs = "Extra resp"]) (simp_all add: opts_def)
  with j k show ?thesis by (simp add: AddEDE_def Let_def split: option.split)
qed

text \<open>
  when extended errors are enabled and the request has an OPT record, \<open>AddEDE\<close> leaves the response
  with a single OPT record that carries an extended error; without either it changes nothing, and
  adding an error to a response that \<open>AddEDE\<close> has processed does not change it again, so the first
  error stays.
\<close>

theorem AddEDE_once:
  assumes "dnslib_ok L" and "opt_consistent resp" and "length (opts resp) \<le> 1"
  shows "(if c_edeEnabled c \<and> dl_IsEdns0 L req \<noteq> None
          then has_ede (AddEDE L c req code resp) \<and> length (opts (AddEDE L c req code resp)) \<le> 1
          else AddEDE L c req code resp = resp) \<and>
         AddEDE L c req code' (AddEDE L c req code resp) = AddEDE L c req code resp"
proof (cases "c_edeEnabled c \<and> dl_IsEdns0 L req \<noteq> None")
  case True
  with AddEDE_has_ede [OF assms] AddEDE_noop [OF assms(1)] show ?thesis by simp
next
  case False
  then have "AddEDE L c req cd m = m" for cd m by (auto simp: AddEDE_def split: option.split)
  with False show ?thesis by auto
qed

theorem AddEDE_once_witness:
  "let req = (ex_request ''a.'' TypeA)\<lparr>Extra := [\<lparr>Hdr = \<lparr>rr_Name = ''.'', Rrtype = TypeOPT, rr_Class = 1232, Ttl = 0\<rparr>,
                                                Data = RD_OPT []\<rparr>]\<rparr>
   in has_ede (AddEDE dnslib_std ex_constructor req ExtendedErrorCodeFiltered (NewResp dnslib_std req))"
proof -
  let ?opt = "\<lparr>Hdr = \<lparr>rr_Name = ''.'', Rrtype = TypeOPT, rr_Class = 1232, Ttl = 0\<rparr>, Data = RD_OPT []\<rparr>"
  let ?req = "(ex_request ''a.'' TypeA)\<lparr>Extra := [?opt]\<rparr>"
  have "opt_consistent (NewResp dnslib_std ?req)" "length (opts (NewResp dnslib_std ?req)) \<le> 1"
    by (simp_all add: opt_consistent_def opts_def NewResp_sel(7) [OF dnslib_std_ok])
  moreover have "c_edeEnabled ex_constructor" "dl_IsEdns0 dnslib_std ?req \<noteq> None"
    by (simp_all add: ex_constructor_def dnslib_std_def)
  ultimately show ?thesis
    using AddEDE_once [OF dnslib_std_ok, of "NewResp dnslib_std ?req" ex_constructor ?req] by (simp add: Let_def)
qed

text \<open>
  the OPT record that \<open>AddEDE\<close> adds to a response keeps the extended response code of the record it
  was allocated from.  A library that sets the DO bit and the UDP size without touching the upper
  eight bits of the TTL field of the header, where the extended response code is, leaves them as the
  pool of the cloner has returned them.
\<close>

theorem pooled_opt_keeps_extended_rcode:
  assumes L: "\<And>b h. drop_bit 24 (Ttl (dl_SetDo L b h)) = drop_bit 24 (Ttl h)"
      "\<And>n h. Ttl (dl_SetUDPSize L n h) = Ttl h"
    and on: "c_edeEnabled c" "dl_IsEdns0 L req = Some i" "dl_IsEdns0 L resp = None"
  shows "drop_bit 24 (Ttl (Hdr (last (Extra (AddEDE L c req code resp))))) = drop_bit 24 (Ttl (c_optPool c))"
  using on by (simp add: AddEDE_def add_option_def newOPT_def Let_def L)

theorem pooled_opt_keeps_extended_rcode_witness:
  "let stale = \<lparr>rr_Name = ''.'', Rrtype = TypeOPT, rr_Class = 512, Ttl = 0x01000000\<rparr>;
       opt = \<lparr>Hdr = \<lparr>rr_Name = ''.'', Rrtype = TypeOPT, rr_Class = 1232, Ttl = 0\<rparr>, Data = RD_OPT []\<rparr>;
       req = (ex_request ''a.'' TypeA)\<lparr>Extra := [opt]\<rparr>
   in drop_bit 24 (Ttl (Hdr (last (Extra (AddEDE dnslib_std (ex_constructor\<lparr>c_optPool := stale\<rparr>) req
        ExtendedErrorCodeFiltered (NewResp dnslib_std req)))))) = 1"
proof -
  let ?opt = "\<lparr>Hdr = \<lparr>rr_Name = ''.'', Rrtype = TypeOPT, rr_Class = 1232, Ttl = 0\<rparr>, Data = RD_OPT []\<rparr>"
  let ?req = "(ex_request ''a.'' TypeA)\<lparr>Extra := [?opt]\<rparr>"
  let ?c = "ex_constructor\<lparr>c_optPool := \<lparr>rr_Name = ''.'', Rrtype = TypeOPT, rr_Class = 512, Ttl = 0x01000000\<rparr>\<rparr>"
  have keep: "drop_bit 24 (set_bit15 b w) = drop_bit 24 w" for b w
  proof (rule bit_eqI)
    fix n
    have "bit (0x8000 :: 32 word) (24 + n) = False"
      using bit_exp_iff [of 15 "24 + n", where 'a = "32 word"] by simp
    then show "bit (drop_bit 24 (set_bit15 b w)) n = bit (drop_bit 24 w) n"
      by (auto simp: set_bit15_def bit_simps dest: bit_imp_le_length)
  qed
  have "drop_bit 24 (Ttl (dl_SetDo dnslib_std b h)) = drop_bit 24 (Ttl h)"
    "Ttl (dl_SetUDPSize dnslib_std n h) = Ttl h" for b h n
    by (simp_all add: dnslib_std_def keep)
  moreover have "c_edeEnabled ?c" "dl_IsEdns0 dnslib_std ?req = Some 0"
    by (simp_all add: ex_constructor_def dnslib_std_def)
  moreover have "dl_IsEdns0 dnslib_std (NewResp dnslib_std ?req) = None"
    by (simp add: dnslib_std_def NewResp_def empty_msg_def)
  ultimately show ?thesis
    using pooled_opt_keeps_extended_rcode [of dnslib_std ?c ?req 0 "NewResp dnslib_std ?req"]
    by (simp add: Let_def)
qed

subsection \<open>The lowest TTL\<close>

text \<open>The TTL of a record for caching: for a SOA record also its minimum field, if it is not zero.\<close>

definition eff_ttl :: "rr \<Rightarrow> 32 word" where
  "eff_ttl r =
     (case Data r of
        RD_SOA s \<Rightarrow> if 0 < soa_Minttl s then min (Ttl (Hdr r)) (soa_Minttl s) else Ttl (Hdr r)
      | _ \<Rightarrow> Ttl (Hdr r))"

lemma getTTLIfLower_eff: "getTTLIfLower r ttl = (if is_opt r then ttl else min (eff_ttl r) ttl)"
  by (cases "Data r") (auto simp: getTTLIfLower_def eff_ttl_def Let_def min_def)

definition cached_ttls :: "msg \<Rightarrow> 32 word list" where
  "cached_ttls m = map eff_ttl (filter (\<lambda>r. \<not> is_opt r) (Answer m @ Ns m @ Extra m))"

lemma lowest_ttl_fold:
  "ttl \<noteq> 0 \<Longrightarrow>
     lowest_ttl rs ttl =
       (let t = fold min (map eff_ttl (filter (\<lambda>r. \<not> is_opt r) rs)) ttl in if t = 0 then None else Some t)"
proof (induction rs arbitrary: ttl)
  case (Cons r rs)
  have zero: "fold min xs 0 = (0 :: 32 word)" for xs by (induction xs) simp_all
  show ?case
  proof (cases "getTTLIfLower r ttl = 0")
    case True
    with Cons.prems show ?thesis
      by (auto simp: getTTLIfLower_eff zero Let_def split: if_splits)
  next
    case False
    with Cons.IH [OF False] Cons.prems show ?thesis by (auto simp: getTTLIfLower_eff Let_def)
  qed
qed simp

lemma fold_min_Min: "fold min xs (t :: 32 word) = Min (insert t (set xs))"
proof (induction xs arbitrary: t)
  case (Cons x xs)
  have "Min (insert (min x t) (set xs)) = Min (insert t (insert x (set xs)))"
    by (cases "xs = []") (simp_all add: min.assoc min.commute min.left_commute)
  with Cons.IH show ?case by simp
qed simp


subsection \<open>Long debug strings\<close>

lemma concat_chunks:
  assumes "0 < k"
  shows "concat (map (\<lambda>i. take k (drop (i * k) s)) [0..<n]) = take (n * k) s"
proof (induction n)
  case (Suc n)
  have "take (n * k) s @ take k (drop (n * k) s) = take (n * k + k) s" by (simp add: take_add)
  with Suc show ?case by (simp add: add.commute)
qed simp

text \<open>
  the strings of a debug record put together are the original string, there is at least one, and
  none is longer than a TXT string may be.
\<close>

theorem debug_strings_cut:
  "concat (debug_strings str) = str \<and> debug_strings str \<noteq> [] \<and>
   list_all (\<lambda>s. length s \<le> MaxTXTStringLen) (debug_strings str)"
proof (cases "length str \<le> MaxTXTStringLen")
  case False
  define k n where "k = MaxTXTStringLen" and "n = (length str + k - 1) div k"
  have k: "0 < k" "k < length str" using False by (simp_all add: k_def MaxTXTStringLen_def)
  then have n: "0 < n" "(n - 1) * k < length str" "length str \<le> n * k"
  proof -
    have "length str + k - 1 = n * k + (length str + k - 1) mod k" by (simp add: n_def)
    moreover have "(length str + k - 1) mod k < k" using k by simp
    ultimately have "length str + k - 1 < n * k + k" "n * k \<le> length str + k - 1" by linarith+
    with k show "length str \<le> n * k" "(n - 1) * k < length str"
      unfolding diff_mult_distrib by linarith+
    show "0 < n" using k by (simp add: n_def div_greater_zero_iff)
  qed
  let ?c = "\<lambda>i. if i = n - 1 then drop (i * k) str else take k (drop (i * k) str)"
  have cut: "?c i = take k (drop (i * k) str)" if "i < n" for i
  proof (cases "i = n - 1")
    case True
    with n have "length (drop (i * k) str) \<le> k" by (simp add: diff_mult_distrib)
    with True show ?thesis by simp
  qed simp
  have "debug_strings str = map ?c [0..<n]" using False by (simp add: debug_strings_def Let_def k_def n_def)
  also have "\<dots> = map (\<lambda>i. take k (drop (i * k) str)) [0..<n]" using cut by (intro map_cong) auto
  finally have eq: "debug_strings str = map (\<lambda>i. take k (drop (i * k) str)) [0..<n]" .
  have "concat (debug_strings str) = str" unfolding eq concat_chunks [OF k(1)] using n by simp
  moreover have "debug_strings str \<noteq> []" unfolding eq using n by simp
  moreover have "list_all (\<lambda>s. length s \<le> MaxTXTStringLen) (debug_strings str)"
    unfolding eq by (simp add: list_all_iff k_def)
  ultimately show ?thesis by blast
qed (simp add: debug_strings_def)

subsection \<open>Client subnets\<close>

lemma ecsData_valid:
  assumes "ecsData ipToAddr esn = Inr (p, sc)"
  shows "prefix_is_valid p" "prefix_masked p = p" "p \<noteq> prefix_invalid" "pfx_bits p = uint (SourceNetmask esn)"
proof -
  show valid: "prefix_is_valid p" and "prefix_masked p = p" and "pfx_bits p = uint (SourceNetmask esn)"
    using assms
    by (auto simp: ecsData_def Let_def prefix_from_def prefix_is_valid_def split: if_splits option.splits)
  show "p \<noteq> prefix_invalid" using valid by (auto simp: prefix_is_valid_def prefix_invalid_def)
qed

text \<open>
  the client subnet of a message, when there is one, is a valid prefix without bits beyond its
  length, and it is the one of the first subnet option; a message whose first subnet option is bad is
  an error.
\<close>

theorem ECSFromMsg_first_option:
  assumes "dl_IsEdns0 L m = Some i"
    and "opt_options (Data (Extra m ! i)) = os @ EDNS0_SUBNET esn # os'"
    and "\<forall>x \<in> set os. \<forall>e. x \<noteq> EDNS0_SUBNET e"
  shows "ECSFromMsg L ipToAddr m = ecsData ipToAddr esn \<and>
         (\<forall>p sc. ECSFromMsg L ipToAddr m = Inr (p, sc) \<longrightarrow>
            prefix_is_valid p \<and> prefix_masked p = p \<and> pfx_bits p = uint (SourceNetmask esn))"
proof -
  have skip: "ecs_options ipToAddr (os @ xs) = ecs_options ipToAddr xs" for xs
    using assms(3)
  proof (induction os)
    case (Cons x os)
    then show ?case by (cases x) auto
  qed simp
  have "ECSFromMsg L ipToAddr m = ecsData ipToAddr esn"
    using assms(1,2) ecsData_valid(3) [of ipToAddr esn]
    by (auto simp: ECSFromMsg_def skip split: sum.split)
  with ecsData_valid [of ipToAddr esn] show ?thesis by auto
qed

theorem ECSFromMsg_first_option_witness:
  "let esn = \<lparr>es_Family = 1, SourceNetmask = 24, SourceScope = 0, es_Address = [1, 2, 3, 0]\<rparr>;
       opt = \<lparr>Hdr = \<lparr>rr_Name = ''.'', Rrtype = TypeOPT, rr_Class = 1232, Ttl = 0\<rparr>,
              Data = RD_OPT [EDNS0_COOKIE ''c'', EDNS0_SUBNET esn]\<rparr>
   in ECSFromMsg dnslib_std (\<lambda>_ _. Some (Addr4 0x01020300)) ((ex_request ''a.'' TypeA)\<lparr>Extra := [opt]\<rparr>) =
        Inr (\<lparr>pfx_addr = Addr4 0x01020300, pfx_bits = 24\<rparr>, 0)"
proof -
  let ?esn = "\<lparr>es_Family = 1, SourceNetmask = 24, SourceScope = 0, es_Address = [1, 2, 3, 0]\<rparr>"
  let ?opt = "\<lparr>Hdr = \<lparr>rr_Name = ''.'', Rrtype = TypeOPT, rr_Class = 1232, Ttl = 0\<rparr>,
              Data = RD_OPT [EDNS0_COOKIE ''c'', EDNS0_SUBNET ?esn]\<rparr>"
  let ?m = "(ex_request ''a.'' TypeA)\<lparr>Extra := [?opt]\<rparr>"
  have "dl_IsEdns0 dnslib_std ?m = Some 0" by (simp add: dnslib_std_def)
  from ECSFromMsg_first_option [OF this, of "[EDNS0_COOKIE ''c'']" ?esn "[]" "\<lambda>_ _. Some (Addr4 0x01020300)"]
  show ?thesis
    by (simp add: Let_def ecsData_def AddrFamilyIPv4_def prefix_from_def addr_is_valid_def prefix_is_valid_def
        prefix_masked_def)
qed

end
