(* ===== verification/Agd_Ids.thy ===== *)
theory Agd_Ids
  imports Prelude
begin

text \<open>
  The identifiers of package \<open>internal/agd\<close> and the validators of \<open>internal/agdvalidate\<close>: profile,
  device and human-readable device IDs, device types, and the stateful normaliser behind
  \<open>HumanIDParser.ParseNormalized\<close>.  Package \<open>golibs/netutil\<close> is not part of the repository: its two
  length limits, its label validator and its rune class are the fields of a record that every
  definition using them takes, and \<open>netutil_ok\<close> states the documented behaviour of RFC 1123 labels.
  Errors are values of one datatype; their wrapping messages are not modelled.
\<close>

subsection \<open>internal/agdvalidate\<close>

datatype id_error =
    TooLong | TooShort | BadChar nat | BadLabel | ThreeHyphens nat | NotLowercase nat
  | CannotNormalize | UnknownDeviceType | Panic

definition FirstNonIDRune :: "string \<Rightarrow> bool \<Rightarrow> (nat \<times> rune) option" where
  "FirstNonIDRune s excludeSlashes =
     find (\<lambda>(i, r). r < 0x21 \<or> 0x7E < r \<or> (excludeSlashes \<and> r = 0x2F)) (runes_from 0 s)"

definition Inclusion :: "nat \<Rightarrow> nat \<Rightarrow> nat \<Rightarrow> id_error option" where
  "Inclusion n minVal maxVal =
     (if maxVal < n then Some TooLong else if n < minVal then Some TooShort else None)"

lemma Inclusion_None [simp]: "lo \<le> n \<Longrightarrow> n \<le> hi \<Longrightarrow> Inclusion n lo hi = None"
  by (simp add: Inclusion_def)

lemma Inclusion_Some: "\<not> (lo \<le> n \<and> n \<le> hi) \<Longrightarrow> \<exists>e. Inclusion n lo hi = Some e \<and> e \<in> {TooLong, TooShort}"
  by (auto simp: Inclusion_def)

subsection \<open>The validators of package netutil, as parameters\<close>

record netutil =
  MaxDomainLabelLen :: nat
  MaxDomainNameLen :: nat
  ValidateHostnameLabel :: "string \<Rightarrow> bool"
  IsValidHostOuterRune :: "rune \<Rightarrow> bool"

definition ascii_alnum :: "rune \<Rightarrow> bool" where
  "ascii_alnum r \<longleftrightarrow> (48 \<le> r \<and> r \<le> 57) \<or> (65 \<le> r \<and> r \<le> 90) \<or> (97 \<le> r \<and> r \<le> 122)"

definition hyphen :: rune where
  "hyphen = 45"

definition label_ok :: "nat \<Rightarrow> string \<Rightarrow> bool" where
  "label_ok n s \<longleftrightarrow>
     s \<noteq> [] \<and> length s \<le> n \<and> ascii_alnum (byte (hd s)) \<and> ascii_alnum (byte (last s)) \<and>
     (\<forall>c \<in> set s. ascii_alnum (byte c) \<or> byte c = hyphen)"

definition netutil_ok :: "netutil \<Rightarrow> bool" where
  "netutil_ok nu \<longleftrightarrow>
     1 \<le> MaxDomainLabelLen nu \<and> MaxDomainLabelLen nu \<le> MaxDomainNameLen nu \<and>
     (\<forall>r. IsValidHostOuterRune nu r = ascii_alnum r) \<and>
     (\<forall>s. ValidateHostnameLabel nu s = label_ok (MaxDomainLabelLen nu) s)"

definition netutil_std :: netutil where
  "netutil_std =
     \<lparr>MaxDomainLabelLen = 63, MaxDomainNameLen = 253,
      ValidateHostnameLabel = label_ok 63, IsValidHostOuterRune = ascii_alnum\<rparr>"

lemma netutil_std_ok: "netutil_ok netutil_std"
  by (simp add: netutil_ok_def netutil_std_def)

subsection \<open>Profile and device identifiers\<close>

definition MaxProfileIDLen :: nat where
  "MaxProfileIDLen = 8"

definition NewProfileID :: "string \<Rightarrow> (id_error, string) result" where
  "NewProfileID s =
     (case Inclusion (length s) 0 MaxProfileIDLen of
        Some e \<Rightarrow> Inl e
      | None \<Rightarrow>
          (case FirstNonIDRune s False of
             Some (i, r) \<Rightarrow> Inl (BadChar i)
           | None \<Rightarrow> Inr s))"

definition MaxDeviceIDLen :: nat where
  "MaxDeviceIDLen = 8"

definition MinDeviceIDLen :: nat where
  "MinDeviceIDLen = 1"

definition NewDeviceID :: "netutil \<Rightarrow> string \<Rightarrow> (id_error, string) result" where
  "NewDeviceID nu s =
     (case Inclusion (length s) MinDeviceIDLen MaxDeviceIDLen of
        Some e \<Rightarrow> Inl e
      | None \<Rightarrow> if \<not> ValidateHostnameLabel nu s then Inl BadLabel else Inr s)"

definition MaxDeviceNameRuneLen :: nat where
  "MaxDeviceNameRuneLen = 128"

definition NewDeviceName :: "string \<Rightarrow> (id_error, string) result" where
  "NewDeviceName s =
     (case Inclusion (length (runes s)) 0 MaxDeviceNameRuneLen of
        Some e \<Rightarrow> Inl e
      | None \<Rightarrow> Inr s)"

subsection \<open>Human-readable device identifiers\<close>

definition MinHumanIDLen :: nat where
  "MinHumanIDLen = 1"

definition newHumanID :: "netutil \<Rightarrow> string \<Rightarrow> (id_error, string) result" where
  "newHumanID nu s =
     (case Inclusion (length s) MinHumanIDLen (MaxDomainLabelLen nu) of
        Some e \<Rightarrow> Inl e
      | None \<Rightarrow>
          if \<not> ValidateHostnameLabel nu s then Inl BadLabel
          else (case str_index s ''---'' of
                  Some i \<Rightarrow> Inl (ThreeHyphens i)
                | None \<Rightarrow> Inr s))"

definition NewHumanIDLower :: "netutil \<Rightarrow> string \<Rightarrow> (id_error, string) result" where
  "NewHumanIDLower nu s =
     (case newHumanID nu s of
        Inl e \<Rightarrow> Inl e
      | Inr humanID \<Rightarrow>
          (case find (\<lambda>(i, r). 65 \<le> r \<and> r \<le> 90) (runes_from 0 humanID) of
             Some (i, r) \<Rightarrow> Inl (NotLowercase i)
           | None \<Rightarrow> Inr s))"

definition HumanIDToLower :: "string \<Rightarrow> string" where
  "HumanIDToLower humanID = to_lower humanID"

subsection \<open>The normaliser\<close>

datatype norm_state = HumanIDNormStateInitial | HumanIDNormStateInvalid | HumanIDNormStateValid

record normalizer =
  n_buf :: string
  n_state :: norm_state
  prevRune :: rune
  prevPrevRune :: rune

definition new_normalizer :: normalizer where
  "new_normalizer =
     \<lparr>n_buf = [], n_state = HumanIDNormStateInitial, prevRune = 0, prevPrevRune = 0\<rparr>"

text \<open>\<^verbatim>\<open>utf8.AppendRune\<close>, used by \<^verbatim>\<open>bytes.Buffer.WriteRune\<close>; surrogates and runes out of range become
  \<^verbatim>\<open>RuneError\<close>.\<close>

definition encode_rune :: "rune \<Rightarrow> string" where
  "encode_rune r0 =
     (let r = (if 0x10FFFF < r0 \<or> (0xD800 \<le> r0 \<and> r0 \<le> 0xDFFF) then rune_error else r0)
      in map char_of
           (if r < 0x80 then [r]
            else if r < 0x800 then [0xC0 + r div 64, 0x80 + r mod 64]
            else if r < 0x10000 then [0xE0 + r div 4096, 0x80 + (r div 64) mod 64, 0x80 + r mod 64]
            else [0xF0 + r div 262144, 0x80 + (r div 4096) mod 64,
                  0x80 + (r div 64) mod 64, 0x80 + r mod 64]))"

text \<open>\<^verbatim>\<open>bytes.Buffer.Truncate\<close> panics when the new length is negative or beyond the buffer.\<close>

definition buf_truncate :: "int \<Rightarrow> string \<Rightarrow> string option" where
  "buf_truncate n b = (if n < 0 \<or> int (length b) < n then None else Some (take (nat n) b))"

definition norm_write :: "rune \<Rightarrow> normalizer \<Rightarrow> normalizer" where
  "norm_write r p =
     p\<lparr>n_buf := n_buf p @ encode_rune r, prevPrevRune := prevRune p, prevRune := r\<rparr>"

definition nextInitial :: "netutil \<Rightarrow> rune \<Rightarrow> normalizer \<Rightarrow> normalizer" where
  "nextInitial nu r p =
     (if \<not> IsValidHostOuterRune nu r then p
      else norm_write r (p\<lparr>n_state := HumanIDNormStateValid\<rparr>))"

definition truncateHyphens :: "normalizer \<Rightarrow> normalizer option" where
  "truncateHyphens p =
     (if prevRune p \<noteq> hyphen then Some p
      else if prevPrevRune p = hyphen then
        map_option (\<lambda>b. p\<lparr>n_buf := b, prevPrevRune := rune_error, prevRune := rune_error\<rparr>)
          (buf_truncate (int (length (n_buf p)) - 2) (n_buf p))
      else
        map_option (\<lambda>b. p\<lparr>n_buf := b, prevRune := rune_error\<rparr>)
          (buf_truncate (int (length (n_buf p)) - 1) (n_buf p)))"

definition nextValid :: "netutil \<Rightarrow> rune \<Rightarrow> normalizer \<Rightarrow> normalizer option" where
  "nextValid nu r p =
     (if r = hyphen then
        if prevPrevRune p = hyphen \<and> prevRune p = hyphen then
          map_option
            (\<lambda>b. p\<lparr>n_buf := b, prevPrevRune := rune_error, prevRune := rune_error,
                   n_state := HumanIDNormStateInvalid\<rparr>)
            (buf_truncate (int (length (n_buf p)) - 2) (n_buf p))
        else Some (norm_write r p)
      else if \<not> IsValidHostOuterRune nu r then
        map_option (\<lambda>p. p\<lparr>n_state := HumanIDNormStateInvalid\<rparr>) (truncateHyphens p)
      else Some (norm_write r p))"

definition nextInvalid :: "netutil \<Rightarrow> rune \<Rightarrow> normalizer \<Rightarrow> normalizer" where
  "nextInvalid nu r p =
     (if \<not> IsValidHostOuterRune nu r then p
      else
        (let p = p\<lparr>n_state := HumanIDNormStateValid\<rparr>;
             p = (if prevRune p \<noteq> hyphen then norm_write hyphen p else p)
         in norm_write r p))"

definition norm_next :: "netutil \<Rightarrow> rune \<Rightarrow> normalizer \<Rightarrow> normalizer option" where
  "norm_next nu r p =
     (case n_state p of
        HumanIDNormStateInitial \<Rightarrow> Some (nextInitial nu r p)
      | HumanIDNormStateValid \<Rightarrow> nextValid nu r p
      | HumanIDNormStateInvalid \<Rightarrow> Some (nextInvalid nu r p))"

fun norm_run :: "netutil \<Rightarrow> rune list \<Rightarrow> normalizer \<Rightarrow> normalizer option" where
  "norm_run nu [] p = Some p"
| "norm_run nu (r # rs) p = (case norm_next nu r p of None \<Rightarrow> None | Some p' \<Rightarrow> norm_run nu rs p')"

definition trim_right_hyphens :: "string \<Rightarrow> string" where
  "trim_right_hyphens b = rev (dropWhile (\<lambda>c. c = CHR ''-'') (rev b))"

definition norm_result :: "netutil \<Rightarrow> normalizer \<Rightarrow> string" where
  "norm_result nu p =
     trim_right_hyphens (take (min (length (n_buf p)) (MaxDomainLabelLen nu)) (n_buf p))"

definition ParseNormalized :: "netutil \<Rightarrow> string \<Rightarrow> (id_error, string) result" where
  "ParseNormalized nu s =
     (case newHumanID nu s of
        Inr humanID \<Rightarrow> Inr humanID
      | Inl _ \<Rightarrow>
          (case Inclusion (length s) MinHumanIDLen (MaxDomainNameLen nu) of
             Some e \<Rightarrow> Inl e
           | None \<Rightarrow>
               (case norm_run nu (runes s) new_normalizer of
                  None \<Rightarrow> Inl Panic
                | Some n \<Rightarrow>
                    (let t = norm_result nu n
                     in if t = [] \<or> t = ''-'' then Inl CannotNormalize
                        else newHumanID nu t))))"

subsection \<open>Device types\<close>

definition deviceTypeStrings :: "string list" where
  "deviceTypeStrings =
     [''(none)'', ''win'', ''adr'', ''mac'', ''ios'', ''lnx'', ''rtr'', ''stv'', ''gam'', ''otr'']"

fun find_device_type :: "nat \<Rightarrow> string \<Rightarrow> string list \<Rightarrow> nat option" where
  "find_device_type i s [] = None"
| "find_device_type i s (d # ds) =
     (if equal_fold s d then Some i else find_device_type (Suc i) s ds)"

definition DeviceTypeFromDNS :: "string \<Rightarrow> (id_error, nat) result" where
  "DeviceTypeFromDNS s =
     (case Inclusion (length s) 3 3 of
        Some e \<Rightarrow> Inl e
      | None \<Rightarrow>
          (case find_device_type 1 s (tl deviceTypeStrings) of
             Some dt \<Rightarrow> Inr dt
           | None \<Rightarrow> Inl UnknownDeviceType))"

text \<open>\<^verbatim>\<open>DeviceType.String\<close> on its table; \<open>None\<close> stands for the \<^verbatim>\<open>!bad_device_type\<close> message.\<close>

definition DeviceType_String :: "nat \<Rightarrow> string option" where
  "DeviceType_String dt =
     (if dt < length deviceTypeStrings then Some (deviceTypeStrings ! dt) else None)"

subsection \<open>The normaliser never panics and always leaves a valid label\<close>

definition body_ok :: "string \<Rightarrow> bool" where
  "body_ok b \<longleftrightarrow>
     b \<noteq> [] \<and> ascii_alnum (byte (hd b)) \<and>
     (\<forall>c \<in> set b. ascii_alnum (byte c) \<or> c = CHR ''-'') \<and> \<not> str_contains b ''---''"

definition norm_inv :: "normalizer \<Rightarrow> bool" where
  "norm_inv p \<longleftrightarrow>
     (case n_state p of
        HumanIDNormStateInitial \<Rightarrow> n_buf p = []
      | HumanIDNormStateValid \<Rightarrow>
          body_ok (n_buf p) \<and> prevRune p = byte (last (n_buf p)) \<and>
          (prevRune p = hyphen \<and> prevPrevRune p = hyphen \<longleftrightarrow> has_suffix (n_buf p) ''--'')
      | HumanIDNormStateInvalid \<Rightarrow>
          body_ok (n_buf p) \<and> last (n_buf p) \<noteq> CHR ''-'' \<and> prevRune p \<noteq> hyphen)"

lemma ascii_alnum_less: "ascii_alnum r \<Longrightarrow> r < 0x80"
  by (auto simp: ascii_alnum_def)

lemma ascii_alnum_not_hyphen: "ascii_alnum r \<Longrightarrow> r \<noteq> hyphen"
  by (auto simp: ascii_alnum_def hyphen_def)

lemma byte_hyphen: "byte (CHR ''-'') = hyphen"
  by (simp add: hyphen_def)

lemma byte_hyphen_iff: "byte c = hyphen \<longleftrightarrow> c = CHR ''-''"
  unfolding byte_hyphen [symmetric] by (rule of_char_eq_iff)

lemma char_of_hyphen: "char_of hyphen = CHR ''-''"
  unfolding byte_hyphen [symmetric] by (rule char_of_char)

lemma encode_rune_hyphen: "encode_rune hyphen = ''-''"
  using char_of_hyphen by (simp add: encode_rune_def hyphen_def)

lemma alnum_not_hyphen_char: "ascii_alnum (byte c) \<Longrightarrow> c \<noteq> CHR ''-''"
  by (auto dest: ascii_alnum_not_hyphen simp flip: byte_hyphen_iff)

lemma encode_rune_ascii: "r < 0x80 \<Longrightarrow> encode_rune r = [char_of r]"
  by (simp add: encode_rune_def)

lemma byte_char_of_ascii: "r < 0x80 \<Longrightarrow> byte (char_of r) = r"
  by (simp add: of_char_of)

lemma byte_char_of_alnum [simp]: "ascii_alnum r \<Longrightarrow> r mod 256 = r"
  by (drule ascii_alnum_less) simp

lemma has_suffix_snoc: "has_suffix (b @ [c]) ''--'' \<longleftrightarrow> c = CHR ''-'' \<and> b \<noteq> [] \<and> last b = CHR ''-''"
proof
  assume "has_suffix (b @ [c]) ''--''"
  then obtain t where "b @ [c] = (t @ ''-'') @ ''-''" by (auto simp: has_suffix_iff)
  then show "c = CHR ''-'' \<and> b \<noteq> [] \<and> last b = CHR ''-''" by simp
next
  assume "c = CHR ''-'' \<and> b \<noteq> [] \<and> last b = CHR ''-''"
  then have "b @ [c] = butlast b @ ''--''" by (metis append_Cons append_Nil append_assoc append_butlast_last_id)
  then show "has_suffix (b @ [c]) ''--''" by (auto simp: has_suffix_iff)
qed

lemma three_hyphens_snoc:
  "str_contains (b @ [c]) ''---'' \<longleftrightarrow> str_contains b ''---'' \<or> (c = CHR ''-'' \<and> has_suffix b ''--'')"
proof
  assume "str_contains (b @ [c]) ''---''"
  then obtain u v where uv: "b @ [c] = u @ ''---'' @ v" by (auto simp: str_contains_iff)
  show "str_contains b ''---'' \<or> (c = CHR ''-'' \<and> has_suffix b ''--'')"
  proof (cases v rule: rev_cases)
    case Nil
    with uv have "b @ [c] = (u @ ''--'') @ [CHR ''-'']" by simp
    then have "b = u @ ''--''" "c = CHR ''-''" by (simp_all only: append1_eq_conv)
    then show ?thesis by (simp add: has_suffix_iff)
  next
    case (snoc w d)
    with uv have "b @ [c] = (u @ ''---'' @ w) @ [d]" by simp
    then have "b = u @ ''---'' @ w" by (simp only: append1_eq_conv)
    then show ?thesis by (auto simp: str_contains_iff)
  qed
next
  assume "str_contains b ''---'' \<or> (c = CHR ''-'' \<and> has_suffix b ''--'')"
  then consider u v where "b = u @ ''---'' @ v" | u where "b = u @ ''--''" "c = CHR ''-''"
    by (auto simp: str_contains_iff has_suffix_iff)
  then show "str_contains (b @ [c]) ''---''"
  proof cases
    case 1
    then have "b @ [c] = u @ ''---'' @ (v @ [c])" by simp
    then show ?thesis by (auto simp: str_contains_iff)
  next
    case 2
    then have "b @ [c] = u @ ''---'' @ []" by simp
    then show ?thesis by (metis str_contains_iff)
  qed
qed

lemma three_hyphens_Nil [simp]: "\<not> str_contains [] ''---''"
  by (simp add: str_contains_def)

lemma body_ok_snoc_alnum:
  "b = [] \<or> body_ok b \<Longrightarrow> ascii_alnum (byte c) \<Longrightarrow> body_ok (b @ [c])"
  using three_hyphens_snoc [of b c] alnum_not_hyphen_char [of c] by (auto simp: body_ok_def)

lemma body_ok_snoc_hyphen:
  "body_ok b \<Longrightarrow> \<not> has_suffix b ''--'' \<Longrightarrow> body_ok (b @ ''-'')"
  by (auto simp: body_ok_def three_hyphens_snoc)

lemma str_contains_append: "str_contains s p \<Longrightarrow> str_contains (s @ t) p"
  by (force simp: str_contains_iff)

lemma body_ok_append: "body_ok (b @ t) \<Longrightarrow> b \<noteq> [] \<Longrightarrow> body_ok b"
  by (auto simp: body_ok_def dest: str_contains_append)

lemma body_ok_hd_not_hyphen: "body_ok b \<Longrightarrow> hd b \<noteq> CHR ''-''"
  by (auto simp: body_ok_def ascii_alnum_def)

text \<open>Dropping one or two trailing hyphens leaves a body that ends in an alphanumeric.\<close>

lemma body_ok_drop_two:
  assumes b: "body_ok b" and suf: "has_suffix b ''--''"
  obtains c where "b = c @ ''--''" "body_ok c" "last c \<noteq> CHR ''-''"
proof -
  from suf obtain c where c: "b = c @ ''--''" by (auto simp: has_suffix_iff)
  with body_ok_hd_not_hyphen [OF b] have ne: "c \<noteq> []" by auto
  moreover have "last c \<noteq> CHR ''-''"
  proof
    assume "last c = CHR ''-''"
    with ne have "c @ ''--'' = butlast c @ ''---'' @ []"
      by (metis append_Cons append_Nil append_Nil2 append_assoc append_butlast_last_id)
    with b c show False by (metis body_ok_def str_contains_iff)
  qed
  ultimately show thesis using that c b body_ok_append by blast
qed

lemma body_ok_drop_one:
  assumes b: "body_ok b" and last: "last b = CHR ''-''" and suf: "\<not> has_suffix b ''--''"
  obtains c where "b = c @ ''-''" "body_ok c" "last c \<noteq> CHR ''-''"
proof -
  from b last obtain c where c: "b = c @ ''-''"
    by (metis append_butlast_last_id body_ok_def)
  with body_ok_hd_not_hyphen [OF b] have "c \<noteq> []" by auto
  with c suf b that show thesis
    by (metis body_ok_append has_suffix_snoc)
qed

lemma buf_truncate_append [simp]:
  "n = int (length b) \<Longrightarrow> buf_truncate n (b @ t) = Some b"
  by (simp add: buf_truncate_def)

lemma norm_inv_next:
  assumes nu: "netutil_ok nu" and inv: "norm_inv p"
  shows "\<exists>q. norm_next nu r p = Some q \<and> norm_inv q \<and>
           (n_state q = HumanIDNormStateInitial \<longleftrightarrow>
              n_state p = HumanIDNormStateInitial \<and> \<not> ascii_alnum r)"
proof (cases "n_state p")
  case HumanIDNormStateInitial
  with inv have e: "n_buf p = []" by (simp add: norm_inv_def)
  show ?thesis
  proof (cases "ascii_alnum r")
    case True
    have "body_ok ([] @ [char_of r])"
      using True by (intro body_ok_snoc_alnum) simp_all
    with True nu e HumanIDNormStateInitial show ?thesis
      by (auto simp: norm_next_def nextInitial_def norm_write_def norm_inv_def netutil_ok_def
          encode_rune_ascii ascii_alnum_less has_suffix_def dest: ascii_alnum_not_hyphen)
  next
    case False
    with nu inv HumanIDNormStateInitial show ?thesis
      by (auto simp: norm_next_def nextInitial_def netutil_ok_def)
  qed
next
  case HumanIDNormStateInvalid
  with inv have b: "body_ok (n_buf p)" "last (n_buf p) \<noteq> CHR ''-''" "prevRune p \<noteq> hyphen"
    by (auto simp: norm_inv_def)
  then have ns: "\<not> has_suffix (n_buf p) ''--''" by (auto simp: has_suffix_iff)
  note w = encode_rune_hyphen
  show ?thesis
  proof (cases "ascii_alnum r")
    case True
    then have "body_ok ((n_buf p @ ''-'') @ [char_of r])"
      using body_ok_snoc_hyphen [OF b(1) ns] by (intro body_ok_snoc_alnum) simp_all
    moreover have "\<not> has_suffix ((n_buf p @ ''-'') @ [char_of r]) ''--''"
      using True alnum_not_hyphen_char [of "char_of r"] unfolding has_suffix_snoc by simp
    ultimately show ?thesis
      using True nu b HumanIDNormStateInvalid
      by (auto simp: norm_next_def nextInvalid_def norm_write_def norm_inv_def netutil_ok_def w
          encode_rune_ascii ascii_alnum_less dest: ascii_alnum_not_hyphen)
  next
    case False
    with nu inv HumanIDNormStateInvalid show ?thesis
      by (auto simp: norm_next_def nextInvalid_def netutil_ok_def)
  qed
next
  case HumanIDNormStateValid
  with inv have b: "body_ok (n_buf p)" "prevRune p = byte (last (n_buf p))"
    and suf: "prevRune p = hyphen \<and> prevPrevRune p = hyphen \<longleftrightarrow> has_suffix (n_buf p) ''--''"
    by (auto simp: norm_inv_def)
  then have last: "prevRune p = hyphen \<longleftrightarrow> last (n_buf p) = CHR ''-''"
    by (simp add: byte_hyphen_iff)
  have ne: "n_buf p \<noteq> []" using b by (simp add: body_ok_def)
  consider (alnum) "ascii_alnum r" | (hyphen) "r = hyphen" | (other) "r \<noteq> hyphen" "\<not> ascii_alnum r"
    by blast
  then show ?thesis
  proof cases
    case alnum
    have "body_ok (n_buf p @ [char_of r])"
      using alnum b by (intro body_ok_snoc_alnum) simp_all
    moreover have "\<not> has_suffix (n_buf p @ [char_of r]) ''--''"
      using alnum alnum_not_hyphen_char [of "char_of r"] unfolding has_suffix_snoc by simp
    ultimately show ?thesis
      using alnum nu HumanIDNormStateValid ascii_alnum_not_hyphen [OF alnum]
      by (auto simp: norm_next_def nextValid_def norm_write_def norm_inv_def netutil_ok_def
          encode_rune_ascii ascii_alnum_less)
  next
    case hyphen
    show ?thesis
    proof (cases "has_suffix (n_buf p) ''--''")
      case True
      with b(1) obtain c where "n_buf p = c @ ''--''" "body_ok c" "last c \<noteq> CHR ''-''"
        by (rule body_ok_drop_two)
      with True suf hyphen HumanIDNormStateValid show ?thesis
        by (auto simp: norm_next_def nextValid_def norm_inv_def rune_error_def hyphen_def)
    next
      case False
      have "has_suffix (n_buf p @ ''-'') ''--'' \<longleftrightarrow> last (n_buf p) = CHR ''-''"
        using ne by (simp add: has_suffix_snoc)
      moreover have "norm_next nu r p = Some (norm_write hyphen p)"
        using False suf hyphen HumanIDNormStateValid by (auto simp: norm_next_def nextValid_def)
      moreover have "last (n_buf p @ ''-'') = CHR ''-''" by simp
      ultimately show ?thesis
        using body_ok_snoc_hyphen [OF b(1) False] last HumanIDNormStateValid
        by (simp add: norm_write_def norm_inv_def encode_rune_hyphen byte_hyphen del: of_char_Char)
    qed
  next
    case other
    show ?thesis
    proof (cases "has_suffix (n_buf p) ''--''")
      case True
      with b(1) obtain c where "n_buf p = c @ ''--''" "body_ok c" "last c \<noteq> CHR ''-''"
        by (rule body_ok_drop_two)
      with True suf other nu HumanIDNormStateValid show ?thesis
        by (auto simp: norm_next_def nextValid_def truncateHyphens_def norm_inv_def rune_error_def
            hyphen_def netutil_ok_def)
    next
      case False
      show ?thesis
      proof (cases "last (n_buf p) = CHR ''-''")
        case True
        with b(1) False obtain c where "n_buf p = c @ ''-''" "body_ok c" "last c \<noteq> CHR ''-''"
          by (metis body_ok_drop_one)
        with False True suf last other nu HumanIDNormStateValid show ?thesis
          by (auto simp: norm_next_def nextValid_def truncateHyphens_def norm_inv_def rune_error_def
              hyphen_def netutil_ok_def)
      next
        case nothyp: False
        with False last b other nu HumanIDNormStateValid show ?thesis
          by (auto simp: norm_next_def nextValid_def truncateHyphens_def norm_inv_def netutil_ok_def)
      qed
    qed
  qed
qed

lemma norm_inv_run:
  assumes "netutil_ok nu" and "norm_inv p"
  shows "\<exists>q. norm_run nu rs p = Some q \<and> norm_inv q \<and>
           (n_state q = HumanIDNormStateInitial \<longleftrightarrow>
              n_state p = HumanIDNormStateInitial \<and> (\<forall>r \<in> set rs. \<not> ascii_alnum r))"
  using assms(2)
proof (induction rs arbitrary: p)
  case Nil
  then show ?case by simp
next
  case (Cons r rs)
  from norm_inv_next [OF assms(1) Cons.prems, of r] obtain q
    where q: "norm_next nu r p = Some q" "norm_inv q"
      "n_state q = HumanIDNormStateInitial \<longleftrightarrow>
         n_state p = HumanIDNormStateInitial \<and> \<not> ascii_alnum r"
    by blast
  with Cons.IH [OF q(2)] show ?case by auto
qed

lemma trim_right_hyphens_split:
  "\<exists>t. b = trim_right_hyphens b @ t \<and> (\<forall>c \<in> set t. c = CHR ''-'')"
proof -
  let ?P = "\<lambda>c. c = CHR ''-''"
  have "b = rev (takeWhile ?P (rev b) @ dropWhile ?P (rev b))"
    by (simp only: takeWhile_dropWhile_id rev_rev_ident)
  also have "\<dots> = trim_right_hyphens b @ rev (takeWhile ?P (rev b))"
    by (simp only: rev_append trim_right_hyphens_def)
  finally have "b = trim_right_hyphens b @ rev (takeWhile ?P (rev b))" .
  moreover have "\<forall>c \<in> set (rev (takeWhile ?P (rev b))). c = CHR ''-''"
    by (auto dest: set_takeWhileD)
  ultimately show ?thesis by blast
qed

lemma trim_right_hyphens_last:
  "trim_right_hyphens b \<noteq> [] \<Longrightarrow> last (trim_right_hyphens b) \<noteq> CHR ''-''"
  using hd_dropWhile [of "\<lambda>c. c = CHR ''-''" "rev b"]
  by (simp add: trim_right_hyphens_def last_rev)

lemma body_ok_trim:
  assumes "body_ok b"
  shows "body_ok (trim_right_hyphens b)" and "last (trim_right_hyphens b) \<noteq> CHR ''-''"
proof -
  obtain t where t: "b = trim_right_hyphens b @ t" "\<forall>c \<in> set t. c = CHR ''-''"
    using trim_right_hyphens_split by blast
  have ne: "trim_right_hyphens b \<noteq> []"
  proof
    assume "trim_right_hyphens b = []"
    with t assms have "hd b = CHR ''-''" by (simp add: body_ok_def)
    with body_ok_hd_not_hyphen [OF assms] show False by simp
  qed
  from t(1) assms ne show "body_ok (trim_right_hyphens b)" by (metis body_ok_append)
  from ne show "last (trim_right_hyphens b) \<noteq> CHR ''-''" by (rule trim_right_hyphens_last)
qed

lemma length_trim_right_hyphens: "length (trim_right_hyphens b) \<le> length b"
  using length_dropWhile_le [of "\<lambda>c. c = CHR ''-''" "rev b"] by (simp add: trim_right_hyphens_def)

lemma body_ok_label:
  "body_ok b \<Longrightarrow> last b \<noteq> CHR ''-'' \<Longrightarrow> length b \<le> n \<Longrightarrow> label_ok n b"
  by (auto simp: body_ok_def label_ok_def byte_hyphen_iff)

lemma norm_result_label:
  assumes nu: "netutil_ok nu" and inv: "norm_inv q" and st: "n_state q \<noteq> HumanIDNormStateInitial"
  shows "label_ok (MaxDomainLabelLen nu) (norm_result nu q)"
    and "\<not> str_contains (norm_result nu q) ''---''"
proof -
  let ?m = "min (length (n_buf q)) (MaxDomainLabelLen nu)"
  from inv st have b: "body_ok (n_buf q)"
    by (auto simp: norm_inv_def split: norm_state.splits)
  with nu have "take ?m (n_buf q) \<noteq> []" by (auto simp: netutil_ok_def body_ok_def)
  with b have t: "body_ok (take ?m (n_buf q))"
    by (metis append_take_drop_id body_ok_append)
  have "length (norm_result nu q) \<le> MaxDomainLabelLen nu"
    unfolding norm_result_def
    by (rule order_trans [OF length_trim_right_hyphens]) simp
  then show "label_ok (MaxDomainLabelLen nu) (norm_result nu q)"
    using body_ok_trim [OF t] by (auto simp: norm_result_def intro: body_ok_label)
  show "\<not> str_contains (norm_result nu q) ''---''"
    using body_ok_trim(1) [OF t] by (simp add: norm_result_def body_ok_def)
qed

lemma newHumanID_iff:
  assumes "netutil_ok nu"
  shows "newHumanID nu s = Inr h \<longleftrightarrow>
           h = s \<and> label_ok (MaxDomainLabelLen nu) s \<and> \<not> str_contains s ''---''"
proof -
  have len: "label_ok n s \<Longrightarrow> Inclusion (length s) MinHumanIDLen n = None" for n
    by (cases s) (auto simp: label_ok_def MinHumanIDLen_def)
  have val: "ValidateHostnameLabel nu s = label_ok (MaxDomainLabelLen nu) s"
    using assms by (simp add: netutil_ok_def)
  show ?thesis
  proof (cases "label_ok (MaxDomainLabelLen nu) s")
    case True
    with len [OF True] val show ?thesis
      by (auto simp: newHumanID_def str_contains_def split: option.splits)
  next
    case False
    with val show ?thesis
      by (auto simp: newHumanID_def split: option.splits)
  qed
qed

lemma label_ok_ascii: "label_ok n s \<Longrightarrow> \<forall>c \<in> set s. byte c < (0x80::nat)"
  by (auto simp: label_ok_def hyphen_def dest!: ascii_alnum_less)

lemma label_ok_rune: "label_ok n s \<Longrightarrow> \<exists>r \<in> set (runes s). ascii_alnum r"
  by (rule bexI [of _ "byte (hd s)"]) (auto simp: runes_ascii [OF label_ok_ascii] label_ok_def)

lemma ParseNormalized_cases:
  assumes nu: "netutil_ok nu" and new: "newHumanID nu s = Inl e"
    and len: "MinHumanIDLen \<le> length s" "length s \<le> MaxDomainNameLen nu"
  shows "if \<exists>r \<in> set (runes s). ascii_alnum r
         then \<exists>h. ParseNormalized nu s = Inr h
         else ParseNormalized nu s = Inl CannotNormalize"
proof -
  have "norm_inv new_normalizer" "n_state new_normalizer = HumanIDNormStateInitial"
    by (simp_all add: norm_inv_def new_normalizer_def)
  with norm_inv_run [OF nu] obtain q where q: "norm_run nu (runes s) new_normalizer = Some q"
    "norm_inv q" "n_state q = HumanIDNormStateInitial \<longleftrightarrow> (\<forall>r \<in> set (runes s). \<not> ascii_alnum r)"
    by blast
  have res: "ParseNormalized nu s =
      (let t = norm_result nu q
       in if t = [] \<or> t = ''-'' then Inl CannotNormalize else newHumanID nu t)"
    using new q(1) len by (simp add: ParseNormalized_def)
  show ?thesis
  proof (cases "\<exists>r \<in> set (runes s). ascii_alnum r")
    case True
    with q(3) have st: "n_state q \<noteq> HumanIDNormStateInitial" by blast
    note lab = norm_result_label [OF nu q(2) st]
    from lab(1) have "norm_result nu q \<noteq> []" "norm_result nu q \<noteq> ''-''"
      by (auto simp: label_ok_def ascii_alnum_def)
    moreover have "newHumanID nu (norm_result nu q) = Inr (norm_result nu q)"
      using lab by (simp add: newHumanID_iff [OF nu])
    ultimately show ?thesis using True res by (auto simp: Let_def)
  next
    case False
    with q have "n_buf q = []" by (auto simp: norm_inv_def)
    with False res show ?thesis
      by (auto simp: norm_result_def trim_right_hyphens_def)
  qed
qed



lemma ParseNormalized_valid:
  assumes nu: "netutil_ok nu" and res: "ParseNormalized nu s = Inr h"
  shows "newHumanID nu h = Inr h"
proof (cases "newHumanID nu s")
  case (Inr h')
  with res show ?thesis by (auto simp: ParseNormalized_def newHumanID_iff [OF nu])
next
  case (Inl e)
  with res obtain t where "newHumanID nu t = Inr h"
    by (auto simp: ParseNormalized_def Let_def split: option.splits if_splits)
  then show ?thesis by (simp add: newHumanID_iff [OF nu])
qed

lemma byte_char_to_lower:
  "byte (char_to_lower c) = (if 65 \<le> byte c \<and> byte c \<le> (90::nat) then byte c + 32 else byte c :: nat)"
proof (cases "65 \<le> byte c \<and> byte c \<le> (90::nat)")
  case True
  then have "(byte c + 32 :: nat) mod 256 = byte c + 32" by simp
  with True show ?thesis by (simp only: char_to_lower_def of_char_of if_True simp_thms)
next
  case False
  then show ?thesis by (simp only: char_to_lower_def if_False)
qed

lemma char_to_lower_hyphen: "char_to_lower c = CHR ''-'' \<longleftrightarrow> c = CHR ''-''"
proof -
  have "byte (char_to_lower c) = hyphen \<longleftrightarrow> byte c = hyphen"
    unfolding byte_char_to_lower hyphen_def by presburger
  then show ?thesis by (simp only: byte_hyphen_iff)
qed

lemma label_ok_to_lower: "label_ok n s \<Longrightarrow> label_ok n (to_lower s)"
proof -
  assume l: "label_ok n s"
  have "ascii_alnum (byte c) \<Longrightarrow> ascii_alnum (byte (char_to_lower c))" for c
    unfolding byte_char_to_lower by (auto simp: ascii_alnum_def)
  with l show ?thesis
    by (auto simp: label_ok_def to_lower_def hd_map last_map byte_hyphen_iff char_to_lower_hyphen)
qed

lemma three_hyphens_to_lower: "str_contains (to_lower s) ''---'' \<longleftrightarrow> str_contains s ''---''"
proof (induction s rule: rev_induct)
  case (snoc c s)
  have "has_suffix (to_lower s) ''--'' \<longleftrightarrow> has_suffix s ''--''"
  proof (cases s rule: rev_cases)
    case (snoc t d)
    then show ?thesis
      using has_suffix_snoc [of t d] has_suffix_snoc [of "to_lower t" "char_to_lower d"]
      by (auto simp: to_lower_def last_map char_to_lower_hyphen)
  qed (simp add: to_lower_def)
  with snoc.IH show ?case
    using three_hyphens_snoc [of s c] three_hyphens_snoc [of "to_lower s" "char_to_lower c"]
    by (simp add: to_lower_def char_to_lower_hyphen)
qed (simp add: to_lower_def)

lemma runes_from_snd: "set (map snd (runes_from i s)) = set (runes s)"
  using runes_from_shift [of i s 0] by (simp add: runes_def)

text \<open>
  what \<open>ParseNormalized\<close> returns is accepted by every later check: it is a fixed point of
  the parser, and its lowercase form, the key under which the profile database stores the device,
  is accepted unchanged by \<open>NewHumanIDLower\<close>.
\<close>

theorem ParseNormalized_stable:
  assumes nu: "netutil_ok nu" and res: "ParseNormalized nu s = Inr h"
  shows "ParseNormalized nu h = Inr h \<and>
         NewHumanIDLower nu (HumanIDToLower h) = Inr (HumanIDToLower h)"
proof -
  note h = ParseNormalized_valid [OF nu res]
  then have low: "newHumanID nu (to_lower h) = Inr (to_lower h)"
    by (simp add: newHumanID_iff [OF nu] label_ok_to_lower three_hyphens_to_lower)
  then have "label_ok (MaxDomainLabelLen nu) (to_lower h)" by (simp add: newHumanID_iff [OF nu])
  then have "runes (to_lower h) = map byte (to_lower h)"
    by (intro runes_ascii label_ok_ascii)
  then have "\<forall>r \<in> set (runes (to_lower h)). \<not> (65 \<le> r \<and> r \<le> 90)"
    by (auto simp: to_lower_def byte_char_to_lower)
  then have "\<forall>x \<in> set (runes_from 0 (to_lower h)). \<not> (65 \<le> snd x \<and> snd x \<le> 90)"
    using runes_from_snd [of 0 "to_lower h"] by auto
  then have "find (\<lambda>(i, r). 65 \<le> r \<and> r \<le> 90) (runes_from 0 (to_lower h)) = None"
    by (auto simp: find_None_iff)
  with h low show ?thesis
    by (simp add: ParseNormalized_def NewHumanIDLower_def HumanIDToLower_def)
qed

theorem ParseNormalized_stable_witness:
  "ParseNormalized netutil_std ''My-PC'' = Inr ''My-PC'' \<and>
   NewHumanIDLower netutil_std (HumanIDToLower ''My-PC'') = Inr (HumanIDToLower ''My-PC'')"
proof -
  have "ParseNormalized netutil_std ''My-PC'' = Inr ''My-PC''"
    by (simp add: ParseNormalized_def newHumanID_def netutil_std_def label_ok_def ascii_alnum_def
        hyphen_def MinHumanIDLen_def has_prefix_def Inclusion_def)
  with ParseNormalized_stable [OF netutil_std_ok this] show ?thesis by simp
qed

subsection \<open>Device types, parsed and printed\<close>

lemma find_device_type_iff:
  "distinct (map to_lower ds) \<Longrightarrow>
     find_device_type i s ds = Some k \<longleftrightarrow> (\<exists>j < length ds. k = i + j \<and> to_lower s = to_lower (ds ! j))"
proof (induction i s ds rule: find_device_type.induct)
  case (2 i s d ds)
  show ?case
  proof (cases "to_lower s = to_lower d")
    case True
    with "2.prems" have ne: "to_lower s \<notin> to_lower ` set ds" by simp
    have "(\<exists>j < length (d # ds). k = i + j \<and> to_lower s = to_lower ((d # ds) ! j)) \<longleftrightarrow> k = i"
    proof
      assume "\<exists>j < length (d # ds). k = i + j \<and> to_lower s = to_lower ((d # ds) ! j)"
      then obtain j where j: "j < length (d # ds)" "k = i + j" "to_lower s = to_lower ((d # ds) ! j)"
        by blast
      have "j = 0"
      proof (rule ccontr)
        assume "j \<noteq> 0"
        then obtain j' where "j = Suc j'" by (cases j) auto
        with j have "j' < length ds" "to_lower s = to_lower (ds ! j')" by simp_all
        with ne show False by (metis imageI nth_mem)
      qed
      with j show "k = i" by simp
    next
      assume "k = i"
      with True show "\<exists>j < length (d # ds). k = i + j \<and> to_lower s = to_lower ((d # ds) ! j)"
        by (intro exI [of _ 0]) simp
    qed
    moreover have "find_device_type i s (d # ds) = Some i"
      using True by (simp add: equal_fold_def)
    ultimately show ?thesis by auto
  next
    case False
    then have "find_device_type i s (d # ds) = find_device_type (Suc i) s ds"
      by (simp add: equal_fold_def)
    moreover have "(\<exists>j < length (d # ds). k = i + j \<and> to_lower s = to_lower ((d # ds) ! j)) \<longleftrightarrow>
        (\<exists>j < length ds. k = Suc i + j \<and> to_lower s = to_lower (ds ! j))"
      using False by (auto simp: less_Suc_eq_0_disj)
    ultimately show ?thesis using False 2 by (simp add: equal_fold_def)
  qed
qed simp

lemma deviceTypeStrings_tl:
  "distinct (map to_lower (tl deviceTypeStrings))"
  "\<forall>d \<in> set (tl deviceTypeStrings). to_lower d = d \<and> length d = 3"
  by code_simp+

lemma DeviceTypeFromDNS_iff:
  "DeviceTypeFromDNS s = Inr dt \<longleftrightarrow> 1 \<le> dt \<and> DeviceType_String dt = Some (to_lower s)"
proof -
  have nth: "1 \<le> k \<Longrightarrow> deviceTypeStrings ! k = tl deviceTypeStrings ! (k - 1)" for k
    by (cases k) (simp_all add: deviceTypeStrings_def)
  have len: "length deviceTypeStrings = Suc (length (tl deviceTypeStrings))"
    by (simp add: deviceTypeStrings_def)
  have low: "j < length (tl deviceTypeStrings) \<Longrightarrow>
      to_lower (tl deviceTypeStrings ! j) = tl deviceTypeStrings ! j \<and>
      length (tl deviceTypeStrings ! j) = 3" for j
    using deviceTypeStrings_tl(2) nth_mem by blast
  have "DeviceTypeFromDNS s = Inr dt \<longleftrightarrow>
      length s = 3 \<and> find_device_type 1 s (tl deviceTypeStrings) = Some dt"
    by (auto simp: DeviceTypeFromDNS_def Inclusion_def split: option.splits)
  also have "\<dots> \<longleftrightarrow> length s = 3 \<and>
      (\<exists>j < length (tl deviceTypeStrings). dt = 1 + j \<and> to_lower s = tl deviceTypeStrings ! j)"
    using low by (auto simp: find_device_type_iff [OF deviceTypeStrings_tl(1)])
  also have "\<dots> \<longleftrightarrow> 1 \<le> dt \<and> DeviceType_String dt = Some (to_lower s)"
  proof (cases dt)
    case (Suc j)
    have "j < length (tl deviceTypeStrings) \<Longrightarrow> to_lower s = tl deviceTypeStrings ! j \<Longrightarrow> length s = 3"
      using low [of j] length_to_lower [of s] by simp
    moreover have "DeviceType_String dt =
        (if j < length (tl deviceTypeStrings) then Some (tl deviceTypeStrings ! j) else None)"
      using Suc nth [of dt] len by (simp add: DeviceType_String_def)
    ultimately show ?thesis using Suc by auto
  qed simp
  finally show ?thesis .
qed

text \<open>
  \<open>DeviceTypeFromDNS\<close> inverts \<open>DeviceType.String\<close> up to letter case on the nine proper device
  types, and recognises nothing else; in particular never the zero type.
\<close>

theorem DeviceTypeFromDNS_inverts_String:
  "DeviceTypeFromDNS s = Inr dt \<longleftrightarrow> 1 \<le> dt \<and> DeviceType_String dt = Some (to_lower s)"
  by (rule DeviceTypeFromDNS_iff)

end
