(* ===== verification/Filter_Types.thy ===== *)
theory Filter_Types
  imports Agd_Ids Dns_Msg
begin

text \<open>
  Data of package \<open>internal/filter\<close>: filter and rule identifiers, filtering configurations, the weekly
  schedule of the parental-control pause, filtering requests, responses and results, and the
  constructor of replaced results.  Deep clones of messages are equal to the original, so the cloner
  does not appear; the new identifier that \<^verbatim>\<open>dns.Id\<close> gives a cloned request is an argument.
\<close>

subsection \<open>Identifiers\<close>

type_synonym filter_id = string
type_synonym rule_text = string
type_synonym blocked_service_id = string
type_synonym category_id = string

definition valid_id :: "nat \<Rightarrow> nat \<Rightarrow> string \<Rightarrow> (id_error, string) result" where
  "valid_id minLen maxLen s =
     (case Inclusion (length s) minLen maxLen of
        Some e \<Rightarrow> Inl e
      | None \<Rightarrow> (case FirstNonIDRune s True of Some (i, r) \<Rightarrow> Inl (BadChar i) | None \<Rightarrow> Inr s))"

definition NewID :: "string \<Rightarrow> (id_error, filter_id) result" where
  "NewID s = valid_id 1 128 s"

definition NewBlockedServiceID :: "string \<Rightarrow> (id_error, blocked_service_id) result" where
  "NewBlockedServiceID s = valid_id 1 64 s"

definition NewCategoryID :: "string \<Rightarrow> (id_error, category_id) result" where
  "NewCategoryID s = valid_id 1 128 s"

definition MaxRuleTextRuneLen :: nat where
  "MaxRuleTextRuneLen = 10000"

definition NewRuleText :: "string \<Rightarrow> (id_error, rule_text) result" where
  "NewRuleText s =
     (case Inclusion (length (runes s)) 0 MaxRuleTextRuneLen of Some e \<Rightarrow> Inl e | None \<Rightarrow> Inr s)"

definition IDNone :: filter_id where "IDNone = []"
definition IDAdGuardDNS :: filter_id where "IDAdGuardDNS = ''adguard_dns_filter''"
definition IDAdultBlocking :: filter_id where "IDAdultBlocking = ''adult_blocking''"
definition IDBlockedService :: filter_id where "IDBlockedService = ''blocked_service''"
definition IDCategory :: filter_id where "IDCategory = ''category''"
definition IDCustom :: filter_id where "IDCustom = ''custom''"
definition IDSafeBrowsing :: filter_id where "IDSafeBrowsing = ''safe_browsing''"
definition IDTyposquatting :: filter_id where "IDTyposquatting = ''typosquatting''"

subsection \<open>The weekly schedule\<close>

text \<open>
  A time zone gives for an instant the offset from UTC and the bounds of the period in which that
  offset holds, as the lookup of package \<open>time\<close> does.  \<open>go_date\<close> is \<^verbatim>\<open>time.Date\<close>, which turns a local
  date and time into an instant: it tries the offset that holds when the local time is read as UTC, and
  the offset at the result if that is not in the same period.  Day 0 of the time scale is a Monday.
\<close>

type_synonym location = "time \<Rightarrow> duration \<times> time \<times> time"

definition day_ns :: int where "day_ns = 86400 * nsec_per_sec"
definition minute_ns :: int where "minute_ns = 60 * nsec_per_sec"

definition local_time :: "location \<Rightarrow> time \<Rightarrow> int" where
  "local_time loc t = t + fst (loc t)"

definition weekday :: "int \<Rightarrow> nat" where
  "weekday l = nat ((l div day_ns + 1) mod 7)"

definition go_date :: "location \<Rightarrow> int \<Rightarrow> time" where
  "go_date loc l =
     (case loc l of (off, begins, ends) \<Rightarrow>
        if off = 0 then l
        else
          (let utc = l - off
           in if utc < begins \<or> ends \<le> utc then l - fst (loc utc) else utc))"

record day_interval =
  di_Start :: "16 word"
  di_End :: "16 word"

datatype schedule_error = EndBeforeStart | StartTooLarge | EndTooLarge

definition empty_interval :: day_interval where
  "empty_interval = \<lparr>di_Start = 0, di_End = 0\<rparr>"

definition interval_Validate :: "day_interval option \<Rightarrow> schedule_error option" where
  "interval_Validate r =
     (case r of
        None \<Rightarrow> None
      | Some i \<Rightarrow>
          if i = empty_interval then None
          else if di_End i < di_Start i then Some EndBeforeStart
          else if 24 * 60 - 1 < di_Start i then Some StartTooLarge
          else if 24 * 60 < di_End i then Some EndTooLarge
          else None)"

record config_schedule =
  sch_Week :: "nat \<Rightarrow> day_interval option"
  sch_TimeZone :: location

definition schedule_Contains :: "config_schedule \<Rightarrow> time \<Rightarrow> bool" where
  "schedule_Contains s t =
     (let loc = sch_TimeZone s;
          l = local_time loc t
      in case sch_Week s (weekday l) of
           None \<Rightarrow> False
         | Some r \<Rightarrow>
             if r = empty_interval then False
             else
               (let day = go_date loc (l - l mod day_ns);
                    start = day + uint (di_Start r) * minute_ns;
                    stop = day + uint (di_End r) * minute_ns
                in \<not> t < start \<and> t < stop))"

subsection \<open>Configurations\<close>

record config_categories =
  cat_IDs :: "category_id list"
  cat_Enabled :: bool

record config_parental =
  par_Categories :: config_categories
  PauseSchedule :: "config_schedule option"
  BlockedServices :: "blocked_service_id list"
  par_Enabled :: bool
  AdultBlockingEnabled :: bool
  SafeSearchGeneralEnabled :: bool
  SafeSearchYouTubeEnabled :: bool

record config_rule_list =
  rlc_IDs :: "filter_id list"
  rlist_Enabled :: bool

record config_safe_browsing =
  TyposquattingEnabled :: "bool option"
  sb_Enabled :: bool
  DangerousDomainsEnabled :: bool
  NewlyRegisteredDomainsEnabled :: bool

text \<open>A custom filter is determined by its rules.\<close>

record config_custom_filter =
  cf_Rules :: "rule_text list"
  cf_Enabled :: bool

record config_client =
  CustomFilter :: config_custom_filter
  CustomRuleList :: config_rule_list
  cl_Parental :: config_parental
  cl_RuleList :: config_rule_list
  cl_SafeBrowsing :: config_safe_browsing

record config_group =
  gr_Parental :: config_parental
  gr_RuleList :: config_rule_list
  gr_SafeBrowsing :: config_safe_browsing

datatype filter_config = ConfigNil | ConfigClient config_client | ConfigGroup config_group

subsection \<open>Requests, responses and results\<close>

record flt_request =
  fr_DNS :: msg
  fr_Messages :: constructor
  fr_RemoteIP :: addr
  fr_ClientName :: string
  fr_Host :: string
  fr_QType :: "16 word"
  fr_QClass :: "16 word"

record flt_response =
  fs_DNS :: msg
  fs_RemoteIP :: addr
  fs_ClientName :: string

datatype flt_result =
    ResultAllowed filter_id rule_text
  | ResultBlocked filter_id rule_text
  | ResultModifiedResponse msg filter_id rule_text
  | ResultModifiedRequest msg filter_id rule_text

text \<open>Errors of filtering: an error of the message constructor, and the panics.\<close>

datatype flt_error = FltMessage msg_error | PanicResultType | PanicRuleID | PanicNilDomains

fun MatchedRule :: "flt_result \<Rightarrow> filter_id \<times> rule_text" where
  "MatchedRule (ResultAllowed i r) = (i, r)"
| "MatchedRule (ResultBlocked i r) = (i, r)"
| "MatchedRule (ResultModifiedResponse m i r) = (i, r)"
| "MatchedRule (ResultModifiedRequest m i r) = (i, r)"

fun CloneModifiedResult ::
  "dnslib \<Rightarrow> 16 word \<Rightarrow> msg \<Rightarrow> flt_result option \<Rightarrow> (flt_error, flt_result option) result" where
  "CloneModifiedResult L newId req None = Inr None"
| "CloneModifiedResult L newId req (Some (ResultModifiedRequest m i r)) =
     Inr (Some (ResultModifiedRequest (m\<lparr>Id := newId\<rparr>) i r))"
| "CloneModifiedResult L newId req (Some (ResultModifiedResponse m i r)) =
     Inr (Some (ResultModifiedResponse (dl_SetReply L m req) i r))"
| "CloneModifiedResult L newId req (Some _) = Inl PanicResultType"

text \<open>The value that \<open>SetModifiedResultInCache\<close> puts into a cache.\<close>

fun cached_modified_result :: "16 word \<Rightarrow> flt_result \<Rightarrow> (flt_error, flt_result) result" where
  "cached_modified_result newId (ResultModifiedRequest m i r) =
     Inr (ResultModifiedRequest (m\<lparr>Id := newId\<rparr>) i r)"
| "cached_modified_result newId (ResultModifiedResponse m i r) = Inr (ResultModifiedResponse m i r)"
| "cached_modified_result newId _ = Inl PanicResultType"

datatype addr_family = AddrFamilyNone | FamilyIPv4 | FamilyIPv6

text \<open>\<open>famOf\<close> is the family of a question type (golibs); its documented values are \<open>famOf_ok\<close>.\<close>

definition famOf_ok :: "(16 word \<Rightarrow> addr_family) \<Rightarrow> bool" where
  "famOf_ok famOf \<longleftrightarrow>
     (\<forall>qt. famOf qt = (if qt = TypeA then FamilyIPv4 else if qt = TypeAAAA then FamilyIPv6 else AddrFamilyNone))"

definition IsFilterable :: "(16 word \<Rightarrow> addr_family) \<Rightarrow> 16 word \<Rightarrow> addr_family \<times> bool" where
  "IsFilterable famOf qt =
     (if qt = TypeHTTPS then (AddrFamilyNone, True)
      else (let fam = famOf qt in (fam, fam \<noteq> AddrFamilyNone)))"

subsection \<open>Replaced results\<close>

record repl_cons =
  replIP :: addr
  replFQDN :: string

definition NewReplacedResultConstructor ::
  "dnslib \<Rightarrow> (string \<Rightarrow> addr option) \<Rightarrow> (string \<Rightarrow> bool) \<Rightarrow> string \<Rightarrow> repl_cons option" where
  "NewReplacedResultConstructor L parseAddr validDomain replacement =
     (case parseAddr replacement of
        Some ip \<Rightarrow> Some \<lparr>replIP = ip, replFQDN = []\<rparr>
      | None \<Rightarrow>
          if \<not> validDomain replacement then None
          else Some \<lparr>replIP = AddrZero, replFQDN = dl_Fqdn L replacement\<rparr>)"

definition set_qname :: "string \<Rightarrow> msg \<Rightarrow> msg" where
  "set_qname n m = m\<lparr>Question := (case Question m of [] \<Rightarrow> [] | q # qs \<Rightarrow> q\<lparr>q_Name := n\<rparr> # qs)\<rparr>"

definition respForFamily ::
  "dnslib \<Rightarrow> repl_cons \<Rightarrow> flt_request \<Rightarrow> addr_family \<Rightarrow> (msg_error, msg) result" where
  "respForFamily L c req fam =
     (if fam = AddrFamilyNone then NewBlockedResp L (fr_Messages req) (fr_DNS req) None
      else if addr_is4 (replIP c) \<and> fam = FamilyIPv4 \<or> addr_is6 (replIP c) \<and> fam = FamilyIPv6
      then NewBlockedRespIP L (fr_Messages req) (fr_DNS req) [replIP c]
      else Inr (AddEDE L (fr_Messages req) (fr_DNS req) ExtendedErrorCodeFiltered
                  (NewRespRCode L (fr_Messages req) (fr_DNS req) RcodeSuccess)))"

definition repl_New ::
  "dnslib \<Rightarrow> repl_cons \<Rightarrow> flt_request \<Rightarrow> filter_id \<Rightarrow> rule_text \<Rightarrow> addr_family \<Rightarrow>
     (flt_error, flt_result) result" where
  "repl_New L c req i rule fam =
     (if replFQDN c \<noteq> [] then Inr (ResultModifiedRequest (set_qname (replFQDN c) (fr_DNS req)) i rule)
      else (case respForFamily L c req fam of
              Inl e \<Rightarrow> Inl (FltMessage e)
            | Inr resp \<Rightarrow> Inr (ResultModifiedResponse resp i rule)))"

subsection \<open>Properties of the schedule\<close>

text \<open>A zone without offset changes.\<close>

definition zone_fixed :: "location \<Rightarrow> duration \<Rightarrow> bool" where
  "zone_fixed loc off \<longleftrightarrow> (\<forall>t. fst (loc t) = off)"

lemma go_date_fixed: "zone_fixed loc off \<Longrightarrow> go_date loc l = l - off"
  by (cases "loc l") (auto simp: zone_fixed_def go_date_def Let_def dest: spec [of _ l])

lemma minutes_le_iff: "x * minute_ns \<le> y \<longleftrightarrow> x \<le> y div minute_ns"
proof -
  have pos: "0 < minute_ns" by (simp add: minute_ns_def nsec_per_sec_def)
  have "y = minute_ns * (y div minute_ns) + y mod minute_ns" by simp
  moreover have "0 \<le> y mod minute_ns" "y mod minute_ns < minute_ns" using pos by simp_all
  ultimately show ?thesis
    by (metis pos mult.commute mult_le_cancel_left_pos nonzero_mult_div_cancel_right order.strict_implies_not_eq
        zdiv_mono1 add_increasing2 order_trans)
qed

lemma schedule_Contains_fixed:
  assumes "zone_fixed (sch_TimeZone s) off"
  shows "schedule_Contains s t \<longleftrightarrow>
           (\<exists>r. sch_Week s (weekday (t + off)) = Some r \<and>
              uint (di_Start r) \<le> (t + off) mod day_ns div minute_ns \<and>
              (t + off) mod day_ns div minute_ns < uint (di_End r))"
proof -
  let ?l = "t + off"
  have loc: "local_time (sch_TimeZone s) t = ?l" using assms by (simp add: local_time_def zone_fixed_def)
  have "\<not> t < ?l - ?l mod day_ns - off + x * minute_ns \<longleftrightarrow> x \<le> ?l mod day_ns div minute_ns" for x
    unfolding minutes_le_iff [symmetric] by linarith
  moreover have "t < ?l - ?l mod day_ns - off + x * minute_ns \<longleftrightarrow> ?l mod day_ns div minute_ns < x" for x
    using minutes_le_iff [of x "?l mod day_ns"] by linarith
  ultimately show ?thesis
    unfolding schedule_Contains_def loc Let_def go_date_fixed [OF assms]
    by (auto simp: empty_interval_def split: option.split)
qed

text \<open>
  in a time zone without offset changes the pause schedule contains an instant exactly when the
  minute of the local day is in the interval of the local weekday, the end excluded.
\<close>

theorem schedule_is_wall_clock:
  assumes "\<forall>u. fst (sch_TimeZone s u) = off"
  shows "schedule_Contains s t \<longleftrightarrow>
           (\<exists>r. sch_Week s (weekday (t + off)) = Some r \<and>
              uint (di_Start r) \<le> (t + off) mod day_ns div minute_ns \<and>
              (t + off) mod day_ns div minute_ns < uint (di_End r))"
  using schedule_Contains_fixed [of s off t] assms by (simp add: zone_fixed_def)

definition ex_schedule :: "location \<Rightarrow> config_schedule" where
  "ex_schedule loc =
     \<lparr>sch_Week = (\<lambda>d. if d = 1 then Some \<lparr>di_Start = 600, di_End = 660\<rparr> else None), sch_TimeZone = loc\<rparr>"

theorem schedule_is_wall_clock_witness:
  "schedule_Contains (ex_schedule (\<lambda>_. (3600 * nsec_per_sec, 0, 0))) (34200 * nsec_per_sec)"
proof -
  let ?s = "ex_schedule (\<lambda>_. (3600 * nsec_per_sec, 0, 0))"
  have "\<forall>u. fst (sch_TimeZone ?s u) = 3600 * nsec_per_sec" by (simp add: ex_schedule_def)
  from schedule_is_wall_clock [OF this, of "34200 * nsec_per_sec"] show ?thesis
    by (simp add: ex_schedule_def weekday_def day_ns_def minute_ns_def nsec_per_sec_def)
qed

text \<open>
  On a day on which the clock is set forward, the interval is counted from midnight in elapsed time: at
  half past ten by the local clock an interval from ten to eleven is not there yet.
\<close>

definition ex_dst_zone :: location where
  "ex_dst_zone t =
     (let hour = 3600 * nsec_per_sec
      in if t < hour then (hour, - (2 ^ 62), hour) else (2 * hour, hour, 2 ^ 62))"

lemma schedule_shifts_with_dst:
  "local_time ex_dst_zone (30600 * nsec_per_sec) = 37800 * nsec_per_sec \<and>
   \<not> schedule_Contains (ex_schedule ex_dst_zone) (30600 * nsec_per_sec)"
  by (simp add: local_time_def ex_dst_zone_def schedule_Contains_def ex_schedule_def weekday_def
      go_date_def day_ns_def minute_ns_def nsec_per_sec_def empty_interval_def Let_def)

end
