(* ===== verification/Agdcache.thy ===== *)
theory Agdcache
  imports Prelude
begin

text \<open>
  The caches of \<open>internal/agdcache\<close>: the interface, the empty cache, the LRU cache with expiration and
  the wrapper around the LRU cache of another module.  The LRU lists themselves (simplelru and gcache)
  are third-party: they are parameters with what their documentation says, in terms of the entries
  that are kept.  A cache may forget an entry at any time but never makes one up; this contract is the
  locale \<open>agdcache\<close>, from which the filters and the DNS caches get that a cache changes no result.
\<close>

subsection \<open>The interface\<close>

text \<open>Every operation gets one reading of the clock.\<close>

record ('c, 'k, 'v) cache_if =
  ci_Set :: "time \<Rightarrow> 'k \<Rightarrow> 'v \<Rightarrow> 'c \<Rightarrow> 'c"
  ci_SetWithExpire :: "time \<Rightarrow> 'k \<Rightarrow> 'v \<Rightarrow> duration \<Rightarrow> 'c \<Rightarrow> 'c"
  ci_Get :: "time \<Rightarrow> 'k \<Rightarrow> 'c \<Rightarrow> 'v option \<times> 'c"
  ci_Clear :: "'c \<Rightarrow> 'c"

text \<open>\<open>live t c\<close> are the entries that a lookup at the instant \<open>t\<close> finds.\<close>

locale agdcache =
  fixes C :: "('c, 'k, 'v) cache_if" and live :: "time \<Rightarrow> 'c \<Rightarrow> 'k \<rightharpoonup> 'v"
  assumes get_live: "fst (ci_Get C now k c) = live now c k"
    and get_keeps: "live t (snd (ci_Get C now k c)) \<subseteq>\<^sub>m live t c"
    and set_live: "live t (ci_Set C now k v c) \<subseteq>\<^sub>m (live t c)(k \<mapsto> v)"
    and set_expire_live: "live t (ci_SetWithExpire C now k v d c) \<subseteq>\<^sub>m (live t c)(k \<mapsto> v)"
    and set_expire_expires:
      "modern t \<Longrightarrow> modern (now + d) \<Longrightarrow> now + d < t \<Longrightarrow> live t (ci_SetWithExpire C now k v d c) k = None"
    and clear_live: "live t (ci_Clear C c) = Map.empty"
begin

text \<open>All entries of a cache, found at whatever instant, satisfy a predicate.\<close>

definition entries_sat :: "('k \<Rightarrow> 'v \<Rightarrow> bool) \<Rightarrow> 'c \<Rightarrow> bool" where
  "entries_sat P c \<longleftrightarrow> (\<forall>t k v. live t c k = Some v \<longrightarrow> P k v)"

lemma entries_sat_mono: "(\<And>t. live t c' \<subseteq>\<^sub>m live t c) \<Longrightarrow> entries_sat P c \<Longrightarrow> entries_sat P c'"
  unfolding entries_sat_def map_le_def by (metis domI)

lemma entries_sat_get: "entries_sat P c \<Longrightarrow> entries_sat P (snd (ci_Get C now k c))"
  by (rule entries_sat_mono [OF get_keeps])

lemma get_sat: "entries_sat P c \<Longrightarrow> ci_Get C now k c = (Some v, c') \<Longrightarrow> P k v"
  using get_live [of now k c] by (auto simp: entries_sat_def)

lemma map_le_upd_sat: "m' \<subseteq>\<^sub>m m(k \<mapsto> v) \<Longrightarrow> m' k' = Some v' \<Longrightarrow> k' = k \<and> v' = v \<or> m k' = Some v'"
  unfolding map_le_def by (metis domI fun_upd_apply option.inject)

lemma entries_sat_set: "entries_sat P c \<Longrightarrow> P k v \<Longrightarrow> entries_sat P (ci_Set C now k v c)"
  unfolding entries_sat_def using map_le_upd_sat [OF set_live] by metis

lemma entries_sat_set_expire:
  "entries_sat P c \<Longrightarrow> P k v \<Longrightarrow> entries_sat P (ci_SetWithExpire C now k v d c)"
  unfolding entries_sat_def using map_le_upd_sat [OF set_expire_live] by metis

lemma entries_sat_clear: "entries_sat P (ci_Clear C c)"
  by (simp add: entries_sat_def clear_live)

end

subsection \<open>The empty cache\<close>

definition Empty_Get :: "time \<Rightarrow> 'k \<Rightarrow> unit \<Rightarrow> 'v option \<times> unit" where
  "Empty_Get now k c = (None, c)"

definition Empty_Set :: "time \<Rightarrow> 'k \<Rightarrow> 'v \<Rightarrow> unit \<Rightarrow> unit" where
  "Empty_Set now k v c = c"

definition Empty_SetWithExpire :: "time \<Rightarrow> 'k \<Rightarrow> 'v \<Rightarrow> duration \<Rightarrow> unit \<Rightarrow> unit" where
  "Empty_SetWithExpire now k v d c = c"

definition Empty_Clear :: "unit \<Rightarrow> unit" where
  "Empty_Clear c = c"

definition Empty_if :: "(unit, 'k, 'v) cache_if" where
  "Empty_if = \<lparr>ci_Set = Empty_Set, ci_SetWithExpire = Empty_SetWithExpire, ci_Get = Empty_Get,
     ci_Clear = Empty_Clear\<rparr>"

interpretation empty_cache: agdcache Empty_if "\<lambda>_ _. Map.empty"
  by unfold_locales
    (simp_all add: Empty_if_def Empty_Get_def Empty_Set_def Empty_SetWithExpire_def Empty_Clear_def)

subsection \<open>The LRU cache with expiration\<close>

record ('l, 'k, 'v) simplelru =
  sl_Add :: "'k \<Rightarrow> 'v \<Rightarrow> 'l \<Rightarrow> 'l"
  sl_Get :: "'k \<Rightarrow> 'l \<Rightarrow> 'v option \<times> 'l"
  sl_Remove :: "'k \<Rightarrow> 'l \<Rightarrow> 'l"
  sl_Purge :: "'l \<Rightarrow> 'l"

text \<open>
  An LRU list keeps entries: reading one does not change them, adding one may drop others, and removing
  and purging do what they say.
\<close>

definition simplelru_ok :: "('l, 'k, 'v) simplelru \<Rightarrow> ('l \<Rightarrow> 'k \<rightharpoonup> 'v) \<Rightarrow> bool" where
  "simplelru_ok S kept \<longleftrightarrow>
     (\<forall>k l. fst (sl_Get S k l) = kept l k \<and> kept (snd (sl_Get S k l)) = kept l) \<and>
     (\<forall>k v l. kept (sl_Add S k v l) k = Some v \<and> kept (sl_Add S k v l) \<subseteq>\<^sub>m (kept l)(k \<mapsto> v)) \<and>
     (\<forall>k l. kept (sl_Remove S k l) = (kept l)(k := None)) \<and>
     (\<forall>l. kept (sl_Purge S l) = Map.empty)"

record 'v cache_entry =
  ce_val :: 'v
  ce_expiration :: "64 word"

type_synonym ('l, 'k, 'v) entry_lru = "('l, 'k, 'v cache_entry) simplelru"

definition default_Set :: "('l, 'k, 'v) entry_lru \<Rightarrow> time \<Rightarrow> 'k \<Rightarrow> 'v \<Rightarrow> 'l \<Rightarrow> 'l" where
  "default_Set S now k v l = sl_Add S k \<lparr>ce_val = v, ce_expiration = 0\<rparr> l"

definition default_SetWithExpire ::
  "('l, 'k, 'v) entry_lru \<Rightarrow> time \<Rightarrow> 'k \<Rightarrow> 'v \<Rightarrow> duration \<Rightarrow> 'l \<Rightarrow> 'l" where
  "default_SetWithExpire S now k v d l = sl_Add S k \<lparr>ce_val = v, ce_expiration = UnixNano (now + d)\<rparr> l"

definition expired :: "time \<Rightarrow> 'v cache_entry \<Rightarrow> bool" where
  "expired now e \<longleftrightarrow> 0 <s ce_expiration e \<and> ce_expiration e <s UnixNano now"

definition default_Get :: "('l, 'k, 'v) entry_lru \<Rightarrow> time \<Rightarrow> 'k \<Rightarrow> 'l \<Rightarrow> 'v option \<times> 'l" where
  "default_Get S now k l =
     (case sl_Get S k l of
        (None, l) \<Rightarrow> (None, l)
      | (Some e, l) \<Rightarrow> if expired now e then (None, sl_Remove S k l) else (Some (ce_val e), l))"

definition default_Clear :: "('l, 'k, 'v) entry_lru \<Rightarrow> 'l \<Rightarrow> 'l" where
  "default_Clear S l = sl_Purge S l"

definition default_if :: "('l, 'k, 'v) entry_lru \<Rightarrow> ('l, 'k, 'v) cache_if" where
  "default_if S =
     \<lparr>ci_Set = default_Set S, ci_SetWithExpire = default_SetWithExpire S, ci_Get = default_Get S,
      ci_Clear = default_Clear S\<rparr>"

definition default_live :: "('l \<Rightarrow> 'k \<rightharpoonup> 'v cache_entry) \<Rightarrow> time \<Rightarrow> 'l \<Rightarrow> 'k \<rightharpoonup> 'v" where
  "default_live kept now l k =
     (case kept l k of None \<Rightarrow> None | Some e \<Rightarrow> if expired now e then None else Some (ce_val e))"

lemma default_live_mono: "kept l \<subseteq>\<^sub>m kept l' \<Longrightarrow> default_live kept t l \<subseteq>\<^sub>m default_live kept t l'"
  unfolding map_le_def default_live_def by (force split: option.splits if_splits)

lemma default_live_add:
  assumes "simplelru_ok S kept"
  shows "default_live kept t (sl_Add S k e l) \<subseteq>\<^sub>m (default_live kept t l)(k \<mapsto> ce_val e)"
    and "default_live kept t (sl_Add S k e l) k = (if expired t e then None else Some (ce_val e))"
proof -
  have add: "kept (sl_Add S k e l) k = Some e" "kept (sl_Add S k e l) \<subseteq>\<^sub>m (kept l)(k \<mapsto> e)"
    using assms by (auto simp: simplelru_ok_def)
  show "default_live kept t (sl_Add S k e l) k = (if expired t e then None else Some (ce_val e))"
    by (simp add: default_live_def add(1))
  have old: "kept (sl_Add S k e l) k' = Some e' \<Longrightarrow> k' \<noteq> k \<Longrightarrow> kept l k' = Some e'" for k' e'
    using add(2) unfolding map_le_def by (metis domI fun_upd_apply)
  show "default_live kept t (sl_Add S k e l) \<subseteq>\<^sub>m (default_live kept t l)(k \<mapsto> ce_val e)"
    unfolding map_le_def
  proof
    fix a
    assume "a \<in> dom (default_live kept t (sl_Add S k e l))"
    then show "default_live kept t (sl_Add S k e l) a = ((default_live kept t l)(k \<mapsto> ce_val e)) a"
      using add(1) old by (cases "a = k") (auto simp: default_live_def split: option.splits if_splits)
  qed
qed

lemma default_agdcache:
  assumes S: "simplelru_ok S kept"
  shows "agdcache (default_if S) (default_live kept)"
proof
  fix now t k v d l
  have get: "fst (sl_Get S k l) = kept l k" "kept (snd (sl_Get S k l)) = kept l"
    using S by (simp_all add: simplelru_ok_def)
  have rem: "kept (sl_Remove S k l') = (kept l')(k := None)" for l' using S by (simp add: simplelru_ok_def)
  show "fst (ci_Get (default_if S) now k l) = default_live kept now l k"
    using get by (auto simp: default_if_def default_Get_def default_live_def split: prod.splits option.splits)
  have "kept (snd (default_Get S now k l)) \<subseteq>\<^sub>m kept l"
    using get by (auto simp: default_Get_def rem split: prod.splits option.splits)
  then show "default_live kept t (snd (ci_Get (default_if S) now k l)) \<subseteq>\<^sub>m default_live kept t l"
    by (simp add: default_if_def default_live_mono)
  show "default_live kept t (ci_Set (default_if S) now k v l) \<subseteq>\<^sub>m (default_live kept t l)(k \<mapsto> v)"
    using default_live_add(1) [OF S, of t k "\<lparr>ce_val = v, ce_expiration = 0\<rparr>" l]
    by (simp add: default_if_def default_Set_def)
  show "default_live kept t (ci_SetWithExpire (default_if S) now k v d l) \<subseteq>\<^sub>m (default_live kept t l)(k \<mapsto> v)"
    using default_live_add(1) [OF S, of t k "\<lparr>ce_val = v, ce_expiration = UnixNano (now + d)\<rparr>" l]
    by (simp add: default_if_def default_SetWithExpire_def)
  show "default_live kept t (ci_SetWithExpire (default_if S) now k v d l) k = None"
    if "modern t" "modern (now + d)" "now + d < t"
    using that default_live_add(2) [OF S, of t k "\<lparr>ce_val = v, ce_expiration = UnixNano (now + d)\<rparr>" l]
    by (simp add: default_if_def default_SetWithExpire_def expired_def word_sless_alt sint_UnixNano modern_def)
  show "default_live kept t (ci_Clear (default_if S) l) = Map.empty"
    using S by (auto simp: default_if_def default_Clear_def default_live_def simplelru_ok_def)
qed

subsection \<open>The wrapper around gcache\<close>

text \<open>
  A cache of that module is given by its operations, which are those of the interface; a lookup whose
  error is not that the key is not there cannot happen, as no loader function is set.
\<close>

definition LRU_Set :: "('c, 'k, 'v) cache_if \<Rightarrow> time \<Rightarrow> 'k \<Rightarrow> 'v \<Rightarrow> 'c \<Rightarrow> 'c" where
  "LRU_Set G = ci_Set G"

definition LRU_SetWithExpire :: "('c, 'k, 'v) cache_if \<Rightarrow> time \<Rightarrow> 'k \<Rightarrow> 'v \<Rightarrow> duration \<Rightarrow> 'c \<Rightarrow> 'c" where
  "LRU_SetWithExpire G = ci_SetWithExpire G"

definition LRU_Get :: "('c, 'k, 'v) cache_if \<Rightarrow> time \<Rightarrow> 'k \<Rightarrow> 'c \<Rightarrow> 'v option \<times> 'c" where
  "LRU_Get G now k c = (case ci_Get G now k c of (None, c) \<Rightarrow> (None, c) | (Some v, c) \<Rightarrow> (Some v, c))"

definition LRU_if :: "('c, 'k, 'v) cache_if \<Rightarrow> ('c, 'k, 'v) cache_if" where
  "LRU_if G = \<lparr>ci_Set = LRU_Set G, ci_SetWithExpire = LRU_SetWithExpire G, ci_Get = LRU_Get G,
     ci_Clear = ci_Clear G\<rparr>"

lemma LRU_if_eq: "LRU_Get G now k c = ci_Get G now k c"
  by (simp add: LRU_Get_def split: prod.split option.split)

lemma LRU_agdcache: "agdcache G live \<Longrightarrow> agdcache (LRU_if G) live"
  by (simp add: agdcache_def LRU_if_def LRU_Set_def LRU_SetWithExpire_def LRU_if_eq)

subsection \<open>An LRU list\<close>

text \<open>
  A list of at most the given number of entries, the most recently used first, that satisfies the laws;
  the interpretations below are on it, and the examples compute with it.
\<close>

definition lru_std :: "nat \<Rightarrow> (('k \<times> 'v) list, 'k, 'v) simplelru" where
  "lru_std n =
     \<lparr>sl_Add = (\<lambda>k v l. take (Suc n) ((k, v) # filter (\<lambda>(k', _). k' \<noteq> k) l)),
      sl_Get = (\<lambda>k l. case map_of l k of
         None \<Rightarrow> (None, l)
       | Some v \<Rightarrow> (Some v, (k, v) # filter (\<lambda>(k', _). k' \<noteq> k) l)),
      sl_Remove = (\<lambda>k l. filter (\<lambda>(k', _). k' \<noteq> k) l),
      sl_Purge = (\<lambda>l. [])\<rparr>"

lemma map_of_filter_neq: "map_of (filter (\<lambda>(k', _). k' \<noteq> k) l) = (map_of l)(k := None)"
  by (induction l) (auto simp: fun_upd_twist)

lemma map_of_take_le: "map_of (take n l) \<subseteq>\<^sub>m map_of l"
proof (induction l arbitrary: n)
  case (Cons x l)
  then show ?case by (cases n) (auto simp: map_le_def, metis domI)
qed simp

lemma lru_std_ok: "simplelru_ok (lru_std n) map_of"
proof -
  have "map_of ((k, v) # take n (filter (\<lambda>(k', _). k' \<noteq> k) l)) \<subseteq>\<^sub>m (map_of l)(k \<mapsto> v)"
    for k :: 'a and v :: 'b and l
  proof -
    have "map_of (take n (filter (\<lambda>(k', _). k' \<noteq> k) l)) \<subseteq>\<^sub>m (map_of l)(k := None)"
      using map_of_take_le [of n "filter (\<lambda>(k', _). k' \<noteq> k) l"] unfolding map_of_filter_neq .
    then show ?thesis unfolding map_le_def by (auto split: if_splits)
  qed
  then show ?thesis
    by (auto simp: simplelru_ok_def lru_std_def map_of_filter_neq split: option.split)
qed

interpretation default_cache: agdcache "default_if (lru_std n)" "default_live map_of"
  by (rule default_agdcache [OF lru_std_ok])

interpretation lru_cache: agdcache "LRU_if (default_if (lru_std n))" "default_live map_of"
  by (rule LRU_agdcache [OF default_cache.agdcache_axioms])

end
