(* ===== verification/Rule_List.thy ===== *)
theory Rule_List
  imports Filter_Types Agdcache
begin

text \<open>
  Rule lists: the text of rules (\<open>internal/agdurlflt\<close>), the rule-list filters with their result cache
  (\<open>internal/filter/internal/rulelist\<close>) and the custom filter of a profile (\<open>internal/filter/custom\<close>).

  The filtering engine is that of the urlfilter module: the record \<open>urlfilter\<close> has the functions that
  are called, and \<open>urlfilter_ok\<close> what is documented of them.  A rule is behind a pointer in the code and
  the collector of results uses pointers as keys, so a rule carries the identity of its pointer.
\<close>

subsection \<open>The text of rules\<close>

definition RulesLen :: "string list \<Rightarrow> nat" where
  "RulesLen ruleStrs = (if ruleStrs = [] then 0 else sum_list (map (\<lambda>s. length s + 1) ruleStrs))"

definition RulesToBytes :: "string list \<Rightarrow> string" where
  "RulesToBytes ruleStrs = (if RulesLen ruleStrs = 0 then [] else concat (map (\<lambda>s. s @ [CHR 0x0A]) ruleStrs))"

text \<open>\<open>lower\<close> is \<^verbatim>\<open>unicode.ToLower\<close>.\<close>

definition RulesToBytesLower :: "(rune \<Rightarrow> rune) \<Rightarrow> string list \<Rightarrow> string" where
  "RulesToBytesLower lower ruleStrs =
     (if RulesLen ruleStrs = 0 then []
      else concat (map (\<lambda>s. concat (map (\<lambda>c. encode_rune (lower c)) (runes s)) @ [CHR 0x0A]) ruleStrs))"

lemma length_RulesToBytes: "length (RulesToBytes rs) = RulesLen rs"
  by (simp add: RulesToBytes_def RulesLen_def length_concat o_def)

subsection \<open>The engine\<close>

datatype rr_value =
    RVNil
  | RVAddr addr
  | RVString string
  | RVMX "16 word" string
  | RVSRV "16 word" "16 word" "16 word" string
  | RVSVCB "16 word" string "(string \<times> string) list"

record dns_rewrite =
  dr_RCode :: int
  dr_RRType :: "16 word"
  dr_Value :: rr_value
  dr_NewCNAME :: string

record network_rule =
  nr_ptr :: nat
  nr_Text :: string
  nr_Whitelist :: bool
  nr_DNSRewrite :: "dns_rewrite option"

record host_rule =
  hr_ptr :: nat
  hr_Text :: string

record uf_request =
  uq_Hostname :: string
  uq_DNSType :: "16 word"
  uq_Answer :: bool
  uq_ClientIP :: addr
  uq_ClientIdentifiers :: "string set"

definition uf_request_reset :: uf_request where
  "uf_request_reset =
     \<lparr>uq_Hostname = [], uq_DNSType = 0, uq_Answer = False, uq_ClientIP = AddrZero, uq_ClientIdentifiers = {}\<rparr>"

record uf_result =
  ur_NetworkRule :: "network_rule option"
  ur_NetworkRules :: "network_rule list"
  ur_HostRulesV4 :: "host_rule list"
  ur_HostRulesV6 :: "host_rule list"

definition uf_result_reset :: uf_result where
  "uf_result_reset = \<lparr>ur_NetworkRule = None, ur_NetworkRules = [], ur_HostRulesV4 = [], ur_HostRulesV6 = []\<rparr>"

text \<open>\<open>uf_Match\<close> is \<^verbatim>\<open>MatchRequestInto\<close> with a result that has been reset.\<close>

record 'g urlfilter =
  uf_NewDNSEngine :: "string \<Rightarrow> 'g"
  uf_Match :: "'g \<Rightarrow> uf_request \<Rightarrow> bool \<times> uf_result"
  uf_DNSRewrites :: "uf_result \<Rightarrow> network_rule list"
  uf_GetDNSBasicRule :: "network_rule list \<Rightarrow> network_rule option"

definition urlfilter_ok :: "'g urlfilter \<Rightarrow> bool" where
  "urlfilter_ok U \<longleftrightarrow>
     (\<forall>rs nr. uf_GetDNSBasicRule U rs = Some nr \<longrightarrow> nr \<in> set rs) \<and>
     (\<forall>res nr. nr \<in> set (uf_DNSRewrites U res) \<longrightarrow> nr \<in> set (ur_NetworkRules res) \<and> nr_DNSRewrite nr \<noteq> None)"

subsection \<open>Rule-list filters\<close>

record cache_key =
  ck_host :: string
  ck_qType :: "16 word"
  ck_qClass :: "16 word"
  ck_isAns :: bool

definition NewCacheKey :: "string \<Rightarrow> 16 word \<Rightarrow> 16 word \<Rightarrow> bool \<Rightarrow> cache_key" where
  "NewCacheKey host qt cl isAns = \<lparr>ck_host = host, ck_qType = qt, ck_qClass = cl, ck_isAns = isAns\<rparr>"

text \<open>No cache stands for the empty result cache, which the code recognises by its type.\<close>

record ('g, 'c) base_filter =
  bf_engine :: 'g
  bf_cache :: "'c option"
  bf_id :: filter_id
  bf_svcID :: blocked_service_id

type_synonym 'c result_cache = "('c, cache_key, uf_result option) cache_if"

definition newBaseFilter ::
  "'g urlfilter \<Rightarrow> string \<Rightarrow> filter_id \<Rightarrow> blocked_service_id \<Rightarrow> 'c option \<Rightarrow> ('g, 'c) base_filter" where
  "newBaseFilter U rulesData i svcID cache =
     \<lparr>bf_engine = uf_NewDNSEngine U rulesData, bf_cache = cache, bf_id = i, bf_svcID = svcID\<rparr>"

definition engine_result :: "'g urlfilter \<Rightarrow> 'g \<Rightarrow> uf_request \<Rightarrow> uf_result option" where
  "engine_result U g req =
     (let (ok, res) = uf_Match U g req in if ok \<or> ur_NetworkRules res \<noteq> [] then Some res else None)"

definition SetURLFilterResult ::
  "'g urlfilter \<Rightarrow> 'c result_cache \<Rightarrow> time \<Rightarrow> uf_request \<Rightarrow> ('g, 'c) base_filter \<Rightarrow>
     uf_result option \<times> ('g, 'c) base_filter" where
  "SetURLFilterResult U C now req f =
     (case bf_cache f of
        None \<Rightarrow> (engine_result U (bf_engine f) req, f)
      | Some c \<Rightarrow>
          (let cacheKey = NewCacheKey (uq_Hostname req) (uq_DNSType req) ClassINET (uq_Answer req)
           in case ci_Get C now cacheKey c of
                (Some cachedRes, c) \<Rightarrow> (cachedRes, f\<lparr>bf_cache := Some c\<rparr>)
              | (None, c) \<Rightarrow>
                  (let res = engine_result U (bf_engine f) req
                   in (res, f\<lparr>bf_cache := Some (ci_Set C now cacheKey res c)\<rparr>))))"

text \<open>The refresh of a list with the data that was loaded; a failed download changes nothing.\<close>

definition rulelist_Refresh ::
  "'g urlfilter \<Rightarrow> 'c result_cache \<Rightarrow> string option \<Rightarrow> ('g, 'c) base_filter \<Rightarrow> ('g, 'c) base_filter" where
  "rulelist_Refresh U C data f =
     (case data of
        None \<Rightarrow> f
      | Some rulesData \<Rightarrow>
          f\<lparr>bf_cache := map_option (ci_Clear C) (bf_cache f), bf_engine := uf_NewDNSEngine U rulesData\<rparr>)"

subsection \<open>Custom filters\<close>

text \<open>The engine of a custom filter is compiled at the first request.\<close>

record 'g custom_filter =
  cu_rules :: "rule_text list"
  cu_immutable :: "('g, unit) base_filter option"

definition custom_New :: "rule_text list \<Rightarrow> 'g custom_filter" where
  "custom_New rs = \<lparr>cu_rules = rs, cu_immutable = None\<rparr>"

definition custom_init :: "'g urlfilter \<Rightarrow> 'g custom_filter \<Rightarrow> ('g, unit) base_filter" where
  "custom_init U f = newBaseFilter U (RulesToBytes (cu_rules f)) IDCustom [] None"

definition custom_SetURLFilterResult ::
  "'g urlfilter \<Rightarrow> time \<Rightarrow> uf_request \<Rightarrow> 'g custom_filter \<Rightarrow> uf_result option \<times> 'g custom_filter" where
  "custom_SetURLFilterResult U now req f =
     (let im = (case cu_immutable f of None \<Rightarrow> custom_init U f | Some im \<Rightarrow> im);
          (res, im) = SetURLFilterResult U Empty_if now req im
      in (res, f\<lparr>cu_immutable := Some im\<rparr>))"

lemma custom_lazy:
  assumes "cu_immutable f = None \<or> cu_immutable f = Some (custom_init U f)"
  shows "custom_SetURLFilterResult U now req f =
           (engine_result U (uf_NewDNSEngine U (RulesToBytes (cu_rules f))) req,
            f\<lparr>cu_immutable := Some (custom_init U f)\<rparr>)"
  using assms
  by (auto simp: custom_SetURLFilterResult_def custom_init_def newBaseFilter_def SetURLFilterResult_def Let_def)

subsection \<open>The result cache\<close>

text \<open>An engine is blind to clients if no rule of it depends on the client.\<close>

definition client_blind :: "'g urlfilter \<Rightarrow> 'g \<Rightarrow> bool" where
  "client_blind U g \<longleftrightarrow>
     (\<forall>r r'. uq_Hostname r = uq_Hostname r' \<longrightarrow> uq_DNSType r = uq_DNSType r' \<longrightarrow> uq_Answer r = uq_Answer r' \<longrightarrow>
        uf_Match U g r = uf_Match U g r')"

definition key_request :: "cache_key \<Rightarrow> uf_request" where
  "key_request k = uf_request_reset\<lparr>uq_Hostname := ck_host k, uq_DNSType := ck_qType k, uq_Answer := ck_isAns k\<rparr>"

lemma engine_result_key:
  "client_blind U g \<Longrightarrow>
   engine_result U g (key_request (NewCacheKey (uq_Hostname req) (uq_DNSType req) cl (uq_Answer req))) =
     engine_result U g req"
  unfolding engine_result_def client_blind_def
  by (metis (no_types, lifting) NewCacheKey_def cache_key.select_convs(1,2,4) key_request_def
      uf_request.select_convs(1-3) uf_request.surjective uf_request.update_convs(1-3))

text \<open>What happens to a rule list: lookups and refreshes, in any order.\<close>

datatype rl_event = RLMatch time uf_request | RLRefresh "string option"

fun rl_apply ::
  "'g urlfilter \<Rightarrow> 'c result_cache \<Rightarrow> rl_event \<Rightarrow> ('g, 'c) base_filter \<Rightarrow> ('g, 'c) base_filter" where
  "rl_apply U C (RLMatch now req) f = snd (SetURLFilterResult U C now req f)"
| "rl_apply U C (RLRefresh data) f = rulelist_Refresh U C data f"

text \<open>The cached results of a rule list are those of its engine.\<close>

definition cached_results_ok ::
  "'g urlfilter \<Rightarrow> (time \<Rightarrow> 'c \<Rightarrow> cache_key \<rightharpoonup> uf_result option) \<Rightarrow> ('g, 'c) base_filter \<Rightarrow> bool" where
  "cached_results_ok U live f \<longleftrightarrow>
     (\<forall>c. bf_cache f = Some c \<longrightarrow>
        agdcache.entries_sat live (\<lambda>k v. v = engine_result U (bf_engine f) (key_request k)) c)"

lemma SetURLFilterResult_cached:
  assumes C: "agdcache C live" and blind: "client_blind U (bf_engine f)" and ok: "cached_results_ok U live f"
  shows "fst (SetURLFilterResult U C now req f) = engine_result U (bf_engine f) req"
    and "cached_results_ok U live (snd (SetURLFilterResult U C now req f))"
    and "bf_engine (snd (SetURLFilterResult U C now req f)) = bf_engine f"
proof -
  let ?P = "\<lambda>k v. v = engine_result U (bf_engine f) (key_request k)"
  let ?k = "NewCacheKey (uq_Hostname req) (uq_DNSType req) ClassINET (uq_Answer req)"
  note key = engine_result_key [OF blind, of req ClassINET]
  have *: "fst (SetURLFilterResult U C now req f) = engine_result U (bf_engine f) req \<and>
      cached_results_ok U live (snd (SetURLFilterResult U C now req f)) \<and>
      bf_engine (snd (SetURLFilterResult U C now req f)) = bf_engine f"
  proof (cases "bf_cache f")
    case None
    then show ?thesis using ok by (simp add: SetURLFilterResult_def)
  next
    case (Some c)
    with ok have sat: "agdcache.entries_sat live ?P c" by (simp add: cached_results_ok_def)
    obtain r c' where get: "ci_Get C now ?k c = (r, c')" by (cases "ci_Get C now ?k c")
    have sat': "agdcache.entries_sat live ?P c'"
      using agdcache.entries_sat_get [OF C sat, of now ?k] get by simp
    show ?thesis
    proof (cases r)
      case None
      have "agdcache.entries_sat live ?P (ci_Set C now ?k (engine_result U (bf_engine f) req) c')"
        by (rule agdcache.entries_sat_set [OF C sat']) (simp add: key)
      with Some get None show ?thesis
        by (simp add: SetURLFilterResult_def Let_def cached_results_ok_def)
    next
      case (Some v)
      then have "v = engine_result U (bf_engine f) req"
        using agdcache.get_sat [OF C sat, of now ?k v c'] get key by simp
      with \<open>bf_cache f = Some c\<close> get Some sat' show ?thesis
        by (simp add: SetURLFilterResult_def Let_def cached_results_ok_def)
    qed
  qed
  show "fst (SetURLFilterResult U C now req f) = engine_result U (bf_engine f) req"
    and "cached_results_ok U live (snd (SetURLFilterResult U C now req f))"
    and "bf_engine (snd (SetURLFilterResult U C now req f)) = bf_engine f"
    using * by auto
qed

definition last_rules :: "rl_event list \<Rightarrow> string" where
  "last_rules evs = (let ds = [d. RLRefresh (Some d) \<leftarrow> evs] in if ds = [] then [] else last ds)"

lemma last_rules_simps [simp]:
  "last_rules [] = []"
  "last_rules (evs @ [RLMatch t r]) = last_rules evs"
  "last_rules (evs @ [RLRefresh None]) = last_rules evs"
  "last_rules (evs @ [RLRefresh (Some d)]) = d"
  by (simp_all add: last_rules_def Let_def)

lemma last_rules_cases: "last_rules evs = [] \<or> RLRefresh (Some (last_rules evs)) \<in> set evs"
proof (induction evs rule: rev_induct)
  case (snoc e evs)
  show ?case
  proof (cases e)
    case (RLRefresh d)
    then show ?thesis using snoc by (cases d) auto
  qed (use snoc in auto)
qed simp

lemma rl_run_cached:
  fixes i :: filter_id and svc :: blocked_service_id
  assumes C: "agdcache C live" and empty: "\<And>t. live t c0 = Map.empty"
    and blind: "\<forall>d. d = [] \<or> RLRefresh (Some d) \<in> set evs \<longrightarrow> client_blind U (uf_NewDNSEngine U d)"
  defines "f \<equiv> fold (rl_apply U C) evs (newBaseFilter U [] i svc (Some c0))"
  shows "cached_results_ok U live f \<and> bf_engine f = uf_NewDNSEngine U (last_rules evs)"
  using blind unfolding f_def
proof (induction evs rule: rev_induct)
  case Nil
  show ?case using empty by (simp add: newBaseFilter_def cached_results_ok_def agdcache.entries_sat_def [OF C])
next
  case (snoc e evs)
  let ?f = "fold (rl_apply U C) evs (newBaseFilter U [] i svc (Some c0))"
  have IH: "cached_results_ok U live ?f" "bf_engine ?f = uf_NewDNSEngine U (last_rules evs)"
    using snoc by auto
  have bl: "client_blind U (bf_engine ?f)" using snoc.prems last_rules_cases [of evs] IH(2) by auto
  show ?case
  proof (cases e)
    case (RLMatch t r)
    then show ?thesis using SetURLFilterResult_cached(2,3) [OF C bl IH(1)] IH(2) by simp
  next
    case (RLRefresh d)
    then show ?thesis
      using IH by (cases d) (auto simp: rulelist_Refresh_def cached_results_ok_def agdcache.entries_sat_clear [OF C])
  qed
qed

text \<open>
  C21: the result cache of a rule list changes no result.  After any sequence of lookups and refreshes
  of a list, the result for a request is the one that the engine of the last loaded rules gives, as
  long as no rule of the loaded texts depends on the client.
\<close>

theorem rule_list_cache_transparent:
  assumes "agdcache C live" and "\<And>t. live t c0 = Map.empty"
    and "\<forall>d. d = [] \<or> RLRefresh (Some d) \<in> set evs \<longrightarrow> client_blind U (uf_NewDNSEngine U d)"
  shows "fst (SetURLFilterResult U C now req (fold (rl_apply U C) evs (newBaseFilter U [] i svc (Some c0)))) =
           engine_result U (uf_NewDNSEngine U (last_rules evs)) req"
proof -
  let ?f = "fold (rl_apply U C) evs (newBaseFilter U [] i svc (Some c0))"
  have f: "cached_results_ok U live ?f" "bf_engine ?f = uf_NewDNSEngine U (last_rules evs)"
    using rl_run_cached [OF assms] by auto
  then have "client_blind U (bf_engine ?f)" using assms(3) last_rules_cases [of evs] by auto
  from SetURLFilterResult_cached(1) [OF assms(1) this f(1)] f(2) show ?thesis by simp
qed

text \<open>An engine whose only rule blocks the host that its text names, for the client kid if \<open>byClient\<close>.\<close>

definition ex_rule :: network_rule where
  "ex_rule = \<lparr>nr_ptr = 0, nr_Text = ''||host^'', nr_Whitelist = False, nr_DNSRewrite = None\<rparr>"

definition ex_urlfilter :: "bool \<Rightarrow> string urlfilter" where
  "ex_urlfilter byClient =
     \<lparr>uf_NewDNSEngine = (\<lambda>text. text),
      uf_Match = (\<lambda>g req.
        if uq_Hostname req = g \<and> (byClient \<longrightarrow> ''kid'' \<in> uq_ClientIdentifiers req)
        then (True, uf_result_reset\<lparr>ur_NetworkRule := Some ex_rule, ur_NetworkRules := [ex_rule]\<rparr>)
        else (False, uf_result_reset)),
      uf_DNSRewrites = (\<lambda>res. filter (\<lambda>nr. nr_DNSRewrite nr \<noteq> None) (ur_NetworkRules res)),
      uf_GetDNSBasicRule = (\<lambda>rs. case rs of [] \<Rightarrow> None | nr # _ \<Rightarrow> Some nr)\<rparr>"

definition ex_uf_request :: "string \<Rightarrow> string set \<Rightarrow> uf_request" where
  "ex_uf_request host clients =
     uf_request_reset\<lparr>uq_Hostname := host, uq_DNSType := TypeA, uq_ClientIdentifiers := clients\<rparr>"

lemma ex_urlfilter_ok: "urlfilter_ok (ex_urlfilter b)"
  by (auto simp: urlfilter_ok_def ex_urlfilter_def split: list.splits)

lemma ex_urlfilter_blind: "client_blind (ex_urlfilter False) g"
  by (auto simp: client_blind_def ex_urlfilter_def)

theorem rule_list_cache_transparent_witness:
  "fst (SetURLFilterResult (ex_urlfilter False) (default_if (lru_std 3)) 7 (ex_uf_request ''a'' {})
      (fold (rl_apply (ex_urlfilter False) (default_if (lru_std 3)))
         [RLRefresh (Some ''a''), RLMatch 5 (ex_uf_request ''a'' {}), RLRefresh (Some ''b'')]
         (newBaseFilter (ex_urlfilter False) [] ''list'' [] (Some [])))) = None"
proof -
  have "default_live map_of t [] = Map.empty" for t :: time
    by (rule ext) (simp add: default_live_def)
  from rule_list_cache_transparent [OF default_cache.agdcache_axioms this,
      of "[RLRefresh (Some ''a''), RLMatch 5 (ex_uf_request ''a'' {}), RLRefresh (Some ''b'')]"
         "ex_urlfilter False" 3 7 "ex_uf_request ''a'' {}" "''list''" "[]"]
  show ?thesis
    by (simp add: ex_urlfilter_blind)
      (simp add: last_rules_def engine_result_def ex_urlfilter_def ex_uf_request_def uf_result_reset_def)
qed

text \<open>
  the key of the result cache has no client in it.  With a rule that applies to one client only,
  the result computed for that client is given to another client that asks for the same host, although
  the engine has no result for them.
\<close>

theorem rule_list_cache_ignores_client:
  defines "U \<equiv> ex_urlfilter True" and "C \<equiv> default_if (lru_std 3)"
  defines "f \<equiv> newBaseFilter U ''host'' ''list'' [] (Some [])"
  defines "f' \<equiv> snd (SetURLFilterResult U C 1 (ex_uf_request ''host'' {''kid''}) f)"
  shows "engine_result U (bf_engine f') (ex_uf_request ''host'' {''parent''}) = None \<and>
         fst (SetURLFilterResult U C 2 (ex_uf_request ''host'' {''parent''}) f') \<noteq> None"
  by (simp add: assms newBaseFilter_def SetURLFilterResult_def ex_uf_request_def engine_result_def
      uf_request_reset_def uf_result_reset_def ex_urlfilter_def default_if_def default_Get_def default_Set_def
      lru_std_def NewCacheKey_def expired_def Let_def)

end
