(* ===== verification/Agdnet.thy ===== *)
theory Agdnet
  imports Go_Strings
begin

text \<open>
  Domain-name helpers of \<open>internal/agdnet/agdnet.go\<close>: normalisation of host names, the replacement of
  the metric domains of Android, the subdomains that the filters look up, and the effective top-level
  domain plus one label.  The public-suffix list (\<open>publicSuffix\<close>) and the list of all subdomains of a
  domain (golibs, \<open>appendSub\<close>) are parameters; \<open>appendSub_ok\<close> is what is documented of the latter.
\<close>

subsection \<open>Normalisation\<close>

definition NormalizeDomain :: "string \<Rightarrow> string" where
  "NormalizeDomain fqdn = to_lower (trim_suffix fqdn ''.'')"

definition NormalizeQueryDomain :: "string \<Rightarrow> string" where
  "NormalizeQueryDomain host = (if host = ''.'' then host else NormalizeDomain host)"

definition androidMetricFQDNSuffix :: string where
  "androidMetricFQDNSuffix = ''-ds.metric.gstatic.com.''"

definition androidMetricDoTFQDNSuffix :: string where
  "androidMetricDoTFQDNSuffix = ''-dnsotls'' @ androidMetricFQDNSuffix"

definition androidMetricDoHFQDNSuffix :: string where
  "androidMetricDoHFQDNSuffix = ''-dnsohttps'' @ androidMetricFQDNSuffix"

definition AndroidMetricDomainReplacement :: "string \<Rightarrow> string" where
  "AndroidMetricDomainReplacement fqdn =
     (let fqdn = to_lower fqdn
      in if \<not> has_suffix fqdn androidMetricFQDNSuffix then []
         else if has_suffix fqdn androidMetricDoHFQDNSuffix then ''000000-dnsohttps'' @ androidMetricFQDNSuffix
         else if has_suffix fqdn androidMetricDoTFQDNSuffix then ''00000000-dnsotls'' @ androidMetricFQDNSuffix
         else [])"

subsection \<open>Subdomains\<close>

text \<open>
  The position found by \<^verbatim>\<open>strings.LastIndexFunc\<close> with the counting function, on the reversed name.
\<close>

fun last_dots :: "nat \<Rightarrow> nat \<Rightarrow> string \<Rightarrow> nat option" where
  "last_dots d n [] = None"
| "last_dots d n (c # cs) =
     (let d = (if c = CHR ''.'' then d + 1 else d) in if d = n then Some (length cs) else last_dots d n cs)"

definition AppendSubdomains ::
  "(string list \<Rightarrow> string \<Rightarrow> string list) \<Rightarrow> (string \<Rightarrow> string) \<Rightarrow> string list \<Rightarrow> string \<Rightarrow> nat \<Rightarrow> string list" where
  "AppendSubdomains appendSub publicSuffix orig d subDomainNum =
     (let pubSuf = publicSuffix d;
          d = (case last_dots 0 subDomainNum (rev d) of None \<Rightarrow> d | Some i \<Rightarrow> drop (i + 1) d)
      in takeWhile (\<lambda>s. s \<noteq> pubSuf) (appendSub orig d))"

fun label_suffixes :: "'a list \<Rightarrow> 'a list list" where
  "label_suffixes [] = []"
| "label_suffixes (l # ls) = (l # ls) # label_suffixes ls"

definition appendSub_ok :: "(string list \<Rightarrow> string \<Rightarrow> string list) \<Rightarrow> bool" where
  "appendSub_ok appendSub \<longleftrightarrow>
     (\<forall>orig d. d \<noteq> [] \<longrightarrow>
        appendSub orig d = orig @ map (join_with (CHR ''.'')) (label_suffixes (split_at (CHR ''.'') d)))"

subsection \<open>The effective top-level domain plus one\<close>

datatype etld_error = EmptyLabel | CannotDerive | InvalidSuffix

definition last_index :: "char \<Rightarrow> string \<Rightarrow> nat option" where
  "last_index c s = (let n = length (takeWhile (\<lambda>x. x \<noteq> c) (rev s)) in if n < length s then Some (length s - 1 - n) else None)"

definition EffectiveTLDPlusOne :: "(string \<Rightarrow> string) \<Rightarrow> string \<Rightarrow> (etld_error, string) result" where
  "EffectiveTLDPlusOne publicSuffix d =
     (if has_prefix d ''.'' \<or> has_suffix d ''.'' \<or> str_contains d ''..'' then Inl EmptyLabel
      else
        (let ps = publicSuffix d
         in if length d \<le> length ps then Inl CannotDerive
            else
              (let i = length d - length ps - 1
               in if d ! i \<noteq> CHR ''.'' then Inl InvalidSuffix
                  else Inr (case last_index (CHR ''.'') (take i d) of None \<Rightarrow> d | Some k \<Rightarrow> drop (k + 1) d))))"

subsection \<open>Lemmas\<close>

lemma last_dots_skip:
  "CHR ''.'' \<notin> set l \<Longrightarrow> d < n \<Longrightarrow> last_dots d n (rev l @ cs) = last_dots d n cs"
  by (induction l arbitrary: cs rule: rev_induct) auto

lemma last_dots_less: "last_dots d n cs = Some i \<Longrightarrow> i < length cs"
  by (induction d n cs rule: last_dots.induct) (auto simp: Let_def split: if_splits)

lemma join_with_snoc: "ls \<noteq> [] \<Longrightarrow> join_with c (ls @ [l]) = join_with c ls @ c # l"
proof (induction ls rule: join_with.induct)
  case (3 c x y ys)
  then show ?case by (cases ys) simp_all
qed simp_all

lemma last_dots_labels:
  assumes "ls \<noteq> []" "\<forall>l \<in> set ls. CHR ''.'' \<notin> set l" "d < n"
  shows "(let s = join_with (CHR ''.'') ls
          in case last_dots d n (rev s) of None \<Rightarrow> s | Some i \<Rightarrow> drop (i + 1) s) =
         join_with (CHR ''.'') (drop (length ls - (n - d)) ls)"
  using assms
proof (induction ls arbitrary: d rule: rev_induct)
  case (snoc l ls)
  show ?case
  proof (cases "ls = []")
    case True
    then show ?thesis using snoc.prems last_dots_skip [of l d n "[]"] by (simp add: Let_def)
  next
    case False
    let ?J = "join_with (CHR ''.'')"
    have s: "?J (ls @ [l]) = ?J ls @ CHR ''.'' # l" by (rule join_with_snoc [OF False])
    have skip: "last_dots d n (rev (?J (ls @ [l]))) = last_dots d n (CHR ''.'' # rev (?J ls))"
      using snoc.prems last_dots_skip [of l d n "CHR ''.'' # rev (?J ls)"] by (simp add: s)
    show ?thesis
    proof (cases "d + 1 = n")
      case True
      then show ?thesis using skip by (simp add: Let_def s)
    next
      case more: False
      then have d: "d + 1 < n" using snoc.prems by simp
      define ds where "ds = drop (length ls - (n - (d + 1))) ls"
      have IH: "(case last_dots (d + 1) n (rev (?J ls)) of None \<Rightarrow> ?J ls | Some i \<Rightarrow> drop (i + 1) (?J ls)) = ?J ds"
        using snoc.IH [OF False _ d] snoc.prems by (simp add: Let_def ds_def)
      have ne: "ds \<noteq> []" using False d by (cases "length ls") (auto simp: ds_def)
      have "length (ls @ [l]) - (n - d) = length ls - (n - (d + 1))" using d by simp
      then have ds: "drop (length (ls @ [l]) - (n - d)) (ls @ [l]) = ds @ [l]" by (simp add: ds_def)
      have "last_dots d n (rev (?J (ls @ [l]))) = last_dots (d + 1) n (rev (?J ls))"
        using skip more by (simp add: Let_def)
      then show ?thesis
        unfolding ds using IH last_dots_less [of "d + 1" n "rev (?J ls)"]
        by (auto simp: Let_def s join_with_snoc [OF ne] split: option.splits)
    qed
  qed
qed simp

lemma AppendSubdomains_labels:
  assumes "appendSub_ok appendSub" "d \<noteq> []" "0 < n" and ls: "ls = split_at (CHR ''.'') d"
    and ne: "join_with (CHR ''.'') (drop (length ls - n) ls) \<noteq> []"
  shows "AppendSubdomains appendSub publicSuffix [] d n =
           takeWhile (\<lambda>s. s \<noteq> publicSuffix d)
             (map (join_with (CHR ''.'')) (label_suffixes (drop (length ls - n) ls)))"
proof -
  have nodots: "\<forall>l \<in> set ls. CHR ''.'' \<notin> set l" using split_at_no_sep ls by blast
  have "(case last_dots 0 n (rev d) of None \<Rightarrow> d | Some i \<Rightarrow> drop (i + 1) d) =
      join_with (CHR ''.'') (drop (length ls - n) ls)"
    using last_dots_labels [of ls 0 n] nodots assms(3) by (simp add: ls Let_def)
  moreover have "split_at (CHR ''.'') (join_with (CHR ''.'') (drop (length ls - n) ls)) = drop (length ls - n) ls"
  proof (rule split_at_join)
    have "ls \<noteq> []" by (simp add: ls)
    then show "drop (length ls - n) ls \<noteq> []" using assms(3) by (cases "length ls") auto
  qed (use nodots in \<open>auto dest: in_set_dropD\<close>)
  ultimately show ?thesis
    using assms(1) ne by (simp add: AppendSubdomains_def Let_def appendSub_ok_def)
qed

lemma last_index_split:
  "last_index c s = (if c \<in> set s then Some (length s - 1 - length (takeWhile (\<lambda>x. x \<noteq> c) (rev s))) else None)"
proof (cases "c \<in> set s")
  case True
  then have "length (takeWhile (\<lambda>x. x \<noteq> c) (rev s)) < length (rev s)"
    by (metis (full_types) le_neq_implies_less length_takeWhile_le set_rev takeWhile_eq_all_conv
        takeWhile_eq_take take_all_iff order_refl)
  with True show ?thesis by (simp add: last_index_def Let_def)
next
  case False
  then have all: "takeWhile (\<lambda>x. x \<noteq> c) (rev s) = rev s"
    unfolding takeWhile_eq_all_conv set_rev by blast
  have "length (takeWhile (\<lambda>x. x \<noteq> c) (rev s)) = length s" unfolding all by simp
  with False show ?thesis by (simp add: last_index_def Let_def)
qed

lemma last_index_append: "c \<notin> set b \<Longrightarrow> last_index c (a @ c # b) = Some (length a)"
  by (simp add: last_index_split takeWhile_append)

lemma EffectiveTLDPlusOne_ok:
  assumes "has_suffix d (publicSuffix d)" and "EffectiveTLDPlusOne publicSuffix d = Inr e"
  obtains pre lab where "d = pre @ e" and "e = lab @ CHR ''.'' # publicSuffix d" and "lab \<noteq> []"
    and "CHR ''.'' \<notin> set lab" and "pre = [] \<or> last pre = CHR ''.''"
proof -
  define ps where "ps = publicSuffix d"
  from assms(1) obtain q where q: "d = q @ ps" by (auto simp: has_suffix_iff ps_def)
  from assms(2) have nd: "\<not> has_prefix d ''.''" "\<not> str_contains d ''..''" and len: "\<not> length d \<le> length ps"
      and dot: "d ! (length d - length ps - 1) = CHR ''.''"
      and e: "e = (case last_index (CHR ''.'') (take (length d - length ps - 1) d) of None \<Rightarrow> d | Some k \<Rightarrow> drop (k + 1) d)"
    unfolding ps_def by (auto simp: EffectiveTLDPlusOne_def Let_def split: if_splits)
  have lq: "length d - length ps - 1 = length q - 1" using arg_cong [OF q, of length] by simp
  have "q \<noteq> []" using len arg_cong [OF q, of length] by auto
  then obtain p c where pc: "q = p @ [c]" by (metis append_butlast_last_id)
  have "d ! length p = c" unfolding q pc by simp
  with dot lq pc have c: "c = CHR ''.''" by simp
  have d: "d = p @ CHR ''.'' # ps" using q pc c by simp
  have tk: "take (length d - length ps - 1) d = p" unfolding lq using d pc by (metis append_eq_conv_conj diff_Suc_1 length_append_singleton)
  note that = that [folded ps_def]
  show ?thesis
  proof (cases "CHR ''.'' \<in> set p")
    case False
    then have "e = d" using e tk by (simp add: last_index_split)
    moreover have "p \<noteq> []" using nd(1) d by (metis append_Cons append_Nil has_prefix_iff)
    ultimately show ?thesis using that [of "[]" p] False d by simp
  next
    case True
    then obtain a lab where p: "p = a @ CHR ''.'' # lab" "CHR ''.'' \<notin> set lab" by (metis split_list_last)
    then have "e = drop (length a + 1) d" using e tk by (simp add: last_index_append)
    then have e': "e = lab @ CHR ''.'' # ps" "d = (a @ ''.'') @ e" using d p by simp_all
    have "lab \<noteq> []"
    proof
      assume "lab = []"
      then have "d = a @ ''..'' @ ps" using e' by simp
      then show False using nd(2) str_contains_iff by blast
    qed
    with that [of "a @ ''.''" lab] e' p(2) show ?thesis by simp
  qed
qed

end
