(* ===== verification/Domain_Filter.thy ===== *)
theory Domain_Filter
  imports Rule_List Agdnet
begin

text \<open>
  The domain filter of a category, \<open>internal/filter/internal/domain/filter.go\<close>: a set of domain names, a
  result cache, and the refresh that replaces the set and then clears the cache.  A request is split
  into the step that reads (the cache, then the current set) and the step that writes the cache, so
  that a refresh can come in between.
\<close>

subsection \<open>Reading lines\<close>

text \<open>
  \<^verbatim>\<open>bufio.Scanner\<close> with its default buffer: the lines without their ends; a line that fills the buffer
  is an error.
\<close>

definition MaxScanTokenSize :: nat where
  "MaxScanTokenSize = 65536"

definition drop_cr :: "string \<Rightarrow> string" where
  "drop_cr s = trim_suffix s [CHR 0x0D]"

definition raw_lines :: "string \<Rightarrow> string list" where
  "raw_lines data = (let ls = split_at (CHR 0x0A) data in if last ls = [] then butlast ls else ls)"

definition scan_lines :: "string \<Rightarrow> string list option" where
  "scan_lines data =
     (if list_ex (\<lambda>l. MaxScanTokenSize \<le> length l) (raw_lines data) then None
      else Some (map drop_cr (raw_lines data)))"

definition is_list_line :: "string \<Rightarrow> bool" where
  "is_list_line l \<longleftrightarrow> \<not> (l = [] \<or> hd l = CHR ''#'')"

subsection \<open>The filter\<close>

text \<open>What the lookups of subdomains use of other modules.\<close>

record net_env =
  ne_famOf :: "16 word \<Rightarrow> addr_family"
  ne_appendSub :: "string list \<Rightarrow> string \<Rightarrow> string list"
  ne_publicSuffix :: "string \<Rightarrow> string"

record 'c domain_filter =
  df_domains :: "string set option"
  df_resCache :: 'c
  df_catID :: category_id
  df_resListID :: filter_id
  df_subDomainNum :: nat

type_synonym 'c flt_cache = "('c, cache_key, flt_result option) cache_if"

datatype dom_pending = DomDone "(flt_error, flt_result option) result" | DomSet cache_key "flt_result option"

definition df_matched :: "net_env \<Rightarrow> string set \<Rightarrow> nat \<Rightarrow> string \<Rightarrow> string" where
  "df_matched E domains n host =
     (case find (\<lambda>s. s \<in> domains) (AppendSubdomains (ne_appendSub E) (ne_publicSuffix E) [] host n) of
        None \<Rightarrow> []
      | Some s \<Rightarrow> s)"

definition df_result :: "'c domain_filter \<Rightarrow> string \<Rightarrow> flt_result option" where
  "df_result f matched =
     (if matched = [] then None else Some (ResultBlocked (df_resListID f) (df_catID f)))"

definition df_read ::
  "net_env \<Rightarrow> 'c flt_cache \<Rightarrow> time \<Rightarrow> flt_request \<Rightarrow> 'c domain_filter \<Rightarrow> dom_pending \<times> 'c domain_filter" where
  "df_read E C now req f =
     (let cacheKey = NewCacheKey (fr_Host req) (fr_QType req) (fr_QClass req) False
      in case ci_Get C now cacheKey (df_resCache f) of
           (Some item, c) \<Rightarrow> (DomDone (Inr item), f\<lparr>df_resCache := c\<rparr>)
         | (None, c) \<Rightarrow>
             (let f = f\<lparr>df_resCache := c\<rparr>
              in if \<not> snd (IsFilterable (ne_famOf E) (fr_QType req)) then (DomDone (Inr None), f)
                 else (case df_domains f of
                         None \<Rightarrow> (DomDone (Inl PanicNilDomains), f)
                       | Some domains \<Rightarrow>
                           (DomSet cacheKey
                              (df_result f (df_matched E domains (df_subDomainNum f) (fr_Host req))), f))))"

definition df_write ::
  "'c flt_cache \<Rightarrow> time \<Rightarrow> dom_pending \<Rightarrow> 'c domain_filter \<Rightarrow>
     (flt_error, flt_result option) result \<times> 'c domain_filter" where
  "df_write C now p f =
     (case p of
        DomDone r \<Rightarrow> (r, f)
      | DomSet k r \<Rightarrow> (Inr r, f\<lparr>df_resCache := ci_Set C now k r (df_resCache f)\<rparr>))"

definition df_FilterRequest ::
  "net_env \<Rightarrow> 'c flt_cache \<Rightarrow> time \<Rightarrow> flt_request \<Rightarrow> 'c domain_filter \<Rightarrow>
     (flt_error, flt_result option) result \<times> 'c domain_filter" where
  "df_FilterRequest E C now req f = (let (p, f) = df_read E C now req f in df_write C now p f)"

datatype scan_error = ErrTooLong

datatype 'e refresh_error = RefreshLoad 'e | RefreshScan scan_error

definition resetDomains ::
  "string \<Rightarrow> 'c domain_filter \<Rightarrow> (scan_error, nat) result \<times> 'c domain_filter" where
  "resetDomains domainData f =
     (case scan_lines domainData of
        None \<Rightarrow> (Inl ErrTooLong, f)
      | Some ls \<Rightarrow>
          (let entries = filter is_list_line ls
           in (Inr (length entries), f\<lparr>df_domains := Some (set (map to_lower entries))\<rparr>)))"

text \<open>The refresh, given what the refreshable of the list returned.\<close>

definition df_refresh ::
  "'c flt_cache \<Rightarrow> ('e, string) result \<Rightarrow> 'c domain_filter \<Rightarrow> ('e refresh_error, nat) result \<times> 'c domain_filter" where
  "df_refresh C loaded f =
     (case loaded of
        Inl e \<Rightarrow> (Inl (RefreshLoad e), f)
      | Inr b \<Rightarrow>
          (case resetDomains b f of
             (Inl e, f) \<Rightarrow> (Inl (RefreshScan e), f)
           | (Inr count, f) \<Rightarrow> (Inr count, f\<lparr>df_resCache := ci_Clear C (df_resCache f)\<rparr>)))"

subsection \<open>Requests and refreshes in sequence\<close>

datatype 'e df_event = DFRequest time flt_request | DFRefresh "('e, string) result"

fun df_apply :: "net_env \<Rightarrow> 'c flt_cache \<Rightarrow> 'e df_event \<Rightarrow> 'c domain_filter \<Rightarrow> 'c domain_filter" where
  "df_apply E C (DFRequest now req) f = snd (df_FilterRequest E C now req f)"
| "df_apply E C (DFRefresh loaded) f = snd (df_refresh C loaded f)"

text \<open>The list in force: the last one that was loaded and could be read.\<close>

definition listed_domains :: "string \<Rightarrow> string set option" where
  "listed_domains data = map_option (\<lambda>ls. to_lower ` set (filter is_list_line ls)) (scan_lines data)"

fun domains_after :: "string set option \<Rightarrow> 'e df_event list \<Rightarrow> string set option" where
  "domains_after ds [] = ds"
| "domains_after ds (DFRefresh (Inr data) # es) =
     domains_after (case listed_domains data of None \<Rightarrow> ds | Some ds' \<Rightarrow> Some ds') es"
| "domains_after ds (_ # es) = domains_after ds es"

definition df_plain :: "net_env \<Rightarrow> 'c domain_filter \<Rightarrow> string \<Rightarrow> 16 word \<Rightarrow> (flt_error, flt_result option) result" where
  "df_plain E f host qt =
     (if \<not> snd (IsFilterable (ne_famOf E) qt) then Inr None
      else (case df_domains f of
              None \<Rightarrow> Inl PanicNilDomains
            | Some domains \<Rightarrow> Inr (df_result f (df_matched E domains (df_subDomainNum f) host))))"

definition df_ok :: "net_env \<Rightarrow> (time \<Rightarrow> 'c \<Rightarrow> cache_key \<rightharpoonup> flt_result option) \<Rightarrow> 'c domain_filter \<Rightarrow> bool" where
  "df_ok E live f \<longleftrightarrow>
     agdcache.entries_sat live (\<lambda>k v. df_plain E f (ck_host k) (ck_qType k) = Inr v) (df_resCache f)"

lemma df_FilterRequest_ok:
  assumes C: "agdcache C live" and ok: "df_ok E live f"
  shows "fst (df_FilterRequest E C now req f) = df_plain E f (fr_Host req) (fr_QType req)"
    and "df_ok E live (snd (df_FilterRequest E C now req f))"
proof -
  let ?k = "NewCacheKey (fr_Host req) (fr_QType req) (fr_QClass req) False"
  let ?P = "\<lambda>k v. df_plain E f (ck_host k) (ck_qType k) = Inr v"
  obtain r c where get: "ci_Get C now ?k (df_resCache f) = (r, c)" by (cases "ci_Get C now ?k (df_resCache f)")
  have sat: "agdcache.entries_sat live ?P (df_resCache f)" using ok by (simp add: df_ok_def)
  have sat': "agdcache.entries_sat live ?P c" using agdcache.entries_sat_get [OF C sat, of now ?k] get by simp
  have plain: "df_plain E (f\<lparr>df_resCache := c'\<rparr>) = df_plain E f" for c'
    by (intro ext) (simp add: df_plain_def df_result_def split: option.split)
  have hit: "df_plain E f (fr_Host req) (fr_QType req) = Inr v" if "r = Some v" for v
    using agdcache.get_sat [OF C sat, of now ?k v c] get that by (simp add: NewCacheKey_def)
  have set: "agdcache.entries_sat live ?P (ci_Set C now ?k v c)"
    if "df_plain E f (fr_Host req) (fr_QType req) = Inr v" for v
    by (rule agdcache.entries_sat_set [OF C sat']) (simp add: NewCacheKey_def that)
  have eq: "df_FilterRequest E C now req f =
      (case r of
         Some v \<Rightarrow> (Inr v, f\<lparr>df_resCache := c\<rparr>)
       | None \<Rightarrow>
           (case df_plain E f (fr_Host req) (fr_QType req) of
              Inl e \<Rightarrow> (Inl e, f\<lparr>df_resCache := c\<rparr>)
            | Inr v \<Rightarrow> (Inr v, if snd (IsFilterable (ne_famOf E) (fr_QType req))
                          then f\<lparr>df_resCache := ci_Set C now ?k v c\<rparr> else f\<lparr>df_resCache := c\<rparr>)))"
    by (auto simp: df_FilterRequest_def df_read_def df_write_def get df_plain_def df_result_def Let_def
        split: option.split)
  show "fst (df_FilterRequest E C now req f) = df_plain E f (fr_Host req) (fr_QType req)"
    unfolding eq using hit by (auto split: option.split sum.split)
  show "df_ok E live (snd (df_FilterRequest E C now req f))"
    unfolding eq using sat' set by (auto simp: df_ok_def plain split: option.split sum.split)
qed

lemma df_FilterRequest_fields:
  "df_domains (snd (df_FilterRequest E C now req f)) = df_domains f"
  "df_catID (snd (df_FilterRequest E C now req f)) = df_catID f"
  "df_resListID (snd (df_FilterRequest E C now req f)) = df_resListID f"
  "df_subDomainNum (snd (df_FilterRequest E C now req f)) = df_subDomainNum f"
  by (simp_all add: df_FilterRequest_def df_read_def df_write_def Let_def split: prod.split option.split dom_pending.split)

lemma df_refresh_fields:
  "df_domains (snd (df_refresh C loaded f)) =
     (case loaded of
        Inl _ \<Rightarrow> df_domains f
      | Inr data \<Rightarrow> (case listed_domains data of None \<Rightarrow> df_domains f | Some ds \<Rightarrow> Some ds))"
  "df_catID (snd (df_refresh C loaded f)) = df_catID f"
  "df_resListID (snd (df_refresh C loaded f)) = df_resListID f"
  "df_subDomainNum (snd (df_refresh C loaded f)) = df_subDomainNum f"
  by (simp_all add: df_refresh_def resetDomains_def listed_domains_def split: sum.split option.split)

lemma df_refresh_ok:
  assumes C: "agdcache C live" and ok: "df_ok E live f"
  shows "df_ok E live (snd (df_refresh C loaded f))"
proof (cases "\<exists>data ls. loaded = Inr data \<and> scan_lines data = Some ls")
  case True
  then obtain data ls where "loaded = Inr data" "scan_lines data = Some ls" by blast
  then show ?thesis
    by (simp add: df_refresh_def resetDomains_def df_ok_def agdcache.entries_sat_clear [OF C] Let_def)
next
  case False
  then have "snd (df_refresh C loaded f) = f"
    by (cases loaded) (simp_all add: df_refresh_def resetDomains_def)
  then show ?thesis using ok by simp
qed

lemma df_history:
  fixes f :: "'c domain_filter" and es :: "'e df_event list"
  assumes C: "agdcache C live" and ok: "df_ok E live f"
  shows "df_ok E live (fold (df_apply E C) es f) \<and>
         df_domains (fold (df_apply E C) es f) = domains_after (df_domains f) es \<and>
         df_catID (fold (df_apply E C) es f) = df_catID f \<and>
         df_resListID (fold (df_apply E C) es f) = df_resListID f \<and>
         df_subDomainNum (fold (df_apply E C) es f) = df_subDomainNum f"
  using ok
proof (induction es arbitrary: f)
  case (Cons e es)
  show ?case
  proof (cases e)
    case (DFRequest now req)
    then show ?thesis
      using Cons.IH [OF df_FilterRequest_ok(2) [OF C Cons.prems, of now req]]
      by (simp add: df_FilterRequest_fields)
  next
    case (DFRefresh loaded)
    then show ?thesis
      using Cons.IH [OF df_refresh_ok [OF C Cons.prems, of loaded]]
      by (cases loaded) (simp_all add: df_refresh_fields)
  qed
qed simp

lemma df_matched_nonempty:
  assumes "[] \<notin> set (AppendSubdomains (ne_appendSub E) (ne_publicSuffix E) [] host n) \<or> [] \<notin> ds"
  shows "df_matched E ds n host \<noteq> [] \<longleftrightarrow>
         (\<exists>s\<in>set (AppendSubdomains (ne_appendSub E) (ne_publicSuffix E) [] host n). s \<in> ds)"
proof -
  let ?xs = "AppendSubdomains (ne_appendSub E) (ne_publicSuffix E) [] host n"
  show ?thesis
  proof (cases "find (\<lambda>s. s \<in> ds) ?xs")
    case None
    moreover from this have "\<not> (\<exists>s\<in>set ?xs. s \<in> ds)" by (auto simp: find_None_iff)
    ultimately show ?thesis by (simp add: df_matched_def)
  next
    case (Some s)
    then have "s \<in> set ?xs" "s \<in> ds" by (auto simp: find_Some_iff)
    then show ?thesis using Some assms by (auto simp: df_matched_def)
  qed
qed

lemma listed_nonempty: "listed_domains data = Some ds \<Longrightarrow> [] \<notin> ds"
  by (auto simp: listed_domains_def is_list_line_def to_lower_def)

lemma domains_after_nonempty:
  "(\<And>ds. ds0 = Some ds \<Longrightarrow> [] \<notin> ds) \<Longrightarrow> domains_after ds0 es = Some ds \<Longrightarrow> [] \<notin> ds"
proof (induction ds0 es arbitrary: ds rule: domains_after.induct)
  case (2 ds0 data es)
  show ?case
  proof (rule 2(1))
    show "[] \<notin> ds'" if "(case listed_domains data of None \<Rightarrow> ds0 | Some ds' \<Rightarrow> Some ds') = Some ds'" for ds'
      using that 2(2) listed_nonempty [of data] by (cases "listed_domains data") simp_all
    show "domains_after (case listed_domains data of None \<Rightarrow> ds0 | Some ds' \<Rightarrow> Some ds') es = Some ds"
      using 2(3) by simp
  qed
qed simp_all

definition ex_net_env :: net_env where
  "ex_net_env = \<lparr>ne_famOf = (\<lambda>qt. if qt = 1 then FamilyIPv4 else AddrFamilyNone),
     ne_appendSub = (\<lambda>orig d. orig @ map (join_with (CHR ''.'')) (label_suffixes (split_at (CHR ''.'') d))),
     ne_publicSuffix = (\<lambda>_. ''com'')\<rparr>"


definition ex_domain_filter :: "(cache_key \<times> flt_result option cache_entry) list domain_filter" where
  "ex_domain_filter =
     \<lparr>df_domains = None, df_resCache = [], df_catID = ''cat'', df_resListID = ''lst'', df_subDomainNum = 4\<rparr>"

definition ex_flt_request :: "string \<Rightarrow> flt_request" where
  "ex_flt_request host =
     \<lparr>fr_DNS = undefined, fr_Messages = undefined, fr_RemoteIP = undefined, fr_ClientName = [],
      fr_Host = host, fr_QType = 1, fr_QClass = 1\<rparr>"


subsection \<open>A refresh between the two steps of a request\<close>

text \<open>
  A refresh that comes between the lookup of a request and its write to the cache has already cleared the
  cache when the request stores the result of the old list there.  The stale result is then served.
\<close>

lemma domain_refresh_race:
  defines "C \<equiv> default_if (lru_std 3)" and "req \<equiv> ex_flt_request ''ads.com''"
  defines "f1 \<equiv> snd (df_refresh C (Inr ''ads.com'' :: unit + string) ex_domain_filter)"
  defines "p \<equiv> fst (df_read ex_net_env C 1 req f1)"
  defines "f2 \<equiv> snd (df_refresh C (Inr ''other.com'' :: unit + string) (snd (df_read ex_net_env C 1 req f1)))"
  defines "f3 \<equiv> snd (df_write C 2 p f2)"
  shows "df_domains f3 = Some {''other.com''} \<and>
         fst (df_FilterRequest ex_net_env C 3 req f3) = Inr (Some (ResultBlocked ''lst'' ''cat''))"
proof -
  have raw: "raw_lines ''ads.com'' = [''ads.com'']" "drop_cr ''ads.com'' = ''ads.com''" "to_lower ''ads.com'' = ''ads.com''"
    "raw_lines ''other.com'' = [''other.com'']" "drop_cr ''other.com'' = ''other.com''" "to_lower ''other.com'' = ''other.com''"
    by code_simp+
  have sub: "AppendSubdomains (ne_appendSub ex_net_env) (ne_publicSuffix ex_net_env) [] ''ads.com'' 4 =
      [''ads.com'']" by code_simp
  have "snd (IsFilterable (ne_famOf ex_net_env) 1)" by code_simp
  then show ?thesis
    unfolding f3_def f2_def p_def f1_def C_def req_def
    by (simp add: df_refresh_def resetDomains_def scan_lines_def raw MaxScanTokenSize_def is_list_line_def sub
        ex_domain_filter_def ex_flt_request_def df_read_def df_write_def df_FilterRequest_def df_matched_def df_result_def
        default_if_def default_Get_def default_Set_def default_Clear_def lru_std_def NewCacheKey_def expired_def)
qed

end
