(* ===== verification/Replaced_Filter.thy ===== *)
theory Replaced_Filter
  imports Domain_Filter Dns_Msg_Laws
begin

text \<open>
  The common part of the filters that replace a request or its response and keep these results in a
  cache, \<open>internal/filter/hashprefix/filter.go\<close> and \<open>internal/filter/typosquatting/typosquatting.go\<close>: what
  they do with a matched rule, and what their result caches contain.
\<close>

text \<open>\<open>newId\<close> is the identifier that \<^verbatim>\<open>dns.Id\<close> gives to a cloned request.\<close>

definition set_replaced ::
  "dnslib \<Rightarrow> 'c flt_cache \<Rightarrow> 16 word \<Rightarrow> time \<Rightarrow> cache_key \<Rightarrow> repl_cons \<Rightarrow> flt_request \<Rightarrow> filter_id \<Rightarrow>
     rule_text option \<Rightarrow> addr_family \<Rightarrow> 'c \<Rightarrow> (flt_error, flt_result option) result \<times> 'c" where
  "set_replaced L C newId now cacheKey replCons req i matched fam c =
     (case matched of
        None \<Rightarrow> (Inr None, ci_Set C now cacheKey None c)
      | Some m \<Rightarrow>
          (case repl_New L replCons req i m fam of
             Inl e \<Rightarrow> (Inl e, c)
           | Inr r \<Rightarrow>
               (case cached_modified_result newId r of
                  Inl e \<Rightarrow> (Inl e, c)
                | Inr r' \<Rightarrow> (Inr (Some r), ci_Set C now cacheKey (Some r') c))))"

text \<open>The results of these filters, and what is known of one that was computed for a rule.\<close>

definition modified_result :: "flt_result option \<Rightarrow> bool" where
  "modified_result r \<longleftrightarrow> (case r of Some (ResultAllowed _ _) \<Rightarrow> False | Some (ResultBlocked _ _) \<Rightarrow> False | _ \<Rightarrow> True)"

definition rule_result :: "(filter_id \<times> rule_text) option \<Rightarrow> flt_result option \<Rightarrow> bool" where
  "rule_result rule r \<longleftrightarrow> modified_result r \<and> map_option MatchedRule r = rule"

definition rule_outcome ::
  "(filter_id \<times> rule_text) option \<Rightarrow> (flt_error, flt_result option) result \<Rightarrow> bool" where
  "rule_outcome rule res \<longleftrightarrow>
     (case res of Inl e \<Rightarrow> rule \<noteq> None \<and> (\<exists>m. e = FltMessage m) | Inr r \<Rightarrow> rule_result rule r)"

lemma CloneModifiedResult_outcome:
  "rule_result rule v \<Longrightarrow> rule_outcome rule (CloneModifiedResult L newId req v)"
  by (cases "(L, newId, req, v)" rule: CloneModifiedResult.cases)
    (auto simp: rule_result_def rule_outcome_def modified_result_def)

lemma repl_New_cached:
  assumes "repl_New L c req i rule fam = Inr r"
  shows "rule_result (Some (i, rule)) (Some r)"
    and "\<exists>r'. cached_modified_result newId r = Inr r' \<and> rule_result (Some (i, rule)) (Some r')"
  using assms by (auto simp: repl_New_def rule_result_def modified_result_def split: if_splits sum.splits)

lemma set_replaced_ok:
  assumes C: "agdcache C live" and sat: "agdcache.entries_sat live (\<lambda>k. rule_result (R k)) c"
    and R: "R k = map_option (Pair i) matched"
  shows "rule_outcome (R k) (fst (set_replaced L C newId now k replCons req i matched fam c))"
    and "agdcache.entries_sat live (\<lambda>k. rule_result (R k)) (snd (set_replaced L C newId now k replCons req i matched fam c))"
proof -
  let ?s = "set_replaced L C newId now k replCons req i matched fam c"
  have set: "agdcache.entries_sat live (\<lambda>k. rule_result (R k)) (ci_Set C now k v c)" if "rule_result (R k) v" for v
    by (rule agdcache.entries_sat_set [OF C sat that])
  have "rule_outcome (R k) (fst ?s) \<and> agdcache.entries_sat live (\<lambda>k. rule_result (R k)) (snd ?s)"
  proof (cases matched)
    case None
    then have "rule_result (R k) None" using R by (simp add: rule_result_def modified_result_def)
    then show ?thesis using None set by (simp add: set_replaced_def rule_outcome_def)
  next
    case (Some m)
    then have Rk: "R k = Some (i, m)" using R by simp
    show ?thesis
    proof (cases "repl_New L replCons req i m fam")
      case (Inl e)
      then have "\<exists>x. e = FltMessage x" by (auto simp: repl_New_def split: if_splits sum.splits)
      then show ?thesis using Inl Some Rk sat by (simp add: set_replaced_def rule_outcome_def)
    next
      case (Inr r)
      obtain r' where "cached_modified_result newId r = Inr r'" "rule_result (Some (i, m)) (Some r')"
        using repl_New_cached(2) [OF Inr] by blast
      then show ?thesis
        using repl_New_cached(1) [OF Inr] Inr Some Rk set [of "Some r'"] by (simp add: set_replaced_def rule_outcome_def)
    qed
  qed
  then show "rule_outcome (R k) (fst ?s)" "agdcache.entries_sat live (\<lambda>k. rule_result (R k)) (snd ?s)"
    by simp_all
qed

end
