(* ===== verification/Sha256.thy ===== *)
theory Sha256
  imports Prelude
begin

text \<open>
  The parts of the standard library the hash storages use: \<^verbatim>\<open>crypto/sha256.Sum256\<close>, as FIPS 180-4 defines
  it, on byte strings, and \<^verbatim>\<open>encoding/hex\<close>.
\<close>

unbundle bit_operations_syntax

subsection \<open>SHA-256\<close>

definition sha_K :: "32 word list" where
  "sha_K =
     [1116352408, 1899447441, 3049323471, 3921009573, 961987163, 1508970993, 2453635748, 2870763221,
      3624381080, 310598401, 607225278, 1426881987, 1925078388, 2162078206, 2614888103, 3248222580,
      3835390401, 4022224774, 264347078, 604807628, 770255983, 1249150122, 1555081692, 1996064986,
      2554220882, 2821834349, 2952996808, 3210313671, 3336571891, 3584528711, 113926993, 338241895,
      666307205, 773529912, 1294757372, 1396182291, 1695183700, 1986661051, 2177026350, 2456956037,
      2730485921, 2820302411, 3259730800, 3345764771, 3516065817, 3600352804, 4094571909, 275423344,
      430227734, 506948616, 659060556, 883997877, 958139571, 1322822218, 1537002063, 1747873779,
      1955562222, 2024104815, 2227730452, 2361852424, 2428436474, 2756734187, 3204031479, 3329325298]"

definition sha_H0 :: "32 word list" where
  "sha_H0 =
     [1779033703, 3144134277, 1013904242, 2773480762, 1359893119, 2600822924, 528734635, 1541459225]"

definition byte_word :: "char \<Rightarrow> 'a::len word" where
  "byte_word c = of_nat (of_char c)"

definition word_bytes :: "nat \<Rightarrow> 'a::len word \<Rightarrow> string" where
  "word_bytes n w = map (\<lambda>i. char_of (unat (drop_bit (8 * (n - 1 - i)) w) mod 256)) [0..<n]"

definition sha_pad :: "string \<Rightarrow> string" where
  "sha_pad m =
     m @ [CHR 0x80] @ replicate ((119 - length m mod 64) mod 64) (CHR 0x00) @
     word_bytes 8 (of_nat (8 * length m) :: 64 word)"

fun be_words :: "string \<Rightarrow> 32 word list" where
  "be_words (a # b # c # d # s) =
     (push_bit 24 (byte_word a) OR push_bit 16 (byte_word b) OR push_bit 8 (byte_word c) OR byte_word d) # be_words s"
| "be_words _ = []"

definition rotr :: "nat \<Rightarrow> 32 word \<Rightarrow> 32 word" where
  "rotr n w = drop_bit n w OR push_bit (32 - n) w"

definition sha_schedule_step :: "32 word list \<Rightarrow> 32 word list" where
  "sha_schedule_step w =
     (let i = length w;
          w15 = w ! (i - 15);
          w2 = w ! (i - 2);
          s0 = rotr 7 w15 XOR rotr 18 w15 XOR drop_bit 3 w15;
          s1 = rotr 17 w2 XOR rotr 19 w2 XOR drop_bit 10 w2
      in w @ [w ! (i - 16) + s0 + w ! (i - 7) + s1])"

definition sha_schedule :: "32 word list \<Rightarrow> 32 word list" where
  "sha_schedule block = (sha_schedule_step ^^ 48) block"

fun sha_round :: "32 word \<times> 32 word \<Rightarrow> 32 word list \<Rightarrow> 32 word list" where
  "sha_round (k, w) [a, b, c, d, e, f, g, h] =
     (let s1 = rotr 6 e XOR rotr 11 e XOR rotr 25 e;
          ch = (e AND f) XOR (NOT e AND g);
          t1 = h + s1 + ch + k + w;
          s0 = rotr 2 a XOR rotr 13 a XOR rotr 22 a;
          maj = (a AND b) XOR (a AND c) XOR (b AND c)
      in [t1 + (s0 + maj), a, b, c, d + t1, e, f, g])"
| "sha_round _ s = s"

definition sha_compress :: "32 word list \<Rightarrow> 32 word list \<Rightarrow> 32 word list" where
  "sha_compress block h = map2 (+) h (fold sha_round (zip sha_K (sha_schedule block)) h)"

fun sha_blocks :: "nat \<Rightarrow> 32 word list \<Rightarrow> 32 word list \<Rightarrow> 32 word list" where
  "sha_blocks 0 ws h = h"
| "sha_blocks (Suc n) ws h = sha_blocks n (drop 16 ws) (sha_compress (take 16 ws) h)"

definition Sum256 :: "string \<Rightarrow> string" where
  "Sum256 m = (let ws = be_words (sha_pad m)
               in concat (map (word_bytes 4) (sha_blocks (length ws div 16) ws sha_H0)))"

lemma length_sha_round [simp]: "length (sha_round kw s) = length s"
  by (induction kw s rule: sha_round.induct) (simp_all add: Let_def)

lemma length_sha_compress [simp]: "length (sha_compress b h) = length h"
proof -
  have "length (fold sha_round xs h) = length h" for xs h by (induction xs arbitrary: h) simp_all
  then show ?thesis by (simp add: sha_compress_def)
qed

lemma length_sha_blocks [simp]: "length (sha_blocks n ws h) = length h"
  by (induction n arbitrary: ws h) simp_all

lemma length_word_bytes [simp]: "length (word_bytes n w) = n"
  by (simp add: word_bytes_def)

lemma length_Sum256 [simp]: "length (Sum256 m) = 32"
proof -
  have "length (concat (map (word_bytes 4) xs)) = 4 * length xs" for xs :: "32 word list"
    by (induction xs) simp_all
  then show ?thesis by (simp add: Sum256_def Let_def sha_H0_def)
qed

subsection \<open>Hexadecimal encoding\<close>

definition hextable :: string where
  "hextable = ''0123456789abcdef''"

definition hex_Encode :: "string \<Rightarrow> string" where
  "hex_Encode s = concat (map (\<lambda>c. [hextable ! (of_char c div 16), hextable ! (of_char c mod 16)]) s)"

definition hex_digit :: "char \<Rightarrow> nat option" where
  "hex_digit c =
     (let n = of_char c
      in if 48 \<le> n \<and> n \<le> (57::nat) then Some (n - 48)
         else if 97 \<le> n \<and> n \<le> 102 then Some (n - 87)
         else if 65 \<le> n \<and> n \<le> 70 then Some (n - 55)
         else None)"

text \<open>\<open>Decode\<close> fails on a byte that is no digit and on an odd length.\<close>

fun hex_Decode :: "string \<Rightarrow> string option" where
  "hex_Decode [] = Some []"
| "hex_Decode [_] = None"
| "hex_Decode (a # b # s) =
     (case (hex_digit a, hex_digit b) of
        (Some x, Some y) \<Rightarrow> map_option (\<lambda>t. char_of (16 * x + y) # t) (hex_Decode s)
      | _ \<Rightarrow> None)"

lemma length_hex_Encode [simp]: "length (hex_Encode s) = 2 * length s"
  by (induction s) (simp_all add: hex_Encode_def)

lemma hex_digit_table: "n < 16 \<Longrightarrow> hex_digit (hextable ! n) = Some n"
proof -
  assume "n < 16"
  then have "n \<in> set [0..<16]" by simp
  moreover have "\<forall>n\<in>set [0..<16]. hex_digit (hextable ! n) = Some n" by code_simp
  ultimately show ?thesis by blast
qed

lemma char_nibbles: "of_char c div 16 < (16::nat)" "of_char c mod 16 < (16::nat)"
proof -
  have "of_char c < (256::nat)" by simp
  then show "of_char c div 16 < (16::nat)" "of_char c mod 16 < (16::nat)" by linarith+
qed

lemma hex_Decode_Encode: "hex_Decode (hex_Encode s) = Some s"
proof (induction s)
  case (Cons c s)
  define x y where xy: "x = (of_char c div 16 :: nat)" "y = (of_char c mod 16 :: nat)"
  then have "x < 16" "y < 16" using char_nibbles [of c] by simp_all
  then have "hex_digit (hextable ! x) = Some x" "hex_digit (hextable ! y) = Some y"
    by (simp_all add: hex_digit_table)
  moreover have "16 * x + y = of_char c" unfolding xy by (rule mult_div_mod_eq)
  moreover have "hex_Encode (c # s) = hextable ! x # hextable ! y # hex_Encode s"
    by (simp only: hex_Encode_def xy list.map concat.simps append.simps)
  ultimately show ?case using Cons.IH by simp
qed (simp add: hex_Encode_def)

lemma hex_Encode_inj: "hex_Encode s = hex_Encode t \<longleftrightarrow> s = t"
  by (metis hex_Decode_Encode option.inject)

end
