(* ===== verification/Hash_Prefix.thy ===== *)
theory Hash_Prefix
  imports Replaced_Filter Sha256
begin

text \<open>
  The hash-prefix filters, \<open>internal/filter/hashprefix/{hashprefix,storage,matcher,filter}.go\<close>: the
  storage of hashes of dangerous and adult domains, the lookup by hash prefixes that clients make with
  TXT requests, and the filter that replaces requests for these domains.
\<close>

subsection \<open>The storage\<close>

definition PrefixLen :: nat where
  "PrefixLen = 2"

definition PrefixEncLen :: nat where
  "PrefixEncLen = PrefixLen * 2"

definition hashLen :: nat where
  "hashLen = 32"

definition hashEncLen :: nat where
  "hashEncLen = hashLen * 2"

type_synonym hash_suffixes = "string \<rightharpoonup> string list"

definition NewStorage :: hash_suffixes where
  "NewStorage = Map.empty"

definition add_hash :: "string \<Rightarrow> hash_suffixes \<Rightarrow> hash_suffixes" where
  "add_hash host nxt =
     (let sum = Sum256 host;
          pref = take PrefixLen sum;
          suf = drop PrefixLen sum
      in nxt(pref \<mapsto> (case nxt pref of None \<Rightarrow> [] | Some sufs \<Rightarrow> sufs) @ [suf]))"

definition storage_Reset :: "string \<Rightarrow> hash_suffixes \<Rightarrow> (scan_error, nat) result \<times> hash_suffixes" where
  "storage_Reset hostnameData s =
     (case scan_lines hostnameData of
        None \<Rightarrow> (Inl ErrTooLong, s)
      | Some ls \<Rightarrow>
          (let hosts = filter is_list_line ls in (Inr (length hosts), fold add_hash hosts Map.empty)))"

definition Hashes :: "hash_suffixes \<Rightarrow> string list \<Rightarrow> string list" where
  "Hashes s prefs =
     (if prefs = [] then []
      else
        (let sufs = \<lambda>pref. (case s pref of None \<Rightarrow> [] | Some sufs \<Rightarrow> sufs);
             l = sum_list (map (\<lambda>pref. length (sufs pref)) prefs);
             str = concat (map (\<lambda>pref. concat (map (\<lambda>suf. hex_Encode pref @ hex_Encode suf) (sufs pref))) prefs)
         in map (\<lambda>i. take hashEncLen (drop (i * hashEncLen) str)) [0..<l]))"

definition storage_Matches :: "hash_suffixes \<Rightarrow> string \<Rightarrow> bool" where
  "storage_Matches s host =
     (let sum = Sum256 host; pref = take PrefixLen sum
      in case s pref of None \<Rightarrow> False | Some sufs \<Rightarrow> list_ex (\<lambda>suf. pref @ suf = sum) sufs)"

subsection \<open>The matcher\<close>

text \<open>
  \<open>values\<close> lists the elements of a set of \<^verbatim>\<open>golibs/container\<close>, given by the elements added to it, in some
  order; the storages are listed in the order in which the loop over the map comes to them.
\<close>

datatype prefix_error = BadHashLen nat string | BadHashEncoding string

definition values_ok :: "(string list \<Rightarrow> string list) \<Rightarrow> bool" where
  "values_ok values \<longleftrightarrow> (\<forall>xs. set (values xs) = set xs \<and> distinct (values xs))"

definition legacyPrefixEncLen :: nat where
  "legacyPrefixEncLen = 8"

fun checked_prefixes :: "string list \<Rightarrow> (prefix_error, string list) result" where
  "checked_prefixes [] = Inr []"
| "checked_prefixes (s # ss) =
     (if length s = PrefixEncLen \<or> length s = legacyPrefixEncLen
      then (case checked_prefixes ss of Inl e \<Rightarrow> Inl e | Inr ps \<Rightarrow> Inr (take PrefixEncLen s # ps))
      else Inl (BadHashLen (length s) s))"

fun decoded_prefixes :: "string list \<Rightarrow> (prefix_error, string list) result" where
  "decoded_prefixes [] = Inr []"
| "decoded_prefixes (s # ss) =
     (case hex_Decode s of
        None \<Rightarrow> Inl (BadHashEncoding s)
      | Some p \<Rightarrow> (case decoded_prefixes ss of Inl e \<Rightarrow> Inl e | Inr ps \<Rightarrow> Inr (p # ps)))"

definition prefixesFromStr ::
  "(string list \<Rightarrow> string list) \<Rightarrow> string \<Rightarrow> (prefix_error, string list) result" where
  "prefixesFromStr values prefixesStr =
     (if prefixesStr = [] then Inr []
      else (case checked_prefixes (split_at (CHR ''.'') prefixesStr) of
              Inl e \<Rightarrow> Inl e
            | Inr ps \<Rightarrow> decoded_prefixes (values ps)))"

definition MatchByPrefix ::
  "(string list \<Rightarrow> string list) \<Rightarrow> (string \<times> hash_suffixes) list \<Rightarrow> string \<Rightarrow>
     (prefix_error, string list \<times> bool) result" where
  "MatchByPrefix values storages host =
     (case find (\<lambda>(suffix, _). has_suffix host suffix) storages of
        None \<Rightarrow> Inr ([], False)
      | Some (suffix, strg) \<Rightarrow>
          (case prefixesFromStr values (take (length host - length suffix) host) of
             Inl e \<Rightarrow> Inl e
           | Inr hashPrefixes \<Rightarrow> Inr (Hashes strg hashPrefixes, True)))"

subsection \<open>The filter\<close>

record 'c hashprefix_filter =
  hp_hashes :: hash_suffixes
  hp_replCons :: repl_cons
  hp_resCache :: 'c
  hp_id :: filter_id
  hp_subDomainNum :: nat

definition hp_FilterRequest ::
  "dnslib \<Rightarrow> net_env \<Rightarrow> 'c flt_cache \<Rightarrow> 16 word \<Rightarrow> time \<Rightarrow> flt_request \<Rightarrow> 'c hashprefix_filter \<Rightarrow>
     (flt_error, flt_result option) result \<times> 'c hashprefix_filter" where
  "hp_FilterRequest L E C newId now req f =
     (let host = fr_Host req;
          cacheKey = NewCacheKey host (fr_QType req) (fr_QClass req) False
      in case ci_Get C now cacheKey (hp_resCache f) of
           (Some item, c) \<Rightarrow> (CloneModifiedResult L newId (fr_DNS req) item, f\<lparr>hp_resCache := c\<rparr>)
         | (None, c) \<Rightarrow>
             (case IsFilterable (ne_famOf E) (fr_QType req) of
                (fam, False) \<Rightarrow> (Inr None, f\<lparr>hp_resCache := c\<rparr>)
              | (fam, True) \<Rightarrow>
                  (let subs = AppendSubdomains (ne_appendSub E) (ne_publicSuffix E) [] host (hp_subDomainNum f);
                       matched = (case find (storage_Matches (hp_hashes f)) subs of None \<Rightarrow> [] | Some s \<Rightarrow> s);
                       (res, c) = set_replaced L C newId now cacheKey (hp_replCons f) req (hp_id f)
                                    (if matched = [] then None else Some matched) fam c
                   in (res, f\<lparr>hp_resCache := c\<rparr>))))"

definition hp_refresh ::
  "'c flt_cache \<Rightarrow> ('e, string) result \<Rightarrow> 'c hashprefix_filter \<Rightarrow>
     ('e refresh_error, nat) result \<times> 'c hashprefix_filter" where
  "hp_refresh C loaded f =
     (case loaded of
        Inl e \<Rightarrow> (Inl (RefreshLoad e), f)
      | Inr b \<Rightarrow>
          (case storage_Reset b (hp_hashes f) of
             (Inl e, _) \<Rightarrow> (Inl (RefreshScan e), f)
           | (Inr count, s) \<Rightarrow> (Inr count, f\<lparr>hp_hashes := s, hp_resCache := ci_Clear C (hp_resCache f)\<rparr>)))"

subsection \<open>What the storage contains\<close>

definition host_pref :: "string \<Rightarrow> string" where
  "host_pref h = take PrefixLen (Sum256 h)"

definition host_suf :: "string \<Rightarrow> string" where
  "host_suf h = drop PrefixLen (Sum256 h)"

definition stored :: "hash_suffixes \<Rightarrow> string \<Rightarrow> string list" where
  "stored s p = (case s p of None \<Rightarrow> [] | Some sufs \<Rightarrow> sufs)"

lemma stored_add_hash:
  "stored (add_hash h s) p = stored s p @ (if p = host_pref h then [host_suf h] else [])"
  by (auto simp: stored_def add_hash_def host_pref_def host_suf_def Let_def split: option.split)

lemma stored_fold:
  "stored (fold add_hash hosts s) p = stored s p @ map host_suf (filter (\<lambda>h. host_pref h = p) hosts)"
  by (induction hosts arbitrary: s) (auto simp: stored_add_hash)

lemma pref_suf [simp]: "host_pref h @ host_suf h = Sum256 h"
  by (simp add: host_pref_def host_suf_def)

lemma Matches_stored: "storage_Matches s host \<longleftrightarrow> host_suf host \<in> set (stored s (host_pref host))"
proof -
  have "host_pref host @ suf = Sum256 host \<longleftrightarrow> suf = host_suf host" for suf
    by (metis pref_suf append_same_eq same_append_eq)
  then show ?thesis
    by (auto simp: storage_Matches_def stored_def list_ex_iff Let_def host_pref_def split: option.split)
qed

lemma concat_slices:
  "(\<And>x. x \<in> set xs \<Longrightarrow> length x = n) \<Longrightarrow> map (\<lambda>i. take n (drop (i * n) (concat xs))) [0..<length xs] = xs"
proof (induction xs)
  case (Cons x xs)
  let ?f = "\<lambda>xs i. take n (drop (i * n) (concat xs))"
  have "[0..<length (x # xs)] = 0 # map Suc [0..<length xs]"
    by (simp add: upt_conv_Cons map_Suc_upt del: upt_Suc)
  moreover have "?f (x # xs) 0 = x" "?f (x # xs) (Suc i) = ?f xs i" for i
    using Cons.prems [of x] by simp_all
  ultimately have "map (?f (x # xs)) [0..<length (x # xs)] = x # map (?f xs) [0..<length xs]"
    by (simp only: list.map map_map comp_def)
  then show ?case using Cons by simp
qed simp

lemma Hashes_stored:
  assumes "\<And>p. p \<in> set prefs \<Longrightarrow> \<forall>suf \<in> set (stored s p). length p + length suf = hashLen"
  shows "Hashes s prefs = concat (map (\<lambda>p. map (\<lambda>suf. hex_Encode (p @ suf)) (stored s p)) prefs)"
proof -
  let ?xs = "concat (map (\<lambda>p. map (\<lambda>suf. hex_Encode p @ hex_Encode suf) (stored s p)) prefs)"
  have enc: "hex_Encode (p @ suf) = hex_Encode p @ hex_Encode suf" for p suf by (simp add: hex_Encode_def)
  have "sum_list (map (\<lambda>p. length (stored s p)) prefs) = length ?xs"
    by (simp add: length_concat comp_def)
  moreover have "concat (map (\<lambda>p. concat (map (\<lambda>suf. hex_Encode p @ hex_Encode suf) (stored s p))) prefs) = concat ?xs"
    by (induction prefs) simp_all
  moreover have "length x = hashEncLen" if "x \<in> set ?xs" for x
    using that assms by (auto simp: hashEncLen_def) (metis add_mult_distrib2 mult.commute)
  ultimately show ?thesis
    using concat_slices [of ?xs hashEncLen]
    by (auto simp: Hashes_def enc Let_def stored_def [symmetric] stored_def [abs_def, symmetric])
qed

lemma reset_stored:
  assumes "storage_Reset data s0 = (Inr n, strg)" "scan_lines data = Some ls"
  shows "stored strg p = map host_suf (filter (\<lambda>h. host_pref h = p) (filter is_list_line ls))"
proof -
  have "strg = fold add_hash (filter is_list_line ls) Map.empty"
    using assms by (simp add: storage_Reset_def Let_def)
  then show ?thesis by (simp only: stored_fold stored_def [of Map.empty]) simp
qed

lemma reset_hashes:
  assumes "storage_Reset data s0 = (Inr n, strg)" "scan_lines data = Some ls"
  shows "set (Hashes strg prefs) =
         {hex_Encode (Sum256 h) |h. h \<in> set ls \<and> is_list_line h \<and> host_pref h \<in> set prefs}"
proof -
  note st = reset_stored [OF assms]
  have "length p + length suf = hashLen" if "suf \<in> set (stored strg p)" for p suf
    using that by (auto simp: st host_suf_def host_pref_def hashLen_def PrefixLen_def)
  then have "Hashes strg prefs = concat (map (\<lambda>p. map (\<lambda>suf. hex_Encode (p @ suf)) (stored strg p)) prefs)"
    by (intro Hashes_stored) blast
  moreover have "map (\<lambda>suf. hex_Encode (p @ suf)) (stored strg p) =
      map (\<lambda>h. hex_Encode (Sum256 h)) (filter (\<lambda>h. host_pref h = p) (filter is_list_line ls))" for p
  proof -
    have "p @ host_suf h = Sum256 h" if "host_pref h = p" for h using that by auto
    then show ?thesis by (auto simp: st simp del: filter_filter)
  qed
  ultimately show ?thesis by auto
qed

lemma checked_encoded:
  "\<forall>p\<in>set ps. length p = PrefixLen \<Longrightarrow> checked_prefixes (map hex_Encode ps) = Inr (map hex_Encode ps)"
  by (induction ps) (simp_all add: PrefixEncLen_def mult.commute)

lemma decoded_encoded: "decoded_prefixes (map hex_Encode ps) = Inr ps"
  by (induction ps) (simp_all add: hex_Decode_Encode)

lemma hex_no_dot: "CHR ''.'' \<notin> set (hex_Encode s)"
proof -
  have no: "\<forall>n\<in>set [0..<16]. hextable ! n \<noteq> CHR ''.''" by code_simp
  have "hextable ! (of_char c div 16) \<noteq> CHR ''.''" "hextable ! (of_char c mod 16) \<noteq> CHR ''.''" for c
    using no char_nibbles [of c] by simp_all
  then show ?thesis by (fastforce simp: hex_Encode_def)
qed

lemma prefixesFromStr_encoded:
  assumes "values_ok values" "ps \<noteq> []" "\<forall>p\<in>set ps. length p = PrefixLen"
  obtains qs where "prefixesFromStr values (join_with (CHR ''.'') (map hex_Encode ps)) = Inr qs" "set qs = set ps"
proof -
  let ?es = "map hex_Encode ps"
  have split: "split_at (CHR ''.'') (join_with (CHR ''.'') ?es) = ?es"
    using assms(2) hex_no_dot by (intro split_at_join) auto
  have ne: "join_with (CHR ''.'') ?es \<noteq> []"
  proof
    assume "join_with (CHR ''.'') ?es = []"
    then have "?es = [[]]" using split by simp
    then obtain p where "p \<in> set ps" "length (hex_Encode p) = 0" by (metis list.size(3) list.set_intros(1) map_eq_Cons_D)
    then show False using bspec [OF assms(3), of p] by (simp add: PrefixLen_def)
  qed
  have "set (values ?es) = hex_Encode ` set ps" using assms(1) by (simp add: values_ok_def)
  then obtain qs where qs: "values ?es = map hex_Encode qs"
    using ex_map_conv [of "values ?es" hex_Encode] by auto
  then have "set qs = set ps"
    using \<open>set (values ?es) = hex_Encode ` set ps\<close> by (metis inj_image_eq_iff inj_def hex_Encode_inj list.set_map)
  moreover have "prefixesFromStr values (join_with (CHR ''.'') ?es) = Inr qs"
    using ne by (simp add: prefixesFromStr_def split checked_encoded [OF assms(3)] qs decoded_encoded)
  ultimately show thesis using that by blast
qed

text \<open>
  C24: the lookup by hash prefixes is exact.  A host name made of encoded prefixes, separated by dots,
  and the suffix of a storage is answered with the hashes of exactly those hosts of the storage's list
  that have one of the prefixes.
\<close>

theorem match_by_prefix_exact:
  assumes "values_ok values" "ps \<noteq> []" "\<forall>p\<in>set ps. length p = PrefixLen"
    and "host = join_with (CHR ''.'') (map hex_Encode ps) @ suffix"
    and "find (\<lambda>(suffix, _). has_suffix host suffix) storages = Some (suffix, strg)"
    and "scan_lines data = Some ls" "storage_Reset data s0 = (Inr n, strg)"
  shows "\<exists>hashes. MatchByPrefix values storages host = Inr (hashes, True) \<and>
           set hashes = {hex_Encode (Sum256 h) |h. h \<in> set ls \<and> is_list_line h \<and> take PrefixLen (Sum256 h) \<in> set ps}"
proof -
  obtain qs where "prefixesFromStr values (join_with (CHR ''.'') (map hex_Encode ps)) = Inr qs" "set qs = set ps"
    using prefixesFromStr_encoded [OF assms(1-3)] .
  then show ?thesis
    using reset_hashes [OF assms(7,6), of qs] assms(4,5) by (simp add: MatchByPrefix_def host_pref_def)
qed

definition ex_strg :: "string \<Rightarrow> hash_suffixes" where
  "ex_strg data = snd (storage_Reset data NewStorage)"

theorem match_by_prefix_exact_witness:
  "\<exists>hashes. MatchByPrefix remdups [(''.sb.example'', ex_strg ''#c\<newline>bad.com'')]
       (hex_Encode (take 2 (Sum256 ''bad.com'')) @ ''.sb.example'') = Inr (hashes, True) \<and>
     hex_Encode (Sum256 ''bad.com'') \<in> set hashes"
proof -
  have raw: "raw_lines ''#c\<newline>bad.com'' = [''#c'', ''bad.com'']" "drop_cr ''#c'' = ''#c''" "drop_cr ''bad.com'' = ''bad.com''"
    by code_simp+
  then have scan: "scan_lines ''#c\<newline>bad.com'' = Some [''#c'', ''bad.com'']"
    by (simp add: scan_lines_def MaxScanTokenSize_def)
  have vals: "values_ok remdups" by (simp add: values_ok_def)
  have "storage_Reset ''#c\<newline>bad.com'' NewStorage = (Inr 1, ex_strg ''#c\<newline>bad.com'')"
    by (simp add: ex_strg_def storage_Reset_def scan is_list_line_def)
  from match_by_prefix_exact [OF vals, of "[take 2 (Sum256 ''bad.com'')]", OF _ _ refl _ scan this,
      of "''.sb.example''" "[(''.sb.example'', ex_strg ''#c\<newline>bad.com'')]"]
  show ?thesis
    by (auto simp: PrefixLen_def is_list_line_def has_suffix_def intro!: exI [of _ "''bad.com''"])
qed

subsection \<open>Requests and refreshes in sequence\<close>

datatype 'e hp_event = HPRequest "16 word" time flt_request | HPRefresh "('e, string) result"

fun hp_apply ::
  "dnslib \<Rightarrow> net_env \<Rightarrow> 'c flt_cache \<Rightarrow> 'e hp_event \<Rightarrow> 'c hashprefix_filter \<Rightarrow> 'c hashprefix_filter" where
  "hp_apply L E C (HPRequest newId now req) f = snd (hp_FilterRequest L E C newId now req f)"
| "hp_apply L E C (HPRefresh loaded) f = snd (hp_refresh C loaded f)"

definition hp_first :: "net_env \<Rightarrow> hash_suffixes \<Rightarrow> nat \<Rightarrow> string \<Rightarrow> 16 word \<Rightarrow> string option" where
  "hp_first E s n host qt =
     (if \<not> snd (IsFilterable (ne_famOf E) qt) then None
      else (case find (storage_Matches s) (AppendSubdomains (ne_appendSub E) (ne_publicSuffix E) [] host n) of
              None \<Rightarrow> None
            | Some m \<Rightarrow> if m = [] then None else Some m))"

definition hp_rule :: "net_env \<Rightarrow> 'c hashprefix_filter \<Rightarrow> string \<Rightarrow> 16 word \<Rightarrow> (filter_id \<times> rule_text) option" where
  "hp_rule E f host qt = map_option (Pair (hp_id f)) (hp_first E (hp_hashes f) (hp_subDomainNum f) host qt)"

definition hp_ok ::
  "net_env \<Rightarrow> (time \<Rightarrow> 'c \<Rightarrow> cache_key \<rightharpoonup> flt_result option) \<Rightarrow> 'c hashprefix_filter \<Rightarrow> bool" where
  "hp_ok E live f \<longleftrightarrow>
     agdcache.entries_sat live (\<lambda>k. rule_result (hp_rule E f (ck_host k) (ck_qType k))) (hp_resCache f)"

lemma hp_FilterRequest_ok:
  assumes C: "agdcache C live" and ok: "hp_ok E live f"
  shows "rule_outcome (hp_rule E f (fr_Host req) (fr_QType req)) (fst (hp_FilterRequest L E C newId now req f))"
    and "hp_ok E live (snd (hp_FilterRequest L E C newId now req f))"
proof -
  let ?k = "NewCacheKey (fr_Host req) (fr_QType req) (fr_QClass req) False"
  let ?R = "\<lambda>k. hp_rule E f (ck_host k) (ck_qType k)"
  let ?s = "AppendSubdomains (ne_appendSub E) (ne_publicSuffix E) [] (fr_Host req) (hp_subDomainNum f)"
  define m where "m = (case find (storage_Matches (hp_hashes f)) ?s of None \<Rightarrow> [] | Some s \<Rightarrow> s)"
  obtain r c where get: "ci_Get C now ?k (hp_resCache f) = (r, c)" by (cases "ci_Get C now ?k (hp_resCache f)")
  obtain fam fl where fam: "IsFilterable (ne_famOf E) (fr_QType req) = (fam, fl)" by fastforce
  have sat: "agdcache.entries_sat live (\<lambda>k. rule_result (?R k)) (hp_resCache f)" using ok by (simp add: hp_ok_def)
  have sat': "agdcache.entries_sat live (\<lambda>k. rule_result (?R k)) c"
    using agdcache.entries_sat_get [OF C sat, of now ?k] get by simp
  have ok_upd: "hp_ok E live (f\<lparr>hp_resCache := c'\<rparr>) \<longleftrightarrow> agdcache.entries_sat live (\<lambda>k. rule_result (?R k)) c'" for c'
    by (simp add: hp_ok_def hp_rule_def)
  have plain: "?R ?k = (if fl \<and> m \<noteq> [] then Some (hp_id f, m) else None)"
    by (auto simp: hp_rule_def hp_first_def fam m_def NewCacheKey_def split: option.split)
  have k: "hp_rule E f (fr_Host req) (fr_QType req) = ?R ?k" by (simp add: NewCacheKey_def)
  have "rule_outcome (?R ?k) (fst (hp_FilterRequest L E C newId now req f)) \<and>
      hp_ok E live (snd (hp_FilterRequest L E C newId now req f))"
  proof (cases r)
    case (Some v)
    then have "rule_result (?R ?k) v"
      using agdcache.get_sat [OF C sat, of now ?k v c] get by blast
    then show ?thesis
      using Some CloneModifiedResult_outcome sat' by (simp add: hp_FilterRequest_def get ok_upd)
  next
    case None
    show ?thesis
    proof (cases fl)
      case False
      then show ?thesis
        using None plain sat' by (simp add: hp_FilterRequest_def get fam ok_upd rule_outcome_def rule_result_def modified_result_def)
    next
      case True
      have "?R ?k = map_option (Pair (hp_id f)) (if m = [] then None else Some m)" using plain True by simp
      note s = set_replaced_ok [OF C sat' this, of L newId now "hp_replCons f" req fam]
      then show ?thesis
        using True None
        by (cases "m = []") (simp_all add: hp_FilterRequest_def get fam m_def [symmetric] ok_upd case_prod_beta Let_def)
    qed
  qed
  then show "rule_outcome (hp_rule E f (fr_Host req) (fr_QType req)) (fst (hp_FilterRequest L E C newId now req f))"
    and "hp_ok E live (snd (hp_FilterRequest L E C newId now req f))"
    unfolding k by simp_all
qed

lemma hp_FilterRequest_fields:
  "hp_hashes (snd (hp_FilterRequest L E C newId now req f)) = hp_hashes f"
  "hp_id (snd (hp_FilterRequest L E C newId now req f)) = hp_id f"
  "hp_subDomainNum (snd (hp_FilterRequest L E C newId now req f)) = hp_subDomainNum f"
  by (simp_all add: hp_FilterRequest_def Let_def split: prod.split option.split bool.split sum.split)

lemma hp_refresh_fields:
  "hp_id (snd (hp_refresh C loaded f)) = hp_id f"
  "hp_subDomainNum (snd (hp_refresh C loaded f)) = hp_subDomainNum f"
  by (simp_all add: hp_refresh_def split: sum.split prod.split)

lemma hp_refresh_ok:
  assumes C: "agdcache C live" and ok: "hp_ok E live f"
  shows "hp_ok E live (snd (hp_refresh C loaded f))"
proof -
  have "snd (hp_refresh C loaded f) = f \<or>
      (\<exists>s. snd (hp_refresh C loaded f) = f\<lparr>hp_hashes := s, hp_resCache := ci_Clear C (hp_resCache f)\<rparr>)"
    by (auto simp: hp_refresh_def split: sum.split prod.split)
  then show ?thesis
    using ok by (auto simp: hp_ok_def agdcache.entries_sat_clear [OF C])
qed

text \<open>The hosts of the list in force: the last one that was loaded and could be read.\<close>

definition listed_hosts :: "string \<Rightarrow> string set option" where
  "listed_hosts data = map_option (\<lambda>ls. set (filter is_list_line ls)) (scan_lines data)"

fun hosts_after :: "string set \<Rightarrow> 'e hp_event list \<Rightarrow> string set" where
  "hosts_after hs [] = hs"
| "hosts_after hs (HPRefresh (Inr data) # es) =
     hosts_after (case listed_hosts data of None \<Rightarrow> hs | Some hs' \<Rightarrow> hs') es"
| "hosts_after hs (_ # es) = hosts_after hs es"

definition storage_of :: "string set \<Rightarrow> hash_suffixes \<Rightarrow> bool" where
  "storage_of hs s \<longleftrightarrow> (\<forall>host. storage_Matches s host \<longleftrightarrow> Sum256 host \<in> Sum256 ` hs)"

lemma reset_storage_of:
  assumes "storage_Reset data s0 = (Inr n, s)" "scan_lines data = Some ls"
  shows "storage_of (set (filter is_list_line ls)) s"
proof -
  have "host_suf host \<in> set (stored s (host_pref host)) \<longleftrightarrow> Sum256 host \<in> Sum256 ` set (filter is_list_line ls)" for host
    unfolding reset_stored [OF assms] by (auto simp: image_iff) (metis pref_suf, metis host_pref_def host_suf_def)
  then show ?thesis by (simp add: storage_of_def Matches_stored)
qed

lemma hp_refresh_hosts:
  assumes "storage_of hs (hp_hashes f)"
  shows "storage_of (hosts_after hs [HPRefresh loaded]) (hp_hashes (snd (hp_refresh C loaded f)))"
proof (cases loaded)
  case (Inl e)
  then show ?thesis using assms by (simp add: hp_refresh_def)
next
  case (Inr data)
  show ?thesis
  proof (cases "scan_lines data")
    case None
    then show ?thesis using assms Inr by (simp add: hp_refresh_def storage_Reset_def listed_hosts_def)
  next
    case (Some ls)
    obtain s where s: "storage_Reset data (hp_hashes f) = (Inr (length (filter is_list_line ls)), s)"
      using Some by (simp add: storage_Reset_def Let_def)
    then show ?thesis
      using reset_storage_of [OF s Some] Inr Some by (simp add: hp_refresh_def listed_hosts_def)
  qed
qed

lemma hp_history:
  fixes f :: "'c hashprefix_filter" and es :: "'e hp_event list"
  assumes C: "agdcache C live" and "hp_ok E live f" "storage_of hs (hp_hashes f)"
  shows "hp_ok E live (fold (hp_apply L E C) es f) \<and>
         storage_of (hosts_after hs es) (hp_hashes (fold (hp_apply L E C) es f)) \<and>
         hp_id (fold (hp_apply L E C) es f) = hp_id f \<and>
         hp_subDomainNum (fold (hp_apply L E C) es f) = hp_subDomainNum f"
  using assms(2,3)
proof (induction es arbitrary: f hs)
  case (Cons e es)
  show ?case
  proof (cases e)
    case (HPRequest newId now req)
    then show ?thesis
      using Cons.IH [OF hp_FilterRequest_ok(2) [OF C Cons.prems(1), of L newId now req], of hs] Cons.prems(2)
      by (simp add: hp_FilterRequest_fields)
  next
    case (HPRefresh loaded)
    then show ?thesis
      using Cons.IH [OF hp_refresh_ok [OF C Cons.prems(1), of loaded] hp_refresh_hosts [OF Cons.prems(2), of loaded C]]
      by (cases loaded) (simp_all add: hp_refresh_fields)
  qed
qed simp


definition ex_hp_filter :: "repl_cons \<Rightarrow> (cache_key \<times> flt_result option cache_entry) list hashprefix_filter" where
  "ex_hp_filter rc =
     \<lparr>hp_hashes = NewStorage, hp_replCons = rc, hp_resCache = [], hp_id = ''sb'', hp_subDomainNum = 4\<rparr>"

definition ex_hp_request :: "constructor \<Rightarrow> 16 word \<Rightarrow> flt_request" where
  "ex_hp_request c qt =
     \<lparr>fr_DNS = ex_request ''bad.com.'' qt, fr_Messages = c, fr_RemoteIP = Addr4 1, fr_ClientName = [],
      fr_Host = ''bad.com'', fr_QType = qt, fr_QClass = ClassINET\<rparr>"

lemma ex_bad_list: "scan_lines ''bad.com'' = Some [''bad.com'']"
proof -
  have "raw_lines ''bad.com'' = [''bad.com'']" "drop_cr ''bad.com'' = ''bad.com''" by code_simp+
  then show ?thesis by (simp add: scan_lines_def MaxScanTokenSize_def)
qed

lemma ex_bad_subs:
  "AppendSubdomains (ne_appendSub ex_net_env) (ne_publicSuffix ex_net_env) [] ''bad.com'' 4 = [''bad.com'']"
  by code_simp


subsection \<open>A cached blocking response\<close>

text \<open>
  A cached response is turned into a reply to the next request with \<^verbatim>\<open>SetReply\<close>, which sets the response
  code to success.  A request of type HTTPS from a profile with the blocking mode NXDOMAIN is first
  answered with NXDOMAIN, and then with success.
\<close>

lemma hp_cached_block_loses_rcode:
  defines "c \<equiv> ex_constructor\<lparr>c_blockingMode := BlockingModeNXDOMAIN\<rparr>" and "C \<equiv> default_if (lru_std 3)"
  defines "req \<equiv> ex_hp_request c TypeHTTPS"
  defines "f \<equiv> snd (hp_refresh C (Inr ''bad.com'' :: unit + string) (ex_hp_filter \<lparr>replIP = Addr4 1, replFQDN = []\<rparr>))"
  defines "r1 \<equiv> hp_FilterRequest dnslib_std ex_net_env C 5 1 req f"
  shows "\<exists>m1 m2. fst r1 = Inr (Some (ResultModifiedResponse m1 ''sb'' ''bad.com'')) \<and> Rcode m1 = RcodeNameError \<and>
           fst (hp_FilterRequest dnslib_std ex_net_env C 6 2 req (snd r1)) =
             Inr (Some (ResultModifiedResponse m2 ''sb'' ''bad.com'')) \<and> Rcode m2 = RcodeSuccess"
proof -
  define m where "m = (NewBlockedRespRCode dnslib_std c (fr_DNS req) RcodeNameError)\<lparr>Ns := newSOARecords c (fr_DNS req)\<rparr>"
  have repl: "repl_New dnslib_std \<lparr>replIP = Addr4 1, replFQDN = []\<rparr> req ''sb'' ''bad.com'' AddrFamilyNone =
      Inr (ResultModifiedResponse m ''sb'' ''bad.com'')"
    by (simp add: repl_New_def respForFamily_def NewBlockedResp_def m_def req_def ex_hp_request_def c_def)
  have fl: "IsFilterable (ne_famOf ex_net_env) TypeHTTPS = (AddrFamilyNone, True)" by (simp add: IsFilterable_def)
  have st: "storage_Reset ''bad.com'' NewStorage = (Inr 1, fold add_hash [''bad.com''] Map.empty)"
    by (simp add: storage_Reset_def ex_bad_list is_list_line_def)
  have mt: "storage_Matches (fold add_hash [''bad.com''] Map.empty) ''bad.com''"
    using reset_storage_of [OF st ex_bad_list] by (simp add: storage_of_def is_list_line_def)
  have rc: "Rcode m = RcodeNameError" by (simp add: m_def NewBlockedRespRCode_def)
  have r1: "r1 = (Inr (Some (ResultModifiedResponse m ''sb'' ''bad.com'')),
      f\<lparr>hp_resCache := [(NewCacheKey ''bad.com'' TypeHTTPS ClassINET False,
          \<lparr>ce_val = Some (ResultModifiedResponse m ''sb'' ''bad.com''), ce_expiration = 0\<rparr>)]\<rparr>)"
    using mt repl
    by (simp add: r1_def hp_FilterRequest_def f_def hp_refresh_def st ex_hp_filter_def req_def ex_hp_request_def
        C_def default_if_def default_Get_def default_Set_def default_Clear_def lru_std_def fl ex_bad_subs set_replaced_def Let_def)
  show ?thesis
    using rc
    by (simp add: r1 hp_FilterRequest_def req_def ex_hp_request_def C_def default_if_def default_Get_def
        lru_std_def expired_def dnslib_std_def Let_def)
qed

end
