(* ===== verification/Levenshtein.thy ===== *)
theory Levenshtein
  imports Prelude
begin

text \<open>
  The Damerau-Levenshtein calculator of \<open>internal/agdalg/levenshtein.go\<close>, which fills the rows of the
  distance table one after another, and its specification: the least number of insertions, deletions,
  substitutions and transpositions of neighbours in an alignment of the two strings.

  The rows are taken from a pool, so what they hold at first is an argument (\<open>row\<close>).  Distances are
  unsigned 64-bit integers in the code; they are at most the sum of the lengths of the strings here,
  so natural numbers are used.  The loops range over the positions where the runes of a string start.
\<close>

subsection \<open>The calculator\<close>

definition hasTransposition :: "string \<Rightarrow> string \<Rightarrow> nat \<Rightarrow> nat \<Rightarrow> bool" where
  "hasTransposition a b i j \<longleftrightarrow> 0 < i \<and> 0 < j \<and> a ! i = b ! (j - 1) \<and> a ! (i - 1) = b ! j"

definition handleQuick :: "string \<Rightarrow> string \<Rightarrow> nat option" where
  "handleQuick a b =
     (if a = b then Some 0
      else if a = [] then Some (length b)
      else if b = [] then Some (length a)
      else if str_contains a b then Some (length a - length b)
      else if str_contains b a then Some (length b - length a)
      else None)"

definition str_range :: "string \<Rightarrow> nat list" where
  "str_range s = map fst (runes_from 0 s)"

text \<open>The body of the inner loop, which sets one element of the current row.\<close>

definition set_cell :: "string \<Rightarrow> string \<Rightarrow> nat \<Rightarrow> nat list \<Rightarrow> nat list \<Rightarrow> nat \<Rightarrow> nat list \<Rightarrow> nat list" where
  "set_cell a b i prevPrev prev j cur =
     (let costDel = prev ! (j + 1) + 1;
          costIns = cur ! j + 1;
          sub = (if a ! i \<noteq> b ! j then 1 else 0);
          costSub = prev ! j + sub;
          costTrans = (if hasTransposition a b i j then prevPrev ! (j - 1) + sub else costSub)
      in cur[j + 1 := min (min costDel costIns) (min costSub costTrans)])"

definition next_row ::
  "string \<Rightarrow> string \<Rightarrow> nat \<Rightarrow> nat list \<times> nat list \<times> nat list \<Rightarrow> nat list \<times> nat list \<times> nat list" where
  "next_row a b i = (\<lambda>(prevPrev, prev, cur).
     (prev, fold (set_cell a b i prevPrev prev) (str_range b) (cur[0 := i + 1]), prevPrev))"

definition Distance :: "(nat \<Rightarrow> nat list) \<Rightarrow> string \<Rightarrow> string \<Rightarrow> nat" where
  "Distance row a b =
     (case handleQuick a b of
        Some dist \<Rightarrow> dist
      | None \<Rightarrow>
          (let rowLen = length b + 1;
               cur = row rowLen;
               prev = [0..<rowLen];
               prevPrev = row rowLen;
               (_, prev, _) = fold (next_row a b) (str_range a) (prevPrev, prev, cur)
           in prev ! length b))"

subsection \<open>Alignments\<close>

inductive align :: "'a list \<Rightarrow> 'a list \<Rightarrow> nat \<Rightarrow> bool" where
  align_Nil: "align [] [] 0"
| align_Copy: "align a b n \<Longrightarrow> align (x # a) (x # b) n"
| align_Subst: "align a b n \<Longrightarrow> align (x # a) (y # b) (Suc n)"
| align_Del: "align a b n \<Longrightarrow> align (x # a) b (Suc n)"
| align_Ins: "align a b n \<Longrightarrow> align a (y # b) (Suc n)"
| align_Trans: "align a b n \<Longrightarrow> align (x # y # a) (y # x # b) (Suc n)"

lemma align_append: "align a b n \<Longrightarrow> align c d m \<Longrightarrow> align (a @ c) (b @ d) (n + m)"
  by (induction a b n rule: align.induct) (auto intro: align.intros)

lemma align_refl: "align a a 0"
  by (induction a) (auto intro: align.intros)

lemma align_del_all: "align a [] (length a)"
  by (induction a) (auto intro: align.intros)

lemma align_ins_all: "align [] b (length b)"
  by (induction b) (auto intro: align.intros)

lemma align_rev: "align a b n \<Longrightarrow> align (rev a) (rev b) n"
proof (induction a b n rule: align.induct)
  case (align_Copy a b n x)
  then show ?case using align_append [OF _ align_refl [of "[x]"]] by fastforce
next
  case (align_Subst a b n x y)
  have "align [x] [y] 1" by (auto intro: align.intros)
  from align_append [OF align_Subst.IH this] show ?case by simp
next
  case (align_Del a b n x)
  from align_append [OF align_Del.IH align_del_all [of "[x]"]] show ?case by simp
next
  case (align_Ins a b n y)
  from align_append [OF align_Ins.IH align_ins_all [of "[y]"]] show ?case by simp
next
  case (align_Trans a b n x y)
  have "align [y, x] [x, y] 1" using align.align_Trans [OF align_Nil] by simp
  from align_append [OF align_Trans.IH this] show ?case by simp
qed (auto intro: align.intros)

lemma align_lengths: "align a b n \<Longrightarrow> length a \<le> length b + n \<and> length b \<le> length a + n"
  by (induction a b n rule: align.induct) auto

lemma align_substring:
  assumes "str_contains a b"
  shows "align a b (length a - length b)" and "align b a (length a - length b)"
proof -
  from assms obtain u v where a: "a = u @ b @ v" by (auto simp: str_contains_iff)
  show "align a b (length a - length b)"
    using align_append [OF align_del_all [of u] align_append [OF align_refl [of b] align_del_all [of v]]]
    by (simp add: a)
  show "align b a (length a - length b)"
    using align_append [OF align_ins_all [of u] align_append [OF align_refl [of b] align_ins_all [of v]]]
    by (simp add: a)
qed

subsection \<open>The recursion of the table\<close>

fun osa :: "'a list \<Rightarrow> 'a list \<Rightarrow> nat" where
  "osa [] ys = length ys"
| "osa (x # xs) [] = Suc (length xs)"
| "osa (x # xs) (y # ys) =
     (let sub = (if x \<noteq> y then 1 else 0)
      in min (min (osa xs (y # ys) + 1) (osa (x # xs) ys + 1))
           (min (osa xs ys + sub)
             (case (xs, ys) of
                (x' # xs', y' # ys') \<Rightarrow> if x = y' \<and> x' = y then osa xs' ys' + sub else osa xs ys + sub
              | _ \<Rightarrow> osa xs ys + sub)))"

lemma osa_Nil2 [simp]: "osa xs [] = length xs"
  by (cases xs) simp_all

lemma osa_le:
  "osa (x # xs) (y # ys) \<le> Suc (osa xs (y # ys))"
  "osa (x # xs) (y # ys) \<le> Suc (osa (x # xs) ys)"
  "osa (x # xs) (y # ys) \<le> osa xs ys + (if x \<noteq> y then 1 else 0)"
  by (simp_all add: Let_def min_le_iff_disj)

lemma osa_le_trans: "osa (x # y # a) (y # x # b) \<le> osa a b + (if x \<noteq> y then 1 else 0)"
  by (subst osa.simps) (simp add: Let_def min_le_iff_disj del: osa.simps)

lemma osa_cases:
  "osa (x # xs) (y # ys) = osa xs (y # ys) + 1 \<or> osa (x # xs) (y # ys) = osa (x # xs) ys + 1 \<or>
   osa (x # xs) (y # ys) = osa xs ys + (if x \<noteq> y then 1 else 0) \<or>
   (\<exists>xs' ys'. xs = y # xs' \<and> ys = x # ys' \<and>
      osa (x # xs) (y # ys) = osa xs' ys' + (if x \<noteq> y then 1 else 0))"
proof (cases "\<exists>xs' ys'. xs = y # xs' \<and> ys = x # ys'")
  case True
  then obtain xs' ys' where eq: "xs = y # xs'" "ys = x # ys'" by blast
  let ?s = "if x \<noteq> y then 1 else 0 :: nat"
  have "osa (x # xs) (y # ys) =
      min (min (osa xs (y # ys) + 1) (osa (x # xs) ys + 1)) (min (osa xs ys + ?s) (osa xs' ys' + ?s))"
    unfolding eq by (subst osa.simps(3)) (simp add: Let_def del: osa.simps)
  then show ?thesis unfolding min_def using eq by (simp del: osa.simps split: if_split_asm)
next
  case False
  then have "osa (x # xs) (y # ys) =
      min (min (osa xs (y # ys) + 1) (osa (x # xs) ys + 1)) (osa xs ys + (if x \<noteq> y then 1 else 0))"
    by (subst osa.simps(3)) (auto simp: Let_def simp del: osa.simps split: list.split)
  then show ?thesis unfolding min_def by (simp del: osa.simps split: if_split_asm)
qed

lemma osa_lower: "align xs ys n \<Longrightarrow> osa xs ys \<le> n"
proof (induction xs ys n rule: align.induct)
  case (align_Copy a b n x)
  then show ?case using osa_le(3) [of x a x b] by (simp del: osa.simps)
next
  case (align_Subst a b n x y)
  then show ?case using osa_le(3) [of x a y b] by (simp del: osa.simps split: if_splits)
next
  case (align_Del a b n x)
  show ?case
  proof (cases b)
    case (Cons y ys)
    with align_Del.IH osa_le(1) [of x a y ys] show ?thesis by (simp del: osa.simps)
  qed (use align_Del.IH in simp)
next
  case (align_Ins a b n y)
  show ?case
  proof (cases a)
    case (Cons x xs)
    with align_Ins.IH osa_le(2) [of x xs y b] show ?thesis by (simp del: osa.simps)
  qed (use align_Ins.IH in simp)
next
  case (align_Trans a b n x y)
  then show ?case using osa_le_trans [of x y a b] by (simp del: osa.simps split: if_splits)
qed simp

lemma align_osa: "align xs ys (osa xs ys)"
proof (induction "length xs + length ys" arbitrary: xs ys rule: less_induct)
  case less
  show ?case
  proof (cases "xs = [] \<or> ys = []")
    case True
    then show ?thesis by (auto simp: align_ins_all align_del_all)
  next
    case False
    then obtain x xs0 y ys0 where eq: "xs = x # xs0" "ys = y # ys0" by (meson neq_Nil_conv)
    let ?sub = "if x \<noteq> y then 1 else 0 :: nat"
    have sub: "align xs ys (osa xs0 ys0 + ?sub)"
      using less [of xs0 ys0] eq by (auto intro: align.intros)
    have del: "align xs ys (osa xs0 ys + 1)"
      using less [of xs0 ys] eq by (auto intro: align.intros)
    have ins: "align xs ys (osa xs ys0 + 1)"
      using less [of xs ys0] eq by (auto intro: align.intros)
    have trans: "align xs ys (osa xs' ys' + ?sub)" if "xs0 = y # xs'" "ys0 = x # ys'" for xs' ys'
      using less [of xs' ys'] eq that by (cases "x = y") (auto intro: align.intros)
    have "osa xs ys = osa xs0 ys + 1 \<or> osa xs ys = osa xs ys0 + 1 \<or> osa xs ys = osa xs0 ys0 + ?sub \<or>
        (\<exists>xs' ys'. xs0 = y # xs' \<and> ys0 = x # ys' \<and> osa xs ys = osa xs' ys' + ?sub)"
      unfolding eq by (rule osa_cases)
    with sub del ins trans show ?thesis by metis
  qed
qed

subsection \<open>The rows hold the table\<close>

definition table :: "string \<Rightarrow> string \<Rightarrow> nat \<Rightarrow> nat \<Rightarrow> nat" where
  "table a b i j = osa (rev (take i a)) (rev (take j b))"

lemma rev_take_Suc: "i < length a \<Longrightarrow> rev (take (Suc i) a) = a ! i # rev (take i a)"
  by (simp add: take_Suc_conv_app_nth)

lemma table_0 [simp]: "table a b 0 j = length (take j b)" "table a b i 0 = length (take i a)"
  by (simp_all add: table_def)

lemma table_Suc:
  assumes "i < length a" "j < length b"
  defines "sub \<equiv> if a ! i \<noteq> b ! j then 1 else 0 :: nat"
  shows "table a b (Suc i) (Suc j) =
           min (min (table a b i (Suc j) + 1) (table a b (Suc i) j + 1))
             (min (table a b i j + sub)
               (if hasTransposition a b i j then table a b (i - 1) (j - 1) + sub else table a b i j + sub))"
proof (cases "0 < i \<and> 0 < j")
  case True
  then obtain i' j' where eq: "i = Suc i'" "j = Suc j'" by (metis gr0_conv_Suc)
  show ?thesis
    unfolding table_def rev_take_Suc [OF assms(1)] rev_take_Suc [OF assms(2)]
    by (subst osa.simps(3))
      (use assms(1,2) in \<open>simp add: eq rev_take_Suc hasTransposition_def sub_def Let_def del: osa.simps\<close>)
next
  case False
  then have no: "\<not> hasTransposition a b i j" by (auto simp: hasTransposition_def)
  from False have "rev (take i a) = [] \<or> rev (take j b) = []" by auto
  with no show ?thesis
    unfolding table_def rev_take_Suc [OF assms(1)] rev_take_Suc [OF assms(2)]
    by (subst osa.simps(3)) (auto simp: sub_def Let_def simp del: osa.simps split: list.split)
qed

lemma row_filled:
  assumes i: "i < length a" and j: "j \<le> length b" and len: "length cur = Suc (length b)"
    and prev: "\<forall>k \<le> length b. prev ! k = table a b i k"
    and prevPrev: "0 < i \<Longrightarrow> \<forall>k \<le> length b. prevPrev ! k = table a b (i - 1) k"
  defines "row \<equiv> fold (set_cell a b i prevPrev prev) [0..<j] (cur[0 := Suc i])"
  shows "length row = Suc (length b) \<and> (\<forall>k \<le> j. row ! k = table a b (Suc i) k)"
  using j unfolding row_def
proof (induction j)
  case 0
  then show ?case using len i by simp
next
  case (Suc j)
  let ?r = "fold (set_cell a b i prevPrev prev) [0..<j] (cur[0 := Suc i])"
  have IH: "length ?r = Suc (length b)" "\<forall>k \<le> j. ?r ! k = table a b (Suc i) k" using Suc by auto
  have "hasTransposition a b i j \<Longrightarrow> 0 < i" by (simp add: hasTransposition_def)
  then have cell: "set_cell a b i prevPrev prev j ?r = ?r[Suc j := table a b (Suc i) (Suc j)]"
    using Suc.prems prev prevPrev IH(2) table_Suc [OF i, of j b]
    by (auto simp: set_cell_def Let_def)
  show ?case using IH Suc.prems by (auto simp: cell nth_list_update le_Suc_eq)
qed

lemma rows_filled:
  assumes "i \<le> length a" and "length cur = Suc (length b)" "length prevPrev = Suc (length b)"
    and "str_range b = [0..<length b]"
    and "fold (next_row a b) [0..<i] (prevPrev, [0..<Suc (length b)], cur) = (pp, p, c)"
  shows "length pp = Suc (length b) \<and> length p = Suc (length b) \<and> length c = Suc (length b) \<and>
         (\<forall>k \<le> length b. p ! k = table a b i k) \<and>
         (0 < i \<longrightarrow> (\<forall>k \<le> length b. pp ! k = table a b (i - 1) k))"
  using assms(1,5)
proof (induction i arbitrary: pp p c)
  case 0
  then show ?case using assms(2,3) by (auto simp: nth_append simp del: upt_Suc)
next
  case (Suc i)
  obtain pp' p' c' where st: "fold (next_row a b) [0..<i] (prevPrev, [0..<Suc (length b)], cur) = (pp', p', c')"
    by (metis prod_cases3)
  have "fold (next_row a b) [0..<Suc i] (prevPrev, [0..<Suc (length b)], cur) = next_row a b i (pp', p', c')"
    using st by (simp only: upt_Suc_append [of 0 i] le0 fold_append o_apply fold.simps id_apply)
  with Suc.prems(2) have "next_row a b i (pp', p', c') = (pp, p, c)" by metis
  then have new: "pp = p'" "c = pp'" "p = fold (set_cell a b i pp' p') [0..<length b] (c'[0 := Suc i])"
    by (auto simp: next_row_def assms(4))
  note IH = Suc.IH [OF _ st]
  show ?case
    using row_filled [of i a "length b" b c' p' pp'] IH Suc.prems(1) unfolding new by auto
qed

lemma str_range_ascii: "\<forall>c \<in> set s. byte c < (0x80::nat) \<Longrightarrow> str_range s = [0..<length s]"
proof -
  have "\<forall>c \<in> set s. byte c < (0x80::nat) \<Longrightarrow> map fst (runes_from i s) = [i..<i + length s]" for i
  proof (induction s arbitrary: i)
    case (Cons c s)
    have "runes_from i (c # s) = (i, byte c) # runes_from (i + 1) s"
      using Cons.prems by (subst runes_from.simps) (simp add: decode_rune_ascii)
    with Cons show ?case by (simp add: upt_rec)
  qed simp
  then show "\<forall>c \<in> set s. byte c < (0x80::nat) \<Longrightarrow> str_range s = [0..<length s]"
    by (simp add: str_range_def)
qed

lemma handleQuick_align:
  assumes "handleQuick a b = Some d"
  shows "align a b d" and "align a b n \<Longrightarrow> d \<le> n"
  using assms align_refl [of a] align_ins_all [of b] align_del_all [of a] align_substring
    align_lengths [of a b n]
  by (auto simp: handleQuick_def split: if_splits)

lemma Distance_osa:
  assumes "\<And>n. length (row n) = n" "\<forall>c \<in> set a. byte c < (0x80::nat)" "\<forall>c \<in> set b. byte c < (0x80::nat)"
    and "handleQuick a b = None"
  shows "Distance row a b = osa (rev a) (rev b)"
proof -
  let ?r = "row (Suc (length b))"
  obtain pp p c where st: "fold (next_row a b) [0..<length a] (?r, [0..<Suc (length b)], ?r) = (pp, p, c)"
    by (metis prod_cases3)
  have "p ! length b = table a b (length a) (length b)"
    using rows_filled [OF _ _ _ str_range_ascii [OF assms(3)] st] assms(1) by simp
  with st assms(4) show ?thesis
    by (simp add: Distance_def str_range_ascii [OF assms(2)] table_def del: upt_Suc)
qed

lemma Distance_least:
  assumes "\<And>n. length (row n) = n" "\<forall>c \<in> set a \<union> set b. byte c < (0x80::nat)"
  shows "align a b (Distance row a b)" and "align a b n \<Longrightarrow> Distance row a b \<le> n"
proof -
  have "align a b (Distance row a b) \<and> (align a b n \<longrightarrow> Distance row a b \<le> n)"
  proof (cases "handleQuick a b")
    case None
    then have "Distance row a b = osa (rev a) (rev b)" using Distance_osa assms by simp
    then show ?thesis
      using align_rev [OF align_osa [of "rev a" "rev b"]] osa_lower [OF align_rev [of a b n]] by simp
  next
    case (Some d)
    then show ?thesis using handleQuick_align [OF Some] by (simp add: Distance_def)
  qed
  then show "align a b (Distance row a b)" and "align a b n \<Longrightarrow> Distance row a b \<le> n" by auto
qed

lemma Distance_lengths:
  assumes "\<And>n. length (row n) = n" "\<forall>c \<in> set a \<union> set b. byte c < (0x80::nat)"
  shows "length a \<le> length b + Distance row a b" "length b \<le> length a + Distance row a b"
  using align_lengths [OF Distance_least(1) [OF assms]] by auto

lemma align_0: "align a b n \<Longrightarrow> n = 0 \<Longrightarrow> a = b"
  by (induction a b n rule: align.induct) auto

lemma Distance_0_iff:
  assumes "\<And>n. length (row n) = n" "\<forall>c \<in> set a \<union> set b. byte c < (0x80::nat)"
  shows "Distance row a b = 0 \<longleftrightarrow> a = b"
proof
  show "Distance row a b = 0 \<Longrightarrow> a = b" by (rule align_0 [OF Distance_least(1) [OF assms]])
  show "a = b \<Longrightarrow> Distance row a b = 0" by (simp add: Distance_def handleQuick_def)
qed

subsection \<open>Properties\<close>

text \<open>
  C26: the calculator computes the Damerau-Levenshtein distance of ASCII strings (optimal string
  alignment): there is an alignment with that many insertions, deletions, substitutions and
  transpositions, there is none with fewer, and what the pooled rows hold does not matter.
\<close>

theorem Distance_correct:
  assumes "\<And>n. length (row n) = n" and "\<forall>c \<in> set a \<union> set b. byte c < (0x80::nat)"
  shows "align a b (Distance row a b) \<and> (\<forall>n. align a b n \<longrightarrow> Distance row a b \<le> n)"
  using Distance_least [OF assms] by blast

theorem Distance_correct_witness:
  "align ''label'' ''lable'' (Distance (\<lambda>n. replicate n 7) ''label'' ''lable'') \<and>
   Distance (\<lambda>n. replicate n 7) ''label'' ''lable'' \<le> 1"
proof -
  have tr: "align ''label'' ''lable'' 1"
    using align_append [OF align_refl [of "''lab''"] align_Trans [OF align_Nil, of "CHR ''e''" "CHR ''l''"]] by simp
  have "\<forall>c \<in> set ''label'' \<union> set ''lable''. byte c < (0x80::nat)" by simp
  from Distance_correct [OF _ this, of "\<lambda>n. replicate n 7"] tr show ?thesis by (simp del: replicate.simps)
qed

end
