(* ===== verification/Refreshable.thy ===== *)
theory Refreshable
  imports Prelude
begin

text \<open>
  Refreshable data, \<open>internal/filter/internal/refreshable/{refreshable,file}.go\<close>: a list is read from its
  cache file while that is fresh, and otherwise from its URL, in which case the cache file is replaced
  and its modification time set.  The calls that can fail (files and HTTP) take their outcome from an
  environment; the state is the file.
\<close>

subsection \<open>Files, responses and errors\<close>

record data_file =
  file_data :: string
  file_mtime :: time

text \<open>The outcomes of the operations on an open file.\<close>

record 'e file_env =
  fe_open :: "'e option"
  fe_stat :: "'e option"
  fe_read :: "'e option"
  fe_close :: "'e option"

text \<open>The response of the server, as far as it is used; reading the body may fail.\<close>

record 'e http_response =
  StatusCode :: nat
  resp_Body :: "('e, string) result"
  resp_close :: "'e option"

text \<open>The outcomes of the operations on the temporary file and of the request.\<close>

record 'e url_env =
  ue_tempFile :: "'e option"
  ue_get :: "('e, 'e http_response) result"
  ue_write :: "'e option"
  ue_cleanup :: "'e option"
  ue_replace :: "'e option"
  ue_chtimes :: "'e option"

datatype 'e refr_error =
    OpeningFile 'e
  | ReadingStat 'e
  | ReadingFile 'e
  | CreatingTmp 'e
  | Requesting 'e
  | StatusError nat
  | ReadingBody 'e
  | EmptyText
  | External 'e
  | Deferred "'e refr_error option" "'e refr_error"

text \<open>\<open>WithDeferred\<close> of \<^verbatim>\<open>golibs/errors\<close>: the pair, if the deferred call failed.\<close>

definition WithDeferred :: "'e refr_error option \<Rightarrow> 'e option \<Rightarrow> 'e refr_error option" where
  "WithDeferred returned deferred =
     (case deferred of None \<Rightarrow> returned | Some d \<Rightarrow> Some (Deferred returned (External d)))"

subsection \<open>Reading the file\<close>

text \<open>The first component is the data, \<open>None\<close> for the nil slice.\<close>

definition DataFromFile ::
  "'e file_env \<Rightarrow> data_file option \<Rightarrow> time \<Rightarrow> duration \<Rightarrow> bool \<Rightarrow> string option \<times> 'e refr_error option" where
  "DataFromFile fe file updTime staleness acceptStale =
     (case file of
        None \<Rightarrow> (None, None)
      | Some fl \<Rightarrow>
          (case fe_open fe of
             Some e \<Rightarrow> (None, Some (OpeningFile e))
           | None \<Rightarrow>
               (let (b, err) =
                  (case (if acceptStale then None else fe_stat fe) of
                     Some e \<Rightarrow> (None, Some (ReadingStat e))
                   | None \<Rightarrow>
                       if \<not> acceptStale \<and> \<not> updTime < file_mtime fl + staleness then (None, None)
                       else (case fe_read fe of
                               Some e \<Rightarrow> (None, Some (ReadingFile e))
                             | None \<Rightarrow> (Some (file_data fl), None)))
                in (b, WithDeferred err (fe_close fe)))))"

subsection \<open>Reading from the URL\<close>

record refreshable =
  rf_fileURL :: bool
  rf_staleness :: duration
  rf_maxSize :: nat

text \<open>
  \<open>limitReader\<close> is the reader of \<^verbatim>\<open>golibs/ioutil\<close> read to its end: the data or an error; it is an error
  when the data is longer than the limit.
\<close>

definition limitReader_ok :: "(nat \<Rightarrow> ('e, string) result \<Rightarrow> ('e, string) result) \<Rightarrow> bool" where
  "limitReader_ok limitReader \<longleftrightarrow>
     (\<forall>n body b. limitReader n body = Inr b \<longrightarrow> body = Inr b \<and> length b \<le> n) \<and>
     (\<forall>n b. length b < n \<longrightarrow> limitReader n (Inr b) = Inr b)"

definition copy_body ::
  "(nat \<Rightarrow> ('e, string) result \<Rightarrow> ('e, string) result) \<Rightarrow> nat \<Rightarrow> 'e url_env \<Rightarrow> 'e http_response \<Rightarrow>
     ('e refr_error, string) result" where
  "copy_body limitReader maxSize ue resp =
     (if StatusCode resp \<noteq> 200 then Inl (StatusError (StatusCode resp))
      else (case limitReader maxSize (resp_Body resp) of
              Inl e \<Rightarrow> Inl (ReadingBody e)
            | Inr b \<Rightarrow>
                (case ue_write ue of
                   Some e \<Rightarrow> Inl (ReadingBody e)
                 | None \<Rightarrow> if b = [] then Inl EmptyText else Inr b)))"

definition withDeferredTmpCleanup ::
  "'e url_env \<Rightarrow> 'e refr_error option \<Rightarrow> string \<Rightarrow> time \<Rightarrow> time \<Rightarrow> data_file option \<Rightarrow>
     'e refr_error option \<times> data_file option" where
  "withDeferredTmpCleanup ue returned written updTime clock file =
     (case returned of
        Some e \<Rightarrow> (WithDeferred (Some e) (ue_cleanup ue), file)
      | None \<Rightarrow>
          (case ue_replace ue of
             Some e \<Rightarrow> (WithDeferred None (Some e), file)
           | None \<Rightarrow>
               (case ue_chtimes ue of
                  Some e \<Rightarrow> (WithDeferred None (Some e), Some \<lparr>file_data = written, file_mtime = clock\<rparr>)
                | None \<Rightarrow> (None, Some \<lparr>file_data = written, file_mtime = updTime\<rparr>))))"

text \<open>\<open>clock\<close> is the time the system gives to a file that is written.\<close>

definition refreshFromURL ::
  "(nat \<Rightarrow> ('e, string) result \<Rightarrow> ('e, string) result) \<Rightarrow> 'e url_env \<Rightarrow> refreshable \<Rightarrow> time \<Rightarrow> time \<Rightarrow>
     data_file option \<Rightarrow> (string option \<times> 'e refr_error option) \<times> data_file option" where
  "refreshFromURL limitReader ue f updTime clock file =
     (case ue_tempFile ue of
        Some e \<Rightarrow> ((None, Some (CreatingTmp e)), file)
      | None \<Rightarrow>
          (let (b, err) =
             (case ue_get ue of
                Inl e \<Rightarrow> (None, Some (Requesting e))
              | Inr resp \<Rightarrow>
                  (case copy_body limitReader (rf_maxSize f) ue resp of
                     Inl e \<Rightarrow> (None, WithDeferred (Some e) (resp_close resp))
                   | Inr b \<Rightarrow> (Some b, WithDeferred None (resp_close resp))));
               (err, file) = withDeferredTmpCleanup ue err (case b of None \<Rightarrow> [] | Some b \<Rightarrow> b) updTime clock file
           in ((b, err), file)))"

definition useCachedOrRefreshFromURL ::
  "(nat \<Rightarrow> ('e, string) result \<Rightarrow> ('e, string) result) \<Rightarrow> 'e file_env \<Rightarrow> 'e url_env \<Rightarrow> refreshable \<Rightarrow> time \<Rightarrow>
     time \<Rightarrow> bool \<Rightarrow> data_file option \<Rightarrow> ('e refr_error, string) result \<times> data_file option" where
  "useCachedOrRefreshFromURL limitReader fe ue f now clock acceptStale file =
     (case DataFromFile fe file now (rf_staleness f) acceptStale of
        (_, Some e) \<Rightarrow> (Inl e, file)
      | (b, None) \<Rightarrow>
          if b = None \<or> b = Some []
          then (case refreshFromURL limitReader ue f now clock file of
                  ((_, Some e), file) \<Rightarrow> (Inl e, file)
                | ((b, None), file) \<Rightarrow> (Inr (case b of None \<Rightarrow> [] | Some b \<Rightarrow> b), file))
          else (Inr (the b), file))"

definition refreshFromFileOnly ::
  "'e file_env \<Rightarrow> refreshable \<Rightarrow> data_file option \<Rightarrow> ('e refr_error, string) result" where
  "refreshFromFileOnly fe f file =
     (case DataFromFile fe file 0 (rf_staleness f) True of
        (_, Some e) \<Rightarrow> Inl e
      | (b, None) \<Rightarrow> Inr (case b of None \<Rightarrow> [] | Some b \<Rightarrow> b))"

text \<open>\<open>file\<close> is the file of the URL, if it is a file URL, and else the cache file.\<close>

definition refr_Refresh ::
  "(nat \<Rightarrow> ('e, string) result \<Rightarrow> ('e, string) result) \<Rightarrow> 'e file_env \<Rightarrow> 'e url_env \<Rightarrow> refreshable \<Rightarrow> time \<Rightarrow>
     time \<Rightarrow> bool \<Rightarrow> data_file option \<Rightarrow> ('e refr_error, string) result \<times> data_file option" where
  "refr_Refresh limitReader fe ue f now clock acceptStale file =
     (if rf_fileURL f then (refreshFromFileOnly fe f file, file)
      else useCachedOrRefreshFromURL limitReader fe ue f now clock acceptStale file)"

subsection \<open>What a refresh does\<close>

text \<open>The answer of the server that a refresh accepts.\<close>

definition good_answer :: "nat \<Rightarrow> 'e url_env \<Rightarrow> string \<Rightarrow> bool" where
  "good_answer maxSize ue b \<longleftrightarrow>
     (\<exists>resp. ue_get ue = Inr resp \<and> StatusCode resp = 200 \<and> resp_Body resp = Inr b \<and> b \<noteq> [] \<and> length b \<le> maxSize)"

lemma refreshFromURL_result:
  assumes "limitReader_ok limitReader" and "refreshFromURL limitReader ue f updTime clock file = ((r, err), file')"
  shows "(case err of
            None \<Rightarrow> \<exists>b. r = Some b \<and> good_answer (rf_maxSize f) ue b \<and> file' = Some \<lparr>file_data = b, file_mtime = updTime\<rparr>
          | Some _ \<Rightarrow> file' = file \<or>
              (\<exists>b. good_answer (rf_maxSize f) ue b \<and> file' = Some \<lparr>file_data = b, file_mtime = clock\<rparr>))"
proof (cases "ue_tempFile ue")
  case (Some e)
  then show ?thesis using assms(2) by (auto simp: refreshFromURL_def)
next
  case None
  show ?thesis
  proof (cases "ue_get ue")
    case (Inl e)
    then show ?thesis
      using assms(2) None
      by (auto simp: refreshFromURL_def withDeferredTmpCleanup_def WithDeferred_def Let_def split: option.splits)
  next
    case (Inr resp)
    show ?thesis
    proof (cases "copy_body limitReader (rf_maxSize f) ue resp")
      case (Inl e)
      then show ?thesis
        using assms(2) None Inr
        by (auto simp: refreshFromURL_def withDeferredTmpCleanup_def WithDeferred_def Let_def split: option.splits)
    next
      case b: (Inr b)
      then have "good_answer (rf_maxSize f) ue b"
        using assms(1) Inr
        by (auto simp: good_answer_def copy_body_def limitReader_ok_def split: if_splits sum.splits option.splits)
      then show ?thesis
        using assms(2) None Inr b
        by (auto simp: refreshFromURL_def withDeferredTmpCleanup_def WithDeferred_def Let_def split: option.splits)
    qed
  qed
qed

definition no_file_errors :: "'e file_env \<Rightarrow> bool" where
  "no_file_errors fe \<longleftrightarrow> fe_open fe = None \<and> fe_stat fe = None \<and> fe_read fe = None \<and> fe_close fe = None"

lemma DataFromFile_fresh:
  "no_file_errors fe \<Longrightarrow> accept \<or> now < file_mtime fl + staleness \<Longrightarrow>
     DataFromFile fe (Some fl) now staleness accept = (Some (file_data fl), None)"
  by (auto simp: DataFromFile_def no_file_errors_def WithDeferred_def)

lemma DataFromFile_data:
  "DataFromFile fe file now staleness accept = (Some b, None) \<Longrightarrow> \<exists>fl. file = Some fl \<and> b = file_data fl"
  by (auto simp: DataFromFile_def Let_def split: option.splits if_splits prod.splits)

text \<open>
  C29: a refresh of data with an HTTP URL that succeeds has left its result in the cache file.  The
  result is not empty, and it is either the cached data or the body, of at most the maximum size, of a
  response with status 200 to the request, in which case the modification time is the time of the
  refresh.  As long as the file is fresh, or when stale data is accepted, every later refresh gives the
  same result and does not need the server.
\<close>

theorem refresh_caches:
  assumes "limitReader_ok limitReader" "\<not> rf_fileURL f"
    and "refr_Refresh limitReader fe ue f now clock accept file = (Inr b, file')"
  shows "b \<noteq> [] \<and>
         (\<exists>fl. file' = Some fl \<and> file_data fl = b \<and>
            (file = Some fl \<or> good_answer (rf_maxSize f) ue b \<and> file_mtime fl = now) \<and>
            (\<forall>fe2 ue2 now2 clock2 accept2.
               no_file_errors fe2 \<and> (accept2 \<or> now2 < file_mtime fl + rf_staleness f) \<longrightarrow>
               refr_Refresh limitReader fe2 ue2 f now2 clock2 accept2 file' = (Inr b, file')))"
proof -
  have "\<exists>fl. file' = Some fl \<and> file_data fl = b \<and> b \<noteq> [] \<and>
      (file = Some fl \<or> good_answer (rf_maxSize f) ue b \<and> file_mtime fl = now)"
  proof (cases "\<exists>d. DataFromFile fe file now (rf_staleness f) accept = (Some d, None) \<and> d \<noteq> []")
    case True
    then obtain d where d: "DataFromFile fe file now (rf_staleness f) accept = (Some d, None)" "d \<noteq> []" by blast
    then show ?thesis
      using assms(2,3) DataFromFile_data [OF d(1)] by (auto simp: refr_Refresh_def useCachedOrRefreshFromURL_def)
  next
    case False
    obtain r err file'' where url: "refreshFromURL limitReader ue f now clock file = ((r, err), file'')"
      by (metis prod.collapse)
    have "err = None" "b = (case r of None \<Rightarrow> [] | Some b \<Rightarrow> b)" "file'' = file'"
      using assms(2,3) False url
      by (auto simp: refr_Refresh_def useCachedOrRefreshFromURL_def split: option.splits prod.splits if_splits)
    then show ?thesis
      using refreshFromURL_result [OF assms(1) url] by (auto simp: good_answer_def)
  qed
  then show ?thesis
    using assms(2) by (auto simp: refr_Refresh_def useCachedOrRefreshFromURL_def DataFromFile_fresh)
qed

definition ex_file_env :: "unit file_env" where
  "ex_file_env = \<lparr>fe_open = None, fe_stat = None, fe_read = None, fe_close = None\<rparr>"

definition ex_url_env :: "string \<Rightarrow> unit url_env" where
  "ex_url_env body =
     \<lparr>ue_tempFile = None, ue_get = Inr \<lparr>StatusCode = 200, resp_Body = Inr body, resp_close = None\<rparr>, ue_write = None,
      ue_cleanup = None, ue_replace = None, ue_chtimes = None\<rparr>"

definition ex_limitReader :: "nat \<Rightarrow> (unit, string) result \<Rightarrow> (unit, string) result" where
  "ex_limitReader n body = (case body of Inl e \<Rightarrow> Inl e | Inr b \<Rightarrow> if length b < n then Inr b else Inl ())"

theorem refresh_caches_witness:
  "refr_Refresh ex_limitReader ex_file_env (ex_url_env ''new'') \<lparr>rf_fileURL = False, rf_staleness = 10, rf_maxSize = 9\<rparr>
     29 30 False (snd (refr_Refresh ex_limitReader ex_file_env (ex_url_env ''list'')
        \<lparr>rf_fileURL = False, rf_staleness = 10, rf_maxSize = 9\<rparr> 20 21 False None)) =
   (Inr ''list'', Some \<lparr>file_data = ''list'', file_mtime = 20\<rparr>)"
proof -
  let ?f = "\<lparr>rf_fileURL = False, rf_staleness = 10, rf_maxSize = 9\<rparr>"
  have ok: "limitReader_ok ex_limitReader"
    by (auto simp: limitReader_ok_def ex_limitReader_def split: sum.splits if_splits)
  have eq: "refr_Refresh ex_limitReader ex_file_env (ex_url_env ''list'') ?f 20 21 False None =
      (Inr ''list'', Some \<lparr>file_data = ''list'', file_mtime = 20\<rparr>)"
    by (simp add: refr_Refresh_def useCachedOrRefreshFromURL_def DataFromFile_def refreshFromURL_def ex_url_env_def
        copy_body_def ex_limitReader_def withDeferredTmpCleanup_def WithDeferred_def)
  have env: "no_file_errors ex_file_env" by (simp add: no_file_errors_def ex_file_env_def)
  show ?thesis
    using refresh_caches [OF ok _ eq] env by (auto simp: eq)
qed

text \<open>
  C30: a refresh that fails does not damage the cache file: it is the old file, or, if only setting its
  time failed, it holds the accepted answer of the server.
\<close>

theorem refresh_error_keeps_file:
  assumes "limitReader_ok limitReader"
    and "refr_Refresh limitReader fe ue f now clock accept file = (Inl e, file')"
  shows "file' = file \<or> (\<exists>b. good_answer (rf_maxSize f) ue b \<and> file' = Some \<lparr>file_data = b, file_mtime = clock\<rparr>)"
proof (cases "\<exists>r. DataFromFile fe file now (rf_staleness f) accept = (r, None)")
  case True
  obtain r err file'' where url: "refreshFromURL limitReader ue f now clock file = ((r, err), file'')"
    by (metis prod.collapse)
  have "file' = file \<or> err \<noteq> None \<and> file'' = file'"
    using assms(2) True url
    by (auto simp: refr_Refresh_def useCachedOrRefreshFromURL_def split: option.splits prod.splits if_splits)
  then show ?thesis using refreshFromURL_result [OF assms(1) url] by auto
next
  case False
  then show ?thesis
    using assms(2) by (auto simp: refr_Refresh_def useCachedOrRefreshFromURL_def split: option.splits prod.splits if_splits)
qed

theorem refresh_error_keeps_file_witness:
  "snd (refr_Refresh ex_limitReader ex_file_env (ex_url_env '''') \<lparr>rf_fileURL = False, rf_staleness = 10, rf_maxSize = 9\<rparr>
      50 51 False (Some \<lparr>file_data = ''old'', file_mtime = 20\<rparr>)) = Some \<lparr>file_data = ''old'', file_mtime = 20\<rparr>"
proof -
  have ok: "limitReader_ok ex_limitReader"
    by (auto simp: limitReader_ok_def ex_limitReader_def split: sum.splits if_splits)
  obtain file' where eq: "refr_Refresh ex_limitReader ex_file_env (ex_url_env '''')
      \<lparr>rf_fileURL = False, rf_staleness = 10, rf_maxSize = 9\<rparr> 50 51 False (Some \<lparr>file_data = ''old'', file_mtime = 20\<rparr>) =
      (Inl EmptyText, file')"
    by (simp add: refr_Refresh_def useCachedOrRefreshFromURL_def DataFromFile_def refreshFromURL_def ex_url_env_def
        ex_file_env_def copy_body_def ex_limitReader_def withDeferredTmpCleanup_def WithDeferred_def)
  then show ?thesis
    using refresh_error_keeps_file [OF ok eq] by (auto simp: good_answer_def ex_url_env_def)
qed

text \<open>A file URL whose file does not exist gives empty data and no error.\<close>

lemma missing_file_is_empty:
  "rf_fileURL f \<Longrightarrow> fst (refr_Refresh limitReader fe ue f now clock accept None) = Inr []"
  by (simp add: refr_Refresh_def refreshFromFileOnly_def DataFromFile_def)

end
