(* ===== verification/Typosquatting.thy ===== *)
theory Typosquatting
  imports Replaced_Filter Levenshtein Refreshable "HOL-Library.AList"
begin

text \<open>
  The typosquatting filter, \<open>internal/filter/typosquatting/{typosquatting,refresh,filecache}.go\<close> with the
  index of \<open>internal/filter/filterindex/filterindex.go\<close>: requests for domains within an edit distance of
  a protected domain are replaced.  The protected domains are indexed by the lengths within reach.
\<close>

subsection \<open>The index\<close>

record protected_domain =
  pd_Domain :: string
  pd_Distance :: "64 word"

record typosquatting_index =
  ti_Domains :: "protected_domain list"
  ti_Exceptions :: "string list"

type_synonym len_index = "(int \<times> protected_domain list) list"

definition int64 :: "int \<Rightarrow> int" where
  "int64 x = sint (word_of_int x :: 64 word)"

definition li_lookup :: "len_index \<Rightarrow> int \<Rightarrow> protected_domain list" where
  "li_lookup ix i = (case map_of ix i of None \<Rightarrow> [] | Some pds \<Rightarrow> pds)"

definition li_append :: "protected_domain \<Rightarrow> int \<Rightarrow> len_index \<Rightarrow> len_index" where
  "li_append pd i ix = AList.update i (li_lookup ix i @ [pd]) ix"

definition add_protected :: "protected_domain \<Rightarrow> len_index \<Rightarrow> len_index" where
  "add_protected pd ix =
     (let l = int (length (pd_Domain pd));
          minLen = max 0 (int64 (l - sint (pd_Distance pd)));
          maxLen = int64 (l + sint (pd_Distance pd))
      in fold (li_append pd) [minLen..maxLen] ix)"

record 'c typosquatting_filter =
  ts_exceptions :: "string set"
  ts_protectedByLen :: len_index
  ts_replCons :: repl_cons
  ts_resCache :: 'c
  ts_id :: filter_id
  ts_staleness :: duration

definition setIndexData :: "typosquatting_index \<Rightarrow> 'c typosquatting_filter \<Rightarrow> 'c typosquatting_filter" where
  "setIndexData idx f =
     f\<lparr>ts_exceptions := set (ti_Exceptions idx), ts_protectedByLen := fold add_protected (ti_Domains idx) []\<rparr>"

subsection \<open>Filtering\<close>

text \<open>\<open>row\<close> gives the rows of the calculator's pool.\<close>

definition MaxUint :: nat where
  "MaxUint = 2 ^ 64 - 1"

fun match_loop ::
  "(nat \<Rightarrow> nat list) \<Rightarrow> string \<Rightarrow> protected_domain list \<Rightarrow> protected_domain option \<Rightarrow> nat \<Rightarrow> protected_domain option" where
  "match_loop row etld1 [] matched minDist = matched"
| "match_loop row etld1 (pd # pds) matched minDist =
     (let dist = Distance row etld1 (pd_Domain pd)
      in if dist = 0 then None
         else if dist > 0 \<and> dist \<le> unat (pd_Distance pd) \<and> dist < minDist
         then match_loop row etld1 pds (Some pd) dist
         else match_loop row etld1 pds matched minDist)"

definition matchProtectedDomain ::
  "(nat \<Rightarrow> nat list) \<Rightarrow> string \<Rightarrow> len_index \<Rightarrow> protected_domain option" where
  "matchProtectedDomain row etld1 protectedByLen =
     match_loop row etld1 (li_lookup protectedByLen (int (length etld1))) None MaxUint"

definition ts_FilterRequest ::
  "dnslib \<Rightarrow> net_env \<Rightarrow> (nat \<Rightarrow> nat list) \<Rightarrow> 'c flt_cache \<Rightarrow> 16 word \<Rightarrow> time \<Rightarrow> flt_request \<Rightarrow>
     'c typosquatting_filter \<Rightarrow> (flt_error, flt_result option) result \<times> 'c typosquatting_filter" where
  "ts_FilterRequest L E row C newId now req f =
     (if ts_protectedByLen f = [] then (Inr None, f)
      else (case IsFilterable (ne_famOf E) (fr_QType req) of
              (fam, False) \<Rightarrow> (Inr None, f)
            | (fam, True) \<Rightarrow>
                (let etld1 = (case EffectiveTLDPlusOne (ne_publicSuffix E) (fr_Host req) of
                                Inl _ \<Rightarrow> fr_Host req
                              | Inr d \<Rightarrow> d);
                     cacheKey = NewCacheKey etld1 (fr_QType req) (fr_QClass req) False
                 in case ci_Get C now cacheKey (ts_resCache f) of
                      (Some item, c) \<Rightarrow> (CloneModifiedResult L newId (fr_DNS req) item, f\<lparr>ts_resCache := c\<rparr>)
                    | (None, c) \<Rightarrow>
                        (let matched = (if etld1 \<in> ts_exceptions f then None
                                        else matchProtectedDomain row etld1 (ts_protectedByLen f));
                             (res, c) = set_replaced L C newId now cacheKey (ts_replCons f) req (ts_id f)
                                          (map_option pd_Domain matched) fam c
                         in (res, f\<lparr>ts_resCache := c\<rparr>)))))"

subsection \<open>The file cache and the refresh\<close>

record index_cache =
  ic_Domains :: "protected_domain list"
  ic_Exceptions :: "string list"
  ic_SchemaVersion :: nat

definition indexCacheVersion :: nat where
  "indexCacheVersion = 1"

definition newIndexCache :: "typosquatting_index \<Rightarrow> index_cache" where
  "newIndexCache idx =
     \<lparr>ic_Domains = map (\<lambda>d. \<lparr>pd_Domain = pd_Domain d, pd_Distance = pd_Distance d\<rparr>) (ti_Domains idx),
      ic_Exceptions = ti_Exceptions idx, ic_SchemaVersion = indexCacheVersion\<rparr>"

definition toInternal :: "index_cache \<Rightarrow> typosquatting_index option" where
  "toInternal c =
     (if \<not> (indexCacheVersion \<le> ic_SchemaVersion c \<and> ic_SchemaVersion c \<le> indexCacheVersion) then None
      else Some \<lparr>ti_Domains = map (\<lambda>d. \<lparr>pd_Domain = pd_Domain d, pd_Distance = pd_Distance d\<rparr>) (ic_Domains c),
                 ti_Exceptions = ic_Exceptions c\<rparr>)"

datatype 'e ts_error = TsStorage 'e | TsNoIndex | PanicNilIndex

text \<open>
  The environment of a refresh: the JSON encoding of the file cache, the outcome of writing the file and
  its time, and the answer of the index storage, which may be no index without an error.
\<close>

record 'e ts_env =
  te_file :: "'e file_env"
  te_unmarshal :: "string \<Rightarrow> index_cache option"
  te_marshal :: "index_cache \<Rightarrow> string option"
  te_write :: "'e option"
  te_clock :: time
  te_storage :: "('e, typosquatting_index option) result"

definition ts_refreshFromFile ::
  "'e ts_env \<Rightarrow> duration \<Rightarrow> time \<Rightarrow> bool \<Rightarrow> data_file option \<Rightarrow> index_cache option" where
  "ts_refreshFromFile T staleness now acceptStale file =
     (case DataFromFile (te_file T) file now staleness acceptStale of
        (_, Some _) \<Rightarrow> None
      | (None, None) \<Rightarrow> None
      | (Some b, None) \<Rightarrow> te_unmarshal T b)"

definition indexFromStorage ::
  "'e ts_env \<Rightarrow> data_file option \<Rightarrow> ('e ts_error, typosquatting_index option) result \<times> data_file option" where
  "indexFromStorage T file =
     (case te_storage T of
        Inl e \<Rightarrow> (Inl (TsStorage e), file)
      | Inr None \<Rightarrow> (Inl PanicNilIndex, file)
      | Inr (Some idx) \<Rightarrow>
          (case te_marshal T (newIndexCache idx) of
             None \<Rightarrow> (Inr (Some idx), file)
           | Some b \<Rightarrow>
               (case te_write T of
                  Some e \<Rightarrow> (Inr (Some idx), file)
                | None \<Rightarrow> (Inr (Some idx), Some \<lparr>file_data = b, file_mtime = te_clock T\<rparr>))))"

definition ts_refresh ::
  "'e ts_env \<Rightarrow> time \<Rightarrow> bool \<Rightarrow> 'c typosquatting_filter \<Rightarrow> data_file option \<Rightarrow>
     'e ts_error option \<times> 'c typosquatting_filter \<times> data_file option" where
  "ts_refresh T now acceptStale f file =
     (case (case ts_refreshFromFile T (ts_staleness f) now acceptStale file of
              None \<Rightarrow> None
            | Some cachedIdx \<Rightarrow> toInternal cachedIdx) of
        Some idx \<Rightarrow> (None, setIndexData idx f, file)
      | None \<Rightarrow>
          (case indexFromStorage T file of
             (Inl e, file) \<Rightarrow> (Some e, f, file)
           | (Inr None, file) \<Rightarrow> (Some TsNoIndex, f, file)
           | (Inr (Some idx), file) \<Rightarrow> (None, setIndexData idx f, file)))"

subsection \<open>The length index loses nothing\<close>

lemma li_lookup_Nil [simp]: "li_lookup [] j = []"
  by (simp add: li_lookup_def)

lemma li_lookup_append: "li_lookup (li_append pd i ix) j = li_lookup ix j @ (if i = j then [pd] else [])"
  by (auto simp: li_lookup_def li_append_def update_conv')

lemma li_lookup_fold:
  "distinct is \<Longrightarrow> li_lookup (fold (li_append pd) is ix) j = li_lookup ix j @ (if j \<in> set is then [pd] else [])"
  by (induction "is" arbitrary: ix) (auto simp: li_lookup_append)

definition reaches :: "protected_domain \<Rightarrow> int \<Rightarrow> bool" where
  "reaches pd j \<longleftrightarrow> max 0 (int64 (int (length (pd_Domain pd)) - sint (pd_Distance pd))) \<le> j \<and>
     j \<le> int64 (int (length (pd_Domain pd)) + sint (pd_Distance pd))"

lemma li_lookup_index:
  "li_lookup (fold add_protected pds ix) j = li_lookup ix j @ filter (\<lambda>pd. reaches pd j) pds"
  by (induction pds arbitrary: ix) (auto simp: add_protected_def li_lookup_fold reaches_def Let_def)

text \<open>An index is sane when its domains are ASCII names and the distances are not absurd.\<close>

definition index_ok :: "typosquatting_index \<Rightarrow> bool" where
  "index_ok idx \<longleftrightarrow>
     (\<forall>pd \<in> set (ti_Domains idx). (\<forall>c \<in> set (pd_Domain pd). byte c < (0x80::nat)) \<and>
        length (pd_Domain pd) < 2 ^ 32 \<and> unat (pd_Distance pd) < 2 ^ 32)"

lemma reaches_small:
  assumes "length (pd_Domain pd) < 2 ^ 32" "unat (pd_Distance pd) < 2 ^ 32"
  shows "reaches pd (int n) \<longleftrightarrow>
    length (pd_Domain pd) \<le> n + unat (pd_Distance pd) \<and> n \<le> length (pd_Domain pd) + unat (pd_Distance pd)"
proof -
  define l d where ld: "l = length (pd_Domain pd)" "d = unat (pd_Distance pd)"
  have i: "sint (word_of_int x :: 64 word) = x" if "- 8589934592 < x" "x < 8589934592" for x
    by (rule sint_word_of_int_small; use that in simp)
  have "l < 4294967296" "d < 4294967296" using assms by (simp_all add: ld)
  then have b: "int l < 4294967296" "int d < 4294967296" by linarith+
  have "sint (pd_Distance pd) = sint (word_of_int (int d) :: 64 word)" by (simp add: ld)
  also have "\<dots> = int d" by (rule i; use b in linarith)
  finally have s: "sint (pd_Distance pd) = int d" .
  have "int64 (int l - int d) = int l - int d" "int64 (int l + int d) = int l + int d"
    unfolding int64_def by (rule i; use b in linarith)+
  then show ?thesis unfolding reaches_def s ld(1) [symmetric] ld(2) [symmetric] by linarith
qed

lemma match_loop_skip:
  assumes "\<And>pd. pd \<in> set pds \<Longrightarrow> \<not> P pd \<Longrightarrow> unat (pd_Distance pd) < Distance row e (pd_Domain pd)"
  shows "match_loop row e (filter P pds) m d = match_loop row e pds m d"
  using assms
proof (induction pds arbitrary: m d)
  case (Cons pd pds)
  then show ?case
  proof (cases "P pd")
    case False
    have "unat (pd_Distance pd) < Distance row e (pd_Domain pd)"
      by (rule Cons.prems) (use False in simp_all)
    then have "\<not> Distance row e (pd_Domain pd) \<le> unat (pd_Distance pd)" "Distance row e (pd_Domain pd) \<noteq> 0" by linarith+
    moreover have "match_loop row e (filter P pds) m d = match_loop row e pds m d"
      by (rule Cons.IH) (rule Cons.prems, simp_all)
    ultimately show ?thesis using False by (simp add: Let_def)
  qed (simp add: Let_def Cons)
qed simp

lemma match_indexed:
  assumes "\<And>n. length (row n) = n" "\<forall>c \<in> set etld1. byte c < (0x80::nat)" "index_ok idx"
  shows "matchProtectedDomain row etld1 (fold add_protected (ti_Domains idx) []) =
         match_loop row etld1 (ti_Domains idx) None MaxUint"
proof -
  have "unat (pd_Distance pd) < Distance row etld1 (pd_Domain pd)"
    if "pd \<in> set (ti_Domains idx)" "\<not> reaches pd (int (length etld1))" for pd
  proof -
    have ok: "length (pd_Domain pd) < 2 ^ 32" "unat (pd_Distance pd) < 2 ^ 32" "\<forall>c \<in> set (pd_Domain pd). byte c < (0x80::nat)"
      using assms(3) that(1) by (auto simp: index_ok_def)
    then have "\<forall>c \<in> set etld1 \<union> set (pd_Domain pd). byte c < (0x80::nat)" using assms(2) by auto
    note d = Distance_lengths [OF assms(1) this]
    show ?thesis using that(2) d unfolding reaches_small [OF ok(1,2)] by linarith
  qed
  then show ?thesis
    using match_loop_skip [of "ti_Domains idx" "\<lambda>pd. reaches pd (int (length etld1))"]
    by (simp add: matchProtectedDomain_def li_lookup_index)
qed

lemma match_loop_spec:
  fixes row e
  defines "D \<equiv> \<lambda>pd. Distance row e (pd_Domain pd)"
  defines "near \<equiv> \<lambda>pd. D pd \<le> unat (pd_Distance pd)"
  assumes "\<forall>pd \<in> set pds. D pd \<noteq> 0"
  shows "match_loop row e pds m d = m \<and> (\<forall>pd \<in> set pds. near pd \<longrightarrow> d \<le> D pd) \<or>
         (\<exists>pd \<in> set pds. match_loop row e pds m d = Some pd \<and> near pd \<and> D pd < d \<and>
            (\<forall>pd' \<in> set pds. near pd' \<longrightarrow> D pd \<le> D pd'))"
  using assms(3)
proof (induction pds arbitrary: m d)
  case (Cons pd pds)
  have nz: "D pd \<noteq> 0" "\<forall>pd \<in> set pds. D pd \<noteq> 0" using Cons.prems by simp_all
  show ?case
  proof (cases "near pd \<and> D pd < d")
    case True
    then have "match_loop row e (pd # pds) m d = match_loop row e pds (Some pd) (D pd)"
      using nz(1) by (simp add: Let_def D_def near_def)
    then show ?thesis using Cons.IH [OF nz(2), of "Some pd" "D pd"] True by fastforce
  next
    case False
    then have "match_loop row e (pd # pds) m d = match_loop row e pds m d"
      using nz(1) by (auto simp: Let_def D_def near_def)
    then show ?thesis using Cons.IH [OF nz(2), of m d] False by fastforce
  qed
qed simp

lemma match_loop_exact: "pd \<in> set pds \<Longrightarrow> Distance row e (pd_Domain pd) = 0 \<Longrightarrow> match_loop row e pds m d = None"
  by (induction pds arbitrary: m d) (auto simp: Let_def)

text \<open>
  C27: the lookup of a domain in the length index of the typosquatting filter gives what a comparison
  with every protected domain would give: nothing, if the domain is itself protected or if no protected
  domain is within its distance, and else a protected domain that is within its distance and nearest of
  those that are, in the number of insertions, deletions, substitutions and transpositions.
\<close>

theorem typosquatting_nearest:
  assumes "\<And>n. length (row n) = n" "\<forall>c \<in> set etld1. byte c < (0x80::nat)" "index_ok idx"
    and "ix = ts_protectedByLen (setIndexData idx f)"
    and "close = (\<lambda>pd n. align etld1 (pd_Domain pd) n \<and> n \<le> unat (pd_Distance pd))"
  shows "case matchProtectedDomain row etld1 ix of
           None \<Rightarrow> etld1 \<in> pd_Domain ` set (ti_Domains idx) \<or> (\<forall>pd \<in> set (ti_Domains idx). \<forall>n. \<not> close pd n)
         | Some pd \<Rightarrow> etld1 \<notin> pd_Domain ` set (ti_Domains idx) \<and> pd \<in> set (ti_Domains idx) \<and>
             (\<exists>n. close pd n \<and> (\<forall>pd' \<in> set (ti_Domains idx). \<forall>m. close pd' m \<longrightarrow> n \<le> m))"
proof -
  let ?pds = "ti_Domains idx"
  let ?D = "\<lambda>pd. Distance row etld1 (pd_Domain pd)"
  have ascii: "\<forall>c \<in> set etld1 \<union> set (pd_Domain pd). byte c < (0x80::nat)" if "pd \<in> set ?pds" for pd
    using assms(2,3) that by (auto simp: index_ok_def)
  have small: "unat (pd_Distance pd) < MaxUint" if "pd \<in> set ?pds" for pd
    using assms(3) that by (fastforce simp: index_ok_def MaxUint_def)
  note D = Distance_least [OF assms(1) ascii]
  have zero: "?D pd = 0 \<longleftrightarrow> etld1 = pd_Domain pd" if "pd \<in> set ?pds" for pd
    by (rule Distance_0_iff [OF assms(1) ascii [OF that]])
  have close_iff: "(\<exists>n. close pd n) \<longleftrightarrow> ?D pd \<le> unat (pd_Distance pd)" if "pd \<in> set ?pds" for pd
    unfolding assms(5) using D [OF that] order_trans by blast
  have m: "matchProtectedDomain row etld1 ix = match_loop row etld1 ?pds None MaxUint"
    using match_indexed [OF assms(1-3)] assms(4) by (simp add: setIndexData_def)
  show ?thesis
  proof (cases "etld1 \<in> pd_Domain ` set ?pds")
    case True
    then obtain pd where "pd \<in> set ?pds" "etld1 = pd_Domain pd" by blast
    then have "match_loop row etld1 ?pds None MaxUint = None" using zero by (intro match_loop_exact) auto
    then show ?thesis using True m by simp
  next
    case False
    then have nz: "\<forall>pd \<in> set ?pds. ?D pd \<noteq> 0" using zero by auto
    show ?thesis
    proof (rule disjE [OF match_loop_spec [OF nz, of None MaxUint]])
      assume none: "match_loop row etld1 ?pds None MaxUint = None \<and>
          (\<forall>pd\<in>set ?pds. ?D pd \<le> unat (pd_Distance pd) \<longrightarrow> MaxUint \<le> ?D pd)"
      then have "\<not> ?D pd \<le> unat (pd_Distance pd)" if "pd \<in> set ?pds" for pd using small [OF that] that by fastforce
      then show ?thesis using none m close_iff by auto
    next
      assume "\<exists>pd\<in>set ?pds. match_loop row etld1 ?pds None MaxUint = Some pd \<and> ?D pd \<le> unat (pd_Distance pd) \<and>
          ?D pd < MaxUint \<and> (\<forall>pd'\<in>set ?pds. ?D pd' \<le> unat (pd_Distance pd') \<longrightarrow> ?D pd \<le> ?D pd')"
      then obtain pd where pd: "pd \<in> set ?pds" "match_loop row etld1 ?pds None MaxUint = Some pd"
          "?D pd \<le> unat (pd_Distance pd)" "\<forall>pd'\<in>set ?pds. ?D pd' \<le> unat (pd_Distance pd') \<longrightarrow> ?D pd \<le> ?D pd'" by blast
      have "close pd (?D pd)" using D(1) [OF pd(1)] pd(3) by (simp add: assms(5))
      moreover have "?D pd \<le> m" if "pd' \<in> set ?pds" "close pd' m" for pd' m
        using D(2) [OF that(1), of m] pd(4) that close_iff [OF that(1)] by (auto simp: assms(5) intro: order_trans)
      ultimately show ?thesis using pd m False by auto
    qed
  qed
qed

definition ex_ts_index :: "string list \<Rightarrow> typosquatting_index" where
  "ex_ts_index exceptions =
     \<lparr>ti_Domains = [\<lparr>pd_Domain = ''google.com'', pd_Distance = 1\<rparr>], ti_Exceptions = exceptions\<rparr>"

definition ex_ts_filter :: "(cache_key \<times> flt_result option cache_entry) list typosquatting_filter" where
  "ex_ts_filter =
     \<lparr>ts_exceptions = {}, ts_protectedByLen = [], ts_replCons = \<lparr>replIP = AddrZero, replFQDN = ''safe.example.''\<rparr>,
      ts_resCache = [], ts_id = ''ts'', ts_staleness = 60\<rparr>"

lemma ex_typo_align: "align ''gogle.com'' ''google.com'' 1"
  using align_append [OF align_refl [of "''go''"] align_append [OF align_Ins [OF align_Nil, of "CHR ''o''"] align_refl [of "''gle.com''"]]]
  by simp

lemma ex_typo_distance: "Distance (\<lambda>n. replicate n 0) ''gogle.com'' ''google.com'' = 1"
proof -
  have row: "length (replicate n (0::nat)) = n" for n by simp
  have ascii: "\<forall>c \<in> set ''gogle.com'' \<union> set ''google.com''. byte c < (0x80::nat)" by simp
  have "Distance (\<lambda>n. replicate n 0) ''gogle.com'' ''google.com'' \<le> 1"
    by (rule Distance_least(2) [OF row ascii ex_typo_align])
  moreover have "Distance (\<lambda>n. replicate n 0) ''gogle.com'' ''google.com'' \<noteq> 0"
    unfolding Distance_0_iff [OF row ascii] by simp
  ultimately show ?thesis by linarith
qed

theorem typosquatting_nearest_witness:
  "matchProtectedDomain (\<lambda>n. replicate n 0) ''gogle.com'' (ts_protectedByLen (setIndexData (ex_ts_index []) ex_ts_filter)) \<noteq> None"
proof -
  have ok: "index_ok (ex_ts_index [])" by (simp add: index_ok_def ex_ts_index_def)
  have ascii: "\<forall>c \<in> set ''gogle.com''. byte c < (0x80::nat)" by simp
  show ?thesis
    using ex_typo_align typosquatting_nearest [OF _ ascii ok refl refl, of "\<lambda>n. replicate n 0" ex_ts_filter]
    by (auto simp: ex_ts_index_def split: option.splits simp del: replicate.simps)
qed

subsection \<open>The result cache is not cleared\<close>

definition ex_ts_env :: "unit ts_env" where
  "ex_ts_env =
     \<lparr>te_file = ex_file_env, te_unmarshal = (\<lambda>_. None), te_marshal = (\<lambda>_. None), te_write = None, te_clock = 0,
      te_storage = Inr (Some (ex_ts_index [''gogle.com'']))\<rparr>"

text \<open>
  a refresh of the typosquatting filter replaces the index and the exceptions, but leaves the result
  cache as it is, unlike the refreshes of the other filters.  A domain that was replaced is still
  replaced after a refresh that makes it an exception.
\<close>

theorem typosquatting_stale_after_refresh:
  fixes C :: "(cache_key \<times> flt_result option cache_entry) list flt_cache"
  defines "C \<equiv> default_if (lru_std 3)" and "req \<equiv> ex_flt_request ''gogle.com''"
  defines "F \<equiv> \<lambda>now. ts_FilterRequest dnslib_std ex_net_env (\<lambda>n. replicate n 0) C 5 now req"
  defines "f1 \<equiv> snd (F 1 (setIndexData (ex_ts_index []) ex_ts_filter))"
  shows "case ts_refresh ex_ts_env 100 False f1 None of
           (err, f2, _) \<Rightarrow> err = None \<and> ''gogle.com'' \<in> ts_exceptions f2 \<and>
             (\<exists>m. fst (F 101 f2) = Inr (Some (ResultModifiedRequest m ''ts'' ''google.com'')))"
proof -
  let ?f = "setIndexData (ex_ts_index []) ex_ts_filter"
  have dist: "matchProtectedDomain (\<lambda>n. replicate n 0) ''gogle.com'' (fold add_protected [\<lparr>pd_Domain = ''google.com'', pd_Distance = 1\<rparr>] []) =
      Some \<lparr>pd_Domain = ''google.com'', pd_Distance = 1\<rparr>"
  proof -
    have "li_lookup (fold add_protected [\<lparr>pd_Domain = ''google.com'', pd_Distance = 1\<rparr>] []) 9 =
        [\<lparr>pd_Domain = ''google.com'', pd_Distance = 1\<rparr>]" by code_simp
    moreover note ex_typo_distance
    ultimately show ?thesis by (simp add: matchProtectedDomain_def MaxUint_def)
  qed
  have ne: "fold add_protected [\<lparr>pd_Domain = ''google.com'', pd_Distance = 1\<rparr>] [] \<noteq> []" by code_simp
  have etld: "EffectiveTLDPlusOne (ne_publicSuffix ex_net_env) ''gogle.com'' = Inr ''gogle.com''" by code_simp
  have fl: "IsFilterable (ne_famOf ex_net_env) 1 = (FamilyIPv4, True)" by code_simp
  show ?thesis
    using dist ne
    by (simp add: f1_def F_def ts_refresh_def ex_ts_env_def ts_refreshFromFile_def DataFromFile_def indexFromStorage_def
        setIndexData_def ex_ts_index_def ts_FilterRequest_def ex_ts_filter_def fl etld req_def ex_flt_request_def C_def
        default_if_def default_Get_def default_Set_def lru_std_def NewCacheKey_def set_replaced_def repl_New_def expired_def
        Let_def)
qed

text \<open>An index storage without an index makes the refresh panic, before the check for that case.\<close>

lemma typosquatting_nil_index_panics:
  "te_storage T = Inr None \<Longrightarrow> fst (ts_refresh T now False f None) = Some PanicNilIndex"
  by (simp add: ts_refresh_def ts_refreshFromFile_def DataFromFile_def indexFromStorage_def)

text \<open>What is written to the file cache is read back, whatever the encoding that can be decoded.\<close>

lemma toInternal_newIndexCache: "toInternal (newIndexCache idx) = Some idx"
  by (cases idx) (simp add: toInternal_def newIndexCache_def comp_def map_idI)

end
