(* ===== verification/Rule_List_Storage.thy ===== *)
theory Rule_List_Storage
  imports Rule_List Refreshable Go_Strings
begin

text \<open>
  The storage of rule lists, \<open>internal/filter/ruleliststorage/{default,index,refresh}.go\<close>, with the conversion of
  the index of lists and \<open>internal/agdhttp/url.go\<close>.

  The lists are objects that filters in use share with the storage, so they live in a heap, the list
  of all rule lists ever made, and are named by their position in it.  The goroutines that refresh the
  lists of an index work on different lists and files; they are run one after the other here.
\<close>

text \<open>\<^verbatim>\<open>filepath.Join\<close>.\<close>

definition path_join :: "string list \<Rightarrow> string" where
  "path_join es =
     (let es = filter (\<lambda>e. e \<noteq> []) es in if es = [] then [] else path_clean (join_with (CHR ''/'') es))"

subsection \<open>Loading through a refreshable\<close>

text \<open>
  The outside of a refresh: the reader of bodies, the outcomes of file operations by path and of requests
  by URL, the time of the refresh, the time the system gives to written files, and the error of the context
  if it ends before the refresh does.
\<close>

record 'e world =
  w_limitReader :: "nat \<Rightarrow> ('e, string) result \<Rightarrow> ('e, string) result"
  w_file :: "string \<Rightarrow> 'e file_env"
  w_url :: "string \<Rightarrow> 'e url_env"
  w_now :: time
  w_clock :: time
  w_ctxErr :: "'e option"

text \<open>The path is that of the cache file or, for file URLs, that of the URL.\<close>

record refr_conf = refreshable +
  rf_url :: string
  rf_cachePath :: string

type_synonym file_map = "string \<rightharpoonup> data_file"

definition refr_load ::
  "'e world \<Rightarrow> refr_conf \<Rightarrow> bool \<Rightarrow> file_map \<Rightarrow> ('e refr_error, string) result \<times> file_map" where
  "refr_load W rc acceptStale files =
     (let p = rf_cachePath rc;
          (r, file) = refr_Refresh (w_limitReader W) (w_file W p) (w_url W (rf_url rc)) (refreshable.truncate rc)
                        (w_now W) (w_clock W) acceptStale (files p)
      in (r, files(p := file)))"

subsection \<open>The index\<close>

record index_resp_filter =
  ir_DownloadURL :: string
  ir_Key :: string
  ir_TimeUpdated :: string

record parsed_url =
  pu_Scheme :: string
  pu_Host :: string
  pu_Path :: string
  pu_String :: string

text \<open>
  The decoding of texts: the JSON of the index into its filters, in which \<open>null\<close> gives a nil pointer, URLs,
  the validity of their schemes, and times in the format of the index.
\<close>

record idx_env =
  ix_Unmarshal :: "string \<Rightarrow> index_resp_filter option list option"
  ix_urlParse :: "string \<Rightarrow> parsed_url option"
  ix_validScheme :: "string \<Rightarrow> bool"
  ix_timeParse :: "string \<Rightarrow> time option"

definition ParseHTTPURL :: "idx_env \<Rightarrow> string \<Rightarrow> parsed_url option" where
  "ParseHTTPURL X s =
     (case ix_urlParse X s of
        None \<Rightarrow> None
      | Some u \<Rightarrow>
          if pu_Host u = [] then None
          else if \<not> ix_validScheme X (pu_Scheme u) then None
          else Some u)"

record refr_config =
  rcf_URL :: "parsed_url option"
  rcf_CachePath :: string
  rcf_Staleness :: duration
  rcf_MaxSize :: nat

datatype refr_new_error = NilURL | BadScheme string

definition refreshable_New :: "idx_env \<Rightarrow> refr_config \<Rightarrow> (refr_new_error, refr_conf) result" where
  "refreshable_New X c =
     (case rcf_URL c of
        None \<Rightarrow> Inl NilURL
      | Some u \<Rightarrow>
          (let isFile = (to_lower (pu_Scheme u) = ''file'')
           in if \<not> isFile \<and> \<not> ix_validScheme X (pu_Scheme u) then Inl (BadScheme (pu_Scheme u))
              else Inr \<lparr>rf_fileURL = isFile, rf_staleness = rcf_Staleness c, rf_maxSize = rcf_MaxSize c,
                        rf_url = pu_String u, rf_cachePath = (if isFile then pu_Path u else rcf_CachePath c)\<rparr>))"

fun str_compare :: "string \<Rightarrow> string \<Rightarrow> int" where
  "str_compare [] [] = 0"
| "str_compare [] (_ # _) = - 1"
| "str_compare (_ # _) [] = 1"
| "str_compare (c # s) (d # t) =
     (if byte c < byte d then - 1 else if byte d < byte c then 1 else str_compare s t)"

fun index_compare :: "index_resp_filter option \<Rightarrow> index_resp_filter option \<Rightarrow> int" where
  "index_compare None None = 0"
| "index_compare None (Some _) = 1"
| "index_compare (Some _) None = - 1"
| "index_compare (Some f) (Some other) = str_compare (ir_Key f) (ir_Key other)"

text \<open>Stable sorting with a comparison function, as \<^verbatim>\<open>slices.SortStableFunc\<close> does.\<close>

fun stable_insert :: "('a \<Rightarrow> 'a \<Rightarrow> int) \<Rightarrow> 'a \<Rightarrow> 'a list \<Rightarrow> 'a list" where
  "stable_insert cmp x [] = [x]"
| "stable_insert cmp x (y # ys) = (if cmp x y \<le> 0 then x # y # ys else y # stable_insert cmp x ys)"

definition sort_stable :: "('a \<Rightarrow> 'a \<Rightarrow> int) \<Rightarrow> 'a list \<Rightarrow> 'a list" where
  "sort_stable cmp xs = foldr (stable_insert cmp) xs []"

definition index_validate :: "index_resp_filter option \<Rightarrow> bool" where
  "index_validate rf =
     (case rf of
        None \<Rightarrow> False
      | Some f \<Rightarrow> ir_DownloadURL f \<noteq> [] \<and> ir_TimeUpdated f \<noteq> [] \<and> (case NewID (ir_Key f) of Inl _ \<Rightarrow> False | Inr _ \<Rightarrow> True))"

record index_data =
  ix_url :: string
  ix_updTime :: time

definition filter_toInternal :: "idx_env \<Rightarrow> index_resp_filter \<Rightarrow> index_data option" where
  "filter_toInternal X f =
     (case ParseHTTPURL X (ir_DownloadURL f) of
        None \<Rightarrow> None
      | Some u \<Rightarrow>
          (case ix_timeParse X (ir_TimeUpdated f) of
             None \<Rightarrow> None
           | Some t \<Rightarrow> Some \<lparr>ix_url = pu_String u, ix_updTime = t\<rparr>))"

text \<open>The map from identifiers, in the order in which they are set.\<close>

fun index_toInternal ::
  "idx_env \<Rightarrow> index_resp_filter option list \<Rightarrow> (filter_id \<times> index_data) list \<Rightarrow> (filter_id \<times> index_data) list" where
  "index_toInternal X [] fls = fls"
| "index_toInternal X (rf # rfs) fls =
     (if \<not> index_validate rf then index_toInternal X rfs fls
      else (let i = ir_Key (the rf)
            in if map_of fls i \<noteq> None then index_toInternal X rfs fls
               else (case filter_toInternal X (the rf) of
                       None \<Rightarrow> index_toInternal X rfs fls
                     | Some fl \<Rightarrow> index_toInternal X rfs (fls @ [(i, fl)]))))"

subsection \<open>The storage\<close>

record rule_list_data =
  rd_refr :: nat
  rd_updTime :: time

text \<open>
  A list that could not be loaded yet has a nil pointer in the map.  \<open>ls_newCache\<close> is the cache that a new list
  gets, \<open>None\<close> if caches are disabled.
\<close>

record 'c rl_storage =
  ls_refr :: refr_conf
  ls_ruleLists :: "filter_id \<rightharpoonup> rule_list_data option"
  ls_cacheDir :: string
  ls_staleness :: duration
  ls_maxSize :: nat
  ls_newCache :: "'c option"

text \<open>\<open>rlc_Staleness\<close> and \<open>rlc_MaxSize\<close> are those of single lists.\<close>

record 'c rls_config =
  rlc_Index :: refr_config
  rlc_CacheDir :: string
  rlc_Staleness :: duration
  rlc_MaxSize :: nat
  rlc_NewCache :: "'c option"

definition rls_New :: "idx_env \<Rightarrow> 'c rls_config \<Rightarrow> (refr_new_error, 'c rl_storage) result" where
  "rls_New X c =
     (case refreshable_New X ((rlc_Index c)\<lparr>rcf_CachePath := path_join [rlc_CacheDir c, ''index'', ''filters.json'']\<rparr>) of
        Inl e \<Rightarrow> Inl e
      | Inr idxRefr \<Rightarrow>
          Inr \<lparr>ls_refr = idxRefr, ls_ruleLists = Map.empty, ls_cacheDir = path_join [rlc_CacheDir c, ''rulelist''],
               ls_staleness = rlc_Staleness c, ls_maxSize = rlc_MaxSize c, ls_newCache = rlc_NewCache c\<rparr>)"

type_synonym ('g, 'c) rl_heap = "('g, 'c) base_filter list"

definition prevRuleList :: "'c rl_storage \<Rightarrow> filter_id \<Rightarrow> rule_list_data option" where
  "prevRuleList s i = (case ls_ruleLists s i of Some d \<Rightarrow> d | None \<Rightarrow> None)"

definition AppendForListIDs :: "'c rl_storage \<Rightarrow> nat list \<Rightarrow> filter_id list \<Rightarrow> nat list" where
  "AppendForListIDs s orig ids =
     fold (\<lambda>i rls. case ls_ruleLists s i of Some (Some rl) \<Rightarrow> rls @ [rd_refr rl] | _ \<Rightarrow> rls) ids orig"

definition HasListID :: "'c rl_storage \<Rightarrow> filter_id \<Rightarrow> bool" where
  "HasListID s i = (ls_ruleLists s i \<noteq> None)"

definition needsUpdate :: "'c rl_storage \<Rightarrow> filter_id \<Rightarrow> index_data \<Rightarrow> bool \<times> rule_list_data option" where
  "needsUpdate s i fl =
     (case prevRuleList s i of
        None \<Rightarrow> (True, None)
      | Some prev \<Rightarrow> (rd_updTime prev < ix_updTime fl, Some prev))"

text \<open>The URL of a list is an HTTP URL, so that making its refreshable cannot fail.\<close>

definition newRuleListRefreshable :: "'c rl_storage \<Rightarrow> filter_id \<Rightarrow> index_data \<Rightarrow> refr_conf" where
  "newRuleListRefreshable s i fl =
     \<lparr>rf_fileURL = False, rf_staleness = ls_staleness s, rf_maxSize = ls_maxSize s, rf_url = ix_url fl,
      rf_cachePath = path_join [ls_cacheDir s, i]\<rparr>"


text \<open>The refresh of one list: its new data or an error, the heap and the files.\<close>

definition refreshRuleList ::
  "'g urlfilter \<Rightarrow> 'c result_cache \<Rightarrow> 'e world \<Rightarrow> 'c rl_storage \<Rightarrow> bool \<Rightarrow> filter_id \<Rightarrow> index_data \<Rightarrow>
     ('g, 'c) rl_heap \<Rightarrow> file_map \<Rightarrow> ('e refr_error, rule_list_data) result \<times> ('g, 'c) rl_heap \<times> file_map" where
  "refreshRuleList U C W s acceptStale i fl heap files =
     (case needsUpdate s i fl of
        (False, Some prev) \<Rightarrow> (Inr prev, heap, files)
      | _ \<Rightarrow>
          (let rl = newBaseFilter U [] i [] (ls_newCache s);
               (r, files) = refr_load W (newRuleListRefreshable s i fl) acceptStale files
           in case r of
                Inl e \<Rightarrow> (Inl e, heap @ [rl], files)
              | Inr rulesData \<Rightarrow>
                  (Inr \<lparr>rd_refr = length heap, rd_updTime = ix_updTime fl\<rparr>,
                   heap @ [rulelist_Refresh U C (Some rulesData) rl], files)))"

definition resultRuleList ::
  "'c rl_storage \<Rightarrow> filter_id \<Rightarrow> ('e refr_error, rule_list_data) result \<Rightarrow> rule_list_data option" where
  "resultRuleList s i r = (case r of Inl _ \<Rightarrow> prevRuleList s i | Inr d \<Rightarrow> Some d)"

fun refreshRuleLists ::
  "'g urlfilter \<Rightarrow> 'c result_cache \<Rightarrow> 'e world \<Rightarrow> 'c rl_storage \<Rightarrow> bool \<Rightarrow> (filter_id \<times> index_data) list \<Rightarrow>
     (filter_id \<rightharpoonup> rule_list_data option) \<Rightarrow> ('g, 'c) rl_heap \<Rightarrow> file_map \<Rightarrow>
     (filter_id \<rightharpoonup> rule_list_data option) \<times> ('g, 'c) rl_heap \<times> file_map" where
  "refreshRuleLists U C W s acceptStale [] rls heap files = (rls, heap, files)"
| "refreshRuleLists U C W s acceptStale ((i, fl) # fls) rls heap files =
     (case refreshRuleList U C W s acceptStale i fl heap files of
        (r, heap, files) \<Rightarrow>
          refreshRuleLists U C W s acceptStale fls (rls(i \<mapsto> resultRuleList s i r)) heap files)"

datatype 'e rls_error = LoadingIndex "'e refr_error" | DecodingIndex | RefreshingLists 'e

definition loadIndex ::
  "idx_env \<Rightarrow> 'e world \<Rightarrow> 'c rl_storage \<Rightarrow> bool \<Rightarrow> file_map \<Rightarrow>
     ('e rls_error, index_resp_filter option list) result \<times> file_map" where
  "loadIndex X W s acceptStale files =
     (case refr_load W (ls_refr s) acceptStale files of
        (Inl e, files) \<Rightarrow> (Inl (LoadingIndex e), files)
      | (Inr b, files) \<Rightarrow>
          (case ix_Unmarshal X b of
             None \<Rightarrow> (Inl DecodingIndex, files)
           | Some fs \<Rightarrow> (Inr (sort_stable index_compare fs), files)))"

definition loadRuleLists ::
  "'g urlfilter \<Rightarrow> 'c result_cache \<Rightarrow> idx_env \<Rightarrow> 'e world \<Rightarrow> 'c rl_storage \<Rightarrow> bool \<Rightarrow> ('g, 'c) rl_heap \<Rightarrow> file_map \<Rightarrow>
     ('e rls_error, filter_id \<rightharpoonup> rule_list_data option) result \<times> ('g, 'c) rl_heap \<times> file_map" where
  "loadRuleLists U C X W s acceptStale heap files =
     (case loadIndex X W s acceptStale files of
        (Inl e, files) \<Rightarrow> (Inl e, heap, files)
      | (Inr resp, files) \<Rightarrow>
          (case refreshRuleLists U C W s acceptStale (index_toInternal X resp []) Map.empty heap files of
             (rls, heap, files) \<Rightarrow>
               (case w_ctxErr W of
                  Some e \<Rightarrow> (Inl (RefreshingLists e), heap, files)
                | None \<Rightarrow> (Inr rls, heap, files))))"

text \<open>\<open>Refresh\<close> is \<open>rls_refresh\<close> without stale files, \<open>RefreshInitial\<close> with them.\<close>

definition rls_refresh ::
  "'g urlfilter \<Rightarrow> 'c result_cache \<Rightarrow> idx_env \<Rightarrow> 'e world \<Rightarrow> bool \<Rightarrow> 'c rl_storage \<times> ('g, 'c) rl_heap \<times> file_map \<Rightarrow>
     'e rls_error option \<times> 'c rl_storage \<times> ('g, 'c) rl_heap \<times> file_map" where
  "rls_refresh U C X W acceptStale = (\<lambda>(s, heap, files).
     (case loadRuleLists U C X W s acceptStale heap files of
        (Inl e, heap, files) \<Rightarrow> (Some e, s, heap, files)
      | (Inr rls, heap, files) \<Rightarrow> (None, s\<lparr>ls_ruleLists := rls\<rparr>, heap, files)))"


subsection \<open>What a refresh does\<close>

lemma index_toInternal_distinct:
  "distinct (map fst fls) \<Longrightarrow> distinct (map fst (index_toInternal X rfs fls))"
  by (induction X rfs fls rule: index_toInternal.induct)
    (auto simp: Let_def map_of_eq_None_iff split: option.splits)

text \<open>Every list of the converted index is a valid filter of the index, and keeps its URL and time.\<close>

lemma index_toInternal_from:
  assumes "(i, d) \<in> set (index_toInternal X rfs fls)" "(i, d) \<notin> set fls"
  shows "\<exists>f. Some f \<in> set rfs \<and> index_validate (Some f) \<and> ir_Key f = i \<and> filter_toInternal X f = Some d"
  using assms
proof (induction rfs arbitrary: fls)
  case (Cons rf rfs)
  let ?k = "ir_Key (the rf)"
  show ?case
  proof (cases "index_validate rf \<and> map_of fls ?k = None \<and> filter_toInternal X (the rf) \<noteq> None")
    case True
    then obtain fl f where fl: "filter_toInternal X f = Some fl" "rf = Some f" "index_validate (Some f)"
      by (cases rf) (auto simp: index_validate_def)
    then have "(i, d) \<in> set (index_toInternal X rfs (fls @ [(ir_Key f, fl)]))"
      using Cons.prems(1) True by (simp add: Let_def)
    then show ?thesis
      using Cons.IH [of "fls @ [(ir_Key f, fl)]"] fl Cons.prems(2) by (cases "(i, d) = (ir_Key f, fl)") auto
  next
    case False
    then have "(i, d) \<in> set (index_toInternal X rfs fls)"
      using Cons.prems(1) by (auto simp: Let_def split: if_splits option.splits)
    then show ?thesis using Cons.IH Cons.prems(2) by auto
  qed
qed simp

text \<open>The entry of a list after a refresh in which loading it gave \<open>loaded\<close>.\<close>

definition list_outcome ::
  "'g urlfilter \<Rightarrow> 'c result_cache \<Rightarrow> 'c rl_storage \<Rightarrow> filter_id \<Rightarrow> index_data \<Rightarrow> ('e refr_error, string) result \<Rightarrow>
     ('g, 'c) rl_heap \<Rightarrow> ('g, 'c) rl_heap \<Rightarrow> rule_list_data option \<Rightarrow> bool" where
  "list_outcome U C s i fl loaded heap heap' d \<longleftrightarrow>
     (if \<exists>prev. prevRuleList s i = Some prev \<and> ix_updTime fl \<le> rd_updTime prev then d = prevRuleList s i
      else (case loaded of
              Inl _ \<Rightarrow> d = prevRuleList s i
            | Inr rulesData \<Rightarrow>
                (\<exists>h. d = Some \<lparr>rd_refr = h, rd_updTime = ix_updTime fl\<rparr> \<and> length heap \<le> h \<and> h < length heap' \<and>
                   heap' ! h = newBaseFilter U rulesData i [] (map_option (ci_Clear C) (ls_newCache s)))))"

lemma refr_load_other: "p \<noteq> rf_cachePath rc \<Longrightarrow> snd (refr_load W rc acceptStale files) p = files p"
  by (simp add: refr_load_def Let_def split: prod.splits)

lemma refr_load_cong:
  "files p = files' p \<Longrightarrow> rf_cachePath rc = p \<Longrightarrow>
     fst (refr_load W rc acceptStale files) = fst (refr_load W rc acceptStale files')"
  by (simp add: refr_load_def Let_def split: prod.splits)

lemma refreshRuleList_outcome:
  assumes r: "refreshRuleList U C W s acceptStale i fl heap files = (r, heap', files')"
  shows "list_outcome U C s i fl (fst (refr_load W (newRuleListRefreshable s i fl) acceptStale files)) heap heap'
           (resultRuleList s i r)"
    and "take (length heap) heap' = heap" and "length heap \<le> length heap'"
    and "p \<noteq> rf_cachePath (newRuleListRefreshable s i fl) \<Longrightarrow> files' p = files p"
proof -
  obtain lr lf where l: "refr_load W (newRuleListRefreshable s i fl) acceptStale files = (lr, lf)" by fastforce
  have other: "p \<noteq> rf_cachePath (newRuleListRefreshable s i fl) \<Longrightarrow> lf p = files p" for p
    using refr_load_other [of p _ W acceptStale files] l by (metis snd_conv)
  have upd: "rulelist_Refresh U C (Some rulesData) (newBaseFilter U [] i [] c) =
      newBaseFilter U rulesData i [] (map_option (ci_Clear C) c)" for rulesData c
    by (simp add: rulelist_Refresh_def newBaseFilter_def)
  show "list_outcome U C s i fl (fst (refr_load W (newRuleListRefreshable s i fl) acceptStale files)) heap heap'
           (resultRuleList s i r)"
    and "take (length heap) heap' = heap" and "length heap \<le> length heap'"
    and "p \<noteq> rf_cachePath (newRuleListRefreshable s i fl) \<Longrightarrow> files' p = files p"
    using r l other
    by (auto simp: refreshRuleList_def needsUpdate_def list_outcome_def resultRuleList_def upd Let_def
        split: option.splits bool.splits sum.splits if_splits)
qed


lemma list_outcome_mono:
  assumes "list_outcome U C s i fl loaded heap heap1 d" "length heap0 \<le> length heap"
    and "take (length heap1) heap' = heap1" "length heap1 \<le> length heap'"
  shows "list_outcome U C s i fl loaded heap0 heap' d"
proof -
  have "heap' ! h = heap1 ! h" if "h < length heap1" for h
    using assms(3) that by (metis nth_take)
  then show ?thesis using assms unfolding list_outcome_def by (fastforce split: sum.splits if_splits)
qed

lemma rf_cachePath_list [simp]: "rf_cachePath (newRuleListRefreshable s i fl) = path_join [ls_cacheDir s, i]"
  by (simp add: newRuleListRefreshable_def)

lemma refreshRuleLists_outcome:
  assumes "refreshRuleLists U C W s acceptStale fls rls heap files = (rls', heap', files')"
    and "distinct (map fst fls)" "inj_on (\<lambda>i. path_join [ls_cacheDir s, i]) (fst ` set fls)"
    and "\<forall>i \<in> fst ` set fls. files (path_join [ls_cacheDir s, i]) = files0 (path_join [ls_cacheDir s, i])"
  shows "take (length heap) heap' = heap \<and> length heap \<le> length heap' \<and>
     (\<forall>i. i \<notin> fst ` set fls \<longrightarrow> rls' i = rls i) \<and>
     (\<forall>(i, fl) \<in> set fls. \<exists>d. rls' i = Some d \<and>
        list_outcome U C s i fl (fst (refr_load W (newRuleListRefreshable s i fl) acceptStale files0)) heap heap' d)"
  using assms
proof (induction fls arbitrary: rls heap files)
  case (Cons e fls)
  obtain i fl where e: "e = (i, fl)" by fastforce
  obtain r h1 f1 where r: "refreshRuleList U C W s acceptStale i fl heap files = (r, h1, f1)" by (metis prod_cases3)
  note out = refreshRuleList_outcome [OF r]
  let ?path = "\<lambda>i. path_join [ls_cacheDir s, i]"
  have f1: "\<forall>j \<in> fst ` set fls. f1 (?path j) = files0 (?path j)"
  proof
    fix j assume j: "j \<in> fst ` set fls"
    then have "j \<noteq> i" using Cons.prems(2) e by auto
    then have "?path j \<noteq> ?path i" using Cons.prems(3) j e by (auto simp: inj_on_def)
    then have "f1 (?path j) = files (?path j)" using out(4) by simp
    then show "f1 (?path j) = files0 (?path j)" using Cons.prems(4) j by simp
  qed
  have run: "refreshRuleLists U C W s acceptStale fls (rls(i \<mapsto> resultRuleList s i r)) h1 f1 = (rls', heap', files')"
    using Cons.prems(1) e r by simp
  have IH: "take (length h1) heap' = h1" "length h1 \<le> length heap'"
    "\<forall>j. j \<notin> fst ` set fls \<longrightarrow> rls' j = (rls(i \<mapsto> resultRuleList s i r)) j"
    "\<forall>(j, fl) \<in> set fls. \<exists>d. rls' j = Some d \<and>
        list_outcome U C s j fl (fst (refr_load W (newRuleListRefreshable s j fl) acceptStale files0)) h1 heap' d"
    using Cons.IH [OF run _ _ f1] Cons.prems(2,3) by (auto simp: inj_on_def)
  have load: "fst (refr_load W (newRuleListRefreshable s i fl) acceptStale files) =
      fst (refr_load W (newRuleListRefreshable s i fl) acceptStale files0)"
    by (rule refr_load_cong [of _ "?path i"]) (use Cons.prems(4) e in simp_all)
  have "rls' i = Some (resultRuleList s i r)" using IH(3) Cons.prems(2) e by auto
  moreover have "list_outcome U C s i fl (fst (refr_load W (newRuleListRefreshable s i fl) acceptStale files0)) heap heap'
      (resultRuleList s i r)"
    using list_outcome_mono [OF out(1) _ IH(1,2)] load by simp
  moreover have "\<forall>(j, fl) \<in> set fls. \<exists>d. rls' j = Some d \<and>
        list_outcome U C s j fl (fst (refr_load W (newRuleListRefreshable s j fl) acceptStale files0)) heap heap' d"
    using IH(4) list_outcome_mono [OF _ out(3), where heap' = heap'] by fastforce
  moreover have "take (length heap) heap' = heap"
    using out(2,3) IH(1) by (metis min.absorb1 take_take)
  ultimately show ?case
    using IH(2,3) out(3) e by auto
qed simp




text \<open>An index with one list, a storage for it, and a server that gives the index and the text \<open>rules\<close>.\<close>

definition ex_idx_env :: idx_env where
  "ex_idx_env =
     \<lparr>ix_Unmarshal = (\<lambda>b. if b = ''idx''
        then Some [None, Some \<lparr>ir_DownloadURL = ''https://h/list'', ir_Key = ''list'', ir_TimeUpdated = ''2''\<rparr>] else None),
      ix_urlParse = (\<lambda>s. Some \<lparr>pu_Scheme = ''https'', pu_Host = ''h'', pu_Path = ''/'', pu_String = s\<rparr>),
      ix_validScheme = (\<lambda>s. s = ''http'' \<or> s = ''https''),
      ix_timeParse = (\<lambda>s. if s = ''2'' then Some 2 else None)\<rparr>"

definition ex_rl_storage :: "unit rl_storage" where
  "ex_rl_storage =
     \<lparr>ls_refr = \<lparr>rf_fileURL = False, rf_staleness = 10, rf_maxSize = 99, rf_url = ''https://h/idx'', rf_cachePath = ''/index/f''\<rparr>,
      ls_ruleLists = Map.empty, ls_cacheDir = ''/rulelist'', ls_staleness = 10, ls_maxSize = 99, ls_newCache = None\<rparr>"

definition ex_world :: "string \<Rightarrow> time \<Rightarrow> unit world" where
  "ex_world rules now =
     \<lparr>w_limitReader = ex_limitReader, w_file = (\<lambda>_. ex_file_env),
      w_url = (\<lambda>u. ex_url_env (if u = ''https://h/idx'' then ''idx'' else rules)),
      w_now = now, w_clock = now, w_ctxErr = None\<rparr>"

definition ex_files :: file_map where
  "ex_files =
     [''/index/f'' \<mapsto> \<lparr>file_data = ''idx'', file_mtime = 5\<rparr>, ''/rulelist/list'' \<mapsto> \<lparr>file_data = ''old'', file_mtime = 1\<rparr>]"



text \<open>The initial refresh of the storage of the example, from the cached files.\<close>

definition ex_loaded_storage :: "unit rl_storage" where
  "ex_loaded_storage = ex_rl_storage\<lparr>ls_ruleLists := [''list'' \<mapsto> Some \<lparr>rd_refr = 0, rd_updTime = 2\<rparr>]\<rparr>"

definition ex_loaded_heap :: "(string, unit) rl_heap" where
  "ex_loaded_heap = [newBaseFilter (ex_urlfilter False) ''old'' ''list'' [] None]"

definition ex_index_filter :: index_resp_filter where
  "ex_index_filter = \<lparr>ir_DownloadURL = ''https://h/list'', ir_Key = ''list'', ir_TimeUpdated = ''2''\<rparr>"

lemma ex_index:
  "sort_stable index_compare [None, Some ex_index_filter] = [Some ex_index_filter, None]"
  "index_toInternal ex_idx_env [Some ex_index_filter, None] [] = [(''list'', \<lparr>ix_url = ''https://h/list'', ix_updTime = 2\<rparr>)]"
  "ix_Unmarshal ex_idx_env ''idx'' = Some [None, Some ex_index_filter]"
  by (code_simp, code_simp, simp add: ex_idx_env_def ex_index_filter_def)

lemmas ex_load_defs = refr_load_def refr_Refresh_def useCachedOrRefreshFromURL_def DataFromFile_def WithDeferred_def
    refreshable.truncate_def ex_world_def ex_file_env_def

lemma ex_rls_refreshed:
  "rls_refresh (ex_urlfilter False) Empty_if ex_idx_env (ex_world ''new'' 100) True (ex_rl_storage, [], ex_files) =
     (None, ex_loaded_storage, ex_loaded_heap, ex_files)"
proof -
  let ?fl = "\<lparr>ix_url = ''https://h/list'', ix_updTime = 2\<rparr>"
  have path: "path_join [''/rulelist'', ''list''] = ''/rulelist/list''" by code_simp
  have idx1: "loadIndex ex_idx_env (ex_world ''new'' 100) ex_rl_storage True ex_files = (Inr [Some ex_index_filter, None], ex_files)"
    by (simp add: loadIndex_def ex_load_defs ex_index ex_rl_storage_def ex_files_def fun_upd_twist)
  have ld: "refr_load (ex_world ''new'' 100) (newRuleListRefreshable ex_rl_storage ''list'' ?fl) True ex_files = (Inr ''old'', ex_files)"
    by (simp add: ex_load_defs newRuleListRefreshable_def path ex_rl_storage_def ex_files_def fun_upd_twist)
  have s0: "prevRuleList ex_rl_storage ''list'' = None" "ls_newCache ex_rl_storage = None" "w_ctxErr (ex_world r n) = None" for r n
    by (simp_all add: prevRuleList_def ex_rl_storage_def ex_world_def)
  show ?thesis
    by (simp add: rls_refresh_def loadRuleLists_def idx1 ex_index ld s0 refreshRuleList_def needsUpdate_def ex_loaded_storage_def
        ex_loaded_heap_def resultRuleList_def rulelist_Refresh_def newBaseFilter_def del: index_toInternal.simps)
qed

text \<open>
  A list can stay outdated although the server has a newer text.  When the initial refresh reads a list
  from an old file, it records the time that the index gives, and the refreshes that follow take the list
  for current: here the cached text \<open>old\<close> stays in use when the index is loaded again and the server has the text
  \<open>new\<close>, at any later time and however stale the file is.
\<close>

theorem stale_list_recorded_as_current:
  "(let (e1, st) = rls_refresh (ex_urlfilter False) Empty_if ex_idx_env (ex_world ''new'' 100) True (ex_rl_storage, [], ex_files);
        (e2, s2, heap2, files2) = rls_refresh (ex_urlfilter False) Empty_if ex_idx_env (ex_world ''new'' (100 + int t)) False st
    in e1 = None \<and> e2 = None \<and>
       map (\<lambda>h. bf_engine (heap2 ! h)) (AppendForListIDs s2 [] [''list'']) = [''old''])"
proof -
  have "\<exists>files2. loadIndex ex_idx_env (ex_world ''new'' (100 + int t)) ex_loaded_storage False ex_files = (Inr [Some ex_index_filter, None], files2)"
    by (simp add: loadIndex_def ex_load_defs ex_index ex_loaded_storage_def ex_rl_storage_def ex_files_def refreshFromURL_def ex_url_env_def
        copy_body_def ex_limitReader_def withDeferredTmpCleanup_def)
  then have 2: "\<exists>files2. rls_refresh (ex_urlfilter False) Empty_if ex_idx_env (ex_world ''new'' (100 + int t)) False
      (ex_loaded_storage, ex_loaded_heap, ex_files) = (None, ex_loaded_storage, ex_loaded_heap, files2)"
    by (auto simp: rls_refresh_def loadRuleLists_def ex_index refreshRuleList_def needsUpdate_def prevRuleList_def ex_loaded_storage_def
        resultRuleList_def ex_world_def simp del: index_toInternal.simps)
  have "map (\<lambda>h. bf_engine (ex_loaded_heap ! h)) (AppendForListIDs ex_loaded_storage [] [''list'']) = [''old'']" by code_simp
  with ex_rls_refreshed 2 show ?thesis by (auto simp: Let_def split: prod.splits)
qed

end
