(* ===== verification/Access.thy ===== *)
theory Access
  imports Rule_List_Storage Agdnet Dns_Types "HOL-Library.Countable"
begin

text \<open>
  Access control (\<open>internal/access\<close>): the global blocker, the standard blocker that is shared by the profiles and
  can be reconfigured, the access managers of profiles, and the storage of the standard settings
  (\<open>internal/filter/filterstorage/standardaccess.go\<close>).

  The engine is that of the urlfilter module.  A storage of rules with one list is always made, so the errors
  and panics about it are left out, as are the pools, whose objects are reset before they are used, and the metrics.
\<close>

subsection \<open>Matching\<close>

text \<open>The location of an address (\<^verbatim>\<open>geoip.Location\<close>).\<close>

type_synonym asn = "32 word"

record geo_location =
  loc_Country :: string
  loc_Continent :: string
  loc_TopSubdivision :: string
  loc_ASN :: asn

text \<open>The engine and \<^verbatim>\<open>unicode.ToLower\<close>.\<close>

record 'g access_env =
  ax_U :: "'g urlfilter"
  ax_lower :: "rune \<Rightarrow> rune"

definition access_engine :: "'g access_env \<Rightarrow> string list \<Rightarrow> 'g" where
  "access_engine A rules = uf_NewDNSEngine (ax_U A) (RulesToBytesLower (ax_lower A) rules)"

definition matchBlocked :: "'g urlfilter \<Rightarrow> string \<Rightarrow> 16 word \<Rightarrow> 'g \<Rightarrow> bool" where
  "matchBlocked U host qt engine =
     (let (blocked, res) = uf_Match U engine (uf_request_reset\<lparr>uq_Hostname := host, uq_DNSType := qt\<rparr>)
      in if blocked \<and> ur_NetworkRule res \<noteq> None then \<not> nr_Whitelist (the (ur_NetworkRule res)) else blocked)"

definition matchNets :: "prefix list \<Rightarrow> addr \<Rightarrow> bool" where
  "matchNets nets ip = list_ex (\<lambda>n. prefix_contains n ip) nets"

definition matchASNs :: "asn list \<Rightarrow> geo_location option \<Rightarrow> bool" where
  "matchASNs asns l = (case l of None \<Rightarrow> False | Some l \<Rightarrow> loc_ASN l \<in> set asns)"

subsection \<open>The global blocker\<close>

record 'g global =
  g_blockedHostsEng :: 'g
  g_blockedNets :: "prefix list"

definition NewGlobal :: "'g access_env \<Rightarrow> string list \<Rightarrow> prefix list \<Rightarrow> 'g global" where
  "NewGlobal A blockedDomains blockedSubnets =
     \<lparr>g_blockedHostsEng = access_engine A blockedDomains, g_blockedNets = blockedSubnets\<rparr>"

definition IsBlockedHost :: "'g access_env \<Rightarrow> 'g global \<Rightarrow> string \<Rightarrow> 16 word \<Rightarrow> bool" where
  "IsBlockedHost A g host qt = matchBlocked (ax_U A) host qt (g_blockedHostsEng g)"

definition IsBlockedIP :: "'g global \<Rightarrow> addr \<Rightarrow> bool" where
  "IsBlockedIP g ip = list_ex (\<lambda>n. prefix_contains n ip) (g_blockedNets g)"

subsection \<open>The standard blocker\<close>

record standard_config =
  sc_AllowedNets :: "prefix list"
  sc_BlockedNets :: "prefix list"
  sc_AllowedASN :: "asn list"
  sc_BlockedASN :: "asn list"
  sc_BlocklistDomainRules :: "string list"

definition empty_standard_config :: standard_config where
  "empty_standard_config =
     \<lparr>sc_AllowedNets = [], sc_BlockedNets = [], sc_AllowedASN = [], sc_BlockedASN = [], sc_BlocklistDomainRules = []\<rparr>"

definition standard_Equal :: "standard_config option \<Rightarrow> standard_config option \<Rightarrow> bool" where
  "standard_Equal c other =
     (case c of
        None \<Rightarrow> other = None
      | Some c \<Rightarrow>
          (case other of
             None \<Rightarrow> False
           | Some other \<Rightarrow>
               \<not> (sc_AllowedNets c \<noteq> sc_AllowedNets other \<or> sc_BlockedNets c \<noteq> sc_BlockedNets other \<or>
                  sc_AllowedASN c \<noteq> sc_AllowedASN other \<or> sc_BlockedASN c \<noteq> sc_BlockedASN other \<or>
                  sc_BlocklistDomainRules c \<noteq> sc_BlocklistDomainRules other)))"

record 'g standard_blocker =
  sb_blockedHostsEng :: 'g
  sb_allowedNets :: "prefix list"
  sb_blockedNets :: "prefix list"
  sb_allowedASN :: "asn list"
  sb_blockedASN :: "asn list"

definition SetConfig :: "'g access_env \<Rightarrow> standard_config \<Rightarrow> 'g standard_blocker \<Rightarrow> 'g standard_blocker" where
  "SetConfig A c b = b
     \<lparr>sb_blockedHostsEng := access_engine A (sc_BlocklistDomainRules c), sb_allowedNets := sc_AllowedNets c,
      sb_blockedNets := sc_BlockedNets c, sb_allowedASN := sc_AllowedASN c, sb_blockedASN := sc_BlockedASN c\<rparr>"

text \<open>Before \<open>SetConfig\<close> the fields are nil, which \<open>eng0\<close> stands for in the case of the engine.\<close>

definition NewStandardBlocker :: "'g access_env \<Rightarrow> 'g \<Rightarrow> standard_config \<Rightarrow> 'g standard_blocker" where
  "NewStandardBlocker A eng0 conf =
     SetConfig A conf
       \<lparr>sb_blockedHostsEng = eng0, sb_allowedNets = [], sb_blockedNets = [], sb_allowedASN = [], sb_blockedASN = []\<rparr>"

definition sb_isBlockedByNets :: "'g standard_blocker \<Rightarrow> addr \<Rightarrow> geo_location option \<Rightarrow> bool" where
  "sb_isBlockedByNets b ip l =
     (if matchASNs (sb_allowedASN b) l \<or> matchNets (sb_allowedNets b) ip then False
      else matchASNs (sb_blockedASN b) l \<or> matchNets (sb_blockedNets b) ip)"

definition sb_isBlockedByHostsEng :: "'g access_env \<Rightarrow> 'g standard_blocker \<Rightarrow> msg \<Rightarrow> bool" where
  "sb_isBlockedByHostsEng A b req =
     (let q = question0 req in matchBlocked (ax_U A) (NormalizeQueryDomain (q_Name q)) (Qtype q) (sb_blockedHostsEng b))"

definition sb_IsBlocked ::
  "'g access_env \<Rightarrow> 'g standard_blocker \<Rightarrow> msg \<Rightarrow> addr_port \<Rightarrow> geo_location option \<Rightarrow> bool" where
  "sb_IsBlocked A b req rAddr l \<longleftrightarrow> sb_isBlockedByNets b (ap_addr rAddr) l \<or> sb_isBlockedByHostsEng A b req"

subsection \<open>The access managers of profiles\<close>

record profile_access_config = standard_config +
  StandardEnabled :: bool

text \<open>The engine of a profile is made from its rules by the first request.\<close>

record 'g host_engine =
  he_lazyEngine :: "'g option"
  he_rules :: "string list"

definition newBlockedHostEngine :: "string list \<Rightarrow> 'g host_engine" where
  "newBlockedHostEngine rules = \<lparr>he_lazyEngine = None, he_rules = rules\<rparr>"

definition he_init :: "'g access_env \<Rightarrow> 'g host_engine \<Rightarrow> 'g" where
  "he_init A e = access_engine A (he_rules e)"

definition he_isBlocked :: "'g access_env \<Rightarrow> msg \<Rightarrow> 'g host_engine \<Rightarrow> bool \<times> 'g host_engine" where
  "he_isBlocked A req e =
     (let eng = (case he_lazyEngine e of None \<Rightarrow> he_init A e | Some eng \<Rightarrow> eng);
          q = question0 req
      in (matchBlocked (ax_U A) (NormalizeQueryDomain (q_Name q)) (Qtype q) eng, e\<lparr>he_lazyEngine := Some eng\<rparr>))"

text \<open>The blocker that a profile also asks: none, or the standard one, which it shares with others.\<close>

datatype blocker = EmptyBlocker | StandardBlocker

fun blocker_IsBlocked ::
  "'g access_env \<Rightarrow> 'g standard_blocker \<Rightarrow> blocker \<Rightarrow> msg \<Rightarrow> addr_port \<Rightarrow> geo_location option \<Rightarrow> bool" where
  "blocker_IsBlocked A sb EmptyBlocker req rAddr l = False"
| "blocker_IsBlocked A sb StandardBlocker req rAddr l = sb_IsBlocked A sb req rAddr l"

record 'g default_profile =
  dp_standard :: blocker
  dp_blockedHostsEng :: "'g host_engine"
  dp_allowedNets :: "prefix list"
  dp_blockedNets :: "prefix list"
  dp_allowedASN :: "asn list"
  dp_blockedASN :: "asn list"
  dp_blocklistDomainRules :: "string list"
  dp_standardEnabled :: bool

definition newDefaultProfile :: "profile_access_config \<Rightarrow> blocker \<Rightarrow> 'g default_profile" where
  "newDefaultProfile c standard =
     \<lparr>dp_standard = standard, dp_blockedHostsEng = newBlockedHostEngine (sc_BlocklistDomainRules c),
      dp_allowedNets = sc_AllowedNets c, dp_blockedNets = sc_BlockedNets c, dp_allowedASN = sc_AllowedASN c,
      dp_blockedASN = sc_BlockedASN c, dp_blocklistDomainRules = sc_BlocklistDomainRules c,
      dp_standardEnabled = StandardEnabled c\<rparr>"

definition ProfileConstructor_New :: "profile_access_config \<Rightarrow> 'g default_profile" where
  "ProfileConstructor_New conf =
     newDefaultProfile conf (if StandardEnabled conf then StandardBlocker else EmptyBlocker)"

definition dp_Config :: "'g default_profile \<Rightarrow> profile_access_config" where
  "dp_Config p =
     \<lparr>sc_AllowedNets = dp_allowedNets p, sc_BlockedNets = dp_blockedNets p, sc_AllowedASN = dp_allowedASN p,
      sc_BlockedASN = dp_blockedASN p, sc_BlocklistDomainRules = dp_blocklistDomainRules p,
      StandardEnabled = dp_standardEnabled p\<rparr>"

definition dp_isBlockedByNets :: "'g default_profile \<Rightarrow> addr \<Rightarrow> geo_location option \<Rightarrow> bool" where
  "dp_isBlockedByNets p ip l =
     (if matchASNs (dp_allowedASN p) l \<or> matchNets (dp_allowedNets p) ip then False
      else matchASNs (dp_blockedASN p) l \<or> matchNets (dp_blockedNets p) ip)"

text \<open>The operators of the code do not evaluate what comes after a true operand, so the engine may stay unmade.\<close>

definition dp_IsBlocked ::
  "'g access_env \<Rightarrow> 'g standard_blocker \<Rightarrow> msg \<Rightarrow> addr_port \<Rightarrow> geo_location option \<Rightarrow> 'g default_profile \<Rightarrow>
     bool \<times> 'g default_profile" where
  "dp_IsBlocked A sb req rAddr l p =
     (if dp_isBlockedByNets p (ap_addr rAddr) l then (True, p)
      else (case he_isBlocked A req (dp_blockedHostsEng p) of
              (b, e) \<Rightarrow> (b \<or> blocker_IsBlocked A sb (dp_standard p) req rAddr l, p\<lparr>dp_blockedHostsEng := e\<rparr>)))"

text \<open>The interface: the access manager of a profile is empty or the default one.\<close>

datatype 'g access_profile = EmptyProfile | DefaultProfile "'g default_profile"

fun access_IsBlocked ::
  "'g access_env \<Rightarrow> 'g standard_blocker \<Rightarrow> msg \<Rightarrow> addr_port \<Rightarrow> geo_location option \<Rightarrow> 'g access_profile \<Rightarrow>
     bool \<times> 'g access_profile" where
  "access_IsBlocked A sb req rAddr l EmptyProfile = (False, EmptyProfile)"
| "access_IsBlocked A sb req rAddr l (DefaultProfile p) =
     (case dp_IsBlocked A sb req rAddr l p of (b, p) \<Rightarrow> (b, DefaultProfile p))"

fun access_Config :: "'g access_profile \<Rightarrow> profile_access_config option" where
  "access_Config EmptyProfile = None"
| "access_Config (DefaultProfile p) = Some (dp_Config p)"

subsection \<open>The storage of standard settings\<close>

definition StandardAccessVersion :: nat where
  "StandardAccessVersion = 1"

record json_standard = standard_config +
  SchemaVersion :: nat

definition standardAccessConfigToJSON :: "standard_config \<Rightarrow> json_standard" where
  "standardAccessConfigToJSON c = standard_config.extend (standard_config.truncate c) (json_standard.fields StandardAccessVersion)"

definition json_toInternal :: "json_standard \<Rightarrow> standard_config" where
  "json_toInternal s = standard_config.truncate s"

text \<open>
  The check for empty slices of golibs, which tells a nil slice from an empty one, and the JSON of the settings,
  which goes through the prefixes of golibs.  The encoding does not fail for these settings.
\<close>

datatype slice_error = ErrNoValue | ErrEmptyValue

record sa_env =
  sa_NotEmptySlice :: "string option \<Rightarrow> slice_error option"
  sa_Unmarshal :: "string \<Rightarrow> json_standard option"
  sa_Marshal :: "json_standard \<Rightarrow> string"

definition sa_env_ok :: "sa_env \<Rightarrow> bool" where
  "sa_env_ok J \<longleftrightarrow>
     (\<forall>b. b \<noteq> [] \<longrightarrow> sa_NotEmptySlice J (Some b) = None) \<and> sa_NotEmptySlice J None = Some ErrNoValue \<and>
     (\<forall>s. sa_Marshal J s \<noteq> [] \<and> sa_Unmarshal J (sa_Marshal J s) = Some s)"

datatype 'e sa_error = LoadingCache "'e refr_error" | CacheEmpty slice_error | DecodingCache | MalformedCache nat | GetterError 'e | WritingCache 'e

definition loadFromCache :: "sa_env \<Rightarrow> 'e file_env \<Rightarrow> data_file option \<Rightarrow> ('e sa_error, standard_config) result" where
  "loadFromCache J fe file =
     (case DataFromFile fe file 0 0 True of
        (_, Some e) \<Rightarrow> Inl (LoadingCache e)
      | (raw, None) \<Rightarrow>
          (case sa_NotEmptySlice J raw of
             Some e \<Rightarrow> Inl (CacheEmpty e)
           | None \<Rightarrow>
               (case sa_Unmarshal J (case raw of None \<Rightarrow> [] | Some b \<Rightarrow> b) of
                  None \<Rightarrow> Inl DecodingCache
                | Some settings \<Rightarrow>
                    if SchemaVersion settings \<noteq> StandardAccessVersion then Inl (MalformedCache (SchemaVersion settings))
                    else Inr (json_toInternal settings))))"

text \<open>The state: the latest settings, the blocker that is set and the cache file.\<close>

record 'g standard_access =
  sa_latest :: "standard_config option"
  sa_blocker :: "'g standard_blocker"
  sa_file :: "data_file option"

definition NewStandardAccess ::
  "'g access_env \<Rightarrow> sa_env \<Rightarrow> 'e file_env \<Rightarrow> 'g standard_blocker \<Rightarrow> data_file option \<Rightarrow> ('e sa_error, 'g standard_access) result" where
  "NewStandardAccess A J fe b file =
     (case (case loadFromCache J fe file of Inl (CacheEmpty ErrNoValue) \<Rightarrow> Inr empty_standard_config | r \<Rightarrow> r) of
        Inl e \<Rightarrow> Inl e
      | Inr conf \<Rightarrow> Inr \<lparr>sa_latest = Some conf, sa_blocker = SetConfig A conf b, sa_file = file\<rparr>)"

text \<open>\<open>werr\<close> is the error of the atomic replacement of the cache file, and \<open>now\<close> its time.\<close>

definition writeCache ::
  "sa_env \<Rightarrow> 'e option \<Rightarrow> time \<Rightarrow> standard_config \<Rightarrow> data_file option \<Rightarrow> 'e option \<times> data_file option" where
  "writeCache J werr now latest file =
     (case werr of
        Some e \<Rightarrow> (Some e, file)
      | None \<Rightarrow> (None, Some \<lparr>file_data = sa_Marshal J (standardAccessConfigToJSON latest), file_mtime = now\<rparr>))"

definition standard_Refresh ::
  "'g access_env \<Rightarrow> sa_env \<Rightarrow> ('e, standard_config option) result \<Rightarrow> 'e option \<Rightarrow> time \<Rightarrow> 'g standard_access \<Rightarrow>
     'e sa_error option \<times> 'g standard_access" where
  "standard_Refresh A J got werr now s =
     (case got of
        Inl e \<Rightarrow> (Some (GetterError e), s)
      | Inr conf \<Rightarrow>
          (let conf = (case conf of None \<Rightarrow> empty_standard_config | Some c \<Rightarrow> c)
           in if standard_Equal (Some conf) (sa_latest s) then (None, s)
              else (case writeCache J werr now conf (sa_file s) of
                      (err, file) \<Rightarrow>
                        (map_option WritingCache err,
                         s\<lparr>sa_latest := Some conf, sa_blocker := SetConfig A conf (sa_blocker s), sa_file := file\<rparr>))))"

subsection \<open>What is blocked\<close>

text \<open>What settings say of a request: the allowed networks win over the blocked ones, but not over the rules.\<close>

definition nets_block :: "('a standard_config_scheme) \<Rightarrow> addr \<Rightarrow> geo_location option \<Rightarrow> bool" where
  "nets_block c ip l \<longleftrightarrow>
     (let asn_in = (\<lambda>asns. \<exists>loc. l = Some loc \<and> loc_ASN loc \<in> set asns); net_in = (\<lambda>nets. \<exists>n \<in> set nets. prefix_contains n ip)
      in \<not> asn_in (sc_AllowedASN c) \<and> \<not> net_in (sc_AllowedNets c) \<and> (asn_in (sc_BlockedASN c) \<or> net_in (sc_BlockedNets c)))"

definition settings_block ::
  "'g access_env \<Rightarrow> ('a standard_config_scheme) \<Rightarrow> msg \<Rightarrow> addr_port \<Rightarrow> geo_location option \<Rightarrow> bool" where
  "settings_block A c req rAddr l \<longleftrightarrow>
     nets_block c (ap_addr rAddr) l \<or>
     matchBlocked (ax_U A) (NormalizeQueryDomain (q_Name (question0 req))) (Qtype (question0 req))
       (access_engine A (sc_BlocklistDomainRules c))"

lemma nets_block_match:
  "nets_block c ip l \<longleftrightarrow>
     \<not> (matchASNs (sc_AllowedASN c) l \<or> matchNets (sc_AllowedNets c) ip) \<and>
     (matchASNs (sc_BlockedASN c) l \<or> matchNets (sc_BlockedNets c) ip)"
  by (auto simp: nets_block_def matchASNs_def matchNets_def list_ex_iff Let_def split: option.split)

definition sb_configured :: "'g access_env \<Rightarrow> standard_config \<Rightarrow> 'g standard_blocker \<Rightarrow> bool" where
  "sb_configured A c sb \<longleftrightarrow>
     sb_blockedHostsEng sb = access_engine A (sc_BlocklistDomainRules c) \<and> sb_allowedNets sb = sc_AllowedNets c \<and>
     sb_blockedNets sb = sc_BlockedNets c \<and> sb_allowedASN sb = sc_AllowedASN c \<and> sb_blockedASN sb = sc_BlockedASN c"

lemma SetConfig_configured [simp]: "sb_configured A c (SetConfig A c sb)"
  by (simp add: sb_configured_def SetConfig_def)

lemma sb_IsBlocked_spec: "sb_configured A c sb \<Longrightarrow> sb_IsBlocked A sb req rAddr l \<longleftrightarrow> settings_block A c req rAddr l"
  by (auto simp: sb_IsBlocked_def settings_block_def nets_block_match sb_isBlockedByNets_def sb_isBlockedByHostsEng_def
      sb_configured_def Let_def)

text \<open>A manager made from a configuration: its engine is not made yet or is that of the rules.\<close>

definition dp_configured :: "'g access_env \<Rightarrow> profile_access_config \<Rightarrow> 'g default_profile \<Rightarrow> bool" where
  "dp_configured A c p \<longleftrightarrow>
     dp_Config p = c \<and> dp_standard p = (if StandardEnabled c then StandardBlocker else EmptyBlocker) \<and>
     he_rules (dp_blockedHostsEng p) = sc_BlocklistDomainRules c \<and>
     he_lazyEngine (dp_blockedHostsEng p) \<in> {None, Some (access_engine A (sc_BlocklistDomainRules c))}"

lemma New_configured [simp]: "dp_configured A c (ProfileConstructor_New c)"
  by (simp add: dp_configured_def ProfileConstructor_New_def newDefaultProfile_def dp_Config_def newBlockedHostEngine_def)

lemma dp_IsBlocked_configured: "dp_configured A c p \<Longrightarrow> dp_configured A c (snd (dp_IsBlocked A sb req rAddr l p))"
  by (auto simp: dp_configured_def dp_IsBlocked_def he_isBlocked_def he_init_def dp_Config_def Let_def)

lemma dp_IsBlocked_spec:
  assumes "dp_configured A c p" "sb_configured A cs sb"
  shows "fst (dp_IsBlocked A sb req rAddr l p) \<longleftrightarrow>
         settings_block A c req rAddr l \<or> StandardEnabled c \<and> settings_block A cs req rAddr l"
proof -
  have "dp_isBlockedByNets p (ap_addr rAddr) l \<longleftrightarrow> nets_block c (ap_addr rAddr) l"
    using assms(1) by (auto simp: dp_configured_def dp_Config_def dp_isBlockedByNets_def nets_block_match)
  moreover have "fst (he_isBlocked A req (dp_blockedHostsEng p)) \<longleftrightarrow>
      matchBlocked (ax_U A) (NormalizeQueryDomain (q_Name (question0 req))) (Qtype (question0 req))
        (access_engine A (sc_BlocklistDomainRules c))"
    using assms(1) by (auto simp: dp_configured_def he_isBlocked_def he_init_def Let_def)
  moreover have "blocker_IsBlocked A sb (dp_standard p) req rAddr l \<longleftrightarrow> StandardEnabled c \<and> settings_block A cs req rAddr l"
    using assms by (simp add: dp_configured_def sb_IsBlocked_spec)
  ultimately show ?thesis
    by (auto simp: dp_IsBlocked_def settings_block_def [of A c] split: prod.split)
qed

text \<open>What happens to a manager and to the standard blocker that it shares with other profiles.\<close>

datatype access_event = AccSetConfig standard_config | AccLookup msg addr_port "geo_location option"

fun access_step ::
  "'g access_env \<Rightarrow> access_event \<Rightarrow> 'g standard_blocker \<times> 'g default_profile \<Rightarrow> 'g standard_blocker \<times> 'g default_profile" where
  "access_step A (AccSetConfig c) (sb, p) = (SetConfig A c sb, p)"
| "access_step A (AccLookup req rAddr l) (sb, p) = (sb, snd (dp_IsBlocked A sb req rAddr l p))"

fun config_after :: "standard_config \<Rightarrow> access_event list \<Rightarrow> standard_config" where
  "config_after c [] = c"
| "config_after c (AccSetConfig c' # es) = config_after c' es"
| "config_after c (AccLookup _ _ _ # es) = config_after c es"

lemma access_steps_configured:
  "sb_configured A cs sb \<Longrightarrow> dp_configured A c p \<Longrightarrow> fold (access_step A) es (sb, p) = (sb', p') \<Longrightarrow>
     sb_configured A (config_after cs es) sb' \<and> dp_configured A c p'"
proof (induction es arbitrary: cs sb p)
  case (Cons e es)
  show ?case
  proof (cases e)
    case (AccSetConfig c')
    show ?thesis using Cons.IH [OF SetConfig_configured Cons.prems(2), of c' sb] Cons.prems(3) AccSetConfig by simp
  next
    case (AccLookup req rAddr l)
    show ?thesis
      using Cons.IH [OF Cons.prems(1) dp_IsBlocked_configured [OF Cons.prems(2), of sb req rAddr l]] Cons.prems(3) AccLookup by simp
  qed
qed simp

text \<open>
  C15: The decision of the access manager of a profile depends on the settings alone.  Whatever requests the
  manager has seen and however often the standard settings have been changed, it blocks a request exactly when
  the settings of the profile do or when the profile uses the standard settings and the latest of them do.  Settings block by
  network and number of the autonomous system, unless the client is in an allowed one, and by the rules for the
  name in the question, to which the allowed networks are no exception.
\<close>

theorem access_decision:
  "case fold (access_step A) es (NewStandardBlocker A eng0 cs, ProfileConstructor_New c) of
     (sb, p) \<Rightarrow>
       fst (access_IsBlocked A sb req rAddr l (DefaultProfile p)) \<longleftrightarrow>
         settings_block A c req rAddr l \<or> StandardEnabled c \<and> settings_block A (config_after cs es) req rAddr l"
proof -
  obtain sb p where steps: "fold (access_step A) es (NewStandardBlocker A eng0 cs, ProfileConstructor_New c) = (sb, p)" by fastforce
  have "sb_configured A (config_after cs es) sb \<and> dp_configured A c p"
    by (rule access_steps_configured [OF _ New_configured steps]) (simp add: NewStandardBlocker_def)
  then have "fst (dp_IsBlocked A sb req rAddr l p) \<longleftrightarrow>
      settings_block A c req rAddr l \<or> StandardEnabled c \<and> settings_block A (config_after cs es) req rAddr l"
    by (simp add: dp_IsBlocked_spec)
  with steps show ?thesis by (simp add: split_beta)
qed

subsection \<open>The cache of the standard settings\<close>

lemma json_round_trip: "json_toInternal (standardAccessConfigToJSON c) = c" "SchemaVersion (standardAccessConfigToJSON c) = StandardAccessVersion"
  by (simp_all add: json_toInternal_def standardAccessConfigToJSON_def standard_config.defs json_standard.defs)

lemma standard_Equal_eq: "standard_Equal c c' \<longleftrightarrow> c = c'"
  by (auto simp: standard_Equal_def split: option.split)

text \<open>The settings that a start without them, or with the file of the cache, finds.\<close>

definition file_settings :: "sa_env \<Rightarrow> data_file option \<Rightarrow> standard_config option" where
  "file_settings J file =
     (case file of
        None \<Rightarrow> Some empty_standard_config
      | Some fl \<Rightarrow>
          (case sa_Unmarshal J (file_data fl) of
             None \<Rightarrow> None
           | Some s \<Rightarrow> if SchemaVersion s = StandardAccessVersion \<and> file_data fl \<noteq> [] then Some (json_toInternal s) else None))"

lemma loadFromCache_none: "sa_env_ok J \<Longrightarrow> loadFromCache J fe None = Inl (CacheEmpty ErrNoValue)"
  by (simp add: loadFromCache_def DataFromFile_def sa_env_ok_def)

lemma loadFromCache_settings:
  assumes "sa_env_ok J" "no_file_errors fe" "file_settings J (Some fl) = Some c"
  shows "loadFromCache J fe (Some fl) = Inr c"
  using assms(1,3) DataFromFile_fresh [OF assms(2), of True 0 fl 0]
  by (auto simp: loadFromCache_def file_settings_def sa_env_ok_def split: option.splits if_splits)

lemma NewStandardAccess_settings:
  assumes "sa_env_ok J" "no_file_errors fe" "file_settings J fi = Some c"
  shows "NewStandardAccess A J fe b fi = Inr \<lparr>sa_latest = Some c, sa_blocker = SetConfig A c b, sa_file = fi\<rparr>"
  using assms(3) loadFromCache_settings [OF assms(1,2)] loadFromCache_none [OF assms(1), of fe]
  by (cases fi) (simp_all add: NewStandardAccess_def file_settings_def [of J None])

lemma writeCache_settings:
  "sa_env_ok J \<Longrightarrow> file_settings J (snd (writeCache J None now c file)) = Some c"
  by (simp add: writeCache_def file_settings_def sa_env_ok_def json_round_trip)

text \<open>The refreshes of the settings, with what the storage answered and whether the cache could be written.\<close>

fun standard_refreshes ::
  "'g access_env \<Rightarrow> sa_env \<Rightarrow> (('e, standard_config option) result \<times> 'e option \<times> time) list \<Rightarrow> 'g standard_access \<Rightarrow> 'g standard_access" where
  "standard_refreshes A J [] s = s"
| "standard_refreshes A J ((got, werr, now) # rs) s = standard_refreshes A J rs (snd (standard_Refresh A J got werr now s))"

lemma standard_refreshes_cached:
  assumes "sa_env_ok J" "\<forall>(got, werr, now) \<in> set rs. werr = None"
    and "sa_latest s = Some c" "file_settings J (sa_file s) = Some c" "sb_configured A c (sa_blocker s)"
  shows "\<exists>c. sa_latest (standard_refreshes A J rs s) = Some c \<and> file_settings J (sa_file (standard_refreshes A J rs s)) = Some c \<and>
             sb_configured A c (sa_blocker (standard_refreshes A J rs s))"
  using assms
proof (induction A J rs s arbitrary: c rule: standard_refreshes.induct)
  case (2 A J got werr now rs s)
  show ?case
  proof (cases "snd (standard_Refresh A J got werr now s) = s")
    case True
    then show ?thesis using "2.IH" [of c] "2.prems" by simp
  next
    case False
    define conf where "conf = (case got of Inl _ \<Rightarrow> empty_standard_config | Inr None \<Rightarrow> empty_standard_config | Inr (Some c) \<Rightarrow> c)"
    have werr: "werr = None" using "2.prems"(2) by simp
    from False have "snd (standard_Refresh A J got werr now s) =
        s\<lparr>sa_latest := Some conf, sa_blocker := SetConfig A conf (sa_blocker s), sa_file := snd (writeCache J werr now conf (sa_file s))\<rparr>"
      by (auto simp: standard_Refresh_def conf_def split_beta Let_def split: sum.splits option.splits)
    then show ?thesis using "2.IH" [of conf] "2.prems"(1,2) werr by (simp add: writeCache_settings)
  qed
qed auto

text \<open>
  The cache brings the standard settings back after a restart.  When the cache could be written by every
  refresh, a start from its file sets the settings that were in force, however often they had
  changed, so that the same requests are blocked as before.
\<close>

theorem standard_settings_survive_restart:
  assumes "sa_env_ok J" "no_file_errors fe" "no_file_errors fe'" "file_settings J file = Some c0"
    and "NewStandardAccess A J fe b file = Inr s0" "\<forall>(got, werr, now) \<in> set rs. werr = None"
  shows "case NewStandardAccess A J fe' b' (sa_file (standard_refreshes A J rs s0)) of
           Inl _ \<Rightarrow> False
         | Inr s \<Rightarrow> sa_latest s = sa_latest (standard_refreshes A J rs s0) \<and>
                   (\<forall>req rAddr l. sb_IsBlocked A (sa_blocker s) req rAddr l \<longleftrightarrow>
                      sb_IsBlocked A (sa_blocker (standard_refreshes A J rs s0)) req rAddr l)"
proof -
  have "s0 = \<lparr>sa_latest = Some c0, sa_blocker = SetConfig A c0 b, sa_file = file\<rparr>"
    using NewStandardAccess_settings [OF assms(1,2,4), of A b] assms(5) by simp
  then obtain c where c: "sa_latest (standard_refreshes A J rs s0) = Some c"
    "file_settings J (sa_file (standard_refreshes A J rs s0)) = Some c" "sb_configured A c (sa_blocker (standard_refreshes A J rs s0))"
    using standard_refreshes_cached [OF assms(1,6), of s0 c0 A] assms(4) by auto
  show ?thesis
    using NewStandardAccess_settings [OF assms(1,3) c(2), of A b'] c(1) sb_IsBlocked_spec [OF c(3)]
    by (simp add: sb_IsBlocked_spec [OF SetConfig_configured])
qed

instance addr :: countable
  by countable_datatype

definition ex_prefix_tuples :: "prefix list \<Rightarrow> (addr \<times> int) list" where
  "ex_prefix_tuples = map (\<lambda>p. (pfx_addr p, pfx_bits p))"

definition ex_tuples_prefix :: "(addr \<times> int) list \<Rightarrow> prefix list" where
  "ex_tuples_prefix = map (\<lambda>(a, b). \<lparr>pfx_addr = a, pfx_bits = b\<rparr>)"

definition ex_sa_env :: sa_env where
  "ex_sa_env =
     \<lparr>sa_NotEmptySlice = (\<lambda>b. case b of None \<Rightarrow> Some ErrNoValue | Some b \<Rightarrow> if b = [] then Some ErrEmptyValue else None),
      sa_Unmarshal = (\<lambda>b. case from_nat (length b - 1) of (an, bn, aa, ba, rs, v) \<Rightarrow>
        Some \<lparr>sc_AllowedNets = ex_tuples_prefix an, sc_BlockedNets = ex_tuples_prefix bn, sc_AllowedASN = aa, sc_BlockedASN = ba,
              sc_BlocklistDomainRules = rs, SchemaVersion = v\<rparr>),
      sa_Marshal = (\<lambda>s. replicate (1 + to_nat (ex_prefix_tuples (sc_AllowedNets s), ex_prefix_tuples (sc_BlockedNets s),
        sc_AllowedASN s, sc_BlockedASN s, sc_BlocklistDomainRules s, SchemaVersion s)) CHR ''1'')\<rparr>"

lemma ex_tuples_prefix_inverse: "ex_tuples_prefix (ex_prefix_tuples ps) = ps"
  by (induction ps) (simp_all add: ex_tuples_prefix_def ex_prefix_tuples_def)

lemma ex_sa_env_ok: "sa_env_ok ex_sa_env"
  by (simp add: sa_env_ok_def ex_sa_env_def ex_tuples_prefix_inverse)

definition ex_access_env :: "string access_env" where
  "ex_access_env = \<lparr>ax_U = ex_urlfilter False, ax_lower = id\<rparr>"

theorem standard_settings_survive_restart_witness:
  "(let c = empty_standard_config\<lparr>sc_BlockedASN := [7]\<rparr>; b = NewStandardBlocker ex_access_env [] empty_standard_config;
        s0 = \<lparr>sa_latest = Some empty_standard_config, sa_blocker = b, sa_file = None\<rparr>;
        s = standard_refreshes ex_access_env ex_sa_env [(Inr (Some c), None, 5), (Inl (), None, 6)] s0
    in NewStandardAccess ex_access_env ex_sa_env ex_file_env b None = Inr s0 \<and> sa_latest s = Some c \<and>
       (case NewStandardAccess ex_access_env ex_sa_env ex_file_env b (sa_file s) of Inl _ \<Rightarrow> False | Inr s' \<Rightarrow> sa_latest s' = Some c))"
proof -
  let ?c = "empty_standard_config\<lparr>sc_BlockedASN := [7]\<rparr>" and ?b = "NewStandardBlocker ex_access_env [] empty_standard_config"
  let ?rs = "[(Inr (Some ?c), None, 5), (Inl (), None, 6)] :: ((unit, standard_config option) result \<times> unit option \<times> time) list"
  let ?start = "\<lparr>sa_latest = Some empty_standard_config, sa_blocker = ?b, sa_file = None\<rparr>"
  let ?s = "standard_refreshes ex_access_env ex_sa_env ?rs ?start"
  have fe: "no_file_errors ex_file_env" by (simp add: no_file_errors_def ex_file_env_def)
  have fi: "file_settings ex_sa_env None = Some empty_standard_config" by (simp add: file_settings_def)
  have new: "NewStandardAccess ex_access_env ex_sa_env ex_file_env ?b None = Inr ?start"
    using NewStandardAccess_settings [OF ex_sa_env_ok fe fi, of ex_access_env ?b] by (simp add: NewStandardBlocker_def SetConfig_def)
  have latest: "sa_latest ?s = Some ?c"
    by (simp add: standard_Refresh_def standard_Equal_def writeCache_def empty_standard_config_def Let_def)
  show ?thesis
    using standard_settings_survive_restart [OF ex_sa_env_ok fe fe fi new, of ?rs ?b] new latest
    by (simp add: Let_def del: standard_refreshes.simps split: sum.splits)
qed

text \<open>
  A cache that could not be written stays as it is.  The settings are recorded as the latest before the cache is written, so that
  the refreshes that follow a failed write report success and do not write it, as long as the settings stay the same.
\<close>

theorem standard_cache_write_not_retried:
  fixes e :: 'e
  assumes "sa_latest s \<noteq> Some c"
  shows "case standard_Refresh A J (Inr (Some c)) (Some e) now s of
           (r, s') \<Rightarrow> r = Some (WritingCache e) \<and> sa_file s' = sa_file s \<and>
                      (\<forall>(werr :: 'e option) now'. standard_Refresh A J (Inr (Some c)) werr now' s' = (None, s'))"
  using assms by (auto simp: standard_Refresh_def standard_Equal_eq writeCache_def)

theorem standard_cache_write_not_retried_witness:
  "(let c = empty_standard_config\<lparr>sc_BlockedASN := [7]\<rparr>;
        s = \<lparr>sa_latest = Some empty_standard_config, sa_blocker = NewStandardBlocker ex_access_env [] empty_standard_config, sa_file = None\<rparr>
    in case standard_Refresh ex_access_env ex_sa_env (Inr (Some c)) (Some ()) 5 s of
         (r, s') \<Rightarrow> r = Some (WritingCache ()) \<and> sa_file s' = None \<and>
                    standard_Refresh ex_access_env ex_sa_env (Inr (Some c)) (None :: unit option) 9 s' = (None, s'))"
proof -
  let ?s = "\<lparr>sa_latest = Some empty_standard_config, sa_blocker = NewStandardBlocker ex_access_env [] empty_standard_config, sa_file = None\<rparr>"
  have "sa_latest ?s \<noteq> Some (empty_standard_config\<lparr>sc_BlockedASN := [7]\<rparr>)" by (simp add: empty_standard_config_def)
  from standard_cache_write_not_retried [OF this, where A = ex_access_env and J = ex_sa_env and e = "()" and now = 5] show ?thesis by (auto simp: Let_def)
qed

end
