(* ===== verification/Dns_Constructor.thy ===== *)
theory Dns_Constructor
  imports Dns_Msg Rule_List_Storage
begin

text \<open>
  The configuration of message constructors (\<open>internal/dnsmsg/constructor.go\<close>) with the structured DNS errors
  (\<open>internal/dnsmsg/structurederror.go\<close>), whose text is JSON as \<^verbatim>\<open>json.Marshal\<close> writes it.
\<close>

subsection \<open>JSON texts\<close>

definition json_hex :: "nat \<Rightarrow> char" where
  "json_hex n = (if n < 10 then char_of (48 + n) else char_of (87 + n))"

definition json_unicode :: "rune \<Rightarrow> string" where
  "json_unicode r = [CHR 0x5C, CHR ''u'', json_hex (r div 4096 mod 16), json_hex (r div 256 mod 16), json_hex (r div 16 mod 16), json_hex (r mod 16)]"

text \<open>
  The text of one rune that takes the given bytes.  Ill-formed bytes give the escape of the replacement character;
  characters that are special in HTML and the line separators of JavaScript are escaped as well.
\<close>

definition json_rune :: "rune \<Rightarrow> string \<Rightarrow> string" where
  "json_rune r bytes =
     (if r = 0x22 \<or> r = 0x5C then CHR 0x5C # bytes
      else if r = 8 then [CHR 0x5C, CHR ''b'']
      else if r = 12 then [CHR 0x5C, CHR ''f'']
      else if r = 10 then [CHR 0x5C, CHR ''n'']
      else if r = 13 then [CHR 0x5C, CHR ''r'']
      else if r = 9 then [CHR 0x5C, CHR ''t'']
      else if r < 0x20 \<or> r = 0x26 \<or> r = 0x3C \<or> r = 0x3E \<or> r = 0x2028 \<or> r = 0x2029 \<or> r = rune_error \<and> length bytes = 1 then json_unicode r
      else bytes)"

function json_escape :: "string \<Rightarrow> string" where
  "json_escape s =
     (if s = [] then []
      else json_rune (fst (decode_rune s)) (take (snd (decode_rune s)) s) @ json_escape (drop (snd (decode_rune s)) s))"
  by pat_completeness auto
termination
  by (relation "measure length") (auto simp: decode_rune_width)

declare json_escape.simps [simp del]

definition json_string :: "string \<Rightarrow> string" where
  "json_string s = CHR 0x22 # json_escape s @ [CHR 0x22]"

definition json_string_list :: "string list \<Rightarrow> string" where
  "json_string_list ss = (if ss = [] then ''null'' else ''['' @ join_with (CHR '','') (map json_string ss) @ '']'')"

subsection \<open>Structured errors\<close>

record sde_config =
  Justification :: string
  Organization :: string
  Contact :: "parsed_url option list"
  sde_Enabled :: bool

definition iJSON :: "sde_config \<Rightarrow> string" where
  "iJSON c =
     ''{'' @ json_string ''j'' @ '':'' @ json_string (Justification c) @
     (if Organization c = [] then [] else '','' @ json_string ''o'' @ '':'' @ json_string (Organization c)) @
     '','' @ json_string ''c'' @ '':'' @ json_string_list (map (\<lambda>u. pu_String (the u)) (Contact c)) @ ''}''"

definition isSurrogateOrNonCharacter :: "rune \<Rightarrow> bool" where
  "isSurrogateOrNonCharacter r \<longleftrightarrow>
     0xD800 \<le> r \<and> r \<le> 0xDFFF \<or> 0xFDD0 \<le> r \<and> r \<le> 0xFDEF \<or> r \<le> 0x10FFFF \<and> r mod 0x10000 \<in> {0xFFFE, 0xFFFF}"

definition validateSDEString :: "string \<Rightarrow> nat option" where
  "validateSDEString s = map_option fst (find (\<lambda>(i, r). isSurrogateOrNonCharacter r) (runes_from 0 s))"

definition validateSDEContactURL :: "parsed_url option \<Rightarrow> bool" where
  "validateSDEContactURL u =
     (case u of None \<Rightarrow> False | Some u \<Rightarrow> to_lower (pu_Scheme u) \<in> {''mailto'', ''sips'', ''tel''})"

datatype sde_error =
    EDEDisabled
  | NoContact
  | BadContact nat
  | NoJustification
  | BadJustification nat
  | BadOrganization nat

definition sde_validate :: "sde_config \<Rightarrow> bool \<Rightarrow> sde_error list" where
  "sde_validate c edeEnabled =
     (if \<not> sde_Enabled c then []
      else if \<not> edeEnabled then [EDEDisabled]
      else (if Contact c = [] then [NoContact] else []) @
           map BadContact (filter (\<lambda>i. \<not> validateSDEContactURL (Contact c ! i)) [0..<length (Contact c)]) @
           (if Justification c = [] then [NoJustification]
            else (case validateSDEString (Justification c) of None \<Rightarrow> [] | Some i \<Rightarrow> [BadJustification i])) @
           (case validateSDEString (Organization c) of None \<Rightarrow> [] | Some i \<Rightarrow> [BadOrganization i]))"

subsection \<open>Constructors\<close>

text \<open>The cloner of the configuration is its pool of OPT records, see \<open>constructor\<close>; nil pointers are \<open>None\<close>.\<close>

record constructor_config =
  cc_Cloner :: "rr_header option"
  cc_StructuredErrors :: "sde_config option"
  cc_BlockingMode :: "blocking_mode option"
  cc_FilteredResponseTTL :: duration
  cc_EDEEnabled :: bool

datatype constructor_error = NilCloner | NilSDE | BadSDE "sde_error list" | NilBlockingMode | NegativeTTL

definition constructor_validate :: "constructor_config \<Rightarrow> constructor_error list" where
  "constructor_validate conf =
     (if cc_Cloner conf = None then [NilCloner] else []) @
     (case cc_StructuredErrors conf of
        None \<Rightarrow> [NilSDE]
      | Some c \<Rightarrow> (case sde_validate c (cc_EDEEnabled conf) of [] \<Rightarrow> [] | es \<Rightarrow> [BadSDE es])) @
     (if cc_BlockingMode conf = None then [NilBlockingMode] else []) @
     (if cc_FilteredResponseTTL conf < 0 then [NegativeTTL] else [])"

definition NewConstructor :: "constructor_config \<Rightarrow> (constructor_error list, constructor) result" where
  "NewConstructor conf =
     (case constructor_validate conf of
        e # es \<Rightarrow> Inl (e # es)
      | [] \<Rightarrow>
          (let sdeConf = the (cc_StructuredErrors conf)
           in Inr \<lparr>c_optPool = the (cc_Cloner conf), c_blockingMode = the (cc_BlockingMode conf),
                   c_sde = (if sde_Enabled sdeConf then iJSON sdeConf else []),
                   c_fltRespTTL = cc_FilteredResponseTTL conf, c_edeEnabled = cc_EDEEnabled conf\<rparr>))"

text \<open>What a constructor that could be made guarantees.\<close>

lemma NewConstructor_ok:
  assumes "NewConstructor conf = Inr c"
  shows "0 \<le> c_fltRespTTL c" "c_sde c \<noteq> [] \<Longrightarrow> c_edeEnabled c" "cc_BlockingMode conf = Some (c_blockingMode c)"
  using assms
  by (auto simp: NewConstructor_def constructor_validate_def sde_validate_def Let_def split: list.splits option.splits if_splits)

end
