(* ===== verification/Agd_Server.thy ===== *)
theory Agd_Server
  imports Prelude
begin

text \<open>
  Servers of \<open>internal/agd/server.go\<close> with their bind data, and the protocols of
  \<open>internal/dnsserver/protocol.go\<close>.  The transport settings of a server are not read by the parts
  modelled here and are left out, as is the listen configuration of a bind-data element.
\<close>

subsection \<open>Protocols\<close>

datatype protocol = ProtoInvalid | ProtoDNS | ProtoDoH | ProtoDoQ | ProtoDoT | ProtoDNSCrypt

fun proto_String :: "protocol \<Rightarrow> string" where
  "proto_String ProtoDNS = ''dns''"
| "proto_String ProtoDoH = ''doh''"
| "proto_String ProtoDoQ = ''doq''"
| "proto_String ProtoDoT = ''dot''"
| "proto_String ProtoDNSCrypt = ''dnscrypt''"
| "proto_String ProtoInvalid = ''!bad_protocol_0''"

definition IsStdEncrypted :: "protocol \<Rightarrow> bool" where
  "IsStdEncrypted p \<longleftrightarrow> p = ProtoDoT \<or> p = ProtoDoH \<or> p = ProtoDoQ"

definition HasPaddingSupport :: "protocol \<Rightarrow> bool" where
  "HasPaddingSupport p = IsStdEncrypted p"

subsection \<open>Servers\<close>

record prefix_net_addr =
  pna_Prefix :: prefix
  pna_Port :: "16 word"

record bind_data =
  PrefixAddr :: "prefix_net_addr option"
  AddrPort :: addr_port

record server =
  srv_Name :: string
  bindData :: "bind_data list"
  Protocol :: protocol
  LinkedIPEnabled :: bool

text \<open>\<open>None\<close> is the panic of \<open>SetBindData\<close> on empty or inconsistent data.\<close>

definition SetBindData :: "bind_data list \<Rightarrow> server \<Rightarrow> server option" where
  "SetBindData bds s =
     (case bds of
        [] \<Rightarrow> None
      | [_] \<Rightarrow> Some (s\<lparr>bindData := bds\<rparr>)
      | bd # rest \<Rightarrow>
          (let firstIsAddrPort = (PrefixAddr bd = None)
           in if list_ex (\<lambda>bd. (PrefixAddr bd = None) \<noteq> firstIsAddrPort) rest then None
              else Some (s\<lparr>bindData := bds\<rparr>)))"

definition bd_has_addr :: "addr_port \<Rightarrow> bind_data \<Rightarrow> bool" where
  "bd_has_addr ap bd =
     (case PrefixAddr bd of
        None \<Rightarrow> AddrPort bd = ap
      | Some pa \<Rightarrow>
          prefix_is_single_ip (pna_Prefix pa) \<and> pfx_addr (pna_Prefix pa) = ap_addr ap \<and>
          pna_Port pa = ap_port ap)"

definition HasAddr :: "server \<Rightarrow> addr_port \<Rightarrow> bool" where
  "HasAddr s ap = list_ex (bd_has_addr ap) (bindData s)"

definition HasIPv6 :: "server \<Rightarrow> bool" where
  "HasIPv6 s = list_ex (\<lambda>bd. addr_is6 (ap_addr (AddrPort bd))) (bindData s)"

definition BindsToInterfaces :: "server \<Rightarrow> bool" where
  "BindsToInterfaces s \<longleftrightarrow> 0 < length (bindData s) \<and> PrefixAddr (bindData s ! 0) \<noteq> None"

definition bd_prefix :: "bind_data \<Rightarrow> prefix" where
  "bd_prefix bd =
     (case PrefixAddr bd of
        None \<Rightarrow> prefix_from (ap_addr (AddrPort bd)) (int (addr_bit_len (ap_addr (AddrPort bd))))
      | Some pa \<Rightarrow> pna_Prefix pa)"

definition BindDataPrefixes :: "server \<Rightarrow> prefix list" where
  "BindDataPrefixes s = map bd_prefix (bindData s)"

subsection \<open>Properties\<close>

text \<open>
  The data that \<open>SetBindData\<close> accepts are all of one kind, so the first element tells it for all.
\<close>

lemma SetBindData_consistent:
  assumes "SetBindData bds s = Some s'"
  shows "bindData s' = bds" and "BindsToInterfaces s' \<longleftrightarrow> (\<forall>bd \<in> set bds. PrefixAddr bd \<noteq> None)"
  using assms
  by (auto simp: SetBindData_def BindsToInterfaces_def Let_def list_ex_iff split: list.splits if_splits)

text \<open>
  A server that is bound to interfaces has an address only if it is one of its single-address
  subnets, with the same port; a server bound to addresses has exactly these.
\<close>

lemma HasAddr_iff:
  assumes "SetBindData bds s = Some s'"
  shows "HasAddr s' ap \<longleftrightarrow>
           (if BindsToInterfaces s'
            then \<exists>bd \<in> set bds. \<exists>pa. PrefixAddr bd = Some pa \<and> prefix_is_single_ip (pna_Prefix pa) \<and>
                   pfx_addr (pna_Prefix pa) = ap_addr ap \<and> pna_Port pa = ap_port ap
            else ap \<in> AddrPort ` set bds)"
proof (cases "BindsToInterfaces s'")
  case True
  with SetBindData_consistent [OF assms] have "bd_has_addr ap bd \<longleftrightarrow>
      (\<exists>pa. PrefixAddr bd = Some pa \<and> prefix_is_single_ip (pna_Prefix pa) \<and>
         pfx_addr (pna_Prefix pa) = ap_addr ap \<and> pna_Port pa = ap_port ap)" if "bd \<in> set bds" for bd
    using that by (auto simp: bd_has_addr_def split: option.split)
  with True SetBindData_consistent(1) [OF assms] show ?thesis
    by (simp add: HasAddr_def list_ex_iff)
next
  case False
  have "\<forall>bd \<in> set bds. PrefixAddr bd = None"
    using False SetBindData_consistent(1) [OF assms] assms
    by (auto simp: SetBindData_def BindsToInterfaces_def Let_def list_ex_iff split: list.splits if_splits)
  with False SetBindData_consistent(1) [OF assms] show ?thesis
    by (auto simp: HasAddr_def bd_has_addr_def list_ex_iff)
qed

definition ex_iface_bind :: "addr \<Rightarrow> int \<Rightarrow> bind_data" where
  "ex_iface_bind a n =
     \<lparr>PrefixAddr = Some \<lparr>pna_Prefix = \<lparr>pfx_addr = a, pfx_bits = n\<rparr>, pna_Port = 53\<rparr>,
      AddrPort = \<lparr>ap_addr = AddrZero, ap_port = 0\<rparr>\<rparr>"

definition ex_server :: server where
  "ex_server = \<lparr>srv_Name = ''srv'', bindData = [], Protocol = ProtoDNS, LinkedIPEnabled = True\<rparr>"

text \<open>
  \<open>HasIPv6\<close> is false for a server that is bound to an IPv6 subnet of an interface, because it looks
  at the address-port pair only, which is not set then.
\<close>

theorem HasIPv6_ignores_interface_prefixes:
  "\<exists>s'. SetBindData [ex_iface_bind (Addr6 0x20010db8000000000000000000000000 []) 32] ex_server = Some s' \<and>
        BindDataPrefixes s' = [\<lparr>pfx_addr = Addr6 0x20010db8000000000000000000000000 [], pfx_bits = 32\<rparr>] \<and>
        \<not> HasIPv6 s'"
  by (simp add: SetBindData_def BindDataPrefixes_def bd_prefix_def HasIPv6_def ex_iface_bind_def)

end
