(* ===== verification/Device_Finder.thy ===== *)
theory Device_Finder
  imports Agd_Ids Agd_Server Go_Strings Dns_Types Profile_DB
begin

text \<open>
  The device finder, \<open>internal/dnssvc/internal/devicefinder\<close>: how a request is attributed to a profile
  and a device.  The identifying data come from the EDNS option of a plain request, or from the HTTP
  userinfo, the URL path or the TLS server name of an encrypted one; they are looked up in the
  profile database of \<open>Profile_DB\<close>, whose state changes only when a device is created automatically.
  The database of custom domains and the check for immediate subdomains (golibs) are functions of
  the record \<open>finder\<close>.  Logging and metrics are left out.
\<close>

subsection \<open>Data\<close>

datatype device_data =
    DeviceDataExtHumanID string profile_id nat
  | DeviceDataID device_id
  | DeviceDataCustomDomain device_data string "profile_id list"

datatype path_error = NoPathElems | ExtraPathElems nat | NotDNSPath

text \<open>What went wrong with the device data; \<open>PanicSlice\<close> and \<open>PanicData\<close> are run-time panics.\<close>

datatype dd_error =
    BadID id_error
  | BadPath path_error
  | ProfileMismatch profile_id
  | NotExtHumanID
  | PanicSlice
  | PanicData

datatype dd_source = DDBasicAuth | DDHTTPPath | DDTLSServerName | DDCustomDomain | DDEDNSOption

datatype 'e finder_error = DeviceDataError dd_source dd_error | DBError 'e

datatype auth_error = ErrAuthenticationFailed | ErrNoPassword | ErrNoUserInfo | ErrNotDoH

datatype ('e, 'x) device_result =
    DeviceResultAuthenticationFailure auth_error
  | DeviceResultError "'e finder_error"
  | DeviceResultOK "'x profile_scheme" device
  | DeviceResultUnknownDedicated lookup_error

text \<open>
  The information of the server about a request: the TLS server name of the client, the user name
  and password of the HTTP request, and the path of its URL.
\<close>

record req_info =
  TLSServerName :: "string option"
  Userinfo :: "(string \<times> string option) option"
  URLPath :: string

record 'e finder =
  f_nu :: netutil
  f_srv :: server
  f_match :: "string \<Rightarrow> string \<times> profile_id list option"
  f_immSub :: "string \<Rightarrow> string \<Rightarrow> bool"
  f_deviceDomains :: "string list"
  f_storage :: "profile_id \<Rightarrow> string \<Rightarrow> nat \<Rightarrow> ('e, device) result"
  f_bcrypt :: "string \<Rightarrow> string \<Rightarrow> bool"

subsection \<open>Extended human-readable identifiers\<close>

definition isLikelyExtHumanID :: "string \<Rightarrow> bool" where
  "isLikelyExtHumanID s \<longleftrightarrow> 2 \<le> count_char (CHR ''-'') s"

definition parseExtHumanID :: "netutil \<Rightarrow> string \<Rightarrow> (dd_error, device_data) result" where
  "parseExtHumanID nu s =
     (case split_n 3 (CHR ''-'') s of
        [p0, p1, p2] \<Rightarrow>
          (case DeviceTypeFromDNS p0 of
             Inl e \<Rightarrow> Inl (BadID e)
           | Inr dt \<Rightarrow>
               (case NewProfileID (to_lower p1) of
                  Inl e \<Rightarrow> Inl (BadID e)
                | Inr profID \<Rightarrow>
                    (case ParseNormalized nu p2 of
                       Inl e \<Rightarrow> Inl (BadID e)
                     | Inr humanID \<Rightarrow> Inr (DeviceDataExtHumanID humanID profID dt))))
      | _ \<Rightarrow> Inl NotExtHumanID)"

definition parseDeviceData :: "netutil \<Rightarrow> string \<Rightarrow> (dd_error, device_data) result" where
  "parseDeviceData nu s =
     (if isLikelyExtHumanID s then parseExtHumanID nu s
      else (case NewDeviceID nu (to_lower s) of
              Inl e \<Rightarrow> Inl (BadID e)
            | Inr i \<Rightarrow> Inr (DeviceDataID i)))"

subsection \<open>Device data of a request\<close>

definition DnsmasqCPEIDOption :: "16 word" where
  "DnsmasqCPEIDOption = 65074"

definition deviceIDFromENDSOPT :: "netutil \<Rightarrow> edns0 \<Rightarrow> (id_error, device_id) result" where
  "deviceIDFromENDSOPT nu opt =
     (case opt of
        EDNS0_LOCAL code data \<Rightarrow> if code \<noteq> DnsmasqCPEIDOption then Inr [] else NewDeviceID nu data
      | _ \<Rightarrow> Inr [])"

fun deviceID_options :: "netutil \<Rightarrow> edns0 list \<Rightarrow> (id_error, device_id) result" where
  "deviceID_options nu [] = Inr []"
| "deviceID_options nu (opt # opts) =
     (case deviceIDFromENDSOPT nu opt of
        Inl e \<Rightarrow> Inl e
      | Inr i \<Rightarrow> if i \<noteq> [] then Inr i else deviceID_options nu opts)"

definition deviceIDFromEDNS :: "dnslib \<Rightarrow> netutil \<Rightarrow> msg \<Rightarrow> (id_error, device_id) result" where
  "deviceIDFromEDNS L nu req =
     (case dl_IsEdns0 L req of
        None \<Rightarrow> Inr []
      | Some i \<Rightarrow> deviceID_options nu (opt_options (Data (Extra req ! i))))"

definition PathDoH :: string where
  "PathDoH = ''/dns-query''"

definition PathJSON :: string where
  "PathJSON = ''/resolve''"

definition pathElements :: "string \<Rightarrow> (path_error, string list) result" where
  "pathElements urlPath =
     (let elems = split_at (CHR ''/'') (path_clean urlPath);
          elems = (if hd elems = [] then tl elems else elems);
          l = length elems
      in if l = 0 \<or> hd elems = [] then Inl NoPathElems
         else if 2 < l then Inl (ExtraPathElems (l - 2))
         else if \<not> has_suffix PathDoH (hd elems) \<and> \<not> has_suffix PathJSON (hd elems) then Inl NotDNSPath
         else Inr elems)"

definition deviceDataFromDoHURL :: "netutil \<Rightarrow> string \<Rightarrow> (dd_error, device_data option) result" where
  "deviceDataFromDoHURL nu urlPath =
     (case pathElements urlPath of
        Inl e \<Rightarrow> Inl (BadPath e)
      | Inr elems \<Rightarrow>
          if length elems = 2 then map_sum id Some (parseDeviceData nu (elems ! 1)) else Inr None)"

definition deviceDataForDoH ::
  "netutil \<Rightarrow> req_info \<Rightarrow> ('e finder_error, device_data option) result" where
  "deviceDataForDoH nu ri =
     (case Userinfo ri of
        Some (username, _) \<Rightarrow>
          (case NewDeviceID nu username of
             Inl e \<Rightarrow> Inl (DeviceDataError DDBasicAuth (BadID e))
           | Inr i \<Rightarrow> Inr (Some (DeviceDataID i)))
      | None \<Rightarrow>
          (case deviceDataFromDoHURL nu (URLPath ri) of
             Inl e \<Rightarrow> Inl (DeviceDataError DDHTTPPath e)
           | Inr dd \<Rightarrow> Inr dd))"

definition matchDomain :: "(string \<Rightarrow> string \<Rightarrow> bool) \<Rightarrow> string \<Rightarrow> string list \<Rightarrow> string" where
  "matchDomain immSub sub domains =
     (case find (immSub (to_lower sub)) domains of None \<Rightarrow> [] | Some d \<Rightarrow> d)"

definition deviceDataFromCliSrvName ::
  "'e finder \<Rightarrow> string \<Rightarrow> string \<Rightarrow> (dd_error, device_data option) result" where
  "deviceDataFromCliSrvName f cliSrvName customDomain =
     (if cliSrvName = [] then Inr None
      else
        (let matchedDomain =
               (if customDomain = [] then matchDomain (f_immSub f) cliSrvName (f_deviceDomains f)
                else customDomain)
         in if matchedDomain = [] then Inr None
            else if length cliSrvName < length matchedDomain + 1 then Inl PanicSlice
            else map_sum id Some
                   (parseDeviceData (f_nu f) (take (length cliSrvName - length matchedDomain - 1) cliSrvName))))"

definition deviceDataFromSrvReqInfo ::
  "'e finder \<Rightarrow> req_info \<Rightarrow> string \<Rightarrow> string \<Rightarrow> ('e finder_error, device_data option) result" where
  "deviceDataFromSrvReqInfo f ri customDomain cliSrvName =
     (let tls =
            (if f_deviceDomains f = [] \<and> customDomain = [] then Inr None
             else if customDomain \<noteq> [] \<and> \<not> has_prefix customDomain ''*.'' then Inr None
             else (case deviceDataFromCliSrvName f cliSrvName (trim_prefix customDomain ''*.'') of
                     Inl e \<Rightarrow> Inl (DeviceDataError DDTLSServerName e)
                   | Inr dd \<Rightarrow> Inr dd))
      in if Protocol (f_srv f) = ProtoDoH then
           (case deviceDataForDoH (f_nu f) ri of
              Inl e \<Rightarrow> Inl e
            | Inr (Some dd) \<Rightarrow> Inr (Some dd)
            | Inr None \<Rightarrow> tls)
         else tls)"

definition wrapCustomDomain ::
  "device_data option \<Rightarrow> string \<Rightarrow> profile_id list option \<Rightarrow> ('e finder_error, device_data option) result" where
  "wrapCustomDomain dd matchedDomain requiredProfileIDs =
     (case requiredProfileIDs of
        None \<Rightarrow> Inr dd
      | Some ids \<Rightarrow>
          (case dd of
             None \<Rightarrow> Inr None
           | Some (DeviceDataExtHumanID h pid dt) \<Rightarrow>
               if pid \<notin> set ids then Inl (DeviceDataError DDCustomDomain (ProfileMismatch pid))
               else Inr (Some (DeviceDataCustomDomain (DeviceDataExtHumanID h pid dt) matchedDomain ids))
           | Some (DeviceDataID i) \<Rightarrow> Inr (Some (DeviceDataCustomDomain (DeviceDataID i) matchedDomain ids))
           | Some (DeviceDataCustomDomain _ _ _) \<Rightarrow> Inl (DeviceDataError DDCustomDomain PanicData)))"

definition deviceDataFromEncrypted ::
  "'e finder \<Rightarrow> req_info \<Rightarrow> ('e finder_error, device_data option) result" where
  "deviceDataFromEncrypted f ri =
     (let cliSrvName = (case TLSServerName ri of None \<Rightarrow> [] | Some n \<Rightarrow> n);
          (customDomain, requiredProfileIDs) =
            (if cliSrvName \<noteq> [] then f_match f (to_lower cliSrvName) else ([], None))
      in case deviceDataFromSrvReqInfo f ri customDomain cliSrvName of
           Inl e \<Rightarrow> Inl e
         | Inr dd \<Rightarrow> wrapCustomDomain dd customDomain requiredProfileIDs)"

definition deviceData ::
  "dnslib \<Rightarrow> 'e finder \<Rightarrow> msg \<Rightarrow> req_info \<Rightarrow> ('e finder_error, device_data option) result" where
  "deviceData L f req ri =
     (if IsStdEncrypted (Protocol (f_srv f)) then deviceDataFromEncrypted f ri
      else (case deviceIDFromEDNS L (f_nu f) req of
              Inl e \<Rightarrow> Inl (DeviceDataError DDEDNSOption (BadID e))
            | Inr i \<Rightarrow> if i = [] then Inr None else Inr (Some (DeviceDataID i))))"

subsection \<open>Finding the device\<close>

text \<open>
  The result of a query of the profile database: the device result, the database after it, and the
  removal tasks that were started.
\<close>

type_synonym ('e, 'x) found = "('e, 'x) device_result option \<times> 'x db \<times> db_task list"

text \<open>Every error of a lookup is one of the two not-found errors, which make the result nil.\<close>

definition newDeviceResult ::
  "('e, ('x profile_scheme \<times> device) option) result \<Rightarrow> ('e, 'x) device_result option" where
  "newDeviceResult r =
     (case r of
        Inr None \<Rightarrow> None
      | Inr (Some (p, d)) \<Rightarrow> Some (DeviceResultOK p d)
      | Inl e \<Rightarrow> Some (DeviceResultError (DBError e)))"

definition lookup_result ::
  "(lookup_error, 'x profile_scheme \<times> device) result \<Rightarrow> ('e, ('x profile_scheme \<times> device) option) result" where
  "lookup_result r = (case r of Inl _ \<Rightarrow> Inr None | Inr pd \<Rightarrow> Inr (Some pd))"

definition deviceByExtID ::
  "'e finder \<Rightarrow> string \<Rightarrow> profile_id \<Rightarrow> nat \<Rightarrow> 'x db \<Rightarrow>
     ('e, ('x profile_scheme \<times> device) option) result \<times> 'x db \<times> db_task list" where
  "deviceByExtID f humanID profID devType db =
     (case ProfileByHumanID profID (HumanIDToLower humanID) db of
        (Inr pd, ts) \<Rightarrow> (Inr (Some pd), db, ts)
      | (Inl ErrProfileNotFound, ts) \<Rightarrow> (Inr None, db, ts)
      | (Inl ErrDeviceNotFound, ts) \<Rightarrow>
          (case CreateAutoDevice (f_storage f) profID humanID devType db of
             (Inr pd, db) \<Rightarrow> (Inr (Some pd), db, ts)
           | (Inl (ErrLookup _), db) \<Rightarrow> (Inr None, db, ts)
           | (Inl (ErrStorage e), db) \<Rightarrow> (Inl e, db, ts)
           | (Inl (ErrCache e), db) \<Rightarrow> (Inl e, db, ts)))"

definition deviceResultByCustomDomain ::
  "'e finder \<Rightarrow> device_data \<Rightarrow> profile_id list \<Rightarrow> 'x db \<Rightarrow> ('e, 'x) found" where
  "deviceResultByCustomDomain f dd profileIDs db =
     (case dd of
        DeviceDataID i \<Rightarrow>
          (case ProfileByDeviceID i db of
             (Inl e, ts) \<Rightarrow> (None, db, ts)
           | (Inr (p, d), ts) \<Rightarrow>
               if p_ID p \<in> set profileIDs then (Some (DeviceResultOK p d), db, ts) else (None, db, ts))
      | DeviceDataExtHumanID h pid dt \<Rightarrow>
          (case deviceByExtID f h pid dt db of (r, db, ts) \<Rightarrow> (newDeviceResult r, db, ts))
      | DeviceDataCustomDomain _ _ _ \<Rightarrow>
          (Some (DeviceResultError (DeviceDataError DDCustomDomain PanicData)), db, []))"

definition deviceByLocalAddr :: "addr \<Rightarrow> 'x db \<Rightarrow> ('e, 'x) found" where
  "deviceByLocalAddr localIP db =
     (case ProfileByDedicatedIP localIP db of
        (Inr (p, d), ts) \<Rightarrow> (Some (DeviceResultOK p d), db, ts)
      | (Inl e, ts) \<Rightarrow> (Some (DeviceResultUnknownDedicated e), db, ts))"

definition deviceByAddrs :: "'e finder \<Rightarrow> addr_port \<Rightarrow> addr \<Rightarrow> 'x db \<Rightarrow> ('e, 'x) found" where
  "deviceByAddrs f laddr remoteIP db =
     (if BindsToInterfaces (f_srv f) \<and> \<not> HasAddr (f_srv f) laddr then deviceByLocalAddr (ap_addr laddr) db
      else if \<not> LinkedIPEnabled (f_srv f) then (None, db, [])
      else (case ProfileByLinkedIP remoteIP db of (r, ts) \<Rightarrow> (newDeviceResult (lookup_result r), db, ts)))"

definition deviceFromDB ::
  "'e finder \<Rightarrow> addr_port \<Rightarrow> addr \<Rightarrow> device_data option \<Rightarrow> 'x db \<Rightarrow> ('e, 'x) found" where
  "deviceFromDB f laddr remoteIP dd db =
     (case dd of
        None \<Rightarrow>
          if Protocol (f_srv f) = ProtoDNS then deviceByAddrs f laddr remoteIP db else (None, db, [])
      | Some (DeviceDataID i) \<Rightarrow>
          (case ProfileByDeviceID i db of (r, ts) \<Rightarrow> (newDeviceResult (lookup_result r), db, ts))
      | Some (DeviceDataExtHumanID h pid dt) \<Rightarrow>
          (case deviceByExtID f h pid dt db of (r, db, ts) \<Rightarrow> (newDeviceResult r, db, ts))
      | Some (DeviceDataCustomDomain dd domain profileIDs) \<Rightarrow>
          deviceResultByCustomDomain f dd profileIDs db)"

definition findDevice ::
  "'e finder \<Rightarrow> addr_port \<Rightarrow> addr \<Rightarrow> device_data option \<Rightarrow> 'x db \<Rightarrow> ('e, 'x) found" where
  "findDevice f laddr remoteIP dd db =
     (case deviceFromDB f laddr remoteIP dd db of
        (Some (DeviceResultOK p d), db, ts) \<Rightarrow>
          if p_Deleted p then (None, db, ts) else (Some (DeviceResultOK p d), db, ts)
      | (r, db, ts) \<Rightarrow> (r, db, ts))"

definition authenticate :: "'e finder \<Rightarrow> req_info \<Rightarrow> device \<Rightarrow> auth_error option" where
  "authenticate f ri dev =
     (let conf = d_Auth dev
      in if \<not> auth_Enabled conf then None
         else if Protocol (f_srv f) \<noteq> ProtoDoH then
           (if DoHAuthOnly conf then Some ErrNotDoH else None)
         else (case Userinfo ri of
                 None \<Rightarrow> if DoHAuthOnly conf then Some ErrNoUserInfo else None
               | Some (_, None) \<Rightarrow> Some ErrNoPassword
               | Some (_, Some password) \<Rightarrow>
                   if \<not> Authenticate (f_bcrypt f) (PasswordHash conf) password
                   then Some ErrAuthenticationFailed else None))"

definition authenticatedResult ::
  "'e finder \<Rightarrow> req_info \<Rightarrow> 'x profile_scheme \<Rightarrow> device \<Rightarrow> ('e, 'x) device_result" where
  "authenticatedResult f ri p d =
     (case authenticate f ri d of
        Some e \<Rightarrow> DeviceResultAuthenticationFailure e
      | None \<Rightarrow> DeviceResultOK p d)"

definition supportsDeviceID :: "protocol \<Rightarrow> bool" where
  "supportsDeviceID p \<longleftrightarrow> p \<in> {ProtoDNS, ProtoDoH, ProtoDoQ, ProtoDoT}"

definition Find ::
  "dnslib \<Rightarrow> 'e finder \<Rightarrow> msg \<Rightarrow> req_info \<Rightarrow> addr_port \<Rightarrow> addr_port \<Rightarrow> 'x db \<Rightarrow> ('e, 'x) found" where
  "Find L f req ri raddr laddr db =
     (if \<not> supportsDeviceID (Protocol (f_srv f)) then (None, db, [])
      else (case deviceData L f req ri of
              Inl e \<Rightarrow> (Some (DeviceResultError e), db, [])
            | Inr dd \<Rightarrow>
                (case findDevice f laddr (ap_addr raddr) dd db of
                   (Some (DeviceResultOK p d), db, ts) \<Rightarrow> (Some (authenticatedResult f ri p d), db, ts)
                 | (r, db, ts) \<Rightarrow> (r, db, ts))))"

end
