(* ===== verification/Ratelimit.thy ===== *)
theory Ratelimit
  imports Dns_Types
begin

text \<open>
  Rate limiting: the request counter, the allowlist and the backoff rate limiter of
  \<open>internal/dnsserver/ratelimit\<close> and the profile rate limiter of \<open>internal/agd/ratelimit.go\<close>.

  The ring buffer (golibs) and the expiring cache (go-cache) are parameters, \<open>ring_ops\<close> and
  \<open>cache_ops\<close>, whose documented behaviour is stated by \<open>ring_ok\<close> and \<open>cache_ok\<close>.  The caches hold pointers
  to counters, and a counter behind a pointer is changed without changing when its entry expires; so
  the limiter has explicit stores of counters, and the caches hold positions in them.  Each operation
  gets one reading of the clock.  A cache key is the subnet itself instead of its text form.
\<close>

subsection \<open>Ring buffer and expiring cache\<close>

record 'r ring_ops =
  rb_New :: "64 word \<Rightarrow> 'r"
  rb_Push :: "64 word \<Rightarrow> 'r \<Rightarrow> 'r"
  rb_Current :: "'r \<Rightarrow> 64 word"

text \<open>
  The current element of a ring buffer of positive size is the oldest one that it keeps, and zero as
  long as it is not full.
\<close>

definition ring_ok :: "'r ring_ops \<Rightarrow> bool" where
  "ring_ok R \<longleftrightarrow>
     (\<forall>n xs. 0 < n \<longrightarrow>
        rb_Current R (fold (rb_Push R) xs (rb_New R n)) =
          (if length xs < unat n then 0 else xs ! (length xs - unat n)))"

record ('c, 'k) cache_ops =
  gc_New :: "duration \<Rightarrow> 'c"
  gc_Get :: "time \<Rightarrow> 'k \<Rightarrow> 'c \<Rightarrow> nat option"
  gc_SetDefault :: "time \<Rightarrow> 'k \<Rightarrow> nat \<Rightarrow> 'c \<Rightarrow> 'c"

text \<open>
  An entry is found until the default expiration, given at construction, has passed since it was set;
  with a nonpositive expiration entries do not expire.
\<close>

definition cache_ok :: "('c, 'k) cache_ops \<Rightarrow> bool" where
  "cache_ok G \<longleftrightarrow>
     (\<exists>dur. (\<forall>d. dur (gc_New G d) = d) \<and> (\<forall>t k v c. dur (gc_SetDefault G t k v c) = dur c) \<and>
        (\<forall>now d k. gc_Get G now k (gc_New G d) = None) \<and>
        (\<forall>now t k k' v c. gc_Get G now k' (gc_SetDefault G t k v c) =
           (if k' = k then (if 0 < dur c \<and> dur c < now - t then None else Some v)
            else gc_Get G now k' c)))"

subsection \<open>The request counter\<close>

record 'r request_counter =
  rc_ring :: 'r
  rc_ivl :: "64 word"

definition NewRequestCounter :: "'r ring_ops \<Rightarrow> 64 word \<Rightarrow> duration \<Rightarrow> 'r request_counter" where
  "NewRequestCounter R num ivl = \<lparr>rc_ring = rb_New R (num + 1), rc_ivl = word_of_int ivl\<rparr>"

definition counter_Add :: "'r ring_ops \<Rightarrow> time \<Rightarrow> 'r request_counter \<Rightarrow> bool \<times> 'r request_counter" where
  "counter_Add R t r =
     (let ts = UnixNano t;
          ring = rb_Push R ts (rc_ring r);
          tail = rb_Current R ring
      in (0 <s tail \<and> ts - tail <=s rc_ivl r, r\<lparr>rc_ring := ring\<rparr>))"

subsection \<open>The allowlist\<close>

record dynamic_allowlist =
  al_dynamic :: "prefix list"
  al_persistent :: "prefix list"

definition NewDynamicAllowlist :: "prefix list \<Rightarrow> prefix list \<Rightarrow> dynamic_allowlist" where
  "NewDynamicAllowlist persistent dynamic = \<lparr>al_dynamic = dynamic, al_persistent = persistent\<rparr>"

definition IsAllowed :: "dynamic_allowlist \<Rightarrow> addr \<Rightarrow> bool" where
  "IsAllowed l ip =
     (if list_ex (\<lambda>n. prefix_contains n ip) (al_persistent l) then True
      else list_ex (\<lambda>n. prefix_contains n ip) (al_dynamic l))"

definition allowlist_Update :: "prefix list \<Rightarrow> dynamic_allowlist \<Rightarrow> dynamic_allowlist" where
  "allowlist_Update subnets l = l\<lparr>al_dynamic := subnets\<rparr>"

subsection \<open>The backoff rate limiter\<close>

record 'e backoff_config =
  bc_Allowlist :: "addr \<Rightarrow> ('e, bool) result"
  Period :: duration
  Duration :: duration
  Count :: "64 word"
  ResponseSizeEstimate :: "64 word"
  IPv4Count :: "64 word"
  IPv4Interval :: duration
  IPv4SubnetKeyLen :: int
  IPv6Count :: "64 word"
  IPv6Interval :: duration
  IPv6SubnetKeyLen :: int
  RefuseANY :: bool

record ('e, 'c, 'r) backoff =
  reqCounters :: 'c
  hitCounters :: 'c
  reqStore :: "'r request_counter list"
  hitStore :: "64 word list"
  bo_conf :: "'e backoff_config"

text \<open>
  The outcomes of a check other than an answer: an invalid address, an error of the allowlist, and
  the two panics, for a message without a question and for a subnet length that does not fit.
\<close>

datatype 'e limit_error = AddrError | AllowlistError 'e | PanicQuestion | PanicSubnet | PanicDivide

definition NewBackoff :: "('c, prefix) cache_ops \<Rightarrow> 'e backoff_config \<Rightarrow> ('e, 'c, 'r) backoff" where
  "NewBackoff G c =
     \<lparr>reqCounters = gc_New G (Period c), hitCounters = gc_New G (Duration c), reqStore = [],
      hitStore = [], bo_conf = c\<rparr>"

definition subnetKey :: "'e backoff_config \<Rightarrow> addr \<Rightarrow> prefix option" where
  "subnetKey c ip =
     (if addr_is4 ip then addr_prefix ip (IPv4SubnetKeyLen c) else addr_prefix ip (IPv6SubnetKeyLen c))"

definition incBackoff ::
  "('c, prefix) cache_ops \<Rightarrow> time \<Rightarrow> prefix \<Rightarrow> ('e, 'c, 'r) backoff \<Rightarrow> ('e, 'c, 'r) backoff" where
  "incBackoff G now key l =
     (case gc_Get G now key (hitCounters l) of
        Some a \<Rightarrow> l\<lparr>hitStore := (hitStore l)[a := hitStore l ! a + 1]\<rparr>
      | None \<Rightarrow>
          l\<lparr>hitStore := hitStore l @ [1],
            hitCounters := gc_SetDefault G now key (length (hitStore l)) (hitCounters l)\<rparr>)"

definition hasHitRateLimit ::
  "'r ring_ops \<Rightarrow> ('c, prefix) cache_ops \<Rightarrow> time \<Rightarrow> prefix \<Rightarrow> 64 word \<Rightarrow> duration \<Rightarrow>
     ('e, 'c, 'r) backoff \<Rightarrow> bool \<times> ('e, 'c, 'r) backoff" where
  "hasHitRateLimit R G now key count ivl l =
     (let (a, l) =
            (case gc_Get G now key (reqCounters l) of
               Some a \<Rightarrow> (a, l)
             | None \<Rightarrow>
                 (length (reqStore l),
                  l\<lparr>reqStore := reqStore l @ [NewRequestCounter R count ivl],
                    reqCounters := gc_SetDefault G now key (length (reqStore l)) (reqCounters l)\<rparr>));
          (above, r) = counter_Add R now (reqStore l ! a);
          l = l\<lparr>reqStore := (reqStore l)[a := r]\<rparr>
      in (above, if above then incBackoff G now key l else l))"

definition isBackoff :: "('c, prefix) cache_ops \<Rightarrow> time \<Rightarrow> prefix \<Rightarrow> ('e, 'c, 'r) backoff \<Rightarrow> bool" where
  "isBackoff G now key l =
     (case gc_Get G now key (hitCounters l) of
        None \<Rightarrow> False
      | Some a \<Rightarrow> Count (bo_conf l) \<le> hitStore l ! a)"

definition IsRateLimited ::
  "'r ring_ops \<Rightarrow> ('c, prefix) cache_ops \<Rightarrow> time \<Rightarrow> msg \<Rightarrow> addr \<Rightarrow> ('e, 'c, 'r) backoff \<Rightarrow>
     ('e limit_error, bool \<times> bool) result \<times> ('e, 'c, 'r) backoff" where
  "IsRateLimited R G now req ip l =
     (let c = bo_conf l
      in if \<not> addr_is_valid ip then (Inl AddrError, l)
         else if Question req = [] then (Inl PanicQuestion, l)
         else if RefuseANY c \<and> Qtype (question0 req) = TypeANY then (Inr (True, False), l)
         else (case bc_Allowlist c ip of
                 Inl e \<Rightarrow> (Inl (AllowlistError e), l)
               | Inr True \<Rightarrow> (Inr (False, True), l)
               | Inr False \<Rightarrow>
                   (case subnetKey c ip of
                      None \<Rightarrow> (Inl PanicSubnet, l)
                    | Some key \<Rightarrow>
                        if isBackoff G now key l then (Inr (True, False), l)
                        else
                          (let (count, ivl) =
                                 (if addr_is6 ip then (IPv6Count c, IPv6Interval c)
                                  else (IPv4Count c, IPv4Interval c));
                               (above, l) = hasHitRateLimit R G now key count ivl l
                           in (Inr (above, False), l)))))"

text \<open>The loop of \<open>CountResponses\<close>, which ignores the results; a panic ends it.\<close>

fun repeat_limited ::
  "nat \<Rightarrow> 'r ring_ops \<Rightarrow> ('c, prefix) cache_ops \<Rightarrow> time \<Rightarrow> msg \<Rightarrow> addr \<Rightarrow> ('e, 'c, 'r) backoff \<Rightarrow>
     'e limit_error option \<times> ('e, 'c, 'r) backoff" where
  "repeat_limited 0 R G now resp ip l = (None, l)"
| "repeat_limited (Suc n) R G now resp ip l =
     (case IsRateLimited R G now resp ip l of
        (Inl PanicQuestion, l) \<Rightarrow> (Some PanicQuestion, l)
      | (Inl PanicSubnet, l) \<Rightarrow> (Some PanicSubnet, l)
      | (_, l) \<Rightarrow> repeat_limited n R G now resp ip l)"

definition CountResponses ::
  "dnslib \<Rightarrow> 'r ring_ops \<Rightarrow> ('c, prefix) cache_ops \<Rightarrow> time \<Rightarrow> msg \<Rightarrow> addr \<Rightarrow> ('e, 'c, 'r) backoff \<Rightarrow>
     'e limit_error option \<times> ('e, 'c, 'r) backoff" where
  "CountResponses L R G now resp ip l =
     (if ResponseSizeEstimate (bo_conf l) = 0 then (Some PanicDivide, l)
      else repeat_limited (unat (word_of_nat (dl_Len L resp) div ResponseSizeEstimate (bo_conf l)))
             R G now resp ip l)"

subsection \<open>The rate limiter of a profile\<close>

record ratelimit_config =
  rlc_ClientSubnets :: "prefix list"
  RPS :: "32 word"
  rlc_Enabled :: bool

datatype ratelimit_result = RatelimitResultPass | RatelimitResultDrop | RatelimitResultUseGlobal

record 'r default_ratelimiter =
  dr_counter :: "'r request_counter"
  dr_clientSubnets :: "prefix list"
  dr_respSzEst :: "64 word"
  dr_rps :: "32 word"

datatype 'r ratelimiter = GlobalRatelimiter | DefaultRatelimiter "'r default_ratelimiter"

definition NewDefaultRatelimiter ::
  "'r ring_ops \<Rightarrow> ratelimit_config \<Rightarrow> 64 word \<Rightarrow> 'r default_ratelimiter" where
  "NewDefaultRatelimiter R conf respSzEst =
     \<lparr>dr_counter = NewRequestCounter R (ucast (RPS conf)) nsec_per_sec,
      dr_clientSubnets = rlc_ClientSubnets conf, dr_respSzEst = respSzEst, dr_rps = RPS conf\<rparr>"

text \<open>\<open>contains\<close> is the membership test of the subnet sets of golibs.\<close>

definition default_Check ::
  "'r ring_ops \<Rightarrow> (prefix list \<Rightarrow> addr \<Rightarrow> bool) \<Rightarrow> time \<Rightarrow> addr \<Rightarrow> 'r default_ratelimiter \<Rightarrow>
     ratelimit_result \<times> 'r default_ratelimiter" where
  "default_Check R contains now remoteIP r =
     (if 0 < length (dr_clientSubnets r) \<and> \<not> contains (dr_clientSubnets r) remoteIP
      then (RatelimitResultUseGlobal, r)
      else
        (let (above, c) = counter_Add R now (dr_counter r)
         in (if above then RatelimitResultDrop else RatelimitResultPass, r\<lparr>dr_counter := c\<rparr>)))"

definition default_Config :: "'r default_ratelimiter \<Rightarrow> ratelimit_config" where
  "default_Config r = \<lparr>rlc_ClientSubnets = dr_clientSubnets r, RPS = dr_rps r, rlc_Enabled = True\<rparr>"

definition default_CountResponses ::
  "dnslib \<Rightarrow> 'r ring_ops \<Rightarrow> (prefix list \<Rightarrow> addr \<Rightarrow> bool) \<Rightarrow> time \<Rightarrow> msg \<Rightarrow> addr \<Rightarrow> 'r default_ratelimiter \<Rightarrow>
     'r default_ratelimiter option" where
  "default_CountResponses L R contains now resp remoteIP r =
     (if dr_respSzEst r = 0 then None
      else Some (((\<lambda>r. snd (default_Check R contains now remoteIP r)) ^^
                    unat (word_of_nat (dl_Len L resp) div dr_respSzEst r)) r))"

fun rl_Check ::
  "'r ring_ops \<Rightarrow> (prefix list \<Rightarrow> addr \<Rightarrow> bool) \<Rightarrow> time \<Rightarrow> addr \<Rightarrow> 'r ratelimiter \<Rightarrow>
     ratelimit_result \<times> 'r ratelimiter" where
  "rl_Check R contains now remoteIP GlobalRatelimiter = (RatelimitResultUseGlobal, GlobalRatelimiter)"
| "rl_Check R contains now remoteIP (DefaultRatelimiter r) =
     (let (res, r) = default_Check R contains now remoteIP r in (res, DefaultRatelimiter r))"

fun rl_Config :: "'r ratelimiter \<Rightarrow> ratelimit_config" where
  "rl_Config GlobalRatelimiter = \<lparr>rlc_ClientSubnets = [], RPS = 0, rlc_Enabled = False\<rparr>"
| "rl_Config (DefaultRatelimiter r) = default_Config r"

fun rl_CountResponses ::
  "dnslib \<Rightarrow> 'r ring_ops \<Rightarrow> (prefix list \<Rightarrow> addr \<Rightarrow> bool) \<Rightarrow> time \<Rightarrow> msg \<Rightarrow> addr \<Rightarrow> 'r ratelimiter \<Rightarrow>
     'r ratelimiter option" where
  "rl_CountResponses L R contains now resp remoteIP GlobalRatelimiter = Some GlobalRatelimiter"
| "rl_CountResponses L R contains now resp remoteIP (DefaultRatelimiter r) =
     map_option DefaultRatelimiter (default_CountResponses L R contains now resp remoteIP r)"

subsection \<open>The request counter counts a sliding window\<close>

definition counter_run :: "'r ring_ops \<Rightarrow> time list \<Rightarrow> 'r request_counter \<Rightarrow> 'r request_counter" where
  "counter_run R ts r = fold (\<lambda>t r. snd (counter_Add R t r)) ts r"

lemma counter_run_sel:
  "rc_ring (counter_run R ts r) = fold (rb_Push R) (map UnixNano ts) (rc_ring r)"
  "rc_ivl (counter_run R ts r) = rc_ivl r"
  by (induction ts arbitrary: r) (simp_all add: counter_run_def counter_Add_def Let_def)

lemma sorted_within_suffix:
  fixes ts :: "time list"
  assumes "sorted ts" and "n \<le> length ts" and "0 < n"
  shows "n \<le> length (filter (\<lambda>u. t - u \<le> d) ts) \<longleftrightarrow> t - ts ! (length ts - n) \<le> d"
proof
  let ?P = "\<lambda>u. t - u \<le> d" and ?k = "length ts - n"
  have split: "length (filter ?P ts) = length (filter ?P (take ?k ts)) + length (filter ?P (drop ?k ts))"
    by (metis append_take_drop_id filter_append length_append)
  {
    assume "?P (ts ! ?k)"
    have "?P u" if "u \<in> set (drop ?k ts)" for u
    proof -
      from that obtain j where j: "u = ts ! (?k + j)" "?k + j < length ts"
        by (auto simp: in_set_conv_nth)
      then have "ts ! ?k \<le> u" using assms by (simp add: sorted_nth_mono)
      with \<open>?P (ts ! ?k)\<close> show ?thesis by simp
    qed
    then have "filter ?P (drop ?k ts) = drop ?k ts" by simp
    then have "length (filter ?P (drop ?k ts)) = n" using assms(2) by simp
    with split show "n \<le> length (filter ?P ts)" by simp
  }
  {
    assume le: "n \<le> length (filter ?P ts)"
    show "?P (ts ! ?k)"
    proof (rule ccontr)
      assume no: "\<not> ?P (ts ! ?k)"
      have "\<not> ?P u" if "u \<in> set (take (Suc ?k) ts)" for u
      proof -
        from that obtain j where "j \<le> ?k" "u = ts ! j" "j < length ts"
          by (auto simp: in_set_conv_nth less_Suc_eq_le)
        with assms no show ?thesis by (fastforce dest: sorted_nth_mono [of ts j ?k])
      qed
      then have "filter ?P (take (Suc ?k) ts) = []" by (simp add: filter_empty_conv)
      then have "filter ?P ts = filter ?P (drop (Suc ?k) ts)"
        by (metis append_Nil append_take_drop_id filter_append)
      then have "length (filter ?P ts) \<le> length (drop (Suc ?k) ts)" by (metis length_filter_le)
      with le assms show False by simp
    qed
  }
qed

lemma counter_window:
  assumes ring: "ring_ok R" and num: "num \<noteq> - 1" and ivl: "0 \<le> ivl" "ivl < 2 ^ 63"
    and ts: "sorted (ts @ [t])" "\<forall>u \<in> set (ts @ [t]). modern u"
  shows "fst (counter_Add R t (counter_run R ts (NewRequestCounter R num ivl))) \<longleftrightarrow>
           unat num \<le> length (filter (\<lambda>u. t - u \<le> ivl) ts)"
proof -
  let ?xs = "map UnixNano (ts @ [t])" and ?n = "unat num"
  have nz: "1 + num \<noteq> 0" using num by (simp add: add_eq_0_iff)
  then have pos: "0 < num + 1" and sz: "unat (num + 1) = Suc ?n"
    using unatSuc [OF nz] by (simp_all add: word_neq_0_conv [symmetric] add.commute)
  let ?ring = "fold (rb_Push R) ?xs (rb_New R (num + 1))"
  have tail: "rb_Current R ?ring = (if length ts < ?n then 0 else ?xs ! (length ts - ?n))"
    using ring pos by (simp add: ring_ok_def sz del: map_append)
  have sivl: "sint (word_of_int ivl :: 64 word) = ivl" using ivl by (intro sint_word_of_int_small) auto
  have eq: "fst (counter_Add R t (counter_run R ts (NewRequestCounter R num ivl))) \<longleftrightarrow>
      0 <s rb_Current R ?ring \<and> UnixNano t - rb_Current R ?ring <=s word_of_int ivl"
    by (simp add: counter_Add_def counter_run_sel NewRequestCounter_def Let_def)
  consider (short) "length ts < ?n" | (self) "?n = 0" | (full) "0 < ?n" "?n \<le> length ts" by linarith
  then show ?thesis
  proof cases
    case short
    then have "length (filter (\<lambda>u. t - u \<le> ivl) ts) < ?n"
      by (meson le_less_trans length_filter_le)
    with short show ?thesis unfolding eq tail by simp
  next
    case self
    have "modern t" using ts by simp
    with self ivl show ?thesis
      unfolding eq tail by (simp add: nth_append word_sless_alt word_sle_eq sint_UnixNano sivl modern_def)
  next
    case full
    let ?u = "ts ! (length ts - ?n)"
    have "length ts - ?n < length ts" using full by linarith
    then have nth: "(ts @ [t]) ! (length ts - ?n) = ?u" by (simp add: nth_append)
    have u: "modern ?u" "modern t" using \<open>length ts - ?n < length ts\<close> ts by simp_all
    then have "fst (counter_Add R t (counter_run R ts (NewRequestCounter R num ivl))) \<longleftrightarrow> t - ?u \<le> ivl"
      using full nth
      unfolding eq tail
      by (simp add: word_sless_alt word_sle_eq sint_UnixNano sivl UnixNano_diff modern_def del: map_append)
    with sorted_within_suffix [of ts ?n t ivl] full ts show ?thesis by (simp add: sorted_append)
  qed
qed

text \<open>
  C5: the request counter counts a sliding window.  With clock readings that do not go back, a request
  is reported as above the limit exactly when at least the limit's number of earlier requests,
  including the ones that were above the limit themselves, came within the interval before it.
\<close>

theorem request_counter_window:
  assumes "ring_ok R" and "num \<noteq> - 1" and "0 \<le> ivl" and "ivl < 2 ^ 63"
    and "sorted (ts @ [t])" and "\<forall>u \<in> set (ts @ [t]). modern u"
  shows "fst (counter_Add R t (counter_run R ts (NewRequestCounter R num ivl))) \<longleftrightarrow>
           unat num \<le> length (filter (\<lambda>u. t - u \<le> ivl) ts)"
  using assms by (rule counter_window)

text \<open>A ring buffer and a cache that satisfy the laws, for examples.\<close>

definition ring_std :: "(nat \<times> 64 word list) ring_ops" where
  "ring_std =
     \<lparr>rb_New = (\<lambda>n. (unat n, replicate (unat n) 0)),
      rb_Push = (\<lambda>x (n, xs). (n, tl xs @ [x])),
      rb_Current = (\<lambda>(n, xs). hd xs)\<rparr>"

lemma ring_std_state:
  "0 < n \<Longrightarrow> fold (rb_Push ring_std) xs (rb_New ring_std n) =
     (unat n, drop (length xs) (replicate (unat n) 0 @ xs))"
proof (induction xs rule: rev_induct)
  case (snoc x xs)
  define zs where "zs = replicate (unat n) (0 :: 64 word) @ xs"
  have "0 < unat n" using snoc.prems by (simp add: unat_gt_0)
  then have "drop (Suc (length xs)) (zs @ [x]) = tl (drop (length xs) zs) @ [x]"
    by (simp add: zs_def tl_drop drop_Suc del: drop_append) (simp add: drop_append)
  with snoc show ?case by (simp add: ring_std_def zs_def del: drop_append)
qed (simp add: ring_std_def)

lemma ring_std_ok: "ring_ok ring_std"
  unfolding ring_ok_def
proof (intro allI impI)
  fix n :: "64 word" and xs :: "64 word list"
  assume n: "0 < n"
  then have "0 < unat n" by (simp add: unat_gt_0)
  then have "hd (drop (length xs) (replicate (unat n) 0 @ xs)) = (replicate (unat n) 0 @ xs) ! length xs"
    by (intro hd_drop_conv_nth) simp
  with n show "rb_Current ring_std (fold (rb_Push ring_std) xs (rb_New ring_std n)) =
      (if length xs < unat n then 0 else xs ! (length xs - unat n))"
    unfolding ring_std_state [OF n] by (simp add: ring_std_def nth_append)
qed

theorem request_counter_window_witness:
  "fst (counter_Add ring_std (unix_epoch + 4)
      (counter_run ring_std [unix_epoch + 1, unix_epoch + 3] (NewRequestCounter ring_std 1 2)))"
proof -
  let ?t = "unix_epoch + 4" and ?ts = "[unix_epoch + 1, unix_epoch + 3]"
  have "sorted (?ts @ [?t])" "\<forall>u \<in> set (?ts @ [?t]). modern u" by (simp_all add: modern_def)
  from request_counter_window [OF ring_std_ok _ _ _ this, of 1 2] show ?thesis by simp
qed

text \<open>
  C34: the limiter of a profile with a limit of RPS requests per second.  After any history of checks,
  a request from an address outside of the client subnets is left to the global limiter without
  being counted; any other passes exactly when fewer than RPS counted checks were made within the
  last second, whether these passed or not.
\<close>

theorem profile_limit_per_second:
  fixes R :: "'r ring_ops" and conf :: ratelimit_config and contains :: "prefix list \<Rightarrow> addr \<Rightarrow> bool"
    and sz :: "64 word" and hist :: "(time \<times> addr) list"
  assumes "ring_ok R" and "sorted (map fst (hist @ [(t, ip)]))" and "\<forall>u \<in> fst ` set (hist @ [(t, ip)]). modern u"
  defines "counted \<equiv> \<lambda>a. rlc_ClientSubnets conf = [] \<or> contains (rlc_ClientSubnets conf) a"
  defines "r \<equiv> fold (\<lambda>(u, a) r. snd (default_Check R contains u a r)) hist (NewDefaultRatelimiter R conf sz)"
  shows "fst (default_Check R contains t ip r) =
           (if \<not> counted ip then RatelimitResultUseGlobal
            else if length (filter (\<lambda>(u, a). counted a \<and> t - u \<le> nsec_per_sec) hist) < unat (RPS conf)
                 then RatelimitResultPass else RatelimitResultDrop)"
proof -
  let ?ts = "map fst (filter (\<lambda>(u, a). counted a) hist)"
  let ?num = "ucast (RPS conf) :: 64 word"
  have state: "dr_counter r = counter_run R ?ts (NewRequestCounter R ?num nsec_per_sec) \<and>
      dr_clientSubnets r = rlc_ClientSubnets conf"
    unfolding r_def
  proof (induction hist rule: rev_induct)
    case Nil
    show ?case by (simp add: counter_run_def NewDefaultRatelimiter_def)
  next
    case (snoc x xs)
    then show ?case
      by (cases x) (auto simp: default_Check_def counted_def counter_run_def case_prod_beta Let_def)
  qed
  have lt: "unat (RPS conf) < 2 ^ 32" using unsigned_less [of "RPS conf", where 'a = nat] by simp
  then have len: "unat ?num = unat (RPS conf)" by (simp add: unsigned_ucast_eq take_bit_nat_eq_self)
  from lt have num: "?num \<noteq> - 1" unfolding len [symmetric] by (auto simp: unsigned_minus_1_eq_mask mask_eq_exp_minus_1)
  have srt: "sorted (?ts @ [t])" "\<forall>u \<in> set (?ts @ [t]). modern u"
    using assms(2,3) by (auto simp: sorted_append intro: sorted_filter)
  have "fst (counter_Add R t (dr_counter r)) \<longleftrightarrow> unat (RPS conf) \<le> length (filter (\<lambda>u. t - u \<le> nsec_per_sec) ?ts)"
    using counter_window [OF assms(1) num _ _ srt, of nsec_per_sec] state by (simp add: len nsec_per_sec_def)
  moreover have "length (filter (\<lambda>u. t - u \<le> nsec_per_sec) ?ts) =
      length (filter (\<lambda>(u, a). counted a \<and> t - u \<le> nsec_per_sec) hist)"
    by (simp add: filter_map o_def case_prod_beta' conj_commute)
  ultimately show ?thesis
    using state by (auto simp: default_Check_def counted_def case_prod_beta Let_def)
qed

theorem profile_limit_per_second_witness:
  "fst (default_Check ring_std (\<lambda>_ _. False) (unix_epoch + 2) (Addr4 1)
      (snd (default_Check ring_std (\<lambda>_ _. False) (unix_epoch + 1) (Addr4 1)
        (NewDefaultRatelimiter ring_std \<lparr>rlc_ClientSubnets = [], RPS = 1, rlc_Enabled = True\<rparr> 100)))) =
     RatelimitResultDrop"
proof -
  let ?hist = "[(unix_epoch + 1, Addr4 1)]"
  have "sorted (map fst (?hist @ [(unix_epoch + 2, Addr4 1)]))"
    "\<forall>u \<in> fst ` set (?hist @ [(unix_epoch + 2, Addr4 1)]). modern u"
    by (simp_all add: modern_def)
  from profile_limit_per_second [OF ring_std_ok this,
      where conf = "\<lparr>rlc_ClientSubnets = [], RPS = 1, rlc_Enabled = True\<rparr>" and contains = "\<lambda>_ _. False"
        and sz = 100]
  show ?thesis by (simp add: nsec_per_sec_def)
qed

end
