(* ===== verification/Handler.thy ===== *)
theory Handler
  imports Access Dns_Constructor Device_Finder Ratelimit
begin

text \<open>
  The interfaces of request processing: the information about a request (\<open>internal/agd/context.go\<close>,
  \<open>internal/agd/filteringgroup.go\<close>), the writers of responses (\<open>internal/dnsserver/responsewriter.go\<close>,
  \<open>internal/dnsserver/nonwriter.go\<close>), and handlers with their middlewares (\<open>internal/dnsserver/handler.go\<close>,
  \<open>internal/dnsserver/middleware.go\<close>, \<open>internal/dnssvc/internal/internal.go\<close>).

  A handler takes the context, the writer, the request and the state of the program, and returns an error, if any, with
  the writer, the request and the state that it leaves: requests are pointers in the code, and the middlewares change
  the request that they pass on.  Panics are error values.  The texts with which errors are annotated are left out.
\<close>

subsection \<open>The information about a request\<close>

text \<open>
  The profile with what the middlewares use of it.  The access manager and the rate limiter of a profile are shared
  objects that change with the requests; the profile has their places in the stores of the program.
\<close>

record client_profile = profile +
  p_FilterConfig :: config_client
  p_Access :: nat
  p_Ratelimiter :: nat
  p_BlockingMode :: "blocking_mode option"
  p_AdultBlockingMode :: "blocking_mode option"
  p_SafeBrowsingBlockingMode :: "blocking_mode option"

type_synonym 'e client_result = "('e, unit client_profile_ext) device_result"

record filtering_group =
  fg_FilterConfig :: config_group
  fg_ID :: string
  fg_BlockChromePrefetch :: bool
  fg_BlockFirefoxCanary :: bool
  fg_BlockPrivateRelay :: bool

record server_info =
  si_GroupName :: string
  si_Name :: string
  si_DeviceDomains :: "string list"
  si_Protocol :: protocol
  si_ProfilesEnabled :: bool

record ecs_info =
  ecs_Location :: "geo_location option"
  ecs_Subnet :: prefix
  ecs_Scope :: "8 word"

record 'e request_info =
  ri_DeviceResult :: "'e client_result option"
  ri_Location :: "geo_location option"
  ri_ECS :: "ecs_info option"
  ri_FilteringGroup :: filtering_group
  ri_Messages :: constructor
  ri_ServerInfo :: server_info
  ri_RemoteIP :: addr
  ri_Host :: string
  ri_QType :: "16 word"
  ri_QClass :: "16 word"

text \<open>The values for an unknown country and for one that makes no sense (\<open>internal/geoip/country.go\<close>).\<close>

definition CountryNone :: string where "CountryNone = []"
definition CountryNotApplicable :: string where "CountryNotApplicable = ''QN''"

definition DeviceData :: "'e request_info \<Rightarrow> (client_profile \<times> device) option" where
  "DeviceData ri = (case ri_DeviceResult ri of Some (DeviceResultOK p d) \<Rightarrow> Some (p, d) | _ \<Rightarrow> None)"

text \<open>The context of a request: what the server knows about it, what the middlewares have added, and its error.\<close>

record 'e ctx =
  cx_ReqInfo :: "'e request_info option"
  cx_SrvInfo :: req_info
  cx_StartTime :: time
  cx_Err :: "'e option"

definition ContextWithRequestInfo :: "'e request_info \<Rightarrow> 'e ctx \<Rightarrow> 'e ctx" where
  "ContextWithRequestInfo ri cx = cx\<lparr>cx_ReqInfo := Some ri\<rparr>"

subsection \<open>Errors\<close>

datatype mw_panic =
    NoRequestInfo
  | NilResponse
  | NilQuestion
  | FilterPanic flt_error
  | BadResult
  | As4OfZero

datatype 'e mw_error =
    WritingErr 'e
  | ECSErr ecs_error "'e option"
  | DeviceErr "'e finder_error"
  | LimitErr "'e limit_error"
  | CheckErr 'e
  | AfterFiltering 'e
  | MessageErr msg_error
  | UpstreamErr 'e
  | GeoIPErr 'e
  | AddrFamErr addr "16 word"
  | PanicErr mw_panic

subsection \<open>Writers\<close>

text \<open>
  A writer that only keeps the response, or one that sends it: \<open>wr_sent\<close> has the messages that were sent
  with the requests they answer, and \<open>wr_fails\<close> the outcomes of the writes to come, which are successful after that.
\<close>

record 'e writer =
  wr_nonWriter :: bool
  wr_local :: addr_port
  wr_remote :: addr_port
  wr_resp :: "msg option"
  wr_sent :: "(msg \<times> msg) list"
  wr_fails :: "'e option list"

definition NewNonWriter :: "addr_port \<Rightarrow> addr_port \<Rightarrow> 'e writer" where
  "NewNonWriter laddr raddr =
     \<lparr>wr_nonWriter = True, wr_local = laddr, wr_remote = raddr, wr_resp = None, wr_sent = [], wr_fails = []\<rparr>"

definition WriteMsg :: "msg \<Rightarrow> msg \<Rightarrow> 'e writer \<Rightarrow> 'e option \<times> 'e writer" where
  "WriteMsg req resp w =
     (if wr_nonWriter w then (None, w\<lparr>wr_resp := Some resp\<rparr>)
      else (case wr_fails w of
              [] \<Rightarrow> (None, w\<lparr>wr_sent := wr_sent w @ [(req, resp)]\<rparr>)
            | None # fs \<Rightarrow> (None, w\<lparr>wr_sent := wr_sent w @ [(req, resp)], wr_fails := fs\<rparr>)
            | Some e # fs \<Rightarrow> (Some e, w\<lparr>wr_fails := fs\<rparr>)))"

definition MakeNonWriter :: "'e writer \<Rightarrow> 'e writer" where
  "MakeNonWriter rw = (if wr_nonWriter rw then rw else NewNonWriter (wr_local rw) (wr_remote rw))"

text \<open>
  The writer of the caller after a call with the writer that \<open>MakeNonWriter\<close> gave: the same one, if it was a
  non-writer already, and else the one from before the call.
\<close>

definition after_NonWriter :: "'e writer \<Rightarrow> 'e writer \<Rightarrow> 'e writer" where
  "after_NonWriter rw nwrw = (if wr_nonWriter rw then nwrw else rw)"

subsection \<open>Handlers\<close>

type_synonym ('e, 's) outcome = "'e mw_error option \<times> 'e writer \<times> msg \<times> 's"

type_synonym ('e, 's) handler = "'e ctx \<Rightarrow> 'e writer \<Rightarrow> msg \<Rightarrow> 's \<Rightarrow> ('e, 's) outcome"

type_synonym ('e, 's) middleware = "('e, 's) handler \<Rightarrow> ('e, 's) handler"

definition WithMiddlewares :: "('e, 's) handler \<Rightarrow> ('e, 's) middleware list \<Rightarrow> ('e, 's) handler" where
  "WithMiddlewares h middlewares = fold (\<lambda>m wrapped. m wrapped) (rev middlewares) h"

text \<open>Writing a response as the last step of a handler.\<close>

definition write_last :: "msg \<Rightarrow> msg \<Rightarrow> 'e writer \<Rightarrow> 's \<Rightarrow> ('e, 's) outcome" where
  "write_last req resp rw s = (case WriteMsg req resp rw of (e, rw) \<Rightarrow> (map_option WritingErr e, rw, req, s))"

definition notImplementedHandlerFunc :: "dnslib \<Rightarrow> ('e, 's) handler" where
  "notImplementedHandlerFunc L cx rw req s = write_last req ((dl_SetReply L empty_msg req)\<lparr>Rcode := 4\<rparr>) rw s"

lemma WithMiddlewares_simps [simp]:
  "WithMiddlewares h [] = h" "WithMiddlewares h (m # ms) = m (WithMiddlewares h ms)"
  by (simp_all add: WithMiddlewares_def)

end
