(* ===== verification/Ratelimit_Mw.thy ===== *)
theory Ratelimit_Mw
  imports Handler
begin

text \<open>
  The access and rate-limiting middleware (\<open>internal/dnssvc/internal/ratelimitmw\<close>).  It is the outermost one: it finds the
  location and the profile of a client, drops the requests that the access settings or the rate limits
  refuse, and adds the information about the request to the context.

  What the middleware gets as interfaces are operations on the state of the program here; errors of the
  GeoIP database are only reported.
\<close>

record ('e, 's) rlmw =
  rm_lib :: dnslib
  rm_ipToAddr :: "net_ip \<Rightarrow> 16 word \<Rightarrow> addr option"
  rm_messages :: constructor
  rm_fltGrp :: filtering_group
  rm_srvInfo :: server_info
  rm_sdeConf :: sde_config
  rm_IsBlockedIP :: "addr \<Rightarrow> 's \<Rightarrow> bool"
  rm_IsBlockedHost :: "string \<Rightarrow> 16 word \<Rightarrow> 's \<Rightarrow> bool"
  rm_Find :: "req_info \<Rightarrow> msg \<Rightarrow> addr_port \<Rightarrow> addr_port \<Rightarrow> 's \<Rightarrow> 'e client_result option \<times> 's"
  rm_geoData :: "string \<Rightarrow> addr \<Rightarrow> 's \<Rightarrow> geo_location option \<times> 's"
  rm_IsRateLimited :: "msg \<Rightarrow> addr \<Rightarrow> 's \<Rightarrow> ('e limit_error, bool \<times> bool) result \<times> 's"
  rm_CountResponses :: "msg \<Rightarrow> addr \<Rightarrow> 's \<Rightarrow> 'e limit_error option \<times> 's"
  rm_accessIsBlocked :: "nat \<Rightarrow> msg \<Rightarrow> addr_port \<Rightarrow> geo_location option \<Rightarrow> 's \<Rightarrow> bool \<times> 's"
  rm_Check :: "nat \<Rightarrow> msg \<Rightarrow> addr \<Rightarrow> 's \<Rightarrow> ratelimit_result \<times> 's"
  rm_profCountResponses :: "nat \<Rightarrow> msg \<Rightarrow> addr \<Rightarrow> 's \<Rightarrow> 'e limit_error option \<times> 's"
  rm_protos :: "protocol list"
  rm_edeEnabled :: bool

subsection \<open>The information about a request\<close>

definition locationData :: "('e, 's) rlmw \<Rightarrow> addr \<Rightarrow> 's \<Rightarrow> geo_location option \<times> 's" where
  "locationData mw ip s = rm_geoData mw [] ip s"

definition rl_location ::
  "('e, 's) rlmw \<Rightarrow> msg \<Rightarrow> addr \<Rightarrow> 's \<Rightarrow> (ecs_error, geo_location option \<times> ecs_info option) result \<times> 's" where
  "rl_location mw req remoteIP s =
     (let (loc, s) = locationData mw remoteIP s
      in case ECSFromMsg (rm_lib mw) (rm_ipToAddr mw) req of
           Inl e \<Rightarrow> (Inl e, s)
         | Inr (subnet, scope) \<Rightarrow>
             if subnet \<noteq> prefix_invalid
             then (let (l, s) = locationData mw (pfx_addr subnet) s
                   in (Inr (loc, Some \<lparr>ecs_Location = l, ecs_Subnet = subnet, ecs_Scope = scope\<rparr>), s))
             else (Inr (loc, None), s))"

definition profile_messages :: "('e, 's) rlmw \<Rightarrow> client_profile \<Rightarrow> constructor" where
  "profile_messages mw p =
     (case NewConstructor
             \<lparr>cc_Cloner = Some (c_optPool (rm_messages mw)), cc_StructuredErrors = Some (rm_sdeConf mw),
              cc_BlockingMode = p_BlockingMode p, cc_FilteredResponseTTL = FilteredResponseTTL p,
              cc_EDEEnabled = rm_edeEnabled mw\<rparr> of
        Inl _ \<Rightarrow> rm_messages mw
      | Inr messages \<Rightarrow> messages)"

definition newRequestInfo ::
  "('e, 's) rlmw \<Rightarrow> 'e ctx \<Rightarrow> msg \<Rightarrow> addr_port \<Rightarrow> addr_port \<Rightarrow> 's \<Rightarrow> 'e request_info \<times> 's" where
  "newRequestInfo mw cx req laddr raddr s =
     (let q = question0 req;
          (res, s) = rm_Find mw (cx_SrvInfo cx) req raddr laddr s
      in (\<lparr>ri_DeviceResult = res, ri_Location = None, ri_ECS = None, ri_FilteringGroup = rm_fltGrp mw,
           ri_Messages = (case res of Some (DeviceResultOK p d) \<Rightarrow> profile_messages mw p | _ \<Rightarrow> rm_messages mw),
           ri_ServerInfo = rm_srvInfo mw, ri_RemoteIP = ap_addr raddr, ri_Host = NormalizeDomain (q_Name q),
           ri_QType = Qtype q, ri_QClass = Qclass q\<rparr>, s))"

subsection \<open>Access and limits\<close>

definition isBlockedByAccess ::
  "('e, 's) rlmw \<Rightarrow> 'e request_info \<Rightarrow> msg \<Rightarrow> addr_port \<Rightarrow> 's \<Rightarrow> bool \<times> 's" where
  "isBlockedByAccess mw ri req raddr s =
     (if rm_IsBlockedIP mw (ap_addr raddr) s then (True, s)
      else if rm_IsBlockedHost mw (ri_Host ri) (ri_QType ri) s then (True, s)
      else (case DeviceData ri of
              None \<Rightarrow> (False, s)
            | Some (p, _) \<Rightarrow> rm_accessIsBlocked mw (p_Access p) req raddr (ri_Location ri) s))"

definition serveWithGlobalRatelimiting ::
  "('e, 's) rlmw \<Rightarrow> ('e, 's) handler \<Rightarrow> 'e ctx \<Rightarrow> 'e writer \<Rightarrow> msg \<Rightarrow> 'e request_info \<Rightarrow> 's \<Rightarrow> ('e, 's) outcome" where
  "serveWithGlobalRatelimiting mw handle cx rw req ri s =
     (case rm_IsRateLimited mw req (ri_RemoteIP ri) s of
        (Inl e, s) \<Rightarrow> (Some (LimitErr e), rw, req, s)
      | (Inr (shouldDrop, isAllowlisted), s) \<Rightarrow>
          if shouldDrop then (None, rw, req, s)
          else if isAllowlisted then handle cx rw req s
          else (case handle cx (NewNonWriter (wr_local rw) (wr_remote rw)) req s of
                  (Some e, _, req, s) \<Rightarrow> (Some e, rw, req, s)
                | (None, nwrw, req, s) \<Rightarrow>
                    (case wr_resp nwrw of
                       None \<Rightarrow> (None, rw, req, s)
                     | Some resp \<Rightarrow>
                         (case rm_CountResponses mw resp (ri_RemoteIP ri) s of
                            (Some e, s) \<Rightarrow> (Some (LimitErr e), rw, req, s)
                          | (None, s) \<Rightarrow> write_last req resp rw s))))"

text \<open>The result is \<open>None\<close> if the request is left to the global limiter, with the state to go on with.\<close>

definition serveWithProfileRatelimiting ::
  "('e, 's) rlmw \<Rightarrow> ('e, 's) handler \<Rightarrow> 'e ctx \<Rightarrow> 'e writer \<Rightarrow> msg \<Rightarrow> 'e request_info \<Rightarrow> 's \<Rightarrow>
     's + ('e, 's) outcome" where
  "serveWithProfileRatelimiting mw handle cx rw req ri s =
     (case DeviceData ri of
        None \<Rightarrow> Inl s
      | Some (prof, _) \<Rightarrow>
          (case rm_Check mw (p_Ratelimiter prof) req (ri_RemoteIP ri) s of
             (RatelimitResultDrop, s) \<Rightarrow> Inr (None, rw, req, s)
           | (RatelimitResultUseGlobal, s) \<Rightarrow> Inl s
           | (RatelimitResultPass, s) \<Rightarrow>
               Inr (case handle cx (NewNonWriter (wr_local rw) (wr_remote rw)) req s of
                      (Some e, _, req, s) \<Rightarrow> (Some e, rw, req, s)
                    | (None, nwrw, req, s) \<Rightarrow>
                        (case wr_resp nwrw of
                           None \<Rightarrow> (None, rw, req, s)
                         | Some resp \<Rightarrow>
                             (case rm_profCountResponses mw (p_Ratelimiter prof) resp (ri_RemoteIP ri) s of
                                (Some e, s) \<Rightarrow> (Some (LimitErr e), rw, req, s)
                              | (None, s) \<Rightarrow> write_last req resp rw s)))))"

definition serveWithRatelimiting ::
  "('e, 's) rlmw \<Rightarrow> ('e, 's) handler \<Rightarrow> 'e ctx \<Rightarrow> 'e writer \<Rightarrow> msg \<Rightarrow> 'e request_info \<Rightarrow> 's \<Rightarrow> ('e, 's) outcome" where
  "serveWithRatelimiting mw handle cx rw req ri s =
     (if si_Protocol (ri_ServerInfo ri) \<notin> set (rm_protos mw) then handle cx rw req s
      else (case serveWithProfileRatelimiting mw handle cx rw req ri s of
              Inr out \<Rightarrow> out
            | Inl s \<Rightarrow> serveWithGlobalRatelimiting mw handle cx rw req ri s))"

subsection \<open>The middleware\<close>

definition processLocationErr ::
  "('e, 's) rlmw \<Rightarrow> 'e writer \<Rightarrow> msg \<Rightarrow> ecs_error \<Rightarrow> 's \<Rightarrow> ('e, 's) outcome" where
  "processLocationErr mw rw req origErr s =
     (case WriteMsg req (NewRespRCode (rm_lib mw) (rm_messages mw) req RcodeFormatError) rw of
        (writeErr, rw) \<Rightarrow> (Some (ECSErr origErr writeErr), rw, req, s))"

text \<open>\<open>None\<close> if the processing goes on, and else the error to return.\<close>

definition handleDeviceResult :: "'e client_result option \<Rightarrow> 'e mw_error option option" where
  "handleDeviceResult res =
     (case res of
        Some (DeviceResultUnknownDedicated _) \<Rightarrow> Some None
      | Some (DeviceResultError e) \<Rightarrow> Some (Some (DeviceErr e))
      | _ \<Rightarrow> None)"

definition rl_Wrap :: "('e, 's) rlmw \<Rightarrow> ('e, 's) middleware" where
  "rl_Wrap mw handle cx rw req s =
     (let raddr = wr_remote rw
      in if ap_port raddr = 0 then (None, rw, req, s)
         else (case rl_location mw req (ap_addr raddr) s of
                 (Inl e, s) \<Rightarrow> processLocationErr mw rw req e s
               | (Inr (loc, ecs), s) \<Rightarrow>
                   (let (ri, s) = newRequestInfo mw cx req (wr_local rw) raddr s
                    in case handleDeviceResult (ri_DeviceResult ri) of
                         Some err \<Rightarrow> (err, rw, req, s)
                       | None \<Rightarrow>
                           (let ri = ri\<lparr>ri_Location := loc, ri_ECS := ecs\<rparr>
                            in case isBlockedByAccess mw ri req raddr s of
                                 (True, s) \<Rightarrow> (None, rw, req, s)
                               | (False, s) \<Rightarrow>
                                   serveWithRatelimiting mw handle (ContextWithRequestInfo ri cx) rw req ri s))))"

end
