(* ===== verification/Initial_Mw.thy ===== *)
theory Initial_Mw
  imports Handler
begin

text \<open>
  The initial middleware (\<open>internal/dnssvc/internal/initial\<close>): it keeps the AD bit of a response in accordance with
  RFC 6840, and it answers the queries for special domains, among them the discovery of designated resolvers (DDR).
\<close>

text \<open>The templates are SVCB records.\<close>

record ddr_config =
  DeviceTargets :: "string set"
  PublicTargets :: "string set"
  DeviceRecordTemplates :: "(rr_header \<times> svcb) list"
  PublicRecordTemplates :: "(rr_header \<times> svcb) list"
  ddr_Enabled :: bool

text \<open>\<open>im_IsSubdomain\<close> is the check of golibs, which takes the subdomain first.\<close>

record initmw =
  im_lib :: dnslib
  im_IsSubdomain :: "string \<Rightarrow> string \<Rightarrow> bool"
  im_ddr :: ddr_config

subsection \<open>Special domains\<close>

definition ResolverARPADomain :: string where "ResolverARPADomain = ''resolver.arpa''"
definition DDRLabel :: string where "DDRLabel = ''_dns''"
definition DDRDomain :: string where "DDRDomain = DDRLabel @ ''.'' @ ResolverARPADomain"
definition ChromePrefetchHost :: string where "ChromePrefetchHost = ''dns-tunnel-check.googlezip.net''"
definition FirefoxCanaryHost :: string where "FirefoxCanaryHost = ''use-application-dns.net''"
definition ApplePrivateRelayMaskHost :: string where "ApplePrivateRelayMaskHost = ''mask.icloud.com''"
definition ApplePrivateRelayMaskH2Host :: string where "ApplePrivateRelayMaskH2Host = ''mask-h2.icloud.com''"
definition ApplePrivateRelayMaskCanaryHost :: string where "ApplePrivateRelayMaskCanaryHost = ''mask-canary.icloud.com''"

text \<open>The special handlers, by name.\<close>

datatype special_handler =
    HandleDDR
  | HandleDDRNoData
  | HandleBadResolverARPA
  | HandlePrivateRelay
  | HandleChromePrefetch
  | HandleFirefoxCanary

definition isDDRDomain :: "initmw \<Rightarrow> 'e request_info \<Rightarrow> string \<Rightarrow> bool" where
  "isDDRDomain mw ri host =
     (case cut_at (CHR ''.'') host of
        None \<Rightarrow> False
      | Some (firstLabel, resolverDomain) \<Rightarrow>
          if firstLabel \<noteq> DDRLabel then False
          else if resolverDomain \<in> PublicTargets (im_ddr mw) then True
          else (case DeviceData ri of
                  None \<Rightarrow> False
                | Some (_, dev) \<Rightarrow>
                    (case cut_at (CHR ''.'') resolverDomain of
                       None \<Rightarrow> False
                     | Some (firstLabel, resolverDomain) \<Rightarrow>
                         if firstLabel = d_ID dev then resolverDomain \<in> DeviceTargets (im_ddr mw) else False)))"

definition isDDRRequest :: "initmw \<Rightarrow> 'e request_info \<Rightarrow> bool" where
  "isDDRRequest mw ri =
     (if ri_QType ri \<noteq> TypeSVCB then False
      else if ri_Host ri = DDRDomain then True
      else isDDRDomain mw ri (ri_Host ri))"

definition shouldBlockChromePrefetch :: "'e request_info \<Rightarrow> bool" where
  "shouldBlockChromePrefetch ri =
     (if ri_QType ri \<noteq> TypeA \<and> ri_QType ri \<noteq> TypeAAAA then False
      else if ri_Host ri \<noteq> ChromePrefetchHost then False
      else (case DeviceData ri of
              Some (prof, _) \<Rightarrow> BlockChromePrefetch prof
            | None \<Rightarrow> fg_BlockChromePrefetch (ri_FilteringGroup ri)))"

definition shouldBlockFirefoxCanary :: "'e request_info \<Rightarrow> bool" where
  "shouldBlockFirefoxCanary ri =
     (if ri_QType ri \<noteq> TypeA \<and> ri_QType ri \<noteq> TypeAAAA then False
      else if ri_Host ri \<noteq> FirefoxCanaryHost then False
      else (case DeviceData ri of
              Some (prof, _) \<Rightarrow> BlockFirefoxCanary prof
            | None \<Rightarrow> fg_BlockFirefoxCanary (ri_FilteringGroup ri)))"

definition shouldBlockPrivateRelay :: "'e request_info \<Rightarrow> bool" where
  "shouldBlockPrivateRelay ri =
     (if ri_Host ri \<notin> {ApplePrivateRelayMaskHost, ApplePrivateRelayMaskH2Host, ApplePrivateRelayMaskCanaryHost} then False
      else (case DeviceData ri of
              Some (prof, _) \<Rightarrow> BlockPrivateRelay prof
            | None \<Rightarrow> fg_BlockPrivateRelay (ri_FilteringGroup ri)))"

definition specialDomainHandler :: "'e request_info \<Rightarrow> special_handler option" where
  "specialDomainHandler ri =
     (if shouldBlockPrivateRelay ri then Some HandlePrivateRelay
      else if shouldBlockChromePrefetch ri then Some HandleChromePrefetch
      else if shouldBlockFirefoxCanary ri then Some HandleFirefoxCanary
      else None)"

definition reqInfoSpecialHandler :: "initmw \<Rightarrow> 'e request_info \<Rightarrow> special_handler option" where
  "reqInfoSpecialHandler mw ri =
     (if ri_QClass ri \<noteq> ClassINET then None
      else if isDDRRequest mw ri then
        (case ri_DeviceResult ri of
           Some (DeviceResultAuthenticationFailure _) \<Rightarrow> Some HandleDDRNoData
         | _ \<Rightarrow>
             (case DeviceData ri of
                Some (_, dev) \<Rightarrow>
                  if auth_Enabled (d_Auth dev) \<and> DoHAuthOnly (d_Auth dev) then Some HandleDDRNoData else Some HandleDDR
              | None \<Rightarrow> Some HandleDDR))
      else if im_IsSubdomain mw (ri_Host ri) ResolverARPADomain then Some HandleBadResolverARPA
      else specialDomainHandler ri)"

subsection \<open>The special handlers\<close>

definition newRespDDR :: "initmw \<Rightarrow> msg \<Rightarrow> 'e request_info \<Rightarrow> msg" where
  "newRespDDR mw req ri =
     (let resp = NewResp (im_lib mw) req;
          name = q_Name (question0 req)
      in case DeviceData ri of
           Some (_, dev) \<Rightarrow>
             resp\<lparr>Answer := Answer resp @
               map (\<lambda>(h, v). \<lparr>Hdr = h\<lparr>rr_Name := name\<rparr>, Data = RD_SVCB (v\<lparr>svcb_Target := d_ID dev @ ''.'' @ svcb_Target v\<rparr>)\<rparr>)
                 (DeviceRecordTemplates (im_ddr mw))\<rparr>
         | None \<Rightarrow>
             resp\<lparr>Answer := Answer resp @
               map (\<lambda>(h, v). \<lparr>Hdr = h\<lparr>rr_Name := name\<rparr>, Data = RD_SVCB v\<rparr>) (PublicRecordTemplates (im_ddr mw))\<rparr>)"

fun special_resp :: "initmw \<Rightarrow> msg \<Rightarrow> 'e request_info \<Rightarrow> special_handler \<Rightarrow> msg" where
  "special_resp mw req ri HandleDDR =
     (if ddr_Enabled (im_ddr mw) then newRespDDR mw req ri
      else NewRespRCode (im_lib mw) (ri_Messages ri) req RcodeNameError)"
| "special_resp mw req ri HandleDDRNoData =
     (if ddr_Enabled (im_ddr mw) then NewRespRCode (im_lib mw) (ri_Messages ri) req RcodeSuccess
      else NewRespRCode (im_lib mw) (ri_Messages ri) req RcodeNameError)"
| "special_resp mw req ri HandleBadResolverARPA = NewRespRCode (im_lib mw) (ri_Messages ri) req RcodeSuccess"
| "special_resp mw req ri HandlePrivateRelay = NewRespRCode (im_lib mw) (ri_Messages ri) req RcodeNameError"
| "special_resp mw req ri HandleChromePrefetch = NewRespRCode (im_lib mw) (ri_Messages ri) req RcodeNameError"
| "special_resp mw req ri HandleFirefoxCanary = NewRespRCode (im_lib mw) (ri_Messages ri) req RcodeRefused"

subsection \<open>The middleware\<close>

definition initial_Wrap :: "initmw \<Rightarrow> ('e, 's) middleware" where
  "initial_Wrap mw handle cx rw req s =
     (let reqAD = AuthenticatedData req;
          reqDO = IsDO (im_lib mw) req;
          req = req\<lparr>AuthenticatedData := True\<rparr>
      in case cx_ReqInfo cx of
           None \<Rightarrow> (Some (PanicErr NoRequestInfo), rw, req, s)
         | Some ri \<Rightarrow>
             (case reqInfoSpecialHandler mw ri of
                Some h \<Rightarrow> write_last req (special_resp mw req ri h) rw s
              | None \<Rightarrow>
                  (case handle cx (MakeNonWriter rw) req s of
                     (Some e, nwrw, req, s) \<Rightarrow> (Some e, after_NonWriter rw nwrw, req, s)
                   | (None, nwrw, req, s) \<Rightarrow>
                       (case wr_resp nwrw of
                          None \<Rightarrow> (Some (PanicErr NilResponse), after_NonWriter rw nwrw, req, s)
                        | Some resp \<Rightarrow>
                            write_last req (resp\<lparr>AuthenticatedData := AuthenticatedData resp \<and> (reqAD \<or> reqDO)\<rparr>)
                              (after_NonWriter rw nwrw) s))))"

end
