(* ===== verification/Pre_Mw.thy ===== *)
theory Pre_Mw
  imports Handler Hash_Prefix
begin

text \<open>
  The middleware before the service (\<open>internal/dnssvc/internal/preservice\<close>), which answers queries for hashes and for
  the DNS check, and the middleware before the upstream (\<open>internal/dnssvc/internal/preupstream\<close>), which unifies
  the metric domains of Android and records the anonymous statistics.
\<close>

subsection \<open>Before the service\<close>

record ('e, 's) presvcmw =
  ps_lib :: dnslib
  ps_messages :: constructor
  ps_MatchByPrefix :: "string \<Rightarrow> 's \<Rightarrow> (prefix_error, string list \<times> bool) result"
  ps_Check :: "msg \<Rightarrow> 'e request_info \<Rightarrow> 's \<Rightarrow> ('e, msg option) result \<times> 's"

definition respondWithHashes ::
  "('e, 's) presvcmw \<Rightarrow> ('e, 's) handler \<Rightarrow> 'e ctx \<Rightarrow> 'e writer \<Rightarrow> msg \<Rightarrow> 'e request_info \<Rightarrow> 's \<Rightarrow> ('e, 's) outcome" where
  "respondWithHashes mw handle cx rw req ri s =
     (case ps_MatchByPrefix mw (ri_Host ri) s of
        Inl _ \<Rightarrow> write_last req (NewRespRCode (ps_lib mw) (ps_messages mw) req RcodeRefused) rw s
      | Inr (hashes, matched) \<Rightarrow>
          if \<not> matched then handle cx rw req s
          else (case NewRespTXT (ps_lib mw) (ps_messages mw) req hashes of
                  Inl e \<Rightarrow> (Some (MessageErr e), rw, req, s)
                | Inr resp \<Rightarrow> write_last req resp rw s))"

definition presvc_Wrap :: "('e, 's) presvcmw \<Rightarrow> ('e, 's) middleware" where
  "presvc_Wrap mw handle cx rw req s =
     (case cx_ReqInfo cx of
        None \<Rightarrow> (Some (PanicErr NoRequestInfo), rw, req, s)
      | Some ri \<Rightarrow>
          if ri_QType ri = TypeTXT then respondWithHashes mw handle cx rw req ri s
          else (case ps_Check mw req ri s of
                  (Inl e, s) \<Rightarrow> (Some (CheckErr e), rw, req, s)
                | (Inr None, s) \<Rightarrow> handle cx rw req s
                | (Inr (Some resp), s) \<Rightarrow> write_last req resp rw s))"

subsection \<open>Before the upstream\<close>

text \<open>A nil response is ignored by the statistics and passed on to the writer, which a non-writer keeps as no response.\<close>

record ('e, 's) preupsmw =
  pu_lib :: dnslib
  pu_Record :: "msg option \<Rightarrow> 'e request_info \<Rightarrow> 's \<Rightarrow> 's"

definition replaceResp :: "string \<Rightarrow> msg \<Rightarrow> msg" where
  "replaceResp name resp =
     (if Answer resp = [] then resp
      else resp\<lparr>Answer := map (\<lambda>a. if AndroidMetricDomainReplacement (rr_Name (Hdr a)) \<noteq> []
                                 then a\<lparr>Hdr := (Hdr a)\<lparr>rr_Name := name\<rparr>\<rparr> else a) (Answer resp)\<rparr>)"

definition set_question_name :: "string \<Rightarrow> msg \<Rightarrow> msg" where
  "set_question_name name m = m\<lparr>Question := (Question m)[0 := (question0 m)\<lparr>q_Name := name\<rparr>]\<rparr>"

definition serveAndroidMetric ::
  "('e, 's) preupsmw \<Rightarrow> ('e, 's) handler \<Rightarrow> 'e ctx \<Rightarrow> 'e writer \<Rightarrow> msg \<Rightarrow> string \<Rightarrow> 's \<Rightarrow> ('e, 's) outcome" where
  "serveAndroidMetric mw handle cx rw origReq replName s =
     (case handle cx (MakeNonWriter rw) (set_question_name replName origReq) s of
        (Some e, nwrw, _, s) \<Rightarrow> (Some e, after_NonWriter rw nwrw, origReq, s)
      | (None, nwrw, _, s) \<Rightarrow>
          (case wr_resp nwrw of
             None \<Rightarrow> (Some (PanicErr NilResponse), after_NonWriter rw nwrw, origReq, s)
           | Some resp \<Rightarrow>
               write_last origReq (replaceResp (q_Name (question0 origReq)) (dl_SetReply (pu_lib mw) resp origReq))
                 (after_NonWriter rw nwrw) s))"

definition preups_Wrap :: "('e, 's) preupsmw \<Rightarrow> ('e, 's) middleware" where
  "preups_Wrap mw handle cx rw req s =
     (let rn = AndroidMetricDomainReplacement (q_Name (question0 req))
      in if rn \<noteq> [] then serveAndroidMetric mw handle cx rw req rn s
         else (case handle cx (MakeNonWriter rw) req s of
                 (Some e, nwrw, req, s) \<Rightarrow> (Some e, after_NonWriter rw nwrw, req, s)
               | (None, nwrw, req, s) \<Rightarrow>
                   (case cx_ReqInfo cx of
                      None \<Rightarrow> (Some (PanicErr NoRequestInfo), after_NonWriter rw nwrw, req, s)
                    | Some ri \<Rightarrow>
                        (let s = pu_Record mw (wr_resp nwrw) ri s
                         in case wr_resp nwrw of
                              None \<Rightarrow> if wr_nonWriter rw then (None, after_NonWriter rw nwrw, req, s)
                                      else (Some (PanicErr NilResponse), rw, req, s)
                            | Some resp \<Rightarrow> write_last req resp (after_NonWriter rw nwrw) s))))"

end
