(* ===== verification/Go_Format.thy ===== *)
theory Go_Format
  imports Prelude Go_Strings
begin

text \<open>Formatting as in Go's standard library: decimal numbers and the text of IP addresses.\<close>

function digits_of :: "nat \<Rightarrow> nat \<Rightarrow> nat list" where
  "digits_of b n = (if b < 2 \<or> n < b then [n] else digits_of b (n div b) @ [n mod b])"
  by pat_completeness auto
termination
  by (relation "measure snd") auto

declare digits_of.simps [simp del]

definition digit_char :: "nat \<Rightarrow> char" where
  "digit_char d = (if d < 10 then char_of (48 + d) else char_of (87 + d))"

text \<open>\<^verbatim>\<open>strconv.FormatUint\<close>\<close>

definition format_uint :: "nat \<Rightarrow> nat \<Rightarrow> string" where
  "format_uint b n = map digit_char (digits_of b n)"

definition ipv4_octets :: "32 word \<Rightarrow> nat list" where
  "ipv4_octets w = map (\<lambda>i. unat (and (drop_bit i w) 0xFF)) [24, 16, 8, 0]"

definition ipv4_string :: "32 word \<Rightarrow> string" where
  "ipv4_string w = join_with (CHR ''.'') (map (format_uint 10) (ipv4_octets w))"

definition ipv6_groups :: "128 word \<Rightarrow> nat list" where
  "ipv6_groups w = map (\<lambda>i. unat (and (drop_bit (16 * (7 - i)) w) 0xFFFF)) [0..<8]"

text \<open>The first longest run of zero groups, if it has at least two groups: its start and end.\<close>

fun zero_run :: "nat list \<Rightarrow> nat" where
  "zero_run (0 # gs) = Suc (zero_run gs)"
| "zero_run _ = 0"

definition longest_zeros :: "nat list \<Rightarrow> (nat \<times> nat) option" where
  "longest_zeros gs =
     (let runs = map (\<lambda>i. (i, zero_run (drop i gs))) [0..<length gs];
          best = fold (\<lambda>(i, n) (j, m). if m < n then (i, n) else (j, m)) runs (0, 0)
      in if 2 \<le> snd best then Some (fst best, fst best + snd best) else None)"

definition ipv6_string :: "128 word \<Rightarrow> string" where
  "ipv6_string w =
     (let gs = ipv6_groups w; hex = (\<lambda>gs. join_with (CHR '':'') (map (format_uint 16) gs))
      in case longest_zeros gs of
           None \<Rightarrow> hex gs
         | Some (i, j) \<Rightarrow> hex (take i gs) @ ''::'' @ hex (drop j gs))"

text \<open>\<^verbatim>\<open>net.IP.String\<close> of the address: mapped addresses are printed as IPv4 and zones are dropped.\<close>

definition ip_string :: "addr \<Rightarrow> string" where
  "ip_string a =
     (case addr_unmap a of
        AddrZero \<Rightarrow> ''<nil>''
      | Addr4 w \<Rightarrow> ipv4_string w
      | Addr6 w _ \<Rightarrow> ipv6_string w)"

end
