(* ===== verification/Dns_Rewrite.thy ===== *)
theory Dns_Rewrite
  imports Rule_List Agd_Server Dns_Msg_Laws
begin

text \<open>
  DNS-rewrite rules, \<open>internal/filter/internal/rulelist/dnsrewrite.go\<close>, and the service-binding records of the
  message constructor, \<open>internal/dnsmsg/svcbmsg.go\<close>, which these rules and the discovery of designated
  resolvers use.
\<close>

subsection \<open>Service-binding records\<close>

text \<open>
  \<open>parseIP\<close> is \<^verbatim>\<open>net.ParseIP\<close>, which gives sixteen bytes, and \<open>decode64\<close> the standard Base64 decoding.
  The parameters of a record are listed in the order in which the loop over the map comes to them.
\<close>

record svcb_env =
  se_parseIP :: "string \<Rightarrow> net_ip option"
  se_decode64 :: "string \<Rightarrow> string option"

definition strToSVCBKey :: "string \<rightharpoonup> 16 word" where
  "strToSVCBKey = map_of
     [(''alpn'', 1), (''dohpath'', 7), (''ech'', 5), (''ipv4hint'', 4), (''ipv6hint'', 6), (''mandatory'', 0),
      (''no-default-alpn'', 2), (''port'', 3)]"

definition is_digit :: "char \<Rightarrow> bool" where
  "is_digit c \<longleftrightarrow> 48 \<le> byte c \<and> byte c \<le> (57::nat)"

definition parse_port :: "string \<Rightarrow> 16 word option" where
  "parse_port s =
     (if s = [] \<or> \<not> list_all is_digit s then None
      else (let n = foldl (\<lambda>n c. 10 * n + (byte c - 48)) (0::nat) s in if n < 65536 then Some (of_nat n) else None))"

text \<open>\<open>To4\<close> is not nil exactly for addresses with the prefix of mapped IPv4 addresses.\<close>

definition net_ip_is4 :: "net_ip \<Rightarrow> bool" where
  "net_ip_is4 ip \<longleftrightarrow> length ip = 4 \<or> length ip = 16 \<and> take 12 ip = replicate 10 0 @ [0xff, 0xff]"

definition svcbKeyHandler :: "svcb_env \<Rightarrow> string \<Rightarrow> (string \<Rightarrow> svcb_kv option) option" where
  "svcbKeyHandler S k =
     (if k = ''alpn'' then Some (\<lambda>v. Some (SVCBAlpn [v]))
      else if k = ''dohpath'' then Some (\<lambda>v. Some (SVCBDoHPath v))
      else if k = ''ech'' then Some (\<lambda>v. map_option SVCBECHConfig (se_decode64 S v))
      else if k = ''ipv4hint''
      then Some (\<lambda>v. case se_parseIP S v of
                       None \<Rightarrow> None
                     | Some ip \<Rightarrow> if \<not> net_ip_is4 ip then None else Some (SVCBIPv4Hint [ip]))
      else if k = ''ipv6hint'' then Some (\<lambda>v. map_option (\<lambda>ip. SVCBIPv6Hint [ip]) (se_parseIP S v))
      else if k = ''mandatory'' then Some (\<lambda>v. map_option (\<lambda>code. SVCBMandatory [code]) (strToSVCBKey v))
      else if k = ''no-default-alpn'' then Some (\<lambda>_. Some SVCBNoDefaultAlpn)
      else if k = ''port'' then Some (\<lambda>v. map_option SVCBPort (parse_port v))
      else None)"

definition svcb_values :: "svcb_env \<Rightarrow> (string \<times> string) list \<Rightarrow> svcb_kv list" where
  "svcb_values S params =
     List.map_filter (\<lambda>(k, v). case svcbKeyHandler S k of None \<Rightarrow> None | Some handler \<Rightarrow> handler v) params"

definition NewAnswerSVCB ::
  "dnslib \<Rightarrow> svcb_env \<Rightarrow> constructor \<Rightarrow> msg \<Rightarrow> 16 word \<Rightarrow> string \<Rightarrow> (string \<times> string) list \<Rightarrow> rr" where
  "NewAnswerSVCB L S c req prio target params =
     \<lparr>Hdr = newHdr c req TypeSVCB,
      Data = RD_SVCB \<lparr>svcb_Priority = prio, svcb_Target = dl_Fqdn L target, svcb_Value = svcb_values S params\<rparr>\<rparr>"

definition NewAnswerHTTPS ::
  "dnslib \<Rightarrow> svcb_env \<Rightarrow> constructor \<Rightarrow> msg \<Rightarrow> 16 word \<Rightarrow> string \<Rightarrow> (string \<times> string) list \<Rightarrow> rr" where
  "NewAnswerHTTPS L S c req prio target params =
     \<lparr>Hdr = (newHdr c req TypeSVCB)\<lparr>Rrtype := TypeHTTPS\<rparr>,
      Data = RD_HTTPS \<lparr>svcb_Priority = prio, svcb_Target = dl_Fqdn L target, svcb_Value = svcb_values S params\<rparr>\<rparr>"

fun ALPN :: "protocol \<Rightarrow> string list" where
  "ALPN ProtoDoT = [''dot'']"
| "ALPN ProtoDoQ = [''doq'']"
| "ALPN ProtoDoH = [''h3'', ''h2'', ''http/1.1'']"
| "ALPN _ = []"

text \<open>\<open>None\<close> is the panic on a protocol that is not a standard encrypted one.\<close>

definition NewDDRTemplate ::
  "dnslib \<Rightarrow> constructor \<Rightarrow> protocol \<Rightarrow> string \<Rightarrow> string \<Rightarrow> addr list \<Rightarrow> addr list \<Rightarrow> 16 word \<Rightarrow> 16 word \<Rightarrow> rr option" where
  "NewDDRTemplate L c proto resolverName dohPath ipv4Hints ipv6Hints port prio =
     (if \<not> IsStdEncrypted proto then None
      else Some
        \<lparr>Hdr = newHdrWithClass c [] TypeSVCB ClassINET,
         Data = RD_SVCB
           \<lparr>svcb_Priority = prio, svcb_Target = dl_Fqdn L resolverName,
            svcb_Value =
              [SVCBAlpn (ALPN proto), SVCBPort port] @
              (if proto = ProtoDoH \<and> dohPath \<noteq> [] then [SVCBDoHPath dohPath] else []) @
              (if ipv4Hints \<noteq> [] then [SVCBIPv4Hint (map addr_bytes ipv4Hints)] else []) @
              (if ipv6Hints \<noteq> [] then [SVCBIPv6Hint (map addr_bytes ipv6Hints)] else [])\<rparr>\<rparr>)"

subsection \<open>Rewrite rules\<close>

record rewrite_result =
  rw_Response :: "16 word \<Rightarrow> rr_value list"
  rw_CanonName :: string
  rw_ResRuleText :: rule_text
  rw_RCode :: int

definition empty_rewrite :: rewrite_result where
  "empty_rewrite = \<lparr>rw_Response = (\<lambda>_. []), rw_CanonName = [], rw_ResRuleText = [], rw_RCode = RcodeSuccess\<rparr>"

text \<open>The rules given to these functions have a rewrite.\<close>

definition rule_rewrite :: "network_rule \<Rightarrow> dns_rewrite" where
  "rule_rewrite r = the (nr_DNSRewrite r)"

fun processDNSRewriteRules :: "network_rule list \<Rightarrow> rewrite_result \<Rightarrow> rewrite_result" where
  "processDNSRewriteRules [] res = res"
| "processDNSRewriteRules (rule # dnsr) res =
     (let dr = rule_rewrite rule
      in if dr_NewCNAME dr \<noteq> [] then res\<lparr>rw_CanonName := dr_NewCNAME dr, rw_ResRuleText := nr_Text rule\<rparr>
         else if dr_RCode dr \<noteq> RcodeSuccess then res\<lparr>rw_ResRuleText := nr_Text rule, rw_RCode := dr_RCode dr\<rparr>
         else processDNSRewriteRules dnsr
                (res\<lparr>rw_Response := (rw_Response res)(dr_RRType dr := rw_Response res (dr_RRType dr) @ [dr_Value dr]),
                     rw_RCode := dr_RCode dr\<rparr>))"

datatype rewrite_error = BadValueType | RewriteMessage msg_error

definition newAnsFromIP :: "flt_request \<Rightarrow> rr_value \<Rightarrow> 16 word \<Rightarrow> (rewrite_error, rr option) result" where
  "newAnsFromIP req v rtype =
     (case v of
        RVAddr ip \<Rightarrow>
          (let target = q_Name (question0 (fr_DNS req));
               r = (if rtype = TypeA then NewAnswerA (fr_Messages req) target ip
                    else NewAnswerAAAA (fr_Messages req) target ip)
           in case r of Inl e \<Rightarrow> Inl (RewriteMessage e) | Inr ans \<Rightarrow> Inr (Some ans))
      | _ \<Rightarrow> Inl BadValueType)"

definition newAnsFromString :: "dnslib \<Rightarrow> flt_request \<Rightarrow> rr_value \<Rightarrow> 16 word \<Rightarrow> (rewrite_error, rr option) result" where
  "newAnsFromString L req v rtype =
     (case v of
        RVString str \<Rightarrow>
          (if rtype = TypeTXT
           then (case NewAnswerTXT (fr_Messages req) (fr_DNS req) [str] of
                   Inl e \<Rightarrow> Inl (RewriteMessage e)
                 | Inr ans \<Rightarrow> Inr (Some ans))
           else Inr (Some (NewAnswerPTR L (fr_Messages req) (fr_DNS req) str)))
      | _ \<Rightarrow> Inl BadValueType)"

definition rw_newAnswerMX :: "dnslib \<Rightarrow> flt_request \<Rightarrow> rr_value \<Rightarrow> (rewrite_error, rr option) result" where
  "rw_newAnswerMX L req v =
     (case v of
        RVMX preference exchange \<Rightarrow> Inr (Some (NewAnswerMX L (fr_Messages req) (fr_DNS req) exchange preference))
      | _ \<Rightarrow> Inl BadValueType)"

definition newAnsFromSVCB ::
  "dnslib \<Rightarrow> svcb_env \<Rightarrow> flt_request \<Rightarrow> rr_value \<Rightarrow> 16 word \<Rightarrow> (rewrite_error, rr option) result" where
  "newAnsFromSVCB L S req v rtype =
     (case v of
        RVSVCB prio target params \<Rightarrow>
          Inr (Some ((if rtype = TypeHTTPS then NewAnswerHTTPS else NewAnswerSVCB)
                       L S (fr_Messages req) (fr_DNS req) prio target params))
      | _ \<Rightarrow> Inl BadValueType)"

definition rw_newAnswerSRV :: "dnslib \<Rightarrow> flt_request \<Rightarrow> rr_value \<Rightarrow> (rewrite_error, rr option) result" where
  "rw_newAnswerSRV L req v =
     (case v of
        RVSRV prio weight port target \<Rightarrow>
          Inr (Some (NewAnswerSRV L (fr_Messages req) (fr_DNS req) target prio weight port))
      | _ \<Rightarrow> Inl BadValueType)"

definition filterDNSRewriteResponse ::
  "dnslib \<Rightarrow> svcb_env \<Rightarrow> flt_request \<Rightarrow> 16 word \<Rightarrow> rr_value \<Rightarrow> (rewrite_error, rr option) result" where
  "filterDNSRewriteResponse L S req rtype v =
     (if rtype = TypeA \<or> rtype = TypeAAAA then newAnsFromIP req v rtype
      else if rtype = TypePTR \<or> rtype = TypeTXT then newAnsFromString L req v rtype
      else if rtype = TypeMX then rw_newAnswerMX L req v
      else if rtype = TypeHTTPS \<or> rtype = TypeSVCB then newAnsFromSVCB L S req v rtype
      else if rtype = TypeSRV then rw_newAnswerSRV L req v
      else Inr None)"

fun rewrite_answers ::
  "(rr_value \<Rightarrow> (rewrite_error, rr option) result) \<Rightarrow> rr_value list \<Rightarrow> msg \<Rightarrow> (rewrite_error, msg) result" where
  "rewrite_answers newAns [] resp = Inr resp"
| "rewrite_answers newAns (v # vs) resp =
     (case newAns v of
        Inl e \<Rightarrow> Inl e
      | Inr None \<Rightarrow> rewrite_answers newAns vs resp
      | Inr (Some ans) \<Rightarrow> rewrite_answers newAns vs (resp\<lparr>Answer := Answer resp @ [ans]\<rparr>))"

definition filterDNSRewrite ::
  "dnslib \<Rightarrow> svcb_env \<Rightarrow> flt_request \<Rightarrow> rewrite_result \<Rightarrow> (rewrite_error, msg) result" where
  "filterDNSRewrite L S req res =
     (let resp = NewBlockedRespRCode L (fr_Messages req) (fr_DNS req) RcodeSuccess;
          rtype = Qtype (question0 (fr_DNS req))
      in rewrite_answers (filterDNSRewriteResponse L S req rtype) (rw_Response res rtype) resp)"

definition ProcessDNSRewrites ::
  "dnslib \<Rightarrow> svcb_env \<Rightarrow> flt_request \<Rightarrow> network_rule list \<Rightarrow> filter_id \<Rightarrow> flt_result option" where
  "ProcessDNSRewrites L S req dnsr i =
     (if dnsr = [] then None
      else
        (let res = processDNSRewriteRules dnsr empty_rewrite
         in if rw_CanonName res \<noteq> []
            then (if equal_fold (rw_CanonName res) (fr_Host req) then None
                  else Some (ResultModifiedRequest (set_qname (dl_Fqdn L (rw_CanonName res)) (fr_DNS req)) i
                               (rw_ResRuleText res)))
            else if rw_RCode res \<noteq> RcodeSuccess
            then Some (ResultModifiedResponse (NewBlockedRespRCode L (fr_Messages req) (fr_DNS req) (rw_RCode res)) i
                         (rw_ResRuleText res))
            else (case filterDNSRewrite L S req res of
                    Inl e \<Rightarrow> None
                  | Inr resp \<Rightarrow> Some (ResultModifiedResponse resp i []))))"

subsection \<open>Which rule decides\<close>

definition decisive :: "network_rule \<Rightarrow> bool" where
  "decisive r \<longleftrightarrow> dr_NewCNAME (rule_rewrite r) \<noteq> [] \<or> dr_RCode (rule_rewrite r) \<noteq> RcodeSuccess"

definition typed_values :: "network_rule list \<Rightarrow> 16 word \<Rightarrow> rr_value list" where
  "typed_values dnsr t = map (dr_Value \<circ> rule_rewrite) (filter (\<lambda>r. dr_RRType (rule_rewrite r) = t) dnsr)"

lemma process_decisive:
  assumes "find decisive dnsr = Some r" "rw_CanonName res = []" "rw_RCode res = RcodeSuccess"
  shows "rw_ResRuleText (processDNSRewriteRules dnsr res) = nr_Text r"
    "rw_CanonName (processDNSRewriteRules dnsr res) = dr_NewCNAME (rule_rewrite r)"
    "dr_NewCNAME (rule_rewrite r) = [] \<Longrightarrow> rw_RCode (processDNSRewriteRules dnsr res) = dr_RCode (rule_rewrite r)"
proof -
  have "rw_ResRuleText (processDNSRewriteRules dnsr res) = nr_Text r \<and>
      rw_CanonName (processDNSRewriteRules dnsr res) = dr_NewCNAME (rule_rewrite r) \<and>
      (dr_NewCNAME (rule_rewrite r) = [] \<longrightarrow> rw_RCode (processDNSRewriteRules dnsr res) = dr_RCode (rule_rewrite r))"
    using assms by (induction dnsr arbitrary: res) (auto simp: Let_def decisive_def split: if_splits)
  then show "rw_ResRuleText (processDNSRewriteRules dnsr res) = nr_Text r"
    "rw_CanonName (processDNSRewriteRules dnsr res) = dr_NewCNAME (rule_rewrite r)"
    "dr_NewCNAME (rule_rewrite r) = [] \<Longrightarrow> rw_RCode (processDNSRewriteRules dnsr res) = dr_RCode (rule_rewrite r)"
    by simp_all
qed

lemma process_values:
  assumes "find decisive dnsr = None"
  shows "rw_Response (processDNSRewriteRules dnsr res) t = rw_Response res t @ typed_values dnsr t"
    "rw_CanonName (processDNSRewriteRules dnsr res) = rw_CanonName res"
    "rw_RCode res = RcodeSuccess \<Longrightarrow> rw_RCode (processDNSRewriteRules dnsr res) = RcodeSuccess"
  using assms by (induction dnsr arbitrary: res) (auto simp: Let_def decisive_def typed_values_def split: if_splits)

lemma rewrite_answers_ok:
  "rewrite_answers newAns vs resp = Inr m \<Longrightarrow>
     \<exists>anss. map newAns vs = map Inr anss \<and>
       m = resp\<lparr>Answer := Answer resp @ List.map_filter (\<lambda>a. a) anss\<rparr>"
proof (induction vs arbitrary: resp)
  case (Cons v vs)
  then obtain a where a: "newAns v = Inr a" by (cases "newAns v") auto
  let ?resp = "case a of None \<Rightarrow> resp | Some ans \<Rightarrow> resp\<lparr>Answer := Answer resp @ [ans]\<rparr>"
  have "rewrite_answers newAns vs ?resp = Inr m" using Cons.prems a by (simp split: option.splits)
  then obtain anss where "map newAns vs = map Inr anss" "m = ?resp\<lparr>Answer := Answer ?resp @ List.map_filter (\<lambda>a. a) anss\<rparr>"
    using Cons.IH by blast
  then show ?case
    using a by (intro exI [of _ "a # anss"]) (auto simp: map_filter_simps split: option.split)
qed (simp add: map_filter_simps)

definition answers_question :: "constructor \<Rightarrow> msg \<Rightarrow> rr \<Rightarrow> bool" where
  "answers_question c req a \<longleftrightarrow> Hdr a = newHdr c req (Qtype (question0 req))"

lemma rewrite_answer_typed:
  assumes "filterDNSRewriteResponse L S req (Qtype (question0 (fr_DNS req))) v = Inr (Some a)"
  shows "answers_question (fr_Messages req) (fr_DNS req) a"
  using assms
  by (auto simp: filterDNSRewriteResponse_def newAnsFromIP_def newAnsFromString_def rw_newAnswerMX_def newAnsFromSVCB_def
      rw_newAnswerSRV_def NewAnswerA_def NewAnswerAAAA_def NewAnswerTXT_def NewAnswerPTR_def NewAnswerMX_def NewAnswerHTTPS_def
      NewAnswerSVCB_def NewAnswerSRV_def answers_question_def newHdr_def newHdrWithClass_def Let_def
      split: if_splits rr_value.splits sum.splits option.splits)


definition ex_svcb_env :: svcb_env where
  "ex_svcb_env = \<lparr>se_parseIP = (\<lambda>_. None), se_decode64 = (\<lambda>_. None)\<rparr>"

definition ex_rewrite_rule :: "string \<Rightarrow> string \<Rightarrow> int \<Rightarrow> rr_value \<Rightarrow> network_rule" where
  "ex_rewrite_rule text cname code v =
     \<lparr>nr_ptr = 1, nr_Text = text, nr_Whitelist = False,
      nr_DNSRewrite = Some \<lparr>dr_RCode = code, dr_RRType = TypeA, dr_Value = v, dr_NewCNAME = cname\<rparr>\<rparr>"

definition ex_rw_request :: flt_request where
  "ex_rw_request =
     \<lparr>fr_DNS = ex_request ''a.example.'' TypeA, fr_Messages = ex_constructor, fr_RemoteIP = Addr4 1, fr_ClientName = [],
      fr_Host = ''a.example'', fr_QType = TypeA, fr_QClass = ClassINET\<rparr>"


text \<open>
  A refusing rule that comes before a rule with a new name decides, although the comment in the code
  says that rules with a new name have a higher priority than others.
\<close>

lemma refused_before_cname:
  "ProcessDNSRewrites dnslib_std ex_svcb_env ex_rw_request
     [ex_rewrite_rule ''r1'' [] 5 RVNil, ex_rewrite_rule ''r2'' ''b.example'' 0 RVNil] ''lst'' =
   Some (ResultModifiedResponse (NewBlockedRespRCode dnslib_std ex_constructor (ex_request ''a.example.'' TypeA) 5) ''lst'' ''r1'')"
  by (simp add: ProcessDNSRewrites_def ex_rewrite_rule_def rule_rewrite_def empty_rewrite_def ex_rw_request_def Let_def)

text \<open>An IPv4 address is accepted as an IPv6 hint.\<close>

lemma ipv6hint_accepts_ipv4:
  "se_parseIP S v = Some ip \<Longrightarrow> net_ip_is4 ip \<Longrightarrow> svcb_values S [(''ipv6hint'', v)] = [SVCBIPv6Hint [ip]]"
  by (simp add: svcb_values_def svcbKeyHandler_def map_filter_simps)

end
