(* ===== verification/Composite.thy ===== *)
theory Composite
  imports Dns_Rewrite Go_Strings
begin

text \<open>
  The composite filter, \<open>internal/filter/internal/composite/{composite,result,request}.go\<close>, with the safe-search
  filter, \<open>internal/filter/internal/safesearch/safesearch.go\<close>.  The filters it is made of are operations on a
  shared state of type \<open>'s\<close>: the rule lists set a result of the engine, the request filters give a
  filtering result.
\<close>

subsection \<open>The parts\<close>

record 's rule_list =
  rl_ID :: "filter_id \<times> blocked_service_id"
  rl_Set :: "uf_request \<Rightarrow> 's \<Rightarrow> uf_result option \<times> 's"

type_synonym 's req_filter = "flt_request \<Rightarrow> 's \<Rightarrow> (flt_error, flt_result option) result \<times> 's"

record 's composite =
  co_custom :: "(uf_request \<Rightarrow> 's \<Rightarrow> uf_result option \<times> 's) option"
  co_ruleLists :: "'s rule_list list"
  co_customRuleLists :: "'s rule_list list"
  co_svcLists :: "'s rule_list list"
  co_reqFilters :: "'s req_filter list"

text \<open>
  What is used of other modules: the DNS library, the parameters of service bindings, the functions of the
  filtering engine on results, and the texts of addresses and of service-binding values.
\<close>

record flt_env =
  fv_L :: dnslib
  fv_S :: svcb_env
  fv_DNSRewrites :: "uf_result \<Rightarrow> network_rule list"
  fv_GetDNSBasicRule :: "network_rule list \<Rightarrow> network_rule option"
  fv_ipString :: "net_ip \<Rightarrow> string"
  fv_kvString :: "svcb_kv \<Rightarrow> string"

text \<open>The basic rule is one of the rules it is chosen from.\<close>

definition flt_env_ok :: "flt_env \<Rightarrow> bool" where
  "flt_env_ok V \<longleftrightarrow> (\<forall>rs nr. fv_GetDNSBasicRule V rs = Some nr \<longrightarrow> nr \<in> set rs)"

subsection \<open>The safe-search filter\<close>

definition replaceRule :: "flt_result option \<Rightarrow> string \<Rightarrow> (flt_error, flt_result option) result" where
  "replaceRule r host =
     (case r of
        None \<Rightarrow> Inr None
      | Some (ResultModifiedRequest m i _) \<Rightarrow> Inr (Some (ResultModifiedRequest m i host))
      | Some (ResultModifiedResponse m i _) \<Rightarrow> Inr (Some (ResultModifiedResponse m i host))
      | _ \<Rightarrow> Inl PanicResultType)"

definition FilterRequestUF ::
  "flt_env \<Rightarrow> 's rule_list \<Rightarrow> uf_request \<Rightarrow> 's req_filter" where
  "FilterRequestUF V flt ufReq req s =
     (let qt = fr_QType req
      in if \<not> (qt = TypeA \<or> qt = TypeAAAA \<or> qt = TypeHTTPS) then (Inr None, s)
         else (case rl_Set flt (ufReq\<lparr>uq_Hostname := fr_Host req, uq_DNSType := qt\<rparr>) s of
                 (None, s) \<Rightarrow> (Inr None, s)
               | (Some ufRes, s) \<Rightarrow>
                   (replaceRule (ProcessDNSRewrites (fv_L V) (fv_S V) req (fv_DNSRewrites V ufRes) (fst (rl_ID flt)))
                      (fr_Host req), s)))"

text \<open>The wrapper resets the request before each use.\<close>

definition ufRequestFilter :: "flt_env \<Rightarrow> 's rule_list \<Rightarrow> 's req_filter" where
  "ufRequestFilter V flt req s = FilterRequestUF V flt uf_request_reset req s"

subsection \<open>Construction\<close>

record 's comp_config =
  cc_SafeBrowsing :: "'s req_filter option"
  cc_AdultBlocking :: "'s req_filter option"
  cc_NewRegisteredDomains :: "'s req_filter option"
  cc_Typosquatting :: "'s req_filter option"
  cc_GeneralSafeSearch :: "'s rule_list option"
  cc_YouTubeSafeSearch :: "'s rule_list option"
  cc_Custom :: "(uf_request \<Rightarrow> 's \<Rightarrow> uf_result option \<times> 's) option"
  cc_CategoryFilters :: "'s req_filter list"
  cc_CustomRuleLists :: "'s rule_list list"
  cc_RuleLists :: "'s rule_list list"
  cc_ServiceLists :: "'s rule_list list"

definition appendIfNotNil :: "'s req_filter option \<Rightarrow> 's req_filter list \<Rightarrow> 's req_filter list" where
  "appendIfNotNil flt orig = (case flt of None \<Rightarrow> orig | Some f \<Rightarrow> orig @ [f])"

definition composite_New :: "flt_env \<Rightarrow> 's comp_config \<Rightarrow> 's composite" where
  "composite_New V c =
     \<lparr>co_custom = cc_Custom c, co_ruleLists = cc_RuleLists c, co_customRuleLists = cc_CustomRuleLists c,
      co_svcLists = cc_ServiceLists c,
      co_reqFilters =
        appendIfNotNil (cc_Typosquatting c)
          (fold (\<lambda>df. appendIfNotNil (Some df)) (cc_CategoryFilters c)
             (appendIfNotNil (cc_NewRegisteredDomains c)
                (appendIfNotNil (map_option (ufRequestFilter V) (cc_YouTubeSafeSearch c))
                   (appendIfNotNil (map_option (ufRequestFilter V) (cc_GeneralSafeSearch c))
                      (appendIfNotNil (cc_AdultBlocking c)
                         (appendIfNotNil (cc_SafeBrowsing c) []))))))\<rparr>"

subsection \<open>The collector of results\<close>

text \<open>The maps are indexed by the rules as objects: rules that are equal here are the same object.\<close>

record collector =
  cl_netRuleIDs :: "network_rule \<rightharpoonup> filter_id"
  cl_hostRuleIDs :: "host_rule \<rightharpoonup> filter_id"
  cl_netRuleSvcIDs :: "network_rule \<rightharpoonup> blocked_service_id"
  cl_hostRuleSvcIDs :: "host_rule \<rightharpoonup> blocked_service_id"
  cl_networkRules :: "network_rule list"
  cl_hostRules4 :: "host_rule list"
  cl_hostRules6 :: "host_rule list"

definition newCollector :: collector where
  "newCollector =
     \<lparr>cl_netRuleIDs = Map.empty, cl_hostRuleIDs = Map.empty, cl_netRuleSvcIDs = Map.empty,
      cl_hostRuleSvcIDs = Map.empty, cl_networkRules = [], cl_hostRules4 = [], cl_hostRules6 = []\<rparr>"

definition set_ids :: "'r list \<Rightarrow> 'i \<Rightarrow> ('r \<rightharpoonup> 'i) \<Rightarrow> ('r \<rightharpoonup> 'i)" where
  "set_ids rs i m = fold (\<lambda>r m. m(r \<mapsto> i)) rs m"

definition addHostRules ::
  "filter_id \<Rightarrow> blocked_service_id \<Rightarrow> host_rule list \<Rightarrow> host_rule list \<Rightarrow> collector \<Rightarrow> collector" where
  "addHostRules i svcID hostRules4 hostRules6 c =
     c\<lparr>cl_hostRules4 := cl_hostRules4 c @ hostRules4, cl_hostRules6 := cl_hostRules6 c @ hostRules6,
       cl_hostRuleIDs := set_ids hostRules6 i (set_ids hostRules4 i (cl_hostRuleIDs c)),
       cl_hostRuleSvcIDs :=
         (if svcID \<noteq> [] then set_ids hostRules6 svcID (set_ids hostRules4 svcID (cl_hostRuleSvcIDs c))
          else cl_hostRuleSvcIDs c)\<rparr>"

definition collector_add :: "filter_id \<Rightarrow> blocked_service_id \<Rightarrow> uf_result \<Rightarrow> collector \<Rightarrow> collector" where
  "collector_add i svcID dr c =
     addHostRules i svcID (ur_HostRulesV4 dr) (ur_HostRulesV6 dr)
       (c\<lparr>cl_networkRules := cl_networkRules c @ ur_NetworkRules dr,
          cl_netRuleIDs := set_ids (ur_NetworkRules dr) i (cl_netRuleIDs c),
          cl_netRuleSvcIDs :=
            (if svcID \<noteq> [] then set_ids (ur_NetworkRules dr) svcID (cl_netRuleSvcIDs c) else cl_netRuleSvcIDs c)\<rparr>)"

text \<open>The text of a rule, or the service for rules of blocked services; the lookups panic on an unknown rule.\<close>

definition rule_data ::
  "('r \<rightharpoonup> filter_id) \<Rightarrow> ('r \<rightharpoonup> blocked_service_id) \<Rightarrow> ('r \<Rightarrow> string) \<Rightarrow> 'r \<Rightarrow>
     (flt_error, filter_id \<times> rule_text) result" where
  "rule_data ids svcIDs text_of r =
     (case ids r of
        None \<Rightarrow> Inl PanicRuleID
      | Some fltID \<Rightarrow>
          if fltID = IDBlockedService
          then (case svcIDs r of None \<Rightarrow> Inl PanicRuleID | Some svcID \<Rightarrow> Inr (fltID, svcID))
          else Inr (fltID, text_of r))"

definition netRuleDataToResult :: "collector \<Rightarrow> network_rule \<Rightarrow> (flt_error, flt_result option) result" where
  "netRuleDataToResult c nr =
     (case rule_data (cl_netRuleIDs c) (cl_netRuleSvcIDs c) nr_Text nr of
        Inl e \<Rightarrow> Inl e
      | Inr (fltID, rule) \<Rightarrow>
          Inr (Some (if nr_Whitelist nr then ResultAllowed fltID rule else ResultBlocked fltID rule)))"

definition hostRuleDataToResult :: "collector \<Rightarrow> host_rule \<Rightarrow> (flt_error, flt_result option) result" where
  "hostRuleDataToResult c hr =
     (case rule_data (cl_hostRuleIDs c) (cl_hostRuleSvcIDs c) hr_Text hr of
        Inl e \<Rightarrow> Inl e
      | Inr (fltID, rule) \<Rightarrow> Inr (Some (ResultBlocked fltID rule)))"

definition hostsRulesToResult :: "collector \<Rightarrow> 16 word \<Rightarrow> (flt_error, flt_result option) result" where
  "hostsRulesToResult c rrType =
     (if cl_hostRules4 c = [] \<and> cl_hostRules6 c = [] then Inr None
      else hostRuleDataToResult c
             (if rrType = TypeA \<and> cl_hostRules4 c \<noteq> [] then hd (cl_hostRules4 c)
              else if rrType = TypeAAAA \<and> cl_hostRules6 c \<noteq> [] then hd (cl_hostRules6 c)
              else if cl_hostRules4 c \<noteq> [] then hd (cl_hostRules4 c)
              else hd (cl_hostRules6 c)))"

definition collector_toInternal :: "flt_env \<Rightarrow> collector \<Rightarrow> 16 word \<Rightarrow> (flt_error, flt_result option) result" where
  "collector_toInternal V c rrType =
     (case fv_GetDNSBasicRule V (cl_networkRules c) of
        Some nr \<Rightarrow> netRuleDataToResult c nr
      | None \<Rightarrow> hostsRulesToResult c rrType)"

subsection \<open>Filtering requests\<close>

definition addClientID :: "string \<Rightarrow> uf_request \<Rightarrow> uf_request" where
  "addClientID i req =
     (if i = [] then req else req\<lparr>uq_ClientIdentifiers := insert i (uq_ClientIdentifiers req)\<rparr>)"

text \<open>The loop over rule lists of both kinds: a rewrite ends it.\<close>

fun req_rule_lists ::
  "flt_env \<Rightarrow> flt_request \<Rightarrow> uf_request \<Rightarrow> 's rule_list list \<Rightarrow> collector \<Rightarrow> 's \<Rightarrow> flt_result option \<times> collector \<times> 's" where
  "req_rule_lists V req ufReq [] c s = (None, c, s)"
| "req_rule_lists V req ufReq (rl # rls) c s =
     (case rl_Set rl ufReq s of
        (None, s) \<Rightarrow> req_rule_lists V req ufReq rls c s
      | (Some ufRes, s) \<Rightarrow>
          (case ProcessDNSRewrites (fv_L V) (fv_S V) req (fv_DNSRewrites V ufRes) (fst (rl_ID rl)) of
             Some r \<Rightarrow> (Some r, c, s)
           | None \<Rightarrow> req_rule_lists V req ufReq rls (collector_add (fst (rl_ID rl)) [] ufRes c) s))"

text \<open>The loop that only collects, with the service identifiers of the lists if \<open>svc\<close>.\<close>

fun collect_rule_lists ::
  "bool \<Rightarrow> uf_request \<Rightarrow> 's rule_list list \<Rightarrow> collector \<Rightarrow> 's \<Rightarrow> collector \<times> 's" where
  "collect_rule_lists svc ufReq [] c s = (c, s)"
| "collect_rule_lists svc ufReq (rl # rls) c s =
     (case rl_Set rl ufReq s of
        (None, s) \<Rightarrow> collect_rule_lists svc ufReq rls c s
      | (Some ufRes, s) \<Rightarrow>
          collect_rule_lists svc ufReq rls
            (collector_add (fst (rl_ID rl)) (if svc then snd (rl_ID rl) else []) ufRes c) s)"

definition filterReqWithCustomFilter ::
  "flt_env \<Rightarrow> 's composite \<Rightarrow> flt_request \<Rightarrow> uf_request \<Rightarrow> collector \<Rightarrow> 's \<Rightarrow>
     (flt_error, flt_result option) result \<times> collector \<times> 's" where
  "filterReqWithCustomFilter V f req ufReq c s =
     (case co_custom f of
        None \<Rightarrow> (Inr None, c, s)
      | Some custom \<Rightarrow>
          (case custom (addClientID (fr_ClientName req) ufReq) s of
             (None, s) \<Rightarrow> (Inr None, c, s)
           | (Some ufRes, s) \<Rightarrow>
               (case ProcessDNSRewrites (fv_L V) (fv_S V) req (fv_DNSRewrites V ufRes) IDCustom of
                  Some r \<Rightarrow> (Inr (Some r), c, s)
                | None \<Rightarrow>
                    (let c = collector_add IDCustom [] ufRes c in (collector_toInternal V c (fr_QType req), c, s)))))"

definition filterReqWithCustomRuleLists ::
  "flt_env \<Rightarrow> 's composite \<Rightarrow> flt_request \<Rightarrow> uf_request \<Rightarrow> collector \<Rightarrow> 's \<Rightarrow>
     (flt_error, flt_result option) result \<times> collector \<times> 's" where
  "filterReqWithCustomRuleLists V f req ufReq c s =
     (case req_rule_lists V req (addClientID (fr_ClientName req) ufReq) (co_customRuleLists f) c s of
        (Some r, c, s) \<Rightarrow> (Inr (Some r), c, s)
      | (None, c, s) \<Rightarrow> (collector_toInternal V c (fr_QType req), c, s))"

definition common_uf_request :: "addr \<Rightarrow> 16 word \<Rightarrow> string \<Rightarrow> bool \<Rightarrow> uf_request" where
  "common_uf_request ip t host ans =
     uf_request_reset\<lparr>uq_Answer := ans, uq_ClientIP := ip, uq_DNSType := t, uq_Hostname := host\<rparr>"

definition filterReqWithRuleLists ::
  "flt_env \<Rightarrow> 's composite \<Rightarrow> flt_request \<Rightarrow> 's \<Rightarrow> (flt_error, flt_result option \<times> bool) result \<times> 's" where
  "filterReqWithRuleLists V f req s =
     (let ufReq0 = common_uf_request (fr_RemoteIP req) (fr_QType req) (fr_Host req) False;
          ufReq = addClientID (fr_ClientName req) ufReq0
      in case filterReqWithCustomFilter V f req ufReq newCollector s of
           (Inl e, _, s) \<Rightarrow> (Inl e, s)
         | (Inr (Some r), _, s) \<Rightarrow> (Inr (Some r, True), s)
         | (Inr None, c, s) \<Rightarrow>
             (case filterReqWithCustomRuleLists V f req ufReq c s of
                (Inl e, _, s) \<Rightarrow> (Inl e, s)
              | (Inr (Some r), _, s) \<Rightarrow> (Inr (Some r, True), s)
              | (Inr None, c, s) \<Rightarrow>
                  (case req_rule_lists V req ufReq0 (co_ruleLists f) c s of
                     (Some r, _, s) \<Rightarrow> (Inr (Some r, False), s)
                   | (None, c, s) \<Rightarrow>
                       (let (c, s) = collect_rule_lists True ufReq0 (co_svcLists f) c s
                        in (case collector_toInternal V c (fr_QType req) of
                              Inl e \<Rightarrow> Inl e
                            | Inr r \<Rightarrow> Inr (r, False), s)))))"

fun req_filters :: "'s req_filter list \<Rightarrow> 's req_filter" where
  "req_filters [] req s = (Inr None, s)"
| "req_filters (rf # rfs) req s =
     (case rf req s of
        (Inl e, s) \<Rightarrow> (Inl e, s)
      | (Inr (Some r), s) \<Rightarrow> (Inr (Some r), s)
      | (Inr None, s) \<Rightarrow> req_filters rfs req s)"

definition composite_FilterRequest :: "flt_env \<Rightarrow> 's composite \<Rightarrow> 's req_filter" where
  "composite_FilterRequest V f req s =
     (case filterReqWithRuleLists V f req s of
        (Inl e, s) \<Rightarrow> (Inl e, s)
      | (Inr (rlRes, fromCustom), s) \<Rightarrow>
          (case rlRes of
             Some (ResultBlocked _ _) \<Rightarrow> (Inr rlRes, s)
           | Some (ResultModifiedRequest _ _ _) \<Rightarrow> (Inr rlRes, s)
           | Some (ResultModifiedResponse _ _ _) \<Rightarrow> (Inr rlRes, s)
           | _ \<Rightarrow>
               if rlRes \<noteq> None \<and> fromCustom then (Inr rlRes, s)
               else (case req_filters (co_reqFilters f) req s of
                       (Inl e, s) \<Rightarrow> (Inl e, s)
                     | (Inr (Some r), s) \<Rightarrow> (Inr (Some r), s)
                     | (Inr None, s) \<Rightarrow> (Inr rlRes, s))))"

subsection \<open>Filtering responses\<close>

definition filterRespWithCustomRuleLists ::
  "flt_env \<Rightarrow> 's composite \<Rightarrow> flt_response \<Rightarrow> uf_request \<Rightarrow> 16 word \<Rightarrow> collector \<Rightarrow> 's \<Rightarrow>
     (flt_error, flt_result option) result \<times> collector \<times> 's" where
  "filterRespWithCustomRuleLists V f resp ufReq rrType c s =
     (let (c, s) = collect_rule_lists False (addClientID (fs_ClientName resp) ufReq) (co_customRuleLists f) c s
      in (collector_toInternal V c rrType, c, s))"

definition filterRespWithRuleLists ::
  "flt_env \<Rightarrow> 's composite \<Rightarrow> flt_response \<Rightarrow> string \<Rightarrow> 16 word \<Rightarrow> 's \<Rightarrow> (flt_error, flt_result option) result \<times> 's" where
  "filterRespWithRuleLists V f resp host rrType s =
     (let ufReq0 = common_uf_request (fs_RemoteIP resp) rrType host True;
          ufReq = (if co_custom f = None then ufReq0 else addClientID (fs_ClientName resp) ufReq0)
      in case (case co_custom f of None \<Rightarrow> (None, s) | Some custom \<Rightarrow> custom ufReq s) of
           (Some ufRes, s) \<Rightarrow> (collector_toInternal V (collector_add IDCustom [] ufRes newCollector) rrType, s)
         | (None, s) \<Rightarrow>
             (case filterRespWithCustomRuleLists V f resp ufReq rrType newCollector s of
                (Inl e, _, s) \<Rightarrow> (Inl e, s)
              | (Inr (Some r), _, s) \<Rightarrow> (Inr (Some r), s)
              | (Inr None, c, s) \<Rightarrow>
                  (let (c, s) = collect_rule_lists False ufReq0 (co_ruleLists f) c s;
                       (c, s) = collect_rule_lists True ufReq0 (co_svcLists f) c s
                   in (collector_toInternal V c rrType, s))))"

fun filter_hosts ::
  "(string \<Rightarrow> 's \<Rightarrow> (flt_error, flt_result option) result \<times> 's) \<Rightarrow> string list \<Rightarrow> 's \<Rightarrow>
     (flt_error, flt_result option) result \<times> 's" where
  "filter_hosts flt [] s = (Inr None, s)"
| "filter_hosts flt (h # hs) s =
     (case flt h s of
        (Inl e, s) \<Rightarrow> (Inl e, s)
      | (Inr (Some r), s) \<Rightarrow> (Inr (Some r), s)
      | (Inr None, s) \<Rightarrow> filter_hosts flt hs s)"

definition filterSVCBHint ::
  "flt_env \<Rightarrow> 's composite \<Rightarrow> flt_response \<Rightarrow> string \<Rightarrow> 's \<Rightarrow> (flt_error, flt_result option) result \<times> 's" where
  "filterSVCBHint V f resp hint =
     filter_hosts (\<lambda>h. filterRespWithRuleLists V f resp h TypeHTTPS) (split_at (CHR '','') hint)"

fun is_hint :: "svcb_kv \<Rightarrow> bool" where
  "is_hint (SVCBIPv4Hint _) = True"
| "is_hint (SVCBIPv6Hint _) = True"
| "is_hint _ = False"

definition filterHTTPSAnswer ::
  "flt_env \<Rightarrow> 's composite \<Rightarrow> flt_response \<Rightarrow> svcb \<Rightarrow> 's \<Rightarrow> (flt_error, flt_result option) result \<times> 's" where
  "filterHTTPSAnswer V f resp rec =
     filter_hosts (filterSVCBHint V f resp) (map (fv_kvString V) (filter is_hint (svcb_Value rec)))"

definition parseRespAnswer :: "flt_env \<Rightarrow> rr \<Rightarrow> (string \<times> 16 word) option" where
  "parseRespAnswer V ans =
     (case Data ans of
        RD_A ip \<Rightarrow> Some (fv_ipString V ip, TypeA)
      | RD_AAAA ip \<Rightarrow> Some (fv_ipString V ip, TypeAAAA)
      | RD_CNAME target \<Rightarrow> Some (trim_suffix target ''.'', TypeCNAME)
      | _ \<Rightarrow> None)"

definition filterAnswer ::
  "flt_env \<Rightarrow> 's composite \<Rightarrow> flt_response \<Rightarrow> rr \<Rightarrow> 's \<Rightarrow> (flt_error, flt_result option) result \<times> 's" where
  "filterAnswer V f resp ans s =
     (case Data ans of
        RD_HTTPS rec \<Rightarrow> filterHTTPSAnswer V f resp rec s
      | _ \<Rightarrow>
          (case parseRespAnswer V ans of
             None \<Rightarrow> (Inr None, s)
           | Some (host, rrType) \<Rightarrow> filterRespWithRuleLists V f resp host rrType s))"

fun filter_answers ::
  "flt_env \<Rightarrow> 's composite \<Rightarrow> flt_response \<Rightarrow> rr list \<Rightarrow> 's \<Rightarrow> (flt_error, flt_result option) result \<times> 's" where
  "filter_answers V f resp [] s = (Inr None, s)"
| "filter_answers V f resp (a # as) s =
     (case filterAnswer V f resp a s of
        (Inl e, s) \<Rightarrow> (Inl e, s)
      | (Inr (Some r), s) \<Rightarrow> (Inr (Some r), s)
      | (Inr None, s) \<Rightarrow> filter_answers V f resp as s)"

definition composite_FilterResponse ::
  "flt_env \<Rightarrow> 's composite \<Rightarrow> flt_response \<Rightarrow> 's \<Rightarrow> (flt_error, flt_result option) result \<times> 's" where
  "composite_FilterResponse V f resp s = filter_answers V f resp (Answer (fs_DNS resp)) s"

end
