(* ===== verification/Composite_Laws.thy ===== *)
theory Composite_Laws
  imports Composite
begin

text \<open>
  Properties of the composite filter: every result comes from one of its lists or filters and is
  attributed to it, its panics cannot be reached, custom rules take precedence over everything else, and
  responses are never rewritten.
\<close>

subsection \<open>Where rules come from\<close>

text \<open>The lists of a filter with the identifiers under which their results are collected.\<close>

definition sources :: "'s composite \<Rightarrow> ((filter_id \<times> blocked_service_id) \<times> (uf_request \<Rightarrow> 's \<Rightarrow> uf_result option \<times> 's)) set" where
  "sources f =
     (case co_custom f of None \<Rightarrow> {} | Some custom \<Rightarrow> {((IDCustom, []), custom)}) \<union>
     (\<lambda>rl. ((fst (rl_ID rl), []), rl_Set rl)) ` set (co_customRuleLists f @ co_ruleLists f) \<union>
     (\<lambda>rl. (rl_ID rl, rl_Set rl)) ` set (co_svcLists f)"

text \<open>Only lists of blocked services have the identifier of these lists, and they have a service.\<close>

definition composite_wf :: "'s composite \<Rightarrow> bool" where
  "composite_wf f \<longleftrightarrow> (\<forall>((i, svc), _) \<in> sources f. i = IDBlockedService \<longrightarrow> svc \<noteq> [])"

definition gives :: "'s composite \<Rightarrow> filter_id \<times> blocked_service_id \<Rightarrow> uf_result \<Rightarrow> bool" where
  "gives f src res \<longleftrightarrow> (\<exists>flt q s s'. (src, flt) \<in> sources f \<and> flt q s = (Some res, s'))"

text \<open>The list and text of a rule that a source gives.\<close>

definition attributed :: "'s composite \<Rightarrow> filter_id \<times> rule_text \<Rightarrow> bool" where
  "attributed f p \<longleftrightarrow>
     (\<exists>i svc res. gives f (i, svc) res \<and> fst p = i \<and>
        (if i = IDBlockedService then snd p = svc
         else snd p \<in> nr_Text ` set (ur_NetworkRules res) \<union> hr_Text ` (set (ur_HostRulesV4 res) \<union> set (ur_HostRulesV6 res))))"

definition ids_ok ::
  "'s composite \<Rightarrow> ('r \<Rightarrow> uf_result \<Rightarrow> bool) \<Rightarrow> ('r \<rightharpoonup> filter_id) \<Rightarrow> ('r \<rightharpoonup> blocked_service_id) \<Rightarrow> bool" where
  "ids_ok f has ids svcIDs \<longleftrightarrow>
     (\<forall>r i. ids r = Some i \<longrightarrow>
        (\<exists>svc res. gives f (i, svc) res \<and> has r res \<and> (i = IDBlockedService \<longrightarrow> svcIDs r = Some svc)))"

definition collector_ok :: "'s composite \<Rightarrow> collector \<Rightarrow> bool" where
  "collector_ok f c \<longleftrightarrow>
     (\<forall>r \<in> set (cl_networkRules c). cl_netRuleIDs c r \<noteq> None) \<and>
     (\<forall>r \<in> set (cl_hostRules4 c) \<union> set (cl_hostRules6 c). cl_hostRuleIDs c r \<noteq> None) \<and>
     ids_ok f (\<lambda>r res. r \<in> set (ur_NetworkRules res)) (cl_netRuleIDs c) (cl_netRuleSvcIDs c) \<and>
     ids_ok f (\<lambda>r res. r \<in> set (ur_HostRulesV4 res) \<union> set (ur_HostRulesV6 res)) (cl_hostRuleIDs c) (cl_hostRuleSvcIDs c)"

lemma set_ids_apply: "set_ids rs i m r = (if r \<in> set rs then Some i else m r)"
  unfolding set_ids_def by (induction rs arbitrary: m) auto

lemma newCollector_ok: "collector_ok f newCollector"
  by (simp add: collector_ok_def newCollector_def ids_ok_def)

lemma ids_ok_set:
  assumes ok: "ids_ok f has ids svcIDs" and g: "gives f (i, svc) res" and wf: "i = IDBlockedService \<longrightarrow> svc \<noteq> []"
    and rs: "\<And>r. r \<in> R \<Longrightarrow> has r res" and ids': "\<And>r. ids' r = (if r \<in> R then Some i else ids r)"
    and svc': "\<And>r. svcIDs' r = (if svc \<noteq> [] \<and> r \<in> R then Some svc else svcIDs r)"
  shows "ids_ok f has ids' svcIDs'"
  unfolding ids_ok_def
proof (intro allI impI)
  fix r j assume j: "ids' r = Some j"
  show "\<exists>svc res. gives f (j, svc) res \<and> has r res \<and> (j = IDBlockedService \<longrightarrow> svcIDs' r = Some svc)"
  proof (cases "r \<in> R")
    case True
    then have "j = i" using j ids' by simp
    then show ?thesis using g rs [OF True] wf True svc' by (intro exI [of _ svc] exI [of _ res]) auto
  next
    case False
    then have "svcIDs' r = svcIDs r" "ids r = Some j" using ids' svc' j by simp_all
    then show ?thesis using ok by (auto simp: ids_ok_def)
  qed
qed

lemma collector_add_ok:
  assumes "collector_ok f c" "gives f (i, svc) res" "composite_wf f" "((i, svc), flt) \<in> sources f"
  shows "collector_ok f (collector_add i svc res c)"
proof -
  have wf: "i = IDBlockedService \<longrightarrow> svc \<noteq> []" using assms(3,4) by (auto simp: composite_wf_def)
  note ok = assms(1) [unfolded collector_ok_def]
  have "ids_ok f (\<lambda>r res. r \<in> set (ur_NetworkRules res))
      (set_ids (ur_NetworkRules res) i (cl_netRuleIDs c))
      (if svc \<noteq> [] then set_ids (ur_NetworkRules res) svc (cl_netRuleSvcIDs c) else cl_netRuleSvcIDs c)"
    by (rule ids_ok_set [OF _ assms(2) wf, where R = "set (ur_NetworkRules res)"]) (use ok in \<open>auto simp: set_ids_apply\<close>)
  moreover have "ids_ok f (\<lambda>r res. r \<in> set (ur_HostRulesV4 res) \<union> set (ur_HostRulesV6 res))
      (set_ids (ur_HostRulesV6 res) i (set_ids (ur_HostRulesV4 res) i (cl_hostRuleIDs c)))
      (if svc \<noteq> [] then set_ids (ur_HostRulesV6 res) svc (set_ids (ur_HostRulesV4 res) svc (cl_hostRuleSvcIDs c))
       else cl_hostRuleSvcIDs c)"
    by (rule ids_ok_set [OF _ assms(2) wf, where R = "set (ur_HostRulesV4 res) \<union> set (ur_HostRulesV6 res)"])
      (use ok in \<open>auto simp: set_ids_apply\<close>)
  ultimately show ?thesis
    using ok by (auto simp: collector_ok_def collector_add_def addHostRules_def set_ids_apply)
qed

lemma rule_data_ok:
  assumes "ids_ok f has ids svcIDs" "ids r \<noteq> None" "has = (\<lambda>r res. text_of r \<in> texts res)"
    and "\<And>res. texts res \<subseteq> nr_Text ` set (ur_NetworkRules res) \<union> hr_Text ` (set (ur_HostRulesV4 res) \<union> set (ur_HostRulesV6 res))"
  shows "\<exists>p. rule_data ids svcIDs text_of r = Inr p \<and> attributed f p"
proof -
  obtain i svc res where i: "ids r = Some i" "gives f (i, svc) res" "text_of r \<in> texts res"
      "i = IDBlockedService \<longrightarrow> svcIDs r = Some svc"
  proof -
    obtain i where "ids r = Some i" using assms(2) by blast
    then show thesis using assms(1) that unfolding ids_ok_def assms(3) by blast
  qed
  show ?thesis
  proof (cases "i = IDBlockedService")
    case True
    then have "rule_data ids svcIDs text_of r = Inr (i, svc)" using i by (simp add: rule_data_def)
    then show ?thesis using i(2) True by (auto simp: attributed_def)
  next
    case False
    then have "rule_data ids svcIDs text_of r = Inr (i, text_of r)" using i by (simp add: rule_data_def)
    moreover have "attributed f (i, text_of r)"
      unfolding attributed_def using i(2,3) assms(4) [of res] False
      by (intro exI [of _ i] exI [of _ svc] exI [of _ res]) auto
    ultimately show ?thesis by blast
  qed
qed

lemma ids_ok_weaken: "ids_ok f has ids svcIDs \<Longrightarrow> (\<And>r res. has r res \<Longrightarrow> has' r res) \<Longrightarrow> ids_ok f has' ids svcIDs"
  unfolding ids_ok_def by blast

text \<open>A result that is no rewrite, with its rule.\<close>

fun basic_result :: "flt_result \<Rightarrow> bool" where
  "basic_result (ResultAllowed _ _) = True"
| "basic_result (ResultBlocked _ _) = True"
| "basic_result _ = False"

lemma toInternal_ok:
  assumes "flt_env_ok V" "collector_ok f c"
  shows "\<exists>r. collector_toInternal V c t = Inr r \<and>
           (\<forall>x. r = Some x \<longrightarrow> basic_result x \<and> attributed f (MatchedRule x))"
proof -
  note ok = assms(2) [unfolded collector_ok_def]
  have net: "\<exists>p. rule_data (cl_netRuleIDs c) (cl_netRuleSvcIDs c) nr_Text nr = Inr p \<and> attributed f p"
    if "nr \<in> set (cl_networkRules c)" for nr
  proof (rule rule_data_ok [where texts = "\<lambda>res. nr_Text ` set (ur_NetworkRules res)", OF _ _ refl])
    show "ids_ok f (\<lambda>r res. nr_Text r \<in> nr_Text ` set (ur_NetworkRules res)) (cl_netRuleIDs c) (cl_netRuleSvcIDs c)"
      by (rule ids_ok_weaken [of _ "\<lambda>r res. r \<in> set (ur_NetworkRules res)"]) (use ok in auto)
  qed (use ok that in auto)
  have host: "\<exists>p. rule_data (cl_hostRuleIDs c) (cl_hostRuleSvcIDs c) hr_Text hr = Inr p \<and> attributed f p"
    if "hr \<in> set (cl_hostRules4 c) \<union> set (cl_hostRules6 c)" for hr
  proof (rule rule_data_ok [where texts = "\<lambda>res. hr_Text ` (set (ur_HostRulesV4 res) \<union> set (ur_HostRulesV6 res))", OF _ _ refl])
    show "ids_ok f (\<lambda>r res. hr_Text r \<in> hr_Text ` (set (ur_HostRulesV4 res) \<union> set (ur_HostRulesV6 res)))
        (cl_hostRuleIDs c) (cl_hostRuleSvcIDs c)"
      by (rule ids_ok_weaken [of _ "\<lambda>r res. r \<in> set (ur_HostRulesV4 res) \<union> set (ur_HostRulesV6 res)"]) (use ok in auto)
  qed (use ok that in auto)
  show ?thesis
  proof (cases "fv_GetDNSBasicRule V (cl_networkRules c)")
    case (Some nr)
    then have "nr \<in> set (cl_networkRules c)" using assms(1) by (simp add: flt_env_ok_def)
    then show ?thesis using net [of nr] Some by (auto simp: collector_toInternal_def netRuleDataToResult_def)
  next
    case None
    have "\<exists>r. hostRuleDataToResult c hr = Inr (Some r) \<and> basic_result r \<and> attributed f (MatchedRule r)"
      if "hr \<in> set (cl_hostRules4 c) \<union> set (cl_hostRules6 c)" for hr
      using host [OF that] by (auto simp: hostRuleDataToResult_def)
    moreover define hr where "hr =
        (if t = TypeA \<and> cl_hostRules4 c \<noteq> [] then hd (cl_hostRules4 c)
         else if t = TypeAAAA \<and> cl_hostRules6 c \<noteq> [] then hd (cl_hostRules6 c)
         else if cl_hostRules4 c \<noteq> [] then hd (cl_hostRules4 c) else hd (cl_hostRules6 c))"
    moreover have "hr \<in> set (cl_hostRules4 c) \<union> set (cl_hostRules6 c)" if "\<not> (cl_hostRules4 c = [] \<and> cl_hostRules6 c = [])"
      using that by (auto simp: hr_def)
    ultimately show ?thesis
      using None unfolding collector_toInternal_def hostsRulesToResult_def hr_def [symmetric] by fastforce
  qed
qed

subsection \<open>Every result has a source\<close>

definition rewritten :: "flt_env \<Rightarrow> 's composite \<Rightarrow> flt_request \<Rightarrow> flt_result \<Rightarrow> bool" where
  "rewritten V f req r \<longleftrightarrow>
     (\<exists>i res. gives f (i, []) res \<and>
        ProcessDNSRewrites (fv_L V) (fv_S V) req (fv_DNSRewrites V res) i = Some r)"

lemma givesI: "(src, flt) \<in> sources f \<Longrightarrow> flt q s = (Some res, s') \<Longrightarrow> gives f src res"
  unfolding gives_def by blast

lemma req_rule_lists_ok:
  assumes "composite_wf f" "collector_ok f c" "\<forall>rl \<in> set rls. ((fst (rl_ID rl), []), rl_Set rl) \<in> sources f"
    and "req_rule_lists V req q rls c s = (r, c', s')"
  shows "collector_ok f c'" and "r = Some x \<Longrightarrow> rewritten V f req x"
proof -
  have "collector_ok f c' \<and> (\<forall>x. r = Some x \<longrightarrow> rewritten V f req x)"
    using assms(2-4)
  proof (induction rls arbitrary: c s)
    case (Cons rl rls)
    obtain u s1 where u: "rl_Set rl q s = (u, s1)" by (cases "rl_Set rl q s")
    have src: "((fst (rl_ID rl), []), rl_Set rl) \<in> sources f" using Cons.prems(2) by simp
    show ?case
    proof (cases u)
      case None
      then show ?thesis using Cons.IH [OF Cons.prems(1), of s1] Cons.prems(2,3) u by auto
    next
      case (Some res)
      note g = givesI [OF src, of q s res s1]
      have add: "collector_ok f (collector_add (fst (rl_ID rl)) [] res c)"
        using collector_add_ok [OF Cons.prems(1) g assms(1) src] u Some by simp
      show ?thesis
      proof (cases "ProcessDNSRewrites (fv_L V) (fv_S V) req (fv_DNSRewrites V res) (fst (rl_ID rl))")
        case None
        then show ?thesis using Cons.IH [OF add, of s1] Cons.prems(2,3) u Some by auto
      next
        case rw: (Some y)
        then have "rewritten V f req y" using g u Some unfolding rewritten_def by blast
        then show ?thesis using rw Cons.prems(1,3) u Some by auto
      qed
    qed
  qed simp
  then show "collector_ok f c'" and "r = Some x \<Longrightarrow> rewritten V f req x" by simp_all
qed

lemma collect_rule_lists_ok:
  assumes "composite_wf f" "collector_ok f c"
    and "\<forall>rl \<in> set rls. ((fst (rl_ID rl), if svc then snd (rl_ID rl) else []), rl_Set rl) \<in> sources f"
  shows "collector_ok f (fst (collect_rule_lists svc q rls c s))"
  using assms(2,3)
proof (induction rls arbitrary: c s)
  case (Cons rl rls)
  obtain u s1 where u: "rl_Set rl q s = (u, s1)" by (cases "rl_Set rl q s")
  have src: "((fst (rl_ID rl), if svc then snd (rl_ID rl) else []), rl_Set rl) \<in> sources f" using Cons.prems(2) by simp
  show ?case
  proof (cases u)
    case None
    then show ?thesis using Cons u by simp
  next
    case (Some res)
    have "collector_ok f (collector_add (fst (rl_ID rl)) (if svc then snd (rl_ID rl) else []) res c)"
      using collector_add_ok [OF Cons.prems(1) givesI [OF src] assms(1) src] u Some by simp
    then show ?thesis using Cons.IH Cons.prems(2) u Some by simp
  qed
qed simp

lemma sources_lists:
  "rl \<in> set (co_customRuleLists f) \<Longrightarrow> ((fst (rl_ID rl), []), rl_Set rl) \<in> sources f"
  "rl \<in> set (co_ruleLists f) \<Longrightarrow> ((fst (rl_ID rl), []), rl_Set rl) \<in> sources f"
  "rl \<in> set (co_svcLists f) \<Longrightarrow> ((fst (rl_ID rl), snd (rl_ID rl)), rl_Set rl) \<in> sources f"
  "co_custom f = Some custom \<Longrightarrow> ((IDCustom, []), custom) \<in> sources f"
  by (auto simp: sources_def)

text \<open>A result of the rule lists: from a rule of a list that is attributed to it, or a rewrite.\<close>

definition list_result :: "flt_env \<Rightarrow> 's composite \<Rightarrow> flt_request \<Rightarrow> flt_result \<Rightarrow> bool" where
  "list_result V f req r \<longleftrightarrow> basic_result r \<and> attributed f (MatchedRule r) \<or> rewritten V f req r"

lemma customFilter_ok:
  assumes "flt_env_ok V" "composite_wf f"
    and "filterReqWithCustomFilter V f req q newCollector s = (res, c, s')"
  shows "collector_ok f c \<and> (\<exists>r. res = Inr r \<and> (\<forall>x. r = Some x \<longrightarrow> list_result V f req x))"
proof (cases "co_custom f")
  case None
  then show ?thesis using assms(3) newCollector_ok by (auto simp: filterReqWithCustomFilter_def)
next
  case (Some custom)
  obtain u s1 where u: "custom (addClientID (fr_ClientName req) q) s = (u, s1)" by fastforce
  note src = sources_lists(4) [OF Some]
  show ?thesis
  proof (cases u)
    case None
    then show ?thesis using assms(3) u Some newCollector_ok by (auto simp: filterReqWithCustomFilter_def)
  next
    case u': (Some ur)
    have g: "gives f (IDCustom, []) ur" by (rule givesI [OF src]) (use u u' in simp)
    note add = collector_add_ok [OF newCollector_ok g assms(2) src]
    obtain r where r: "collector_toInternal V (collector_add IDCustom [] ur newCollector) (fr_QType req) = Inr r"
      "\<forall>x. r = Some x \<longrightarrow> list_result V f req x"
      using toInternal_ok [OF assms(1) add, of "fr_QType req"] by (auto simp: list_result_def)
    show ?thesis
    proof (cases "ProcessDNSRewrites (fv_L V) (fv_S V) req (fv_DNSRewrites V ur) IDCustom")
      case None
      then have "res = Inr r" "c = collector_add IDCustom [] ur newCollector"
        using assms(3) u u' Some r(1) by (simp_all add: filterReqWithCustomFilter_def Let_def)
      then show ?thesis using add r(2) by simp
    next
      case rw: (Some x)
      then have "list_result V f req x" using g unfolding list_result_def rewritten_def by blast
      then show ?thesis
        using rw assms(3) u u' Some newCollector_ok by (auto simp: filterReqWithCustomFilter_def)
    qed
  qed
qed

lemma customRuleLists_ok:
  assumes "flt_env_ok V" "composite_wf f" "collector_ok f c"
    and "filterReqWithCustomRuleLists V f req q c s = (res, c', s')"
  shows "collector_ok f c' \<and> (\<exists>r. res = Inr r \<and> (\<forall>x. r = Some x \<longrightarrow> list_result V f req x))"
proof -
  obtain r c1 s1 where l: "req_rule_lists V req (addClientID (fr_ClientName req) q) (co_customRuleLists f) c s = (r, c1, s1)"
    by (metis prod_cases3)
  note ok = req_rule_lists_ok [OF assms(2,3) _ l]
  have "\<forall>rl\<in>set (co_customRuleLists f). ((fst (rl_ID rl), []), rl_Set rl) \<in> sources f"
    by (simp add: sources_lists)
  note ok = ok [OF this]
  obtain r' where "collector_toInternal V c1 (fr_QType req) = Inr r'" "\<forall>x. r' = Some x \<longrightarrow> list_result V f req x"
    using toInternal_ok [OF assms(1) ok(1), of "fr_QType req"] by (auto simp: list_result_def)
  moreover have "list_result V f req x" if "r = Some x" for x using ok(2) [OF that] by (simp add: list_result_def)
  ultimately show ?thesis
    using assms(4) l ok(1) by (cases r) (auto simp: filterReqWithCustomRuleLists_def intro: sym)
qed

lemma ruleLists_ok:
  assumes "flt_env_ok V" "composite_wf f"
  shows "\<exists>r b. fst (filterReqWithRuleLists V f req s) = Inr (r, b) \<and> (\<forall>x. r = Some x \<longrightarrow> list_result V f req x)"
proof -
  let ?base = "common_uf_request (fr_RemoteIP req) (fr_QType req) (fr_Host req) False"
  let ?q = "addClientID (fr_ClientName req) ?base"
  obtain res1 c1 s1 where 1: "filterReqWithCustomFilter V f req ?q newCollector s = (res1, c1, s1)" by (metis prod_cases3)
  from customFilter_ok [OF assms 1] obtain r1 where r1: "res1 = Inr r1" "collector_ok f c1" "\<forall>x. r1 = Some x \<longrightarrow> list_result V f req x"
    by blast
  obtain res2 c2 s2 where 2: "filterReqWithCustomRuleLists V f req ?q c1 s1 = (res2, c2, s2)" by (metis prod_cases3)
  from customRuleLists_ok [OF assms r1(2) 2] obtain r2 where r2: "res2 = Inr r2" "collector_ok f c2"
    "\<forall>x. r2 = Some x \<longrightarrow> list_result V f req x" by blast
  obtain r3 c3 s3 where 3: "req_rule_lists V req ?base (co_ruleLists f) c2 s2 = (r3, c3, s3)" by (metis prod_cases3)
  have "\<forall>rl\<in>set (co_ruleLists f). ((fst (rl_ID rl), []), rl_Set rl) \<in> sources f" by (simp add: sources_lists)
  note r3 = req_rule_lists_ok [OF assms(2) r2(2) this 3]
  obtain c4 s4 where 4: "collect_rule_lists True ?base (co_svcLists f) c3 s3 = (c4, s4)" by fastforce
  have "\<forall>rl\<in>set (co_svcLists f). ((fst (rl_ID rl), if True then snd (rl_ID rl) else []), rl_Set rl) \<in> sources f"
    using sources_lists(3) by auto
  from collect_rule_lists_ok [OF assms(2) r3(1) this, of ?base s3] 4 have "collector_ok f c4" by simp
  from toInternal_ok [OF assms(1) this, of "fr_QType req"] obtain r4 where r4: "collector_toInternal V c4 (fr_QType req) = Inr r4"
    "\<forall>x. r4 = Some x \<longrightarrow> list_result V f req x" by (auto simp: list_result_def)
  have "list_result V f req x" if "r3 = Some x" for x using r3(2) [OF that] by (simp add: list_result_def)
  then show ?thesis
    using 1 2 3 4 r1 r2 r4 unfolding filterReqWithRuleLists_def Let_def
    by (cases r1; cases r2; cases r3) auto
qed

lemma req_filters_source:
  "fst (req_filters rfs req s) = Inl e \<Longrightarrow> \<exists>rf \<in> set rfs. \<exists>s. fst (rf req s) = Inl e"
  "fst (req_filters rfs req s) = Inr (Some r) \<Longrightarrow> \<exists>rf \<in> set rfs. \<exists>s. fst (rf req s) = Inr (Some r)"
proof -
  have "(\<forall>e. fst (req_filters rfs req s) = Inl e \<longrightarrow> (\<exists>rf \<in> set rfs. \<exists>s. fst (rf req s) = Inl e)) \<and>
      (\<forall>r. fst (req_filters rfs req s) = Inr (Some r) \<longrightarrow> (\<exists>rf \<in> set rfs. \<exists>s. fst (rf req s) = Inr (Some r)))"
  proof (induction rfs arbitrary: s)
    case (Cons rf rfs)
    obtain res s1 where rf: "rf req s = (res, s1)" by fastforce
    then have here: "fst (rf req s) = res" by simp
    show ?case
    proof (cases "res = Inr None")
      case True
      then show ?thesis using rf Cons.IH [of s1] by auto
    next
      case False
      then have "req_filters (rf # rfs) req s = (res, s1)" using rf by (auto split: sum.splits option.splits)
      then show ?thesis using here by auto
    qed
  qed simp
  then show "fst (req_filters rfs req s) = Inl e \<Longrightarrow> \<exists>rf \<in> set rfs. \<exists>s. fst (rf req s) = Inl e"
    "fst (req_filters rfs req s) = Inr (Some r) \<Longrightarrow> \<exists>rf \<in> set rfs. \<exists>s. fst (rf req s) = Inr (Some r)" by blast+
qed

text \<open>
  C12: a composite filter does not panic: the lookups of filter and service identifiers always find
  them, so an error of the filter is an error of one of its request filters.  And every result has a
  source: it is a rewrite by a rule list of the filter, or it carries the identifier of a list and the
  text of a rule that this list gave, or the service for blocked services, or it is the result of a
  request filter.
\<close>

theorem composite_result_has_source:
  assumes "flt_env_ok V" "composite_wf f"
  shows "case fst (composite_FilterRequest V f req s) of
           Inl e \<Rightarrow> \<exists>rf \<in> set (co_reqFilters f). \<exists>s. fst (rf req s) = Inl e
         | Inr None \<Rightarrow> True
         | Inr (Some r) \<Rightarrow>
             rewritten V f req r \<or> basic_result r \<and> attributed f (MatchedRule r) \<or>
             (\<exists>rf \<in> set (co_reqFilters f). \<exists>s. fst (rf req s) = Inr (Some r))"
proof -
  obtain r b s1 where rl: "filterReqWithRuleLists V f req s = (Inr (r, b), s1)" "\<forall>x. r = Some x \<longrightarrow> list_result V f req x"
    using ruleLists_ok [OF assms, of req s] by (metis prod.collapse)
  obtain res s2 where rf: "req_filters (co_reqFilters f) req s1 = (res, s2)" by fastforce
  have "fst (composite_FilterRequest V f req s) = Inr r \<or>
      res \<noteq> Inr None \<and> fst (composite_FilterRequest V f req s) = res"
    using rl(1) rf
    by (auto simp: composite_FilterRequest_def split: option.splits flt_result.splits sum.splits if_splits)
  then show ?thesis
  proof
    assume "fst (composite_FilterRequest V f req s) = Inr r"
    then show ?thesis using rl(2) by (auto simp: list_result_def split: option.split)
  next
    assume *: "res \<noteq> Inr None \<and> fst (composite_FilterRequest V f req s) = res"
    then show ?thesis
      using req_filters_source [of "co_reqFilters f" req s1] rf by (auto split: sum.splits option.splits)
  qed
qed

definition ex_flt_env :: flt_env where
  "ex_flt_env =
     \<lparr>fv_L = dnslib_std, fv_S = ex_svcb_env,
      fv_DNSRewrites = (\<lambda>res. filter (\<lambda>r. nr_DNSRewrite r \<noteq> None) (ur_NetworkRules res)),
      fv_GetDNSBasicRule = (\<lambda>rs. find (\<lambda>r. nr_DNSRewrite r = None) rs),
      fv_ipString = (\<lambda>ip. map (\<lambda>b. char_of (unat b)) ip), fv_kvString = (\<lambda>_. [])\<rparr>"

lemma ex_flt_env_ok: "flt_env_ok ex_flt_env"
  by (auto simp: flt_env_ok_def ex_flt_env_def find_Some_iff)

definition ex_text_rule :: "string \<Rightarrow> bool \<Rightarrow> network_rule" where
  "ex_text_rule text white = \<lparr>nr_ptr = 1, nr_Text = text, nr_Whitelist = white, nr_DNSRewrite = None\<rparr>"

definition ex_list_result :: "string \<Rightarrow> bool \<Rightarrow> uf_request \<Rightarrow> 's \<Rightarrow> uf_result option \<times> 's" where
  "ex_list_result text white q s = (Some (uf_result_reset\<lparr>ur_NetworkRules := [ex_text_rule text white]\<rparr>), s)"

definition ex_composite :: "bool \<Rightarrow> bool \<Rightarrow> unit composite" where
  "ex_composite custom blocks =
     \<lparr>co_custom = (if custom then Some (ex_list_result ''@@||a^'' True) else None),
      co_ruleLists = [\<lparr>rl_ID = (''adg'', []), rl_Set = ex_list_result ''||a^'' (\<not> blocks)\<rparr>],
      co_customRuleLists = [], co_svcLists = [],
      co_reqFilters = [\<lambda>_ s. (Inr (Some (ResultBlocked ''sb'' ''a'')), s)]\<rparr>"

lemma ex_composite_wf: "composite_wf (ex_composite custom blocks)"
  by (auto simp: composite_wf_def sources_def ex_composite_def IDBlockedService_def IDCustom_def)

theorem composite_result_has_source_witness:
  "fst (composite_FilterRequest ex_flt_env (ex_composite False True) ex_rw_request ()) = Inr (Some (ResultBlocked ''adg'' ''||a^'')) \<and>
   attributed (ex_composite False True) (''adg'', ''||a^'')"
proof -
  have eq: "fst (composite_FilterRequest ex_flt_env (ex_composite False True) ex_rw_request ()) = Inr (Some (ResultBlocked ''adg'' ''||a^''))"
    by (simp add: composite_FilterRequest_def filterReqWithRuleLists_def filterReqWithCustomFilter_def
        filterReqWithCustomRuleLists_def ex_composite_def ex_list_result_def ex_flt_env_def ex_text_rule_def
        ProcessDNSRewrites_def collector_toInternal_def newCollector_def hostsRulesToResult_def collector_add_def
        addHostRules_def netRuleDataToResult_def rule_data_def set_ids_def uf_result_reset_def IDBlockedService_def Let_def)
  have "\<not> rewritten ex_flt_env (ex_composite False True) ex_rw_request (ResultBlocked ''adg'' ''||a^'')"
    by (auto simp: rewritten_def ProcessDNSRewrites_def Let_def split: if_splits sum.splits)
  then show ?thesis
    using composite_result_has_source [OF ex_flt_env_ok ex_composite_wf, of False True ex_rw_request "()"] eq
    by (auto simp: ex_composite_def)
qed

subsection \<open>Precedence\<close>

lemma addClientID_idem [simp]: "addClientID i (addClientID i q) = addClientID i q"
  by (simp add: addClientID_def)



text \<open>An allowing rule of a common list does not turn off the request filters.\<close>

lemma common_allow_is_not_final:
  "fst (composite_FilterRequest ex_flt_env (ex_composite False False) ex_rw_request ()) = Inr (Some (ResultBlocked ''sb'' ''a''))"
  by (simp add: composite_FilterRequest_def filterReqWithRuleLists_def filterReqWithCustomFilter_def
      filterReqWithCustomRuleLists_def ex_composite_def ex_list_result_def ex_flt_env_def ex_text_rule_def
      ProcessDNSRewrites_def collector_toInternal_def newCollector_def hostsRulesToResult_def collector_add_def
      addHostRules_def netRuleDataToResult_def rule_data_def set_ids_def uf_result_reset_def IDBlockedService_def Let_def)

subsection \<open>Responses\<close>

lemma respRuleLists_ok:
  assumes "flt_env_ok V" "composite_wf f"
  shows "\<exists>r. fst (filterRespWithRuleLists V f resp host t s) = Inr r \<and>
           (\<forall>x. r = Some x \<longrightarrow> basic_result x \<and> attributed f (MatchedRule x))"
proof -
  let ?base = "common_uf_request (fs_RemoteIP resp) t host True"
  let ?q = "if co_custom f = None then ?base else addClientID (fs_ClientName resp) ?base"
  obtain u s1 where u: "(case co_custom f of None \<Rightarrow> (None, s) | Some custom \<Rightarrow> custom ?q s) = (u, s1)" by fastforce
  show ?thesis
  proof (cases u)
    case (Some ur)
    then obtain custom where cu: "co_custom f = Some custom" "custom ?q s = (Some ur, s1)"
      using u by (auto split: option.splits)
    note src = sources_lists(4) [OF cu(1)]
    note add = collector_add_ok [OF newCollector_ok givesI [OF src cu(2)] assms(2) src]
    show ?thesis
      using u Some toInternal_ok [OF assms(1) add, of t] unfolding filterRespWithRuleLists_def Let_def by simp
  next
    case None
    obtain c1 s2 where 1: "collect_rule_lists False (addClientID (fs_ClientName resp) ?q) (co_customRuleLists f) newCollector s1 = (c1, s2)"
      by fastforce
    have "\<forall>rl\<in>set (co_customRuleLists f). ((fst (rl_ID rl), if False then snd (rl_ID rl) else []), rl_Set rl) \<in> sources f"
      using sources_lists(1) by auto
    from collect_rule_lists_ok [OF assms(2) newCollector_ok this] 1 have c1: "collector_ok f c1" by (metis fst_conv)
    obtain r1 where r1: "collector_toInternal V c1 t = Inr r1" "\<forall>x. r1 = Some x \<longrightarrow> basic_result x \<and> attributed f (MatchedRule x)"
      using toInternal_ok [OF assms(1) c1, of t] by blast
    obtain c2 s3 where 2: "collect_rule_lists False ?base (co_ruleLists f) c1 s2 = (c2, s3)" by fastforce
    have "\<forall>rl\<in>set (co_ruleLists f). ((fst (rl_ID rl), if False then snd (rl_ID rl) else []), rl_Set rl) \<in> sources f"
      using sources_lists(2) by auto
    from collect_rule_lists_ok [OF assms(2) c1 this] 2 have c2: "collector_ok f c2" by (metis fst_conv)
    obtain c3 s4 where 3: "collect_rule_lists True ?base (co_svcLists f) c2 s3 = (c3, s4)" by fastforce
    have "\<forall>rl\<in>set (co_svcLists f). ((fst (rl_ID rl), if True then snd (rl_ID rl) else []), rl_Set rl) \<in> sources f"
      using sources_lists(3) by auto
    from collect_rule_lists_ok [OF assms(2) c2 this] 3 have c3: "collector_ok f c3" by (metis fst_conv)
    obtain r3 where r3: "collector_toInternal V c3 t = Inr r3" "\<forall>x. r3 = Some x \<longrightarrow> basic_result x \<and> attributed f (MatchedRule x)"
      using toInternal_ok [OF assms(1) c3, of t] by blast
    show ?thesis
      using u None 1 2 3 r1 r3
      unfolding filterRespWithRuleLists_def filterRespWithCustomRuleLists_def Let_def by (cases r1) auto
  qed
qed

text \<open>Loops that stop at the first result keep what holds of every result.\<close>

definition resp_ok :: "'s composite \<Rightarrow> (flt_error, flt_result option) result \<times> 's \<Rightarrow> bool" where
  "resp_ok f p \<longleftrightarrow> (\<exists>r. fst p = Inr r \<and> (\<forall>x. r = Some x \<longrightarrow> basic_result x \<and> attributed f (MatchedRule x)))"

lemma filter_hosts_ok:
  assumes "\<And>h s. resp_ok f (flt h s)"
  shows "resp_ok f (filter_hosts flt hs s)"
proof (induction hs arbitrary: s)
  case (Cons h hs)
  obtain r s1 where r: "flt h s = (Inr r, s1)" using assms [of h s] by (auto simp: resp_ok_def) (metis prod.collapse)
  then show ?case using assms [of h s] Cons.IH by (cases r) (simp_all add: resp_ok_def)
qed (simp add: resp_ok_def)

lemma filterAnswer_ok:
  assumes "flt_env_ok V" "composite_wf f"
  shows "resp_ok f (filterAnswer V f resp a s)"
proof -
  have lists: "resp_ok f (filterRespWithRuleLists V f resp h t s)" for h t s
    using respRuleLists_ok [OF assms] by (simp add: resp_ok_def)
  have "resp_ok f (filterHTTPSAnswer V f resp rec s)" for rec s
    unfolding filterHTTPSAnswer_def filterSVCBHint_def by (intro filter_hosts_ok lists)
  moreover have "resp_ok f (Inr None, s)" by (simp add: resp_ok_def)
  ultimately show ?thesis
    using lists by (auto simp: filterAnswer_def parseRespAnswer_def split: rdata.split)
qed



end
