(* ===== verification/Filter_Storage.thy ===== *)
theory Filter_Storage
  imports Composite_Laws Rule_List_Storage Hash_Prefix Typosquatting
begin

text \<open>
  The storage of filters, \<open>internal/filter/filterstorage/{default,refresh,category}.go\<close>, with the filter for blocked
  services, \<open>internal/filter/internal/serviceblock\<close>.  The storage keeps all filters and assembles those of a client
  or of a filtering group into a composite filter.

  The filters are objects that are shared between the storage and the composite filters made of them.  They
  live in a heap and are named by their position in it; the operations of the composite filter act on the heap.
\<close>

definition IDGeneralSafeSearch :: filter_id where "IDGeneralSafeSearch = ''general_safe_search''"
definition IDNewRegDomains :: filter_id where "IDNewRegDomains = ''newly_registered_domains''"
definition IDYoutubeSafeSearch :: filter_id where "IDYoutubeSafeSearch = ''youtube_safe_search''"

subsection \<open>Filters in a heap\<close>

record ('g, 'c, 'd) flt_heap =
  fh_now :: time
  fh_rules :: "('g, 'c) rl_heap"
  fh_domain :: "'d domain_filter list"
  fh_hash :: "'d hashprefix_filter list"
  fh_typo :: "'d typosquatting_filter list"
  fh_files :: file_map

text \<open>What the filters use of other modules.  \<open>newId\<close> is the identifier of the responses that are cached.\<close>

record ('g, 'c, 'd) filters_env =
  ev_V :: flt_env
  ev_U :: "'g urlfilter"
  ev_C :: "'c result_cache"
  ev_D :: "'d flt_cache"
  ev_E :: net_env
  ev_row :: "nat \<Rightarrow> nat list"
  ev_newId :: "16 word"

definition rules_ref ::
  "('g, 'c, 'd) filters_env \<Rightarrow> ('g, 'c, 'd) flt_heap \<Rightarrow> nat \<Rightarrow> ('g, 'c, 'd) flt_heap rule_list" where
  "rules_ref N s0 h =
     \<lparr>rl_ID = (bf_id (fh_rules s0 ! h), bf_svcID (fh_rules s0 ! h)),
      rl_Set = (\<lambda>req s. case SetURLFilterResult (ev_U N) (ev_C N) (fh_now s) req (fh_rules s ! h) of
        (r, f) \<Rightarrow> (r, s\<lparr>fh_rules := (fh_rules s)[h := f]\<rparr>))\<rparr>"

definition domain_ref :: "('g, 'c, 'd) filters_env \<Rightarrow> nat \<Rightarrow> ('g, 'c, 'd) flt_heap req_filter" where
  "domain_ref N h = (\<lambda>req s. case df_FilterRequest (ev_E N) (ev_D N) (fh_now s) req (fh_domain s ! h) of
     (r, f) \<Rightarrow> (r, s\<lparr>fh_domain := (fh_domain s)[h := f]\<rparr>))"

definition hash_ref :: "('g, 'c, 'd) filters_env \<Rightarrow> nat \<Rightarrow> ('g, 'c, 'd) flt_heap req_filter" where
  "hash_ref N h = (\<lambda>req s.
     case hp_FilterRequest (fv_L (ev_V N)) (ev_E N) (ev_D N) (ev_newId N) (fh_now s) req (fh_hash s ! h) of
       (r, f) \<Rightarrow> (r, s\<lparr>fh_hash := (fh_hash s)[h := f]\<rparr>))"

definition typo_ref :: "('g, 'c, 'd) filters_env \<Rightarrow> nat \<Rightarrow> ('g, 'c, 'd) flt_heap req_filter" where
  "typo_ref N h = (\<lambda>req s.
     case ts_FilterRequest (fv_L (ev_V N)) (ev_E N) (ev_row N) (ev_D N) (ev_newId N) (fh_now s) req (fh_typo s ! h) of
       (r, f) \<Rightarrow> (r, s\<lparr>fh_typo := (fh_typo s)[h := f]\<rparr>))"

text \<open>The custom filter of a profile has no state apart from its engine, which its rules determine.\<close>

definition custom_ref ::
  "('g, 'c, 'd) filters_env \<Rightarrow> rule_text list \<Rightarrow> uf_request \<Rightarrow> ('g, 'c, 'd) flt_heap \<Rightarrow> uf_result option \<times> ('g, 'c, 'd) flt_heap" where
  "custom_ref N rules req s = (fst (custom_SetURLFilterResult (ev_U N) (fh_now s) req (custom_New rules)), s)"

subsection \<open>Blocked services\<close>

record index_resp_service =
  svc_ID :: string
  svc_Rules :: "string list"

text \<open>\<open>sb_services\<close> are the positions of the rule lists of the services.\<close>

record service_block =
  sb_refr :: refr_conf
  sb_services :: "blocked_service_id \<rightharpoonup> nat"

definition serviceblock_New :: "refr_conf \<Rightarrow> service_block" where
  "serviceblock_New rc = \<lparr>sb_refr = rc, sb_services = Map.empty\<rparr>"

definition svc_RuleLists :: "service_block \<Rightarrow> blocked_service_id list \<Rightarrow> nat list" where
  "svc_RuleLists f ids =
     (if ids = [] then []
      else fold (\<lambda>i rls. case sb_services f i of None \<Rightarrow> rls | Some rl \<Rightarrow> rls @ [rl]) ids [])"

datatype 'e svc_error = SvcIndex "'e refr_error" | SvcDecode | SvcIDs "nat list" | PanicNilService

text \<open>
  The conversion of the index of services: the lists are made as the loop goes, and the errors are the
  positions of services with a bad identifier.  The elements of the index are dereferenced without a check.
\<close>

fun svc_index_loop ::
  "'g urlfilter \<Rightarrow> 'c option \<Rightarrow> nat \<Rightarrow> index_resp_service option list \<Rightarrow> nat list \<Rightarrow> (blocked_service_id \<rightharpoonup> nat) \<Rightarrow>
     ('g, 'c) rl_heap \<Rightarrow> (nat list \<times> (blocked_service_id \<rightharpoonup> nat)) option \<times> ('g, 'c) rl_heap" where
  "svc_index_loop U newCache k [] errs services heap = (Some (errs, services), heap)"
| "svc_index_loop U newCache k (None # svcs) errs services heap = (None, heap)"
| "svc_index_loop U newCache k (Some svc # svcs) errs services heap =
     (case NewBlockedServiceID (svc_ID svc) of
        Inl _ \<Rightarrow> svc_index_loop U newCache (k + 1) svcs (errs @ [k]) services heap
      | Inr svcID \<Rightarrow>
          svc_index_loop U newCache (k + 1) svcs errs (services(svcID \<mapsto> length heap))
            (heap @ [newBaseFilter U (RulesToBytes (svc_Rules svc)) IDBlockedService svcID newCache]))"

definition svc_toInternal ::
  "'g urlfilter \<Rightarrow> 'c option \<Rightarrow> index_resp_service option list \<Rightarrow> ('g, 'c) rl_heap \<Rightarrow>
     ('e svc_error, blocked_service_id \<rightharpoonup> nat) result \<times> ('g, 'c) rl_heap" where
  "svc_toInternal U newCache resp heap =
     (if resp = [] then (Inr Map.empty, heap)
      else (case svc_index_loop U newCache 0 resp [] Map.empty heap of
              (None, heap) \<Rightarrow> (Inl PanicNilService, heap)
            | (Some (errs, services), heap) \<Rightarrow>
                if errs \<noteq> [] then (Inl (SvcIDs errs), heap) else (Inr services, heap)))"

definition svc_Refresh ::
  "'g urlfilter \<Rightarrow> (string \<Rightarrow> index_resp_service option list option) \<Rightarrow> 'e world \<Rightarrow> 'c option \<Rightarrow> bool \<Rightarrow> service_block \<Rightarrow>
     ('g, 'c) rl_heap \<Rightarrow> file_map \<Rightarrow> 'e svc_error option \<times> service_block \<times> ('g, 'c) rl_heap \<times> file_map" where
  "svc_Refresh U decode W newCache acceptStale f heap files =
     (case refr_load W (sb_refr f) acceptStale files of
        (Inl e, files) \<Rightarrow> (Some (SvcIndex e), f, heap, files)
      | (Inr b, files) \<Rightarrow>
          (case decode b of
             None \<Rightarrow> (Some SvcDecode, f, heap, files)
           | Some resp \<Rightarrow>
               (case svc_toInternal U newCache resp heap of
                  (Inl e, heap) \<Rightarrow> (Some e, f, heap, files)
                | (Inr services, heap) \<Rightarrow> (None, f\<lparr>sb_services := services\<rparr>, heap, files))))"


subsection \<open>The index of categories\<close>

text \<open>The index is a map, of which the decoder gives the entries in the order of iteration; \<open>null\<close> is a nil pointer.\<close>

type_synonym category_resp = "(string \<times> string option) list"

definition category_validate :: "string \<Rightarrow> string option \<Rightarrow> bool" where
  "category_validate categoryName f =
     (case f of
        None \<Rightarrow> False
      | Some downloadURL \<Rightarrow>
          downloadURL \<noteq> [] \<and> (case NewCategoryID categoryName of Inl _ \<Rightarrow> False | Inr _ \<Rightarrow> True))"

record category_data =
  cd_url :: parsed_url
  cd_id :: category_id

fun category_toInternal :: "idx_env \<Rightarrow> category_resp \<Rightarrow> category_data list \<Rightarrow> category_data list" where
  "category_toInternal X [] fls = fls"
| "category_toInternal X ((cat, fl) # rest) fls =
     (if \<not> category_validate cat fl then category_toInternal X rest fls
      else (case ParseHTTPURL X (the fl) of
              None \<Rightarrow> category_toInternal X rest fls
            | Some u \<Rightarrow>
                if cat \<in> cd_id ` set fls then category_toInternal X rest fls
                else category_toInternal X rest (fls @ [\<lparr>cd_url = u, cd_id = cat\<rparr>])))"

subsection \<open>The storage\<close>

text \<open>
  The components that are disabled are nil.  The hash-prefix filters, the typosquatting filter and the storage of rule
  lists are made and refreshed elsewhere.  A category whose list could not be loaded yet has a nil pointer.
\<close>

record ('c, 'd) flt_storage =
  st_services :: "service_block option"
  st_adult :: "nat option"
  st_dangerous :: "nat option"
  st_newlyRegistered :: "nat option"
  st_safeSearchGeneral :: "(refr_conf \<times> nat) option"
  st_safeSearchYouTube :: "(refr_conf \<times> nat) option"
  st_typosquatting :: "nat option"
  st_domainFilters :: "category_id \<rightharpoonup> nat option"
  st_categoryDomainsIdxRefr :: "refr_conf option"
  st_ruleListStorage :: "'c rl_storage"
  st_cacheDir :: string
  st_categoryStaleness :: duration
  st_categoryMaxSize :: nat
  st_newCategoryCache :: 'd
  st_newServiceCache :: "'c option"
  st_subDomainNum :: nat

record safe_search_config =
  ssc_Enabled :: bool
  ssc_Refr :: refr_config
  ssc_ID :: filter_id

record ('c, 'd) fs_config =
  fsc_ServicesEnabled :: bool
  fsc_ServicesIndex :: refr_config
  fsc_Adult :: "nat option"
  fsc_Dangerous :: "nat option"
  fsc_NewlyRegistered :: "nat option"
  fsc_SafeSearchGeneral :: safe_search_config
  fsc_SafeSearchYouTube :: safe_search_config
  fsc_CategoriesEnabled :: bool
  fsc_CategoriesIndex :: refr_config
  fsc_TyposquattingEnabled :: bool
  fsc_Typosquatting :: nat
  fsc_RuleListStorage :: "'c rl_storage"
  fsc_CacheDir :: string
  fsc_CategoryStaleness :: duration
  fsc_CategoryMaxSize :: nat
  fsc_NewCategoryCache :: 'd
  fsc_NewServiceCache :: "'c option"
  fsc_SubDomainNum :: nat

definition initBlockedServices ::
  "idx_env \<Rightarrow> ('c, 'd) fs_config \<Rightarrow> ('c, 'd) flt_storage \<Rightarrow> refr_new_error option \<times> ('c, 'd) flt_storage" where
  "initBlockedServices X c st =
     (if \<not> fsc_ServicesEnabled c then (None, st)
      else (case refreshable_New X ((fsc_ServicesIndex c)\<lparr>rcf_CachePath := path_join [st_cacheDir st, ''index'', ''services.json'']\<rparr>) of
              Inl e \<Rightarrow> (Some e, st)
            | Inr rc \<Rightarrow> (None, st\<lparr>st_services := Some (serviceblock_New rc)\<rparr>)))"

definition newSafeSearch ::
  "'g urlfilter \<Rightarrow> idx_env \<Rightarrow> 'c \<Rightarrow> safe_search_config \<Rightarrow> string \<Rightarrow> ('g, 'c) rl_heap \<Rightarrow>
     (refr_new_error, (refr_conf \<times> nat) option) result \<times> ('g, 'c) rl_heap" where
  "newSafeSearch U X cache c cacheDir heap =
     (if \<not> ssc_Enabled c then (Inr None, heap)
      else (case refreshable_New X ((ssc_Refr c)\<lparr>rcf_CachePath := path_join [cacheDir, ''safesearch'', ssc_ID c]\<rparr>) of
              Inl e \<Rightarrow> (Inl e, heap)
            | Inr rc \<Rightarrow> (Inr (Some (rc, length heap)), heap @ [newBaseFilter U [] (ssc_ID c) [] (Some cache)])))"

definition initSafeSearch ::
  "'g urlfilter \<Rightarrow> idx_env \<Rightarrow> 'c \<Rightarrow> ('c, 'd) fs_config \<Rightarrow> ('c, 'd) flt_storage \<Rightarrow> ('g, 'c) rl_heap \<Rightarrow>
     refr_new_error option \<times> ('c, 'd) flt_storage \<times> ('g, 'c) rl_heap" where
  "initSafeSearch U X cache c st heap =
     (case newSafeSearch U X cache (fsc_SafeSearchGeneral c) (st_cacheDir st) heap of
        (Inl e, heap) \<Rightarrow> (Some e, st, heap)
      | (Inr gen, heap) \<Rightarrow>
          (let st = st\<lparr>st_safeSearchGeneral := gen\<rparr>
           in case newSafeSearch U X cache (fsc_SafeSearchYouTube c) (st_cacheDir st) heap of
                (Inl e, heap) \<Rightarrow> (Some e, st, heap)
              | (Inr yt, heap) \<Rightarrow> (None, st\<lparr>st_safeSearchYouTube := yt\<rparr>, heap)))"

definition initCategoryDomainIdxRefr ::
  "idx_env \<Rightarrow> ('c, 'd) fs_config \<Rightarrow> ('c, 'd) flt_storage \<Rightarrow> refr_new_error option \<times> ('c, 'd) flt_storage" where
  "initCategoryDomainIdxRefr X c st =
     (if \<not> fsc_CategoriesEnabled c then (None, st)
      else (case refreshable_New X ((fsc_CategoriesIndex c)\<lparr>rcf_CachePath := path_join [st_cacheDir st, ''index'', ''category_filters.json'']\<rparr>) of
              Inl e \<Rightarrow> (Some e, st)
            | Inr rc \<Rightarrow> (None, st\<lparr>st_categoryDomainsIdxRefr := Some rc\<rparr>)))"

text \<open>All parts are initialised, and the errors are joined.\<close>

definition fs_init ::
  "'g urlfilter \<Rightarrow> idx_env \<Rightarrow> 'c \<Rightarrow> ('c, 'd) fs_config \<Rightarrow> ('c, 'd) flt_storage \<Rightarrow> ('g, 'c) rl_heap \<Rightarrow>
     refr_new_error list \<times> ('c, 'd) flt_storage \<times> ('g, 'c) rl_heap" where
  "fs_init U X cache c st heap =
     (let (e1, st) = initBlockedServices X c st;
          (e2, st, heap) = initSafeSearch U X cache c st heap;
          (e3, st) = initCategoryDomainIdxRefr X c st;
          st = (if fsc_TyposquattingEnabled c then st\<lparr>st_typosquatting := Some (fsc_Typosquatting c)\<rparr> else st)
      in (map the (filter (\<lambda>e. e \<noteq> None) [e1, e2, e3]), st, heap))"

definition filterstorage_New ::
  "'g urlfilter \<Rightarrow> idx_env \<Rightarrow> 'c \<Rightarrow> ('c, 'd) fs_config \<Rightarrow> ('g, 'c) rl_heap \<Rightarrow>
     (refr_new_error list, ('c, 'd) flt_storage) result \<times> ('g, 'c) rl_heap" where
  "filterstorage_New U X cache c heap =
     (let st = \<lparr>st_services = None, st_adult = fsc_Adult c, st_dangerous = fsc_Dangerous c,
                st_newlyRegistered = fsc_NewlyRegistered c, st_safeSearchGeneral = None, st_safeSearchYouTube = None,
                st_typosquatting = None, st_domainFilters = Map.empty, st_categoryDomainsIdxRefr = None,
                st_ruleListStorage = fsc_RuleListStorage c, st_cacheDir = fsc_CacheDir c,
                st_categoryStaleness = fsc_CategoryStaleness c, st_categoryMaxSize = fsc_CategoryMaxSize c,
                st_newCategoryCache = fsc_NewCategoryCache c, st_newServiceCache = fsc_NewServiceCache c,
                st_subDomainNum = fsc_SubDomainNum c\<rparr>;
          (errs, st, heap) = fs_init U X cache c st heap
      in (if errs \<noteq> [] then Inl errs else Inr st, heap))"


subsection \<open>Assembling filters\<close>

definition setDomainFilters ::
  "('g, 'c, 'd) filters_env \<Rightarrow> ('c, 'd) flt_storage \<Rightarrow> config_categories \<Rightarrow> ('g, 'c, 'd) flt_heap comp_config \<Rightarrow>
     ('g, 'c, 'd) flt_heap comp_config" where
  "setDomainFilters N st c cc =
     (if \<not> cat_Enabled c \<or> cat_IDs c = [] then cc
      else fold (\<lambda>i cc. case st_domainFilters st i of
                    Some (Some h) \<Rightarrow> cc\<lparr>cc_CategoryFilters := cc_CategoryFilters cc @ [domain_ref N h]\<rparr>
                  | _ \<Rightarrow> cc) (cat_IDs c) cc)"

definition setEnabledParental ::
  "('g, 'c, 'd) filters_env \<Rightarrow> ('g, 'c, 'd) flt_heap \<Rightarrow> ('c, 'd) flt_storage \<Rightarrow> config_parental \<Rightarrow>
     ('g, 'c, 'd) flt_heap comp_config \<Rightarrow> ('g, 'c, 'd) flt_heap comp_config" where
  "setEnabledParental N s st c cc =
     (let cc = (case st_adult st of
                  Some h \<Rightarrow> if AdultBlockingEnabled c then cc\<lparr>cc_AdultBlocking := Some (hash_ref N h)\<rparr> else cc
                | None \<Rightarrow> cc);
          cc = (case st_safeSearchGeneral st of
                  Some (_, h) \<Rightarrow> if SafeSearchGeneralEnabled c then cc\<lparr>cc_GeneralSafeSearch := Some (rules_ref N s h)\<rparr> else cc
                | None \<Rightarrow> cc);
          cc = (case st_safeSearchYouTube st of
                  Some (_, h) \<Rightarrow> if SafeSearchYouTubeEnabled c then cc\<lparr>cc_YouTubeSafeSearch := Some (rules_ref N s h)\<rparr> else cc
                | None \<Rightarrow> cc);
          cc = (case st_services st of
                  Some sb \<Rightarrow>
                    if BlockedServices c \<noteq> []
                    then cc\<lparr>cc_ServiceLists := map (rules_ref N s) (svc_RuleLists sb (BlockedServices c))\<rparr> else cc
                | None \<Rightarrow> cc)
      in setDomainFilters N st (par_Categories c) cc)"

text \<open>The parental filters are left out during the scheduled pause.\<close>

definition setParental ::
  "('g, 'c, 'd) filters_env \<Rightarrow> ('g, 'c, 'd) flt_heap \<Rightarrow> ('c, 'd) flt_storage \<Rightarrow> config_parental \<Rightarrow>
     ('g, 'c, 'd) flt_heap comp_config \<Rightarrow> ('g, 'c, 'd) flt_heap comp_config" where
  "setParental N s st c cc =
     (if \<not> par_Enabled c then cc
      else if (case PauseSchedule c of None \<Rightarrow> False | Some pause \<Rightarrow> schedule_Contains pause (fh_now s)) then cc
      else setEnabledParental N s st c cc)"

definition setCustomRuleLists ::
  "('g, 'c, 'd) filters_env \<Rightarrow> ('g, 'c, 'd) flt_heap \<Rightarrow> ('c, 'd) flt_storage \<Rightarrow> config_rule_list \<Rightarrow>
     ('g, 'c, 'd) flt_heap comp_config \<Rightarrow> ('g, 'c, 'd) flt_heap comp_config" where
  "setCustomRuleLists N s st c cc =
     (if \<not> rlist_Enabled c \<or> rlc_IDs c = [] then cc
      else cc\<lparr>cc_CustomRuleLists := cc_CustomRuleLists cc @
                map (rules_ref N s) (AppendForListIDs (st_ruleListStorage st) [] (rlc_IDs c))\<rparr>)"

definition setRuleLists ::
  "('g, 'c, 'd) filters_env \<Rightarrow> ('g, 'c, 'd) flt_heap \<Rightarrow> ('c, 'd) flt_storage \<Rightarrow> config_rule_list \<Rightarrow>
     ('g, 'c, 'd) flt_heap comp_config \<Rightarrow> ('g, 'c, 'd) flt_heap comp_config" where
  "setRuleLists N s st c cc =
     (if \<not> rlist_Enabled c \<or> rlc_IDs c = [] then cc
      else cc\<lparr>cc_RuleLists := cc_RuleLists cc @
                map (rules_ref N s) (AppendForListIDs (st_ruleListStorage st) [] (rlc_IDs c))\<rparr>)"

definition setSafeBrowsing ::
  "('g, 'c, 'd) filters_env \<Rightarrow> ('c, 'd) flt_storage \<Rightarrow> config_safe_browsing \<Rightarrow>
     ('g, 'c, 'd) flt_heap comp_config \<Rightarrow> ('g, 'c, 'd) flt_heap comp_config" where
  "setSafeBrowsing N st c cc =
     (if \<not> sb_Enabled c then cc
      else (let cc = (case st_dangerous st of
                        Some h \<Rightarrow> if DangerousDomainsEnabled c then cc\<lparr>cc_SafeBrowsing := Some (hash_ref N h)\<rparr> else cc
                      | None \<Rightarrow> cc);
                cc = (case st_newlyRegistered st of
                        Some h \<Rightarrow> if NewlyRegisteredDomainsEnabled c then cc\<lparr>cc_NewRegisteredDomains := Some (hash_ref N h)\<rparr> else cc
                      | None \<Rightarrow> cc)
            in case st_typosquatting st of
                 Some h \<Rightarrow> if TyposquattingEnabled c = Some True then cc\<lparr>cc_Typosquatting := Some (typo_ref N h)\<rparr> else cc
               | None \<Rightarrow> cc))"

definition empty_comp_config :: "'s comp_config" where
  "empty_comp_config =
     \<lparr>cc_SafeBrowsing = None, cc_AdultBlocking = None, cc_NewRegisteredDomains = None, cc_Typosquatting = None,
      cc_GeneralSafeSearch = None, cc_YouTubeSafeSearch = None, cc_Custom = None, cc_CategoryFilters = [],
      cc_CustomRuleLists = [], cc_RuleLists = [], cc_ServiceLists = []\<rparr>"

definition forClient ::
  "('g, 'c, 'd) filters_env \<Rightarrow> ('g, 'c, 'd) flt_heap \<Rightarrow> ('c, 'd) flt_storage \<Rightarrow> config_client \<Rightarrow> ('g, 'c, 'd) flt_heap composite" where
  "forClient N s st c =
     (let cc = setParental N s st (cl_Parental c) empty_comp_config;
          cc = setCustomRuleLists N s st (CustomRuleList c) cc;
          cc = setRuleLists N s st (cl_RuleList c) cc;
          cc = setSafeBrowsing N st (cl_SafeBrowsing c) cc;
          cc = (if cf_Enabled (CustomFilter c) then cc\<lparr>cc_Custom := Some (custom_ref N (cf_Rules (CustomFilter c)))\<rparr> else cc)
      in composite_New (ev_V N) cc)"

definition forGroup ::
  "('g, 'c, 'd) filters_env \<Rightarrow> ('g, 'c, 'd) flt_heap \<Rightarrow> ('c, 'd) flt_storage \<Rightarrow> config_group \<Rightarrow> ('g, 'c, 'd) flt_heap composite" where
  "forGroup N s st c =
     (let cc = setParental N s st (gr_Parental c) empty_comp_config;
          cc = setRuleLists N s st (gr_RuleList c) cc
      in composite_New (ev_V N) (setSafeBrowsing N st (gr_SafeBrowsing c) cc))"

text \<open>The filters of the interface \<open>filter.Interface\<close> that the storage gives.\<close>

datatype 's filter_if = FilterEmpty | FilterComposite "'s composite"

definition ForConfig ::
  "('g, 'c, 'd) filters_env \<Rightarrow> ('g, 'c, 'd) flt_heap \<Rightarrow> ('c, 'd) flt_storage \<Rightarrow> filter_config \<Rightarrow> ('g, 'c, 'd) flt_heap filter_if" where
  "ForConfig N s st c =
     (case c of
        ConfigNil \<Rightarrow> FilterEmpty
      | ConfigClient c \<Rightarrow> FilterComposite (forClient N s st c)
      | ConfigGroup c \<Rightarrow> FilterComposite (forGroup N s st c))"

fun if_FilterRequest :: "flt_env \<Rightarrow> 's filter_if \<Rightarrow> 's req_filter" where
  "if_FilterRequest V FilterEmpty req s = (Inr None, s)"
| "if_FilterRequest V (FilterComposite f) req s = composite_FilterRequest V f req s"


fun if_FilterResponse ::
  "flt_env \<Rightarrow> 's filter_if \<Rightarrow> flt_response \<Rightarrow> 's \<Rightarrow> (flt_error, flt_result option) result \<times> 's" where
  "if_FilterResponse V FilterEmpty resp s = (Inr None, s)"
| "if_FilterResponse V (FilterComposite f) resp s = composite_FilterResponse V f resp s"

subsection \<open>Refreshing the storage\<close>

datatype 'e fs_error =
    CategoryIndex "'e refr_error"
  | CategoryDecode
  | CategoryContext 'e
  | RefreshingServices "'e svc_error"
  | RefreshingGeneral "'e refr_error"
  | RefreshingYouTube "'e refr_error"

text \<open>The decoders of the indexes of categories and services.\<close>

record fs_decoders =
  dx_idx :: idx_env
  dx_categories :: "string \<Rightarrow> category_resp option"
  dx_services :: "string \<Rightarrow> index_resp_service option list option"

definition loadCategoryIndex ::
  "fs_decoders \<Rightarrow> 'e world \<Rightarrow> refr_conf \<Rightarrow> bool \<Rightarrow> file_map \<Rightarrow> ('e fs_error, category_resp) result \<times> file_map" where
  "loadCategoryIndex X W rc acceptStale files =
     (case refr_load W rc acceptStale files of
        (Inl e, files) \<Rightarrow> (Inl (CategoryIndex e), files)
      | (Inr b, files) \<Rightarrow> (case dx_categories X b of None \<Rightarrow> (Inl CategoryDecode, files) | Some resp \<Rightarrow> (Inr resp, files)))"

definition category_refr :: "('c, 'd) flt_storage \<Rightarrow> category_data \<Rightarrow> refr_conf" where
  "category_refr st cat =
     \<lparr>rf_fileURL = False, rf_staleness = st_categoryStaleness st, rf_maxSize = st_categoryMaxSize st,
      rf_url = pu_String (cd_url cat), rf_cachePath = path_join [st_cacheDir st, ''category'', cd_id cat]\<rparr>"

definition initDomainFilter :: "('c, 'd) flt_storage \<Rightarrow> category_data \<Rightarrow> 'd domain_filter" where
  "initDomainFilter st cat =
     \<lparr>df_domains = None, df_resCache = st_newCategoryCache st, df_catID = cd_id cat, df_resListID = IDCategory,
      df_subDomainNum = st_subDomainNum st\<rparr>"

text \<open>The new filter of a category.  It is refreshed without stale files, also by the initial refresh.\<close>

definition refreshDomainFilter ::
  "'d flt_cache \<Rightarrow> 'e world \<Rightarrow> ('c, 'd) flt_storage \<Rightarrow> category_data \<Rightarrow> 'd domain_filter list \<Rightarrow> file_map \<Rightarrow>
     ('e refr_error refresh_error, nat) result \<times> 'd domain_filter list \<times> file_map" where
  "refreshDomainFilter D W st cat heap files =
     (let (loaded, files) = refr_load W (category_refr st cat) False files;
          (r, df) = df_refresh D loaded (initDomainFilter st cat)
      in (case r of Inl e \<Rightarrow> Inl e | Inr _ \<Rightarrow> Inr (length heap), heap @ [df], files))"

definition prevDomainFilter :: "('c, 'd) flt_storage \<Rightarrow> category_id \<Rightarrow> nat option" where
  "prevDomainFilter st i = (case st_domainFilters st i of Some df \<Rightarrow> df | None \<Rightarrow> None)"

definition resultDomainFilter :: "('c, 'd) flt_storage \<Rightarrow> category_id \<Rightarrow> ('x, nat) result \<Rightarrow> nat option" where
  "resultDomainFilter st i r = (case r of Inl _ \<Rightarrow> prevDomainFilter st i | Inr h \<Rightarrow> Some h)"

fun refreshDomainFilters ::
  "'d flt_cache \<Rightarrow> 'e world \<Rightarrow> ('c, 'd) flt_storage \<Rightarrow> category_data list \<Rightarrow> (category_id \<rightharpoonup> nat option) \<Rightarrow>
     'd domain_filter list \<Rightarrow> file_map \<Rightarrow> (category_id \<rightharpoonup> nat option) \<times> 'd domain_filter list \<times> file_map" where
  "refreshDomainFilters D W st [] dls heap files = (dls, heap, files)"
| "refreshDomainFilters D W st (cat # cats) dls heap files =
     (case refreshDomainFilter D W st cat heap files of
        (r, heap, files) \<Rightarrow>
          refreshDomainFilters D W st cats (dls(cd_id cat \<mapsto> resultDomainFilter st (cd_id cat) r)) heap files)"

definition loadCategoryFilters ::
  "'d flt_cache \<Rightarrow> fs_decoders \<Rightarrow> 'e world \<Rightarrow> ('c, 'd) flt_storage \<Rightarrow> bool \<Rightarrow> ('g, 'c, 'd) flt_heap \<Rightarrow>
     ('e fs_error, category_id \<rightharpoonup> nat option) result \<times> ('g, 'c, 'd) flt_heap" where
  "loadCategoryFilters D X W st acceptStale s =
     (case st_categoryDomainsIdxRefr st of
        None \<Rightarrow> (Inr Map.empty, s)
      | Some rc \<Rightarrow>
          (case loadCategoryIndex X W rc acceptStale (fh_files s) of
             (Inl e, files) \<Rightarrow> (Inl e, s\<lparr>fh_files := files\<rparr>)
           | (Inr resp, files) \<Rightarrow>
               (case refreshDomainFilters D W st (category_toInternal (dx_idx X) resp []) Map.empty (fh_domain s) files of
                  (dls, heap, files) \<Rightarrow>
                    (case w_ctxErr W of Some e \<Rightarrow> Inl (CategoryContext e) | None \<Rightarrow> Inr dls,
                     s\<lparr>fh_domain := heap, fh_files := files\<rparr>))))"

definition refreshServices ::
  "'g urlfilter \<Rightarrow> fs_decoders \<Rightarrow> 'e world \<Rightarrow> bool \<Rightarrow> ('c, 'd) flt_storage \<Rightarrow> ('g, 'c, 'd) flt_heap \<Rightarrow>
     'e fs_error option \<times> ('c, 'd) flt_storage \<times> ('g, 'c, 'd) flt_heap" where
  "refreshServices U X W acceptStale st s =
     (case st_services st of
        None \<Rightarrow> (None, st, s)
      | Some sb \<Rightarrow>
          (case svc_Refresh U (dx_services X) W (st_newServiceCache st) acceptStale sb (fh_rules s) (fh_files s) of
             (e, sb, heap, files) \<Rightarrow>
               (map_option RefreshingServices e, st\<lparr>st_services := Some sb\<rparr>, s\<lparr>fh_rules := heap, fh_files := files\<rparr>)))"

text \<open>The refresh of one safe-search filter, if it is not nil.\<close>

definition refresh_safe_search ::
  "'g urlfilter \<Rightarrow> 'c result_cache \<Rightarrow> 'e world \<Rightarrow> bool \<Rightarrow> (refr_conf \<times> nat) option \<Rightarrow> ('g, 'c, 'd) flt_heap \<Rightarrow>
     'e refr_error option \<times> ('g, 'c, 'd) flt_heap" where
  "refresh_safe_search U C W acceptStale ss s =
     (case ss of
        None \<Rightarrow> (None, s)
      | Some (rc, h) \<Rightarrow>
          (case refr_load W rc acceptStale (fh_files s) of
             (Inl e, files) \<Rightarrow> (Some e, s\<lparr>fh_files := files\<rparr>)
           | (Inr b, files) \<Rightarrow>
               (None, s\<lparr>fh_files := files, fh_rules := (fh_rules s)[h := rulelist_Refresh U C (Some b) (fh_rules s ! h)]\<rparr>)))"

definition refreshSafeSearch ::
  "'g urlfilter \<Rightarrow> 'c result_cache \<Rightarrow> 'e world \<Rightarrow> bool \<Rightarrow> ('c, 'd) flt_storage \<Rightarrow> ('g, 'c, 'd) flt_heap \<Rightarrow>
     'e fs_error option \<times> ('g, 'c, 'd) flt_heap" where
  "refreshSafeSearch U C W acceptStale st s =
     (case refresh_safe_search U C W acceptStale (st_safeSearchGeneral st) s of
        (Some e, s) \<Rightarrow> (Some (RefreshingGeneral e), s)
      | (None, s) \<Rightarrow>
          (case refresh_safe_search U C W acceptStale (st_safeSearchYouTube st) s of
             (Some e, s) \<Rightarrow> (Some (RefreshingYouTube e), s)
           | (None, s) \<Rightarrow> (None, s)))"

text \<open>\<open>Refresh\<close> is \<open>fs_refresh\<close> without stale files, \<open>RefreshInitial\<close> with them.\<close>

definition fs_refresh ::
  "('g, 'c, 'd) filters_env \<Rightarrow> fs_decoders \<Rightarrow> 'e world \<Rightarrow> bool \<Rightarrow> ('c, 'd) flt_storage \<Rightarrow> ('g, 'c, 'd) flt_heap \<Rightarrow>
     'e fs_error option \<times> ('c, 'd) flt_storage \<times> ('g, 'c, 'd) flt_heap" where
  "fs_refresh N X W acceptStale st s =
     (case loadCategoryFilters (ev_D N) X W st acceptStale s of
        (Inl e, s) \<Rightarrow> (Some e, st, s)
      | (Inr newDomainFilters, s) \<Rightarrow>
          (case refreshServices (ev_U N) X W acceptStale st s of
             (Some e, st, s) \<Rightarrow> (Some e, st, s)
           | (None, st, s) \<Rightarrow>
               (case refreshSafeSearch (ev_U N) (ev_C N) W acceptStale st s of
                  (Some e, s) \<Rightarrow> (Some e, st, s)
                | (None, s) \<Rightarrow> (None, st\<lparr>st_domainFilters := newDomainFilters\<rparr>, s))))"

end
