(* ===== verification/Main_Mw.thy ===== *)
theory Main_Mw
  imports Handler Go_Format Filter_Storage
begin

text \<open>
  The main middleware (\<open>internal/dnssvc/internal/mainmw\<close>): it filters requests and responses, sets the response that the
  client gets, answers debug queries, and records the query in the statistics and in the query log.

  The filters, the statistics and the query log are operations on the state of the program; the errors that are
  only reported, the metrics and the disposal of messages to the pools are left out.  A handler that returns neither an
  error nor a response makes the code dereference a nil message, here or in the writer; this is the panic \<open>NilResponse\<close>.
\<close>

subsection \<open>The environment\<close>

text \<open>An entry of the query log (\<open>internal/querylog/entry.go\<close>).\<close>

record ql_entry =
  ql_RemoteIP :: addr
  ql_RequestResult :: "flt_result option"
  ql_ResponseResult :: "flt_result option"
  ql_Time :: time
  ql_ProfileID :: profile_id
  ql_DeviceID :: device_id
  ql_ClientCountry :: string
  ql_ResponseCountry :: string
  ql_DomainFQDN :: string
  ql_Elapsed :: duration
  ql_ClientASN :: asn
  ql_RequestType :: "16 word"
  ql_ResponseCode :: "16 word"
  ql_AccountID :: "32 word"
  ql_Protocol :: protocol
  ql_DNSSEC :: bool
  ql_Stream :: bool

record ('f, 's) mainmw =
  mm_lib :: dnslib
  mm_ipToAddr :: "net_ip \<Rightarrow> 16 word \<Rightarrow> addr option"
  mm_messages :: constructor
  mm_nodeName :: string
  mm_ForConfig :: "filter_config \<Rightarrow> 's \<Rightarrow> 'f"
  mm_FilterRequest :: "'f \<Rightarrow> flt_request \<Rightarrow> 's \<Rightarrow> (flt_error, flt_result option) result \<times> 's"
  mm_FilterResponse :: "'f \<Rightarrow> flt_response \<Rightarrow> 's \<Rightarrow> (flt_error, flt_result option) result \<times> 's"
  mm_Collect :: "filter_id \<Rightarrow> rule_text \<Rightarrow> 's \<Rightarrow> 's"
  mm_Record :: "device_id \<Rightarrow> string \<Rightarrow> asn \<Rightarrow> time \<Rightarrow> protocol \<Rightarrow> 's \<Rightarrow> 's"
  mm_Write :: "ql_entry \<Rightarrow> 's \<Rightarrow> 's"
  mm_geoData :: "string \<Rightarrow> addr \<Rightarrow> 's \<Rightarrow> geo_location option \<times> 's"
  mm_now :: "'s \<Rightarrow> time"

subsection \<open>The filtering context\<close>

record filtering_context =
  fc_originalRequest :: msg
  fc_modifiedRequest :: "msg option"
  fc_requestResult :: "flt_result option"
  fc_responseResult :: "flt_result option"
  fc_isDebug :: bool

definition set_qclass :: "16 word \<Rightarrow> msg \<Rightarrow> msg" where
  "set_qclass cl m = m\<lparr>Question := (Question m)[0 := (question0 m)\<lparr>Qclass := cl\<rparr>]\<rparr>"

definition newFilteringContext :: "msg \<Rightarrow> filtering_context" where
  "newFilteringContext req =
     (let isDebug = (Qclass (question0 req) = ClassCHAOS)
      in \<lparr>fc_originalRequest = (if isDebug then set_qclass ClassINET req else req), fc_modifiedRequest = None,
          fc_requestResult = None, fc_responseResult = None, fc_isDebug = isDebug\<rparr>)"

definition main_filter :: "('f, 's) mainmw \<Rightarrow> 'e request_info \<Rightarrow> 's \<Rightarrow> 'f" where
  "main_filter mw ri s =
     (case DeviceData ri of
        None \<Rightarrow> mm_ForConfig mw (ConfigGroup (fg_FilterConfig (ri_FilteringGroup ri))) s
      | Some (p, d) \<Rightarrow>
          if p_FilteringEnabled p \<and> d_FilteringEnabled d then mm_ForConfig mw (ConfigClient (p_FilterConfig p)) s
          else mm_ForConfig mw ConfigNil s)"

definition client_name :: "'e request_info \<Rightarrow> string" where
  "client_name ri = (case DeviceData ri of Some (_, d) \<Rightarrow> d_Name d | None \<Rightarrow> [])"

definition reqInfoToFltReq :: "msg \<Rightarrow> 'e request_info \<Rightarrow> flt_request" where
  "reqInfoToFltReq req ri =
     \<lparr>fr_DNS = req, fr_Messages = ri_Messages ri, fr_RemoteIP = ri_RemoteIP ri, fr_ClientName = client_name ri,
      fr_Host = ri_Host ri, fr_QType = ri_QType ri, fr_QClass = ri_QClass ri\<rparr>"

definition reqInfoToFltResp :: "msg \<Rightarrow> 'e request_info \<Rightarrow> flt_response" where
  "reqInfoToFltResp resp ri = \<lparr>fs_DNS = resp, fs_RemoteIP = ri_RemoteIP ri, fs_ClientName = client_name ri\<rparr>"

text \<open>The outcome of a filter call: a panic goes on, another error is reported and leaves no result.\<close>

definition flt_outcome :: "(flt_error, flt_result option) result \<Rightarrow> (mw_panic, flt_result option) result" where
  "flt_outcome r =
     (case r of Inr res \<Rightarrow> Inr res | Inl (FltMessage _) \<Rightarrow> Inr None | Inl e \<Rightarrow> Inl (FilterPanic e))"

definition main_filterRequest ::
  "('f, 's) mainmw \<Rightarrow> filtering_context \<Rightarrow> 'f \<Rightarrow> 'e request_info \<Rightarrow> 's \<Rightarrow> (mw_panic, filtering_context) result \<times> 's" where
  "main_filterRequest mw fctx f ri s =
     (case mm_FilterRequest mw f (reqInfoToFltReq (fc_originalRequest fctx) ri) s of
        (r, s) \<Rightarrow>
          (case flt_outcome r of
             Inl p \<Rightarrow> (Inl p, s)
           | Inr res \<Rightarrow>
               (Inr (fctx\<lparr>fc_requestResult := res,
                          fc_modifiedRequest :=
                            (case res of Some (ResultModifiedRequest m _ _) \<Rightarrow> Some m | _ \<Rightarrow> fc_modifiedRequest fctx)\<rparr>), s)))"

text \<open>The result is the original response, which a rewritten request changes, with the context.\<close>

definition main_filterResponse ::
  "('f, 's) mainmw \<Rightarrow> filtering_context \<Rightarrow> msg \<Rightarrow> 'f \<Rightarrow> 'e request_info \<Rightarrow> 's \<Rightarrow>
     (mw_panic, msg \<times> filtering_context) result \<times> 's" where
  "main_filterResponse mw fctx resp f ri s =
     (case fc_modifiedRequest fctx of
        Some modReq \<Rightarrow>
          (let origReq = fc_originalRequest fctx
           in if Question resp = [] then (Inl NilQuestion, s)
              else (let resp = resp\<lparr>Id := Id origReq, Question := (Question resp)[0 := question0 origReq]\<rparr>;
                        rr = NewAnswerCNAME (mm_lib mw) (ri_Messages ri) origReq (q_Name (question0 modReq))
                    in (Inr (resp\<lparr>Answer := rr # Answer resp\<rparr>, fctx), s)))
      | None \<Rightarrow>
          (case mm_FilterResponse mw f (reqInfoToFltResp resp ri) s of
             (r, s) \<Rightarrow>
               (case flt_outcome r of
                  Inl p \<Rightarrow> (Inl p, s)
                | Inr res \<Rightarrow> (Inr (resp, fctx\<lparr>fc_responseResult := res\<rparr>), s))))"

subsection \<open>The response\<close>

definition resultData :: "flt_result option \<Rightarrow> filter_id \<times> rule_text \<times> bool" where
  "resultData res =
     (case res of
        None \<Rightarrow> ([], [], False)
      | Some r \<Rightarrow>
          (fst (MatchedRule r), snd (MatchedRule r), (case r of ResultAllowed _ _ \<Rightarrow> False | _ \<Rightarrow> True)))"

definition filteringData :: "filtering_context \<Rightarrow> filter_id \<times> rule_text \<times> bool" where
  "filteringData fctx =
     (if fc_requestResult fctx \<noteq> None then resultData (fc_requestResult fctx) else resultData (fc_responseResult fctx))"

definition cmp_Or :: "'a option \<Rightarrow> 'a option \<Rightarrow> 'a option" where
  "cmp_Or x y = (case x of Some _ \<Rightarrow> x | None \<Rightarrow> y)"

definition resultBlockingMode :: "'e request_info \<Rightarrow> flt_result \<Rightarrow> blocking_mode option" where
  "resultBlockingMode ri res =
     (case DeviceData ri of
        None \<Rightarrow> None
      | Some (p, _) \<Rightarrow>
          (let fltID = fst (MatchedRule res)
           in if fltID = IDAdultBlocking \<or> fltID = IDBlockedService \<or> fltID = IDCategory
              then cmp_Or (p_AdultBlockingMode p) (p_BlockingMode p)
              else if fltID = IDSafeBrowsing \<or> fltID = IDTyposquatting
              then cmp_Or (p_SafeBrowsingBlockingMode p) (p_BlockingMode p)
              else p_BlockingMode p))"

definition filterBlockingMode :: "'e request_info \<Rightarrow> flt_result \<Rightarrow> blocking_mode option" where
  "filterBlockingMode ri res =
     (case DeviceData ri of
        None \<Rightarrow> None
      | Some (p, _) \<Rightarrow>
          (let fltID = fst (MatchedRule res)
           in if fltID = IDAdultBlocking \<or> fltID = IDBlockedService \<or> fltID = IDCategory then p_AdultBlockingMode p
              else if fltID = IDSafeBrowsing \<or> fltID = IDTyposquatting then p_SafeBrowsingBlockingMode p
              else None))"

definition setFilteredResponseFromBlockingMode ::
  "('f, 's) mainmw \<Rightarrow> filtering_context \<Rightarrow> msg \<Rightarrow> 'e request_info \<Rightarrow> blocking_mode option \<Rightarrow> msg" where
  "setFilteredResponseFromBlockingMode mw fctx origResp ri mode =
     (case NewBlockedResp (mm_lib mw) (ri_Messages ri) (fc_originalRequest fctx) mode of
        Inl _ \<Rightarrow> origResp
      | Inr m \<Rightarrow> m)"

definition setFilteredResponseNoReq ::
  "('f, 's) mainmw \<Rightarrow> filtering_context \<Rightarrow> msg \<Rightarrow> 'e request_info \<Rightarrow> (mw_panic, msg) result" where
  "setFilteredResponseNoReq mw fctx origResp ri =
     (case fc_responseResult fctx of
        None \<Rightarrow> Inr origResp
      | Some (ResultAllowed _ _) \<Rightarrow> Inr origResp
      | Some (ResultBlocked i t) \<Rightarrow>
          Inr (setFilteredResponseFromBlockingMode mw fctx origResp ri (resultBlockingMode ri (ResultBlocked i t)))
      | _ \<Rightarrow> Inl BadResult)"

definition setFilteredResponse ::
  "('f, 's) mainmw \<Rightarrow> filtering_context \<Rightarrow> msg \<Rightarrow> 'e request_info \<Rightarrow> (mw_panic, msg) result" where
  "setFilteredResponse mw fctx origResp ri =
     (case fc_requestResult fctx of
        None \<Rightarrow> setFilteredResponseNoReq mw fctx origResp ri
      | Some (ResultBlocked i t) \<Rightarrow>
          Inr (setFilteredResponseFromBlockingMode mw fctx origResp ri (resultBlockingMode ri (ResultBlocked i t)))
      | Some (ResultAllowed _ _) \<Rightarrow> Inr origResp
      | Some (ResultModifiedRequest m i t) \<Rightarrow>
          (case filterBlockingMode ri (ResultModifiedRequest m i t) of
             Some mode \<Rightarrow> Inr (setFilteredResponseFromBlockingMode mw fctx origResp ri (Some mode))
           | None \<Rightarrow> Inr origResp)
      | Some (ResultModifiedResponse m i t) \<Rightarrow>
          (case filterBlockingMode ri (ResultModifiedResponse m i t) of
             Some mode \<Rightarrow> Inr (setFilteredResponseFromBlockingMode mw fctx origResp ri (Some mode))
           | None \<Rightarrow> Inr m))"

subsection \<open>Debug queries\<close>

definition hdrDomain :: string where "hdrDomain = ''adguard-dns.com.''"

definition setQuestionName :: "string \<Rightarrow> string \<Rightarrow> msg \<Rightarrow> msg" where
  "setQuestionName prefix suffix req =
     (let strs = (if prefix = [] then [suffix, hdrDomain] else [prefix, suffix, hdrDomain])
      in req\<lparr>Question := (Question req)[0 := (question0 req)\<lparr>q_Name := join_with (CHR ''.'') strs\<rparr>]\<rparr>)"

text \<open>One record of debug information: the name of the question is set and the text is appended to the response.\<close>

definition debug_extra ::
  "('f, 's) mainmw \<Rightarrow> msg \<Rightarrow> string \<Rightarrow> string \<Rightarrow> string \<Rightarrow> (msg_error, msg) result \<Rightarrow> (msg_error, msg) result" where
  "debug_extra mw debugReq prefix suffix str resp =
     (case resp of
        Inl e \<Rightarrow> Inl e
      | Inr resp \<Rightarrow> AppendDebugExtra (mm_messages mw) (setQuestionName prefix suffix debugReq) resp str)"

definition appendDebugExtraFromDevice ::
  "('f, 's) mainmw \<Rightarrow> device option \<Rightarrow> msg \<Rightarrow> (msg_error, msg) result \<Rightarrow> (msg_error, msg) result" where
  "appendDebugExtraFromDevice mw dev debugReq resp =
     (case dev of
        None \<Rightarrow> resp
      | Some dev \<Rightarrow>
          (let resp = debug_extra mw debugReq [] ''device-id'' (d_ID dev) resp
           in if d_HumanIDLower dev \<noteq> [] then debug_extra mw debugReq [] ''human-id'' (d_HumanIDLower dev) resp else resp))"

definition appendDebugExtraFromLocation ::
  "('f, 's) mainmw \<Rightarrow> geo_location \<Rightarrow> msg \<Rightarrow> (msg_error, msg) result \<Rightarrow> (msg_error, msg) result" where
  "appendDebugExtraFromLocation mw loc debugReq resp =
     (let resp = debug_extra mw debugReq [] ''country'' (loc_Country loc) resp;
          resp = debug_extra mw debugReq [] ''asn'' (format_uint 10 (unat (loc_ASN loc))) resp
      in if loc_TopSubdivision loc \<noteq> [] then debug_extra mw debugReq [] ''subdivision'' (loc_TopSubdivision loc) resp else resp)"

definition appendDebugExtraFromContext ::
  "('f, 's) mainmw \<Rightarrow> 'e request_info \<Rightarrow> msg \<Rightarrow> (msg_error, msg) result \<Rightarrow> (msg_error, msg) result" where
  "appendDebugExtraFromContext mw ri debugReq resp =
     (let resp = appendDebugExtraFromDevice mw (map_option snd (DeviceData ri)) debugReq resp;
          resp = (case DeviceData ri of None \<Rightarrow> resp | Some (prof, _) \<Rightarrow> debug_extra mw debugReq [] ''profile-id'' (p_ID prof) resp)
      in case ri_Location ri of None \<Rightarrow> resp | Some loc \<Rightarrow> appendDebugExtraFromLocation mw loc debugReq resp)"

fun result_state :: "flt_result \<Rightarrow> string" where
  "result_state (ResultAllowed _ _) = ''allowed''"
| "result_state (ResultBlocked _ _) = ''blocked''"
| "result_state (ResultModifiedResponse _ _ _) = ''modified''"
| "result_state (ResultModifiedRequest _ _ _) = ''modified''"

definition addDebugExtraFromFiltering ::
  "('f, 's) mainmw \<Rightarrow> msg \<Rightarrow> string \<Rightarrow> string \<Rightarrow> string \<Rightarrow> string \<Rightarrow> (msg_error, msg) result \<Rightarrow> (msg_error, msg) result" where
  "addDebugExtraFromFiltering mw req state rule ruleID applyTo resp =
     debug_extra mw req applyTo ''rule-list-id'' ruleID
       (debug_extra mw req applyTo ''rule'' rule (debug_extra mw req applyTo ''res-type'' state resp))"

definition debugResponse ::
  "('f, 's) mainmw \<Rightarrow> msg \<Rightarrow> flt_result option \<Rightarrow> string \<Rightarrow> (msg_error, msg) result \<Rightarrow> (msg_error, msg) result" where
  "debugResponse mw req fltRes applyTo resp =
     (case fltRes of
        None \<Rightarrow> debug_extra mw req applyTo ''res-type'' ''normal'' resp
      | Some r \<Rightarrow>
          addDebugExtraFromFiltering mw req (result_state r) (snd (MatchedRule r)) (fst (MatchedRule r)) applyTo resp)"

definition debug_resp ::
  "('f, 's) mainmw \<Rightarrow> filtering_context \<Rightarrow> 'e request_info \<Rightarrow> 'e writer \<Rightarrow> msg \<Rightarrow> (msg_error, msg) result" where
  "debug_resp mw fctx ri rw resp =
     (let q = question0 (fc_originalRequest fctx);
          debugReq = (fc_originalRequest fctx)
            \<lparr>Question := (Question (fc_originalRequest fctx))[0 := q\<lparr>Qclass := ClassCHAOS, Qtype := TypeTXT\<rparr>]\<rparr>;
          r = Inr (set_qclass ClassCHAOS resp);
          r = debug_extra mw debugReq [] ''client-ip'' (ip_string (ap_addr (wr_remote rw))) r;
          r = debug_extra mw debugReq [] ''server-ip'' (ip_string (ap_addr (wr_local rw))) r;
          r = debug_extra mw debugReq [] ''node-name'' (mm_nodeName mw) r;
          r = appendDebugExtraFromContext mw ri debugReq r
      in if fc_requestResult fctx = None then debugResponse mw debugReq (fc_responseResult fctx) ''resp'' r
         else debugResponse mw debugReq (fc_requestResult fctx) ''req'' r)"

definition writeDebugResponse ::
  "('f, 's) mainmw \<Rightarrow> filtering_context \<Rightarrow> 'e request_info \<Rightarrow> msg \<Rightarrow> 'e writer \<Rightarrow> 's \<Rightarrow> ('e, 's) outcome" where
  "writeDebugResponse mw fctx ri resp rw s =
     (if Question resp = [] then (Some (PanicErr NilQuestion), rw, fc_originalRequest fctx, s)
      else (case debug_resp mw fctx ri rw resp of
              Inl e \<Rightarrow> (Some (MessageErr e), rw, fc_originalRequest fctx, s)
            | Inr resp \<Rightarrow> write_last (fc_originalRequest fctx) resp rw s))"

subsection \<open>Recording\<close>

fun ipFromHTTPSRRKV :: "svcb_kv \<Rightarrow> (16 word \<times> net_ip) option" where
  "ipFromHTTPSRRKV (SVCBIPv4Hint (ip # _)) = Some (AddrFamilyIPv4, ip)"
| "ipFromHTTPSRRKV (SVCBIPv6Hint (ip # _)) = Some (AddrFamilyIPv6, ip)"
| "ipFromHTTPSRRKV _ = None"

text \<open>A nil address gives the zero address; an address that cannot be converted is reported and gives the zero address, too.\<close>

definition conv_ip :: "('f, 's) mainmw \<Rightarrow> (16 word \<times> net_ip) option \<Rightarrow> addr" where
  "conv_ip mw famIP =
     (case famIP of
        None \<Rightarrow> AddrZero
      | Some (fam, netIP) \<Rightarrow>
          if netIP = [] then AddrZero else (case mm_ipToAddr mw netIP fam of None \<Rightarrow> AddrZero | Some ip \<Rightarrow> ip))"

definition ipFromHTTPSRR :: "('f, 's) mainmw \<Rightarrow> svcb \<Rightarrow> addr" where
  "ipFromHTTPSRR mw https =
     conv_ip mw (case List.map_filter ipFromHTTPSRRKV (svcb_Value https) of [] \<Rightarrow> None | x # _ \<Rightarrow> Some x)"

fun ipFromAnswer :: "('f, 's) mainmw \<Rightarrow> rr list \<Rightarrow> addr" where
  "ipFromAnswer mw [] = AddrZero"
| "ipFromAnswer mw (rr # rrs) =
     (case Data rr of
        RD_A ip \<Rightarrow> conv_ip mw (Some (AddrFamilyIPv4, ip))
      | RD_AAAA ip \<Rightarrow> conv_ip mw (Some (AddrFamilyIPv6, ip))
      | RD_HTTPS v \<Rightarrow> ipFromHTTPSRR mw v
      | _ \<Rightarrow> ipFromAnswer mw rrs)"

definition responseData :: "('f, 's) mainmw \<Rightarrow> msg \<Rightarrow> 16 word \<times> addr \<times> bool" where
  "responseData mw resp = (word_of_int (Rcode resp), ipFromAnswer mw (Answer resp), AuthenticatedData resp)"

definition addr_is_unspecified :: "addr \<Rightarrow> bool" where
  "addr_is_unspecified a \<longleftrightarrow> a = Addr4 0 \<or> a = Addr6 0 []"

definition responseCountry ::
  "('f, 's) mainmw \<Rightarrow> filtering_context \<Rightarrow> string \<Rightarrow> addr \<Rightarrow> 16 word \<Rightarrow> 's \<Rightarrow> string \<times> 's" where
  "responseCountry mw fctx host respIP rcode s =
     (if rcode \<noteq> 0 \<or> respIP = AddrZero \<or> addr_is_unspecified respIP then (CountryNotApplicable, s)
      else (let host = (case fc_modifiedRequest fctx of Some m \<Rightarrow> NormalizeDomain (q_Name (question0 m)) | None \<Rightarrow> host)
            in case mm_geoData mw host respIP s of
                 (l, s) \<Rightarrow> (case l of Some l \<Rightarrow> loc_Country l | None \<Rightarrow> CountryNone, s)))"

definition writeQueryLogEntry ::
  "('f, 's) mainmw \<Rightarrow> filtering_context \<Rightarrow> msg \<Rightarrow> msg \<Rightarrow> 'e request_info \<Rightarrow> ql_entry \<Rightarrow> bool \<Rightarrow> bool \<Rightarrow> 's \<Rightarrow> 's" where
  "writeQueryLogEntry mw fctx origResp fltResp ri e blocked logIP s =
     (let (rcode, respIP, dnssec) = responseData mw fltResp;
          respIP = (if blocked then fst (snd (responseData mw origResp)) else respIP);
          (ctry, s) = responseCountry mw fctx (ri_Host ri) respIP rcode s
      in mm_Write mw (e\<lparr>ql_ResponseCode := rcode, ql_DNSSEC := dnssec, ql_ResponseCountry := ctry,
                        ql_RemoteIP := (if logIP then ri_RemoteIP ri else ql_RemoteIP e)\<rparr>) s)"

definition recordQueryInfo ::
  "('f, 's) mainmw \<Rightarrow> 'e ctx \<Rightarrow> filtering_context \<Rightarrow> msg \<Rightarrow> msg \<Rightarrow> 'e request_info \<Rightarrow> 's \<Rightarrow> 's" where
  "recordQueryInfo mw cx fctx origResp fltResp ri s =
     (let (i, t, blocked) = filteringData fctx;
          s = mm_Collect mw i t s
      in case DeviceData ri of
           None \<Rightarrow> s
         | Some (prof, dev) \<Rightarrow>
             (let (reqCtry, reqASN) = (case ri_Location ri of Some loc \<Rightarrow> (loc_Country loc, loc_ASN loc) | None \<Rightarrow> ([], 0));
                  start = cx_StartTime cx;
                  s = mm_Record mw (d_ID dev) reqCtry reqASN start (si_Protocol (ri_ServerInfo ri)) s
              in if \<not> QueryLogEnabled prof then s
                 else writeQueryLogEntry mw fctx origResp fltResp ri
                   \<lparr>ql_RemoteIP = AddrZero, ql_RequestResult = fc_requestResult fctx, ql_ResponseResult = fc_responseResult fctx,
                    ql_Time = start, ql_ProfileID = p_ID prof, ql_DeviceID = d_ID dev, ql_ClientCountry = reqCtry,
                    ql_ResponseCountry = [], ql_DomainFQDN = q_Name (question0 (fc_originalRequest fctx)),
                    ql_Elapsed = time_sub (mm_now mw s) start, ql_ClientASN = reqASN, ql_RequestType = ri_QType ri,
                    ql_ResponseCode = 0, ql_AccountID = p_AccountID prof, ql_Protocol = si_Protocol (ri_ServerInfo ri),
                    ql_DNSSEC = False, ql_Stream = QueryLogStream prof\<rparr> blocked (IPLogEnabled prof) s))"

subsection \<open>The middleware\<close>

definition nextParams :: "filtering_context \<Rightarrow> 'e request_info \<Rightarrow> 'e ctx \<Rightarrow> 'e ctx \<times> msg" where
  "nextParams fctx ri cx =
     (case fc_modifiedRequest fctx of
        None \<Rightarrow> (cx, fc_originalRequest fctx)
      | Some modReq \<Rightarrow>
          (ContextWithRequestInfo (ri\<lparr>ri_Host := NormalizeDomain (q_Name (question0 modReq))\<rparr>) cx, modReq))"

text \<open>What follows the call of the next handler, given its response and the request that it left.\<close>

definition main_finish ::
  "('f, 's) mainmw \<Rightarrow> 'f \<Rightarrow> 'e request_info \<Rightarrow> 'e ctx \<Rightarrow> filtering_context \<Rightarrow> msg \<Rightarrow> 'e writer \<Rightarrow> 's \<Rightarrow> ('e, 's) outcome" where
  "main_finish mw flt ri cx fctx resp rw s =
     (case main_filterResponse mw fctx resp flt ri s of
        (Inl p, s) \<Rightarrow> (Some (PanicErr p), rw, fc_originalRequest fctx, s)
      | (Inr (origResp, fctx), s) \<Rightarrow>
          (case setFilteredResponse mw fctx origResp ri of
             Inl p \<Rightarrow> (Some (PanicErr p), rw, fc_originalRequest fctx, s)
           | Inr fltResp \<Rightarrow>
               if fc_isDebug fctx then writeDebugResponse mw fctx ri fltResp rw s
               else (case WriteMsg (fc_originalRequest fctx) fltResp rw of
                       (Some e, rw) \<Rightarrow> (Some (WritingErr e), rw, fc_originalRequest fctx, s)
                     | (None, rw) \<Rightarrow>
                         (None, rw, fc_originalRequest fctx, recordQueryInfo mw cx fctx origResp fltResp ri s))))"

text \<open>The request that the next handler leaves is the original one, unless the filters have made a new one.\<close>

definition main_Wrap :: "('f, 's) mainmw \<Rightarrow> ('e, 's) middleware" where
  "main_Wrap mw handle cx rw req s =
     (let fctx = newFilteringContext req
      in case cx_ReqInfo cx of
           None \<Rightarrow> (Some (PanicErr NoRequestInfo), rw, fc_originalRequest fctx, s)
         | Some ri \<Rightarrow>
             (let flt = main_filter mw ri s
              in case main_filterRequest mw fctx flt ri s of
                   (Inl p, s) \<Rightarrow> (Some (PanicErr p), rw, fc_originalRequest fctx, s)
                 | (Inr fctx, s) \<Rightarrow>
                     (case cx_Err cx of
                        Some e \<Rightarrow> (Some (AfterFiltering e), rw, fc_originalRequest fctx, s)
                      | None \<Rightarrow>
                          (let (ncx, nreq) = nextParams fctx ri cx
                           in case handle ncx (MakeNonWriter rw) nreq s of
                                (err, nwrw, nreq, s) \<Rightarrow>
                                  (let fctx = (if fc_modifiedRequest fctx = None then fctx\<lparr>fc_originalRequest := nreq\<rparr>
                                               else fctx\<lparr>fc_modifiedRequest := Some nreq\<rparr>);
                                       rw = after_NonWriter rw nwrw
                                   in case err of
                                        Some e \<Rightarrow> (Some e, rw, fc_originalRequest fctx, s)
                                      | None \<Rightarrow>
                                          (case wr_resp nwrw of
                                             None \<Rightarrow> (Some (PanicErr NilResponse), rw, fc_originalRequest fctx, s)
                                           | Some resp \<Rightarrow> main_finish mw flt ri cx fctx resp rw s))))))"

end
