(* ===== verification/Middleware_Laws.thy ===== *)
theory Middleware_Laws
  imports Ratelimit_Mw Initial_Mw Pre_Mw Main_Mw
begin

text \<open>
  The messages that a call delivers through its writer, the contract of the handlers below a middleware, and what follows from it: the middleware before the
  upstream keeps the contract, and the main middleware answers a blocked request with the response for blocked requests.
\<close>

subsection \<open>Answers\<close>

text \<open>The messages that a call has delivered through the writer it was given.\<close>

fun answers :: "'e writer \<Rightarrow> ('e, 's) outcome \<Rightarrow> msg list" where
  "answers rw (err, rw', req', s') =
     (if wr_nonWriter rw then (case wr_resp rw' of Some m \<Rightarrow> if err = None then [m] else [] | None \<Rightarrow> [])
      else map snd (drop (length (wr_sent rw)) (wr_sent rw')))"

text \<open>
  A handler that uses its writer as it should: it keeps the addresses and the kind of the writer, and does not take back
  what was sent.
\<close>

definition writes :: "'e writer \<Rightarrow> 'e writer \<Rightarrow> bool" where
  "writes rw rw' \<longleftrightarrow>
     wr_nonWriter rw' = wr_nonWriter rw \<and> wr_local rw' = wr_local rw \<and> wr_remote rw' = wr_remote rw \<and>
     (\<exists>ms. wr_sent rw' = wr_sent rw @ ms)"

lemma writes_refl [simp]: "writes rw rw"
  by (simp add: writes_def)

lemma writes_trans: "writes rw rw' \<Longrightarrow> writes rw' rw'' \<Longrightarrow> writes rw rw''"
  by (auto simp: writes_def)

lemma WriteMsg_writes: "WriteMsg req m rw = (e, rw') \<Longrightarrow> writes rw rw'"
  by (auto simp: WriteMsg_def writes_def split: if_splits list.splits option.splits)

lemma writes_MakeNonWriter: "writes (MakeNonWriter rw) nwrw \<Longrightarrow> writes rw (after_NonWriter rw nwrw)"
  by (auto simp: MakeNonWriter_def after_NonWriter_def writes_def NewNonWriter_def)

lemma MakeNonWriter_nonWriter [simp]: "wr_nonWriter (MakeNonWriter rw)"
  by (simp add: MakeNonWriter_def NewNonWriter_def)

text \<open>What a final write delivers: the message, unless the write fails.\<close>

lemma write_last_answers:
  "write_last req m rw s = (err, rw', req', s') \<Longrightarrow> answers rw (err, rw', req', s') = (if err = None then [m] else [])"
  by (auto simp: write_last_def WriteMsg_def split: if_splits list.splits option.splits prod.splits)

lemma write_last_sel:
  "write_last req m rw s = (err, rw', req', s') \<Longrightarrow> req' = req \<and> s' = s \<and> writes rw rw'"
  by (auto simp: write_last_def WriteMsg_writes split: prod.splits)

text \<open>A call with a writer made by \<open>MakeNonWriter\<close>, followed by a final write.\<close>

lemma after_write_answers:
  assumes "writes (MakeNonWriter rw) nwrw" "write_last req m (after_NonWriter rw nwrw) s = (err, rw', req', s')"
  shows "answers rw (err, rw', req', s') = (if err = None then [m] else [])"
  using assms
  by (auto simp: after_NonWriter_def MakeNonWriter_def writes_def write_last_def WriteMsg_def
      split: if_splits list.splits option.splits prod.splits)

lemma after_error_answers:
  assumes "writes (MakeNonWriter rw) nwrw"
  shows "answers rw (Some e, after_NonWriter rw nwrw, req', s') = []"
  using assms by (auto simp: after_NonWriter_def split: option.splits)

subsection \<open>The contract of a handler\<close>

text \<open>
  The handlers below a middleware use the writer as they should and leave the request of the client as it is: what they
  send elsewhere is a copy.  The middlewares that only pass requests on keep the contract.
\<close>

definition well_behaved :: "('e, 's) handler \<Rightarrow> bool" where
  "well_behaved h \<longleftrightarrow> (\<forall>cx rw req s err rw' req' s'. h cx rw req s = (err, rw', req', s') \<longrightarrow> writes rw rw' \<and> req' = req)"

lemma well_behavedD: "well_behaved h \<Longrightarrow> h cx rw req s = (err, rw', req', s') \<Longrightarrow> writes rw rw' \<and> req' = req"
  unfolding well_behaved_def by blast

locale inner_handler =
  fixes handle :: "('e, 's) handler"
  assumes behaves: "handle cx rw req s = (err, rw', req', s') \<Longrightarrow> writes rw rw' \<and> req' = req"
begin

lemma preups_behaves: "well_behaved (preups_Wrap mw handle)"
  unfolding well_behaved_def
proof (intro allI impI)
  fix cx rw req s err rw' req' s'
  assume h: "preups_Wrap mw handle cx rw req s = (err, rw', req', s')"
  show "writes rw rw' \<and> req' = req"
  proof (cases "AndroidMetricDomainReplacement (q_Name (question0 req)) = []")
    case True
    obtain e nwrw q s1 where c: "handle cx (MakeNonWriter rw) req s = (e, nwrw, q, s1)" by (metis prod_cases4)
    have "writes rw (after_NonWriter rw nwrw)" "q = req" using behaves [OF c] writes_MakeNonWriter by auto
    then show ?thesis
      using h True c by (auto simp: preups_Wrap_def Let_def split: option.splits if_splits dest!: write_last_sel intro: writes_trans)
  next
    case False
    let ?q = "set_question_name (AndroidMetricDomainReplacement (q_Name (question0 req))) req"
    obtain e nwrw q s1 where c: "handle cx (MakeNonWriter rw) ?q s = (e, nwrw, q, s1)" by (metis prod_cases4)
    have "writes rw (after_NonWriter rw nwrw)" using behaves [OF c] writes_MakeNonWriter by auto
    then show ?thesis
      using h False c by (auto simp: preups_Wrap_def serveAndroidMetric_def Let_def split: option.splits dest!: write_last_sel intro: writes_trans)
  qed
qed

text \<open>What a request that the filters block gets: the message for it, whatever the handler below answers.\<close>

lemma main_blocked:
  assumes ri: "cx_ReqInfo cx = Some ri" and cl: "Qclass (question0 req) \<noteq> ClassCHAOS"
    and flt: "mm_FilterRequest mw (main_filter mw ri s) (reqInfoToFltReq req ri) s = (Inr (Some (ResultBlocked i t)), s1)"
    and m: "NewBlockedResp (mm_lib mw) (ri_Messages ri) req (resultBlockingMode ri (ResultBlocked i t)) = Inr m"
  shows "set (answers rw (main_Wrap mw handle cx rw req s)) \<subseteq> {m}"
proof -
  let ?f = "(newFilteringContext req)\<lparr>fc_requestResult := Some (ResultBlocked i t), fc_modifiedRequest := None\<rparr>"
  have f: "newFilteringContext req = \<lparr>fc_originalRequest = req, fc_modifiedRequest = None, fc_requestResult = None,
      fc_responseResult = None, fc_isDebug = False\<rparr>" using cl by (simp add: newFilteringContext_def)
  have r: "main_filterRequest mw (newFilteringContext req) (main_filter mw ri s) ri s = (Inr ?f, s1)"
    using flt by (simp add: main_filterRequest_def flt_outcome_def f)
  show ?thesis
  proof (cases "cx_Err cx")
    case (Some e)
    then show ?thesis using ri r by (simp add: main_Wrap_def split: option.splits)
  next
    case None
    obtain e nwrw q s2 where c: "handle cx (MakeNonWriter rw) req s1 = (e, nwrw, q, s2)" by (metis prod_cases4)
    have nw: "writes (MakeNonWriter rw) nwrw" "q = req" using behaves [OF c] by auto
    have fin: "set (answers rw (main_finish mw (main_filter mw ri s) ri cx ?f resp (after_NonWriter rw nwrw) s2)) \<subseteq> {m}" for resp
    proof -
      obtain x s3 where x: "mm_FilterResponse mw (main_filter mw ri s) (reqInfoToFltResp resp ri) s2 = (x, s3)" by fastforce
      obtain e' rw' where w: "WriteMsg req m (after_NonWriter rw nwrw) = (e', rw')" by fastforce
      have "answers rw (map_option WritingErr e', rw', req, s3) = (if e' = None then [m] else [])"
        using after_write_answers [OF nw(1), of req m s3] w by (simp add: write_last_def)
      then show ?thesis
        using x w m after_error_answers [OF nw(1)]
        by (auto simp: main_finish_def main_filterResponse_def f setFilteredResponse_def setFilteredResponseFromBlockingMode_def
            split: sum.splits option.splits if_splits)
    qed
    have W: "main_Wrap mw handle cx rw req s =
        (case e of
           Some e \<Rightarrow> (Some e, after_NonWriter rw nwrw, req, s2)
         | None \<Rightarrow>
             (case wr_resp nwrw of
                None \<Rightarrow> (Some (PanicErr NilResponse), after_NonWriter rw nwrw, req, s2)
              | Some resp \<Rightarrow> main_finish mw (main_filter mw ri s) ri cx ?f resp (after_NonWriter rw nwrw) s2))"
      using ri r None c nw(2) by (simp add: main_Wrap_def nextParams_def f Let_def split: option.split)
    show ?thesis
      unfolding W using fin by (simp add: after_error_answers [OF nw(1)] del: answers.simps split: option.split)
  qed
qed

end

end
