(* ===== verification/Query_Log.thy ===== *)
theory Query_Log
  imports Main_Mw
begin

text \<open>
  The query log in a file (\<open>internal/querylog\<close>): the codes of the results, the objects that are written, one JSON object in a line, and
  the writing.  The texts of the objects are those of \<^verbatim>\<open>encoding/json\<close>.
\<close>

subsection \<open>Entries\<close>

definition resultCodeNone :: nat where "resultCodeNone = 1"
definition resultCodeReqBlocked :: nat where "resultCodeReqBlocked = 2"
definition resultCodeRespBlocked :: nat where "resultCodeRespBlocked = 3"
definition resultCodeReqAllowed :: nat where "resultCodeReqAllowed = 4"
definition resultCodeRespAllowed :: nat where "resultCodeRespAllowed = 5"
definition resultCodeModified :: nat where "resultCodeModified = 6"

definition toResultCode :: "flt_result option \<Rightarrow> bool \<Rightarrow> nat" where
  "toResultCode r resp =
     (case r of
        None \<Rightarrow> resultCodeNone
      | Some (ResultAllowed _ _) \<Rightarrow> if resp then resultCodeRespAllowed else resultCodeReqAllowed
      | Some (ResultBlocked _ _) \<Rightarrow> if resp then resultCodeRespBlocked else resultCodeReqBlocked
      | Some (ResultModifiedResponse _ _ _) \<Rightarrow> resultCodeModified
      | Some (ResultModifiedRequest _ _ _) \<Rightarrow> resultCodeModified)"

definition ql_resultData :: "flt_result option \<Rightarrow> flt_result option \<Rightarrow> nat \<times> filter_id \<times> rule_text" where
  "ql_resultData req resp =
     (case req of
        None \<Rightarrow> (toResultCode resp True, (case resp of None \<Rightarrow> ([], []) | Some r \<Rightarrow> MatchedRule r))
      | Some r \<Rightarrow> (toResultCode req False, MatchedRule r))"

record jsonl_entry =
  j_RemoteIP :: "addr option"
  j_ProfileID :: profile_id
  j_DeviceID :: device_id
  j_ClientCountry :: string
  j_ResponseCountry :: string
  j_DomainFQDN :: string
  j_FilterListID :: filter_id
  j_FilterRule :: rule_text
  j_Timestamp :: int
  j_ClientASN :: asn
  j_Elapsed :: "32 word"
  j_AccountID :: "32 word"
  j_RequestType :: "16 word"
  j_ResponseCode :: "16 word"
  j_Random :: "16 word"
  j_ResultCode :: nat
  j_DNSSEC :: bool
  j_Stream :: bool
  j_Protocol :: protocol

definition convertElapsed :: "duration \<Rightarrow> 32 word" where
  "convertElapsed elapsed =
     (let ms = sgn elapsed * (\<bar>elapsed\<bar> div 1000000)
      in if ms < 0 then 0 else if 0xFFFFFFFF < ms then 0xFFFFFFFF else word_of_int ms)"

text \<open>Times are in nanoseconds; \<open>random\<close> is the next number of the random source.\<close>

definition to_jsonl :: "32 word \<Rightarrow> ql_entry \<Rightarrow> jsonl_entry" where
  "to_jsonl random e =
     (let (c, i, r) = ql_resultData (ql_RequestResult e) (ql_ResponseResult e)
      in \<lparr>j_RemoteIP = (if ql_RemoteIP e \<noteq> AddrZero then Some (ql_RemoteIP e) else None), j_ProfileID = ql_ProfileID e,
          j_DeviceID = ql_DeviceID e, j_ClientCountry = ql_ClientCountry e, j_ResponseCountry = ql_ResponseCountry e,
          j_DomainFQDN = ql_DomainFQDN e, j_FilterListID = i, j_FilterRule = r,
          j_Timestamp = (ql_Time e - unix_epoch) div 1000000, j_ClientASN = ql_ClientASN e,
          j_Elapsed = convertElapsed (ql_Elapsed e), j_AccountID = ql_AccountID e, j_RequestType = ql_RequestType e,
          j_ResponseCode = ql_ResponseCode e, j_Random = ucast random, j_ResultCode = c, j_DNSSEC = ql_DNSSEC e,
          j_Stream = ql_Stream e, j_Protocol = ql_Protocol e\<rparr>)"

subsection \<open>The text of an entry\<close>

definition format_int :: "int \<Rightarrow> string" where
  "format_int i = (if i < 0 then CHR ''-'' # format_uint 10 (nat (- i)) else format_uint 10 (nat i))"

text \<open>\<^verbatim>\<open>netip.Addr.MarshalText\<close>\<close>

definition addr_text :: "addr \<Rightarrow> string" where
  "addr_text a =
     (case a of
        AddrZero \<Rightarrow> []
      | Addr4 w \<Rightarrow> ipv4_string w
      | Addr6 w zone \<Rightarrow>
          (if addr_is4in6 a then ''::ffff:'' @ ipv4_string (ucast w) else ipv6_string w) @ (if zone = [] then [] else CHR ''%'' # zone))"

fun proto_number :: "protocol \<Rightarrow> nat" where
  "proto_number ProtoInvalid = 0"
| "proto_number ProtoDNS = 8"
| "proto_number ProtoDoH = 3"
| "proto_number ProtoDoQ = 4"
| "proto_number ProtoDoT = 5"
| "proto_number ProtoDNSCrypt = 9"

definition opt_member :: "string \<Rightarrow> string \<Rightarrow> (string \<times> string) list" where
  "opt_member k s = (if s = [] then [] else [(k, json_string s)])"

definition flag :: "bool \<Rightarrow> string" where
  "flag b = (if b then ''1'' else ''0'')"

definition jsonl_members :: "jsonl_entry \<Rightarrow> (string \<times> string) list" where
  "jsonl_members j =
     (case j_RemoteIP j of None \<Rightarrow> [] | Some a \<Rightarrow> [(''ip'', json_string (addr_text a))]) @
     [(''b'', json_string (j_ProfileID j)), (''i'', json_string (j_DeviceID j))] @
     opt_member ''c'' (j_ClientCountry j) @ opt_member ''d'' (j_ResponseCountry j) @
     [(''n'', json_string (j_DomainFQDN j))] @
     opt_member ''l'' (j_FilterListID j) @ opt_member ''m'' (j_FilterRule j) @
     [(''t'', format_int (j_Timestamp j))] @
     (if j_ClientASN j = 0 then [] else [(''a'', format_uint 10 (unat (j_ClientASN j)))]) @
     [(''e'', format_uint 10 (unat (j_Elapsed j))), (''ac'', format_int (sint (j_AccountID j))),
      (''q'', format_uint 10 (unat (j_RequestType j))), (''r'', format_uint 10 (unat (j_ResponseCode j))),
      (''rn'', format_uint 10 (unat (j_Random j))), (''f'', format_uint 10 (j_ResultCode j)),
      (''s'', flag (j_DNSSEC j)), (''st'', flag (j_Stream j)), (''p'', format_uint 10 (proto_number (j_Protocol j)))]"

definition jsonl_text :: "jsonl_entry \<Rightarrow> string" where
  "jsonl_text j = ''{'' @ join_with (CHR '','') (map (\<lambda>(k, v). json_string k @ '':'' @ v) (jsonl_members j)) @ ''}''"

subsection \<open>Writing\<close>

text \<open>
  What happens during one write: errors of the semaphore, of opening and of closing the file, the random number, and a
  failure to write that leaves a number of bytes written.
\<close>

record 'e ql_world =
  qw_acquire :: "'e option"
  qw_open :: "'e option"
  qw_random :: "32 word"
  qw_write :: "(nat \<times> 'e) option"
  qw_close :: "'e option"

abbreviation newline :: char where
  "newline \<equiv> CHR 0x0A"

definition ql_Write :: "'e ql_world \<Rightarrow> ql_entry \<Rightarrow> string \<Rightarrow> 'e list \<times> string" where
  "ql_Write w e content =
     (case qw_acquire w of
        Some err \<Rightarrow> ([err], content)
      | None \<Rightarrow>
          (case qw_open w of
             Some err \<Rightarrow> ([err], content)
           | None \<Rightarrow>
               (let line = jsonl_text (to_jsonl (qw_random w) e) @ [newline];
                    deferred = (case qw_close w of None \<Rightarrow> [] | Some err \<Rightarrow> [err])
                in case qw_write w of
                     Some (n, err) \<Rightarrow> (err # deferred, content @ take n line)
                   | None \<Rightarrow> (deferred, content @ line))))"

subsection \<open>One object in a line\<close>

text \<open>Texts without control characters.\<close>

definition printable :: "string \<Rightarrow> bool" where
  "printable s \<longleftrightarrow> (\<forall>c \<in> set s. 0x20 \<le> byte c)"

lemma printable_simps [simp]:
  "printable []" "printable (c # s) \<longleftrightarrow> 0x20 \<le> byte c \<and> printable s" "printable (s @ t) \<longleftrightarrow> printable s \<and> printable t"
  by (auto simp: printable_def)

lemma decode_rune_bytes:
  assumes "s \<noteq> []" "decode_rune s = (r, w)"
  shows "r < 0x80 \<and> w = 1 \<and> byte (hd s) = r \<or> 0x80 \<le> r \<and> (\<forall>c \<in> set (take w s). 0x80 \<le> byte c)"
proof -
  obtain c t where s: "s = c # t" using assms(1) by (cases s) auto
  show ?thesis
  proof (cases "byte c < (0x80::nat)")
    case True
    then show ?thesis using assms(2) s by (simp add: decode_rune_ascii)
  next
    case False
    then have "\<not> r < 0x80" using assms(2) decode_rune_ascii_iff [of c t] unfolding s by auto
    moreover have "\<forall>c \<in> set (take w s). 0x80 \<le> byte c"
      using assms(2) False unfolding s decode_rune_def by (auto simp: is_cont_def split: list.splits if_splits)
    ultimately show ?thesis by auto
  qed
qed

lemma byte_char_of: "byte (char_of (n :: nat)) = n mod 256"
  by simp

lemma json_unicode_printable: "printable (json_unicode r)"
proof -
  have "0x20 \<le> byte (json_hex (n mod 16))" for n
  proof -
    have "n mod 16 < 16" by simp
    then show ?thesis by (auto simp: json_hex_def)
  qed
  then show ?thesis by (simp add: json_unicode_def)
qed

lemma json_rune_printable:
  assumes "s \<noteq> []" "decode_rune s = (r, w)"
  shows "printable (json_rune r (take w s))"
  using decode_rune_bytes [OF assms]
proof (elim disjE conjE)
  assume r: "r < 0x80" "w = 1" "byte (hd s) = r"
  then have "take w s = [hd s]" using assms(1) by (cases s) auto
  then show ?thesis using r by (auto simp: json_rune_def json_unicode_printable)
next
  assume r: "0x80 \<le> r" "\<forall>c \<in> set (take w s). 0x80 \<le> byte c"
  then have "printable (take w s)" by (force simp: printable_def)
  then show ?thesis by (auto simp: json_rune_def json_unicode_printable)
qed

lemma json_escape_printable: "printable (json_escape s)"
proof (induction s rule: json_escape.induct)
  case (1 s)
  then show ?case
    using json_rune_printable [of s "fst (decode_rune s)" "snd (decode_rune s)"] by (simp add: json_escape.simps [of s])
qed

lemma json_string_printable: "printable (json_string s)"
  by (simp add: json_string_def json_escape_printable)

lemma digits_of_less: "2 \<le> b \<Longrightarrow> d \<in> set (digits_of b n) \<Longrightarrow> d < b"
proof (induction b n rule: digits_of.induct)
  case (1 b n)
  then show ?case by (subst (asm) (2) digits_of.simps) (auto split: if_splits)
qed

lemma format_uint_printable: "printable (format_uint 10 n)"
proof -
  have "0x20 \<le> byte (digit_char d)" if "d \<in> set (digits_of 10 n)" for d
  proof -
    have "d < 10" using digits_of_less [OF _ that] by simp
    then show ?thesis by (simp add: digit_char_def)
  qed
  then show ?thesis by (simp add: printable_def format_uint_def)
qed

lemma format_int_printable: "printable (format_int i)"
  by (simp add: format_int_def format_uint_printable)

lemma join_printable: "0x20 \<le> byte c \<Longrightarrow> \<forall>p \<in> set ps. printable p \<Longrightarrow> printable (join_with c ps)"
  by (induction c ps rule: join_with.induct) simp_all

lemma flag_printable: "printable (flag b)"
  by (simp add: flag_def)

lemma opt_member_printable: "list_all (\<lambda>m. printable (snd m)) (opt_member k t)"
  by (simp add: opt_member_def json_string_printable)

lemma jsonl_members_printable: "list_all (\<lambda>m. printable (snd m)) (jsonl_members j)"
  unfolding jsonl_members_def
  by (simp only: list_all_append list.pred_inject snd_conv json_string_printable format_int_printable format_uint_printable
      flag_printable opt_member_printable simp_thms split: option.split if_split)

lemma jsonl_text_printable: "printable (jsonl_text j)"
proof -
  have "\<forall>p \<in> set (map (\<lambda>(k, v). json_string k @ '':'' @ v) (jsonl_members j)). printable p"
    using jsonl_members_printable [of j] by (force simp: list_all_iff json_string_printable)
  then show ?thesis unfolding jsonl_text_def by (simp add: join_printable)
qed

lemma newline_notin_jsonl: "newline \<notin> set (jsonl_text j)"
  using jsonl_text_printable [of j] by (force simp: printable_def)

definition ql_ok :: "'e ql_world \<Rightarrow> bool" where
  "ql_ok w \<longleftrightarrow> qw_acquire w = None \<and> qw_open w = None \<and> qw_write w = None"

definition ql_writes :: "('e ql_world \<times> ql_entry) list \<Rightarrow> string \<Rightarrow> string" where
  "ql_writes wes content = fold (\<lambda>(w, e) content. snd (ql_Write w e content)) wes content"

lemma ql_writes_ok:
  "\<forall>(w, e) \<in> set wes. ql_ok w \<Longrightarrow>
     ql_writes wes content = content @ concat (map (\<lambda>(w, e). jsonl_text (to_jsonl (qw_random w) e) @ [newline]) wes)"
  by (induction wes arbitrary: content) (auto simp: ql_writes_def ql_ok_def ql_Write_def Let_def)

lemma split_lines: "\<forall>l \<in> set ls. newline \<notin> set l \<Longrightarrow> split_at newline (concat (map (\<lambda>l. l @ [newline]) ls)) = ls @ [[]]"
  by (induction ls) (simp_all add: split_at_append)

text \<open>
  C38: The file has one line for each entry.  The lines of the file after a sequence of successful writes are the texts of the entries in their
  order, with nothing after the last one: no text of an entry, whatever its names and rules are, has a line feed.
\<close>

theorem query_log_lines:
  assumes "\<forall>(w, e) \<in> set wes. ql_ok w"
  shows "split_at newline (ql_writes wes []) = map (\<lambda>(w, e). jsonl_text (to_jsonl (qw_random w) e)) wes @ [[]]"
proof -
  have "concat (map (\<lambda>(w, e). jsonl_text (to_jsonl (qw_random w) e) @ [newline]) wes) =
      concat (map (\<lambda>l. l @ [newline]) (map (\<lambda>(w, e). jsonl_text (to_jsonl (qw_random w) e)) wes))"
    by (induction wes) auto
  then show ?thesis using ql_writes_ok [OF assms, of "[]"] by (simp only: append_Nil) (rule split_lines, auto simp: newline_notin_jsonl)
qed

text \<open>The address of the client is in the text exactly if the entry has one; it is the first member then.\<close>

lemma json_escape_plain:
  "\<forall>c \<in> set s. 0x20 \<le> byte c \<and> byte c < 0x80 \<and> byte c \<notin> {0x22, 0x26, 0x3C, 0x3E, 0x5C} \<Longrightarrow> json_escape s = s"
proof (induction s)
  case Nil
  show ?case by (simp add: json_escape.simps)
next
  case (Cons c s)
  then have "decode_rune (c # s) = (byte c, 1)" by (simp add: decode_rune_ascii)
  then show ?case using Cons by (simp add: json_escape.simps [of "c # s"] json_rune_def rune_error_def)
qed

lemma jsonl_first: "jsonl_members j = (k, v) # m # ms \<Longrightarrow> \<exists>t. jsonl_text j = ''{'' @ json_string k @ '':'' @ t"
  by (simp add: jsonl_text_def)

lemma jsonl_ip: "has_prefix (jsonl_text (to_jsonl x e)) (''{'' @ json_string ''ip'' @ '':'') \<longleftrightarrow> ql_RemoteIP e \<noteq> AddrZero"
proof (cases "ql_RemoteIP e = AddrZero")
  case True
  then have "j_RemoteIP (to_jsonl x e) = None" by (simp add: to_jsonl_def Let_def split: prod.split)
  then obtain t where "jsonl_text (to_jsonl x e) = ''{'' @ json_string ''b'' @ '':'' @ t"
    using jsonl_first unfolding jsonl_members_def by fastforce
  then show ?thesis using True by (auto simp: has_prefix_iff json_string_def json_escape_plain)
next
  case False
  then have "j_RemoteIP (to_jsonl x e) = Some (ql_RemoteIP e)" by (simp add: to_jsonl_def Let_def split: prod.split)
  then obtain t where "jsonl_text (to_jsonl x e) = ''{'' @ json_string ''ip'' @ '':'' @ t"
    using jsonl_first unfolding jsonl_members_def by fastforce
  then show ?thesis using False by (auto simp: has_prefix_iff)
qed

subsection \<open>Example\<close>

definition ex_ql_entry :: "string \<Rightarrow> addr \<Rightarrow> ql_entry" where
  "ex_ql_entry name ip =
     \<lparr>ql_RemoteIP = ip, ql_RequestResult = None, ql_ResponseResult = None, ql_Time = unix_epoch, ql_ProfileID = ''prof'',
      ql_DeviceID = ''dev'', ql_ClientCountry = [], ql_ResponseCountry = [], ql_DomainFQDN = name, ql_Elapsed = 0, ql_ClientASN = 0,
      ql_RequestType = TypeA, ql_ResponseCode = 0, ql_AccountID = 1, ql_Protocol = ProtoDNS, ql_DNSSEC = False, ql_Stream = False\<rparr>"

definition ex_ql_world :: "unit ql_world" where
  "ex_ql_world = \<lparr>qw_acquire = None, qw_open = None, qw_random = 7, qw_write = None, qw_close = None\<rparr>"

theorem query_log_lines_witness:
  "split_at newline (ql_writes [(ex_ql_world, ex_ql_entry (''a'' @ [newline]) AddrZero), (ex_ql_world, ex_ql_entry ''b'' (Addr4 1))] []) =
     [jsonl_text (to_jsonl 7 (ex_ql_entry (''a'' @ [newline]) AddrZero)), jsonl_text (to_jsonl 7 (ex_ql_entry ''b'' (Addr4 1))), []]"
proof -
  have "\<forall>(w, e) \<in> set [(ex_ql_world, ex_ql_entry (''a'' @ [newline]) AddrZero), (ex_ql_world, ex_ql_entry ''b'' (Addr4 1))]. ql_ok w"
    by (simp add: ql_ok_def ex_ql_world_def)
  from query_log_lines [OF this] show ?thesis by (simp add: ex_ql_world_def)
qed

end
