(* ===== verification/Main_Laws.thy ===== *)
theory Main_Laws
  imports Middleware_Laws Query_Log
begin

text \<open>
  What the main middleware records: an entry of the query log is written only for a profile that has the log enabled, and has the address
  of the client only if the profile logs addresses.
\<close>

text \<open>
  A log that only the writing of entries extends; the handler below and the other operations of the middleware leave it alone.
\<close>

locale query_logging =
  fixes mw :: "('f, 's) mainmw" and handle :: "('e, 's) handler" and log :: "'s \<Rightarrow> ql_entry list"
  assumes log_Write: "log (mm_Write mw e s) = log s @ [e]"
    and log_Collect: "log (mm_Collect mw i t s) = log s"
    and log_Record: "log (mm_Record mw d c a start p s) = log s"
    and log_geoData: "mm_geoData mw h ip s = (l, s') \<Longrightarrow> log s' = log s"
    and log_FilterRequest: "mm_FilterRequest mw f r s = (x, s') \<Longrightarrow> log s' = log s"
    and log_FilterResponse: "mm_FilterResponse mw f r' s = (x, s') \<Longrightarrow> log s' = log s"
    and log_handle: "handle cx rw req s = (err, rw', req', s') \<Longrightarrow> log s' = log s"
begin

text \<open>The entry that the settings of a client allow.\<close>

definition entry_allowed :: "'e request_info \<Rightarrow> ql_entry \<Rightarrow> bool" where
  "entry_allowed ri e \<longleftrightarrow>
     (\<exists>p d. DeviceData ri = Some (p, d) \<and> QueryLogEnabled p \<and> ql_ProfileID e = p_ID p \<and> ql_DeviceID e = d_ID d \<and>
        ql_RemoteIP e = (if IPLogEnabled p then ri_RemoteIP ri else AddrZero))"

definition logged :: "'e request_info \<Rightarrow> 's \<Rightarrow> 's \<Rightarrow> bool" where
  "logged ri s s' \<longleftrightarrow> log s' = log s \<or> (\<exists>e. log s' = log s @ [e] \<and> entry_allowed ri e)"

lemma logged_refl: "logged ri s s"
  by (simp add: logged_def)

lemma record_logged: "logged ri s (recordQueryInfo mw cx fctx origResp fltResp ri s)"
proof (cases "DeviceData ri")
  case None
  then show ?thesis by (simp add: recordQueryInfo_def logged_def log_Collect Let_def split: prod.split)
next
  case (Some pd)
  obtain p d where pd: "pd = (p, d)" by fastforce
  have w: "\<exists>e'. log (writeQueryLogEntry mw fctx origResp fltResp ri e b (IPLogEnabled p) s') = log s' @ [e'] \<and>
      ql_ProfileID e' = ql_ProfileID e \<and> ql_DeviceID e' = ql_DeviceID e \<and>
      ql_RemoteIP e' = (if IPLogEnabled p then ri_RemoteIP ri else ql_RemoteIP e)" for e b s'
    by (auto simp: writeQueryLogEntry_def Let_def responseCountry_def log_Write log_geoData split: prod.splits if_splits)
  show ?thesis
  proof (cases "QueryLogEnabled p")
    case False
    then show ?thesis
      using Some pd by (simp add: recordQueryInfo_def logged_def log_Collect log_Record Let_def split: prod.split)
  next
    case True
    obtain i t blocked where f: "filteringData fctx = (i, t, blocked)" by (metis prod_cases3)
    obtain ctry asn where l: "(case ri_Location ri of Some loc \<Rightarrow> (loc_Country loc, loc_ASN loc) | None \<Rightarrow> ([], 0)) = (ctry, asn)"
      by fastforce
    obtain e s' where r: "recordQueryInfo mw cx fctx origResp fltResp ri s =
          writeQueryLogEntry mw fctx origResp fltResp ri e blocked (IPLogEnabled p) s'"
      and e: "ql_ProfileID e = p_ID p" "ql_DeviceID e = d_ID d" "ql_RemoteIP e = AddrZero" and s': "log s' = log s"
      using True Some pd f l by (simp add: recordQueryInfo_def log_Collect log_Record Let_def)
    show ?thesis
      using w [of e blocked s'] True Some pd unfolding logged_def entry_allowed_def r s' e by metis
  qed
qed

lemma finish_logged:
  assumes "main_finish mw flt ri cx fctx resp rw s = (err, rw', req', s')"
  shows "logged ri s s' \<and> (log s' \<noteq> log s \<longrightarrow> err = None \<and> \<not> fc_isDebug fctx)"
proof -
  obtain x s1 where x: "main_filterResponse mw fctx resp flt ri s = (x, s1)" by fastforce
  have s1: "log s1 = log s"
    using x by (auto simp: main_filterResponse_def Let_def split: option.splits if_splits prod.splits sum.splits dest: log_FilterResponse)
  have d: "x = Inr (m, f) \<Longrightarrow> fc_isDebug f = fc_isDebug fctx" for m f
    using x by (auto simp: main_filterResponse_def Let_def split: option.splits if_splits prod.splits sum.splits)
  have "logged ri s1 s' \<and> (log s' \<noteq> log s1 \<longrightarrow> err = None \<and> \<not> fc_isDebug fctx)"
    using assms x d
    by (auto simp: main_finish_def writeDebugResponse_def write_last_def record_logged logged_refl
        split: sum.splits if_splits prod.splits option.splits)
  then show ?thesis by (simp add: logged_def s1)
qed

lemma main_logged:
  assumes "main_Wrap mw handle cx rw req s = (err, rw', req', s')" "cx_ReqInfo cx = Some ri"
  shows "logged ri s s' \<and> (log s' \<noteq> log s \<longrightarrow> err = None \<and> Qclass (question0 req) \<noteq> ClassCHAOS)"
proof -
  let ?f = "newFilteringContext req" and ?flt = "main_filter mw ri s"
  obtain x s1 where x: "main_filterRequest mw ?f ?flt ri s = (x, s1)" by fastforce
  have s1: "log s1 = log s"
    using x by (auto simp: main_filterRequest_def split: sum.splits prod.splits dest: log_FilterRequest)
  show ?thesis
  proof (cases x)
    case (Inl p)
    then show ?thesis using assms x s1 by (simp add: main_Wrap_def logged_def)
  next
    case (Inr fctx)
    have dbg: "fc_isDebug fctx \<longleftrightarrow> Qclass (question0 req) = ClassCHAOS"
      using x Inr by (auto simp: main_filterRequest_def newFilteringContext_def Let_def split: sum.splits prod.splits)
    obtain ncx nreq where n: "nextParams fctx ri cx = (ncx, nreq)" by fastforce
    obtain e nwrw q s2 where h: "handle ncx (MakeNonWriter rw) nreq s1 = (e, nwrw, q, s2)" by (metis prod_cases4)
    have s2: "log s2 = log s" using log_handle [OF h] s1 by simp
    show ?thesis
    proof (cases "cx_Err cx = None \<and> e = None \<and> wr_resp nwrw \<noteq> None")
      case False
      then have "s' = s1 \<or> s' = s2"
        using assms x Inr n h by (auto simp: main_Wrap_def Let_def split: option.splits)
      then show ?thesis using s1 s2 by (auto simp: logged_def)
    next
      case True
      then obtain resp where r: "cx_Err cx = None" "e = None" "wr_resp nwrw = Some resp" by blast
      obtain fctx' where "main_finish mw ?flt ri cx fctx' resp (after_NonWriter rw nwrw) s2 = (err, rw', req', s')"
        and "fc_isDebug fctx' = fc_isDebug fctx"
        using assms x Inr n h r by (auto simp: main_Wrap_def Let_def split: if_splits)
      from finish_logged [OF this(1)] this(2) show ?thesis using dbg s2 by (simp add: logged_def)
    qed
  qed
qed

end

end
