(* ===== verification/Ecs_Cache.thy ===== *)
theory Ecs_Cache
  imports Handler Agdcache
begin

text \<open>
  The cache that is aware of EDNS Client Subnet (\<open>internal/ecscache\<close>): two caches, one for the answers that depend on the
  subnet of the client and one for the others, in front of the upstream.  What the upstream sees of a client is a subnet of
  its location, and nothing if the client declines the use of its subnet.

  The state of the middleware has the two caches; the handler behind it works on the rest of the state, as it has no access to
  the caches.  Clones are values, and so is the request that goes to the upstream.
\<close>

subsection \<open>The environment\<close>

text \<open>
  Functions of the DNS library and of golibs: \<open>el_SetRcode\<close> makes a message the reply to a request with a response code,
  \<open>el_SetEdns0\<close> appends an OPT record with a size and a DO bit, \<open>el_ZeroPrefix\<close> is the prefix of length zero of a
  family.
\<close>

record ecslib =
  el_lib :: dnslib
  el_ipToAddr :: "net_ip \<Rightarrow> 16 word \<Rightarrow> addr option"
  el_SetRcode :: "msg \<Rightarrow> msg \<Rightarrow> int \<Rightarrow> msg"
  el_SetEdns0 :: "16 word \<Rightarrow> bool \<Rightarrow> msg \<Rightarrow> msg"
  el_ZeroPrefix :: "16 word \<Rightarrow> prefix"

definition DefaultEDNSUDPSize :: "16 word" where
  "DefaultEDNSUDPSize = 4096"

definition ecslib_ok :: "ecslib \<Rightarrow> bool" where
  "ecslib_ok E \<longleftrightarrow>
     dnslib_ok (el_lib E) \<and>
     (\<forall>m req rc. el_SetRcode E m req rc = (dl_SetReply (el_lib E) m req)\<lparr>Rcode := rc\<rparr>) \<and>
     (\<forall>n b m. \<exists>h. el_SetEdns0 E n b m = m\<lparr>Extra := Extra m @ [\<lparr>Hdr = h, Data = RD_OPT []\<rparr>]\<rparr> \<and>
        rr_Name h = ''.'' \<and> Rrtype h = TypeOPT \<and> dl_UDPSize (el_lib E) h = n \<and> dl_Do (el_lib E) h = b) \<and>
     (\<forall>a. addr_is4 a \<longrightarrow> el_ipToAddr E (addr_bytes a) AddrFamilyIPv4 = Some a) \<and>
     (\<forall>w. el_ipToAddr E (addr_bytes (Addr6 w [])) AddrFamilyIPv6 = Some (Addr6 w [])) \<and>
     el_ZeroPrefix E AddrFamilyIPv4 = prefix_from (Addr4 0) 0 \<and>
     el_ZeroPrefix E AddrFamilyIPv6 = prefix_from (Addr6 0 []) 0"

subsection \<open>Messages\<close>

text \<open>The codes of EDNS options; those of the structures of the library are fixed.\<close>

fun option_code :: "edns0 \<Rightarrow> 16 word" where
  "option_code (EDNS0_SUBNET _) = 8"
| "option_code (EDNS0_EDE _ _) = 15"
| "option_code (EDNS0_COOKIE _) = 10"
| "option_code (EDNS0_PADDING _) = 12"
| "option_code (EDNS0_TCP_KEEPALIVE _) = 11"
| "option_code (EDNS0_LOCAL c _) = c"
| "option_code (EDNS0_OTHER c _) = c"

definition isNotEDE :: "edns0 \<Rightarrow> bool" where
  "isNotEDE opt \<longleftrightarrow> option_code opt \<noteq> 15"

text \<open>
  The structures of the DNSSEC records are not told apart by the record data of the model: the library makes them exactly for
  the types, which the header has.
\<close>

definition isDNSSEC :: "rr \<Rightarrow> bool" where
  "isDNSSEC r \<longleftrightarrow>
     (case Data r of
        RD_OTHER _ \<Rightarrow> Rrtype (Hdr r) \<in> {TypeNSEC, TypeNSEC3, TypeDS, TypeRRSIG, TypeSIG, TypeDNSKEY}
      | _ \<Rightarrow> False)"

definition filterRR :: "rr \<Rightarrow> 16 word \<Rightarrow> bool \<Rightarrow> rr option" where
  "filterRR r exc reqDO =
     (case Data r of
        RD_OPT os \<Rightarrow>
          (let os = filter (\<lambda>opt. \<not> isNotEDE opt) os
           in if os = [] then None else Some (r\<lparr>Data := RD_OPT os\<rparr>))
      | _ \<Rightarrow> if reqDO \<or> \<not> isDNSSEC r \<or> Rrtype (Hdr r) = exc then Some r else None)"

definition rmHopToHopRRs :: "rr list \<Rightarrow> bool \<Rightarrow> 16 word \<Rightarrow> rr list" where
  "rmHopToHopRRs rrs reqDO exc = List.map_filter (\<lambda>r. filterRR r exc reqDO) rrs"

definition rmHopToHopData :: "16 word \<Rightarrow> bool \<Rightarrow> msg \<Rightarrow> msg" where
  "rmHopToHopData qt reqDO resp =
     resp\<lparr>Answer := rmHopToHopRRs (Answer resp) reqDO qt, Ns := rmHopToHopRRs (Ns resp) reqDO TypeNone,
          Extra := rmHopToHopRRs (Extra resp) reqDO TypeNone\<rparr>"

definition setRespAD :: "bool \<Rightarrow> bool \<Rightarrow> msg \<Rightarrow> msg" where
  "setRespAD reqAD reqDO resp = resp\<lparr>AuthenticatedData := AuthenticatedData resp \<and> (reqAD \<or> reqDO)\<rparr>"

definition addrToNetIP :: "addr \<Rightarrow> 16 word \<Rightarrow> ('e mw_error, net_ip) result" where
  "addrToNetIP ip fam =
     (if fam = AddrFamilyIPv4 then
        (if addr_is6 ip then Inl (AddrFamErr ip fam)
         else if ip = AddrZero then Inl (PanicErr As4OfZero)
         else Inr (addr_bytes ip))
      else if fam = AddrFamilyIPv6 then
        (if addr_is4 ip then Inl (AddrFamErr ip fam) else Inr (addr_bytes ip))
      else Inl (AddrFamErr ip fam))"

text \<open>The first subnet option of a list is replaced, if there is one.\<close>

fun replace_subnet :: "8 word \<Rightarrow> 8 word \<Rightarrow> net_ip \<Rightarrow> edns0 list \<Rightarrow> edns0 list option" where
  "replace_subnet len scope ip [] = None"
| "replace_subnet len scope ip (EDNS0_SUBNET esn # os) =
     Some (EDNS0_SUBNET (esn\<lparr>SourceNetmask := len, SourceScope := scope, es_Address := ip\<rparr>) # os)"
| "replace_subnet len scope ip (opt # os) = map_option ((#) opt) (replace_subnet len scope ip os)"

definition set_opt :: "nat \<Rightarrow> rr_header \<Rightarrow> edns0 list \<Rightarrow> msg \<Rightarrow> msg" where
  "set_opt i h os m = m\<lparr>Extra := (Extra m)[i := \<lparr>Hdr = h, Data = RD_OPT os\<rparr>]\<rparr>"

definition setECS :: "ecslib \<Rightarrow> prefix \<Rightarrow> 16 word \<Rightarrow> bool \<Rightarrow> msg \<Rightarrow> ('e mw_error, msg) result" where
  "setECS E subnet ecsFam isResp m =
     (case addrToNetIP (pfx_addr subnet) ecsFam of
        Inl e \<Rightarrow> Inl e
      | Inr ip \<Rightarrow>
          (let prefixLen = word_of_int (pfx_bits subnet);
               scope = (if isResp then prefixLen else 0);
               new = EDNS0_SUBNET \<lparr>es_Family = ecsFam, SourceNetmask = prefixLen, SourceScope = scope, es_Address = ip\<rparr>
           in case dl_IsEdns0 (el_lib E) m of
                None \<Rightarrow>
                  (let m = el_SetEdns0 E DefaultEDNSUDPSize (\<not> isResp \<or> AuthenticatedData m) m
                   in Inr (add_option (length (Extra m) - 1) new m))
              | Some i \<Rightarrow>
                  (let r = Extra m ! i;
                       h = dl_SetUDPSize (el_lib E) DefaultEDNSUDPSize (Hdr r);
                       os = opt_options (Data r)
                   in Inr (set_opt i h (case replace_subnet prefixLen scope ip os of None \<Rightarrow> os @ [new] | Some os \<Rightarrow> os) m))))"

fun answer_verdict :: "16 word \<Rightarrow> rr list \<Rightarrow> bool option" where
  "answer_verdict qt [] = None"
| "answer_verdict qt (r # rs) =
     (if Rrtype (Hdr r) = qt then Some True
      else if Rrtype (Hdr r) = TypeCNAME \<or> Rrtype (Hdr r) = TypeSIG then answer_verdict qt rs
      else Some False)"

fun is_soa_data :: "rdata \<Rightarrow> bool" where
  "is_soa_data (RD_SOA _) = True"
| "is_soa_data _ = False"

definition isCacheableNOERROR :: "msg \<Rightarrow> bool" where
  "isCacheableNOERROR resp =
     (case answer_verdict (Qtype (question0 resp)) (Answer resp) of
        Some b \<Rightarrow> b
      | None \<Rightarrow> (\<exists>r \<in> set (Ns resp). is_soa_data (Data r)))"

definition isCacheable :: "msg \<Rightarrow> bool" where
  "isCacheable m =
     (if Truncated m \<or> length (Question m) \<noteq> 1 then False
      else if Rcode m = RcodeSuccess then isCacheableNOERROR m
      else Rcode m = RcodeNameError \<or> Rcode m = RcodeServerFailure)"

subsection \<open>The caches\<close>

record cache_request =
  cr_host :: string
  cr_subnet :: prefix
  cr_qType :: "16 word"
  cr_qClass :: "16 word"
  cr_reqDO :: bool
  cr_isECSDeclined :: bool

record ecs_key =
  ek_host :: string
  ek_subnet :: prefix
  ek_qType :: "16 word"
  ek_qClass :: "16 word"
  ek_reqDO :: bool
  ek_isECSDeclined :: bool

record ecs_item =
  ei_when :: time
  ei_msg :: msg

definition newCacheKey :: "cache_request \<Rightarrow> bool \<Rightarrow> ecs_key" where
  "newCacheKey cr respIsECSDependent =
     \<lparr>ek_host = cr_host cr, ek_subnet = (if respIsECSDependent then cr_subnet cr else prefix_invalid),
      ek_qType = cr_qType cr, ek_qClass = cr_qClass cr, ek_reqDO = cr_reqDO cr,
      ek_isECSDeclined = (if respIsECSDependent then False else cr_isECSDeclined cr)\<rparr>"

text \<open>Division of durations, which truncates, with rounding to the nearest integer.\<close>

definition go_div :: "int \<Rightarrow> int \<Rightarrow> int" where
  "go_div a b = sgn a * sgn b * (\<bar>a\<bar> div \<bar>b\<bar>)"

definition roundDiv :: "duration \<Rightarrow> duration \<Rightarrow> duration" where
  "roundDiv num denom =
     (if (num < 0) = (denom < 0) then go_div (num + go_div denom 2) denom else go_div (num - go_div denom 2) denom)"

definition cached_ttl :: "time \<Rightarrow> ecs_item \<Rightarrow> 32 word" where
  "cached_ttl now item =
     (let timeLeft = uint (FindLowestTTL (ei_msg item)) * nsec_per_sec - time_sub now (ei_when item)
      in if 0 < timeLeft then word_of_int (roundDiv timeLeft nsec_per_sec) else 0)"

definition fromCacheItem :: "ecslib \<Rightarrow> time \<Rightarrow> ecs_item \<Rightarrow> msg \<Rightarrow> bool \<Rightarrow> msg" where
  "fromCacheItem E now item req reqDO =
     (let newTTL = cached_ttl now item;
          resp = setRespAD (AuthenticatedData req) reqDO (el_SetRcode E (ei_msg item) req (Rcode (ei_msg item)))
      in resp\<lparr>Answer := map (set_ttl newTTL) (Answer resp), Ns := map (set_ttl newTTL) (Ns resp),
              Extra := map (set_ttl newTTL) (Extra resp)\<rparr>)"

text \<open>The middleware and its state.  The clock is that of the rest of the state.\<close>

record ('c, 'e, 's) ecsmw =
  em_lib :: ecslib
  em_fakeECS :: "string set"
  em_C :: "('c, ecs_key, ecs_item) cache_if"
  em_now :: "'s \<Rightarrow> time"
  em_SubnetByLocation :: "geo_location \<Rightarrow> 16 word \<Rightarrow> 's \<Rightarrow> ('e, prefix) result \<times> 's"
  em_cacheMinTTL :: duration
  em_overrideTTL :: bool

record ('c, 's) ecs_state =
  st_cache :: 'c
  st_ecsCache :: 'c
  st_rest :: 's

definition ecs_get ::
  "('c, 'e, 's) ecsmw \<Rightarrow> msg \<Rightarrow> cache_request \<Rightarrow> ('c, 's) ecs_state \<Rightarrow> (msg \<times> bool) option \<times> ('c, 's) ecs_state" where
  "ecs_get mw req cr s =
     (let now = em_now mw (st_rest s)
      in case ci_Get (em_C mw) now (newCacheKey cr False) (st_cache s) of
           (Some item, c) \<Rightarrow> (Some (fromCacheItem (em_lib mw) now item req (cr_reqDO cr), False), s\<lparr>st_cache := c\<rparr>)
         | (None, c) \<Rightarrow>
             (let s = s\<lparr>st_cache := c\<rparr>
              in if cr_isECSDeclined cr then (None, s)
                 else (case ci_Get (em_C mw) now (newCacheKey cr True) (st_ecsCache s) of
                         (Some item, c) \<Rightarrow>
                           (Some (fromCacheItem (em_lib mw) now item req (cr_reqDO cr), True), s\<lparr>st_ecsCache := c\<rparr>)
                       | (None, c) \<Rightarrow> (None, s\<lparr>st_ecsCache := c\<rparr>))))"

text \<open>The response is changed if its TTLs are raised.  The result has the response and the state.\<close>

definition ecs_ttl :: "('c, 'e, 's) ecsmw \<Rightarrow> msg \<Rightarrow> duration \<times> msg" where
  "ecs_ttl mw resp =
     (let exp = uint (FindLowestTTL resp) * nsec_per_sec
      in if em_overrideTTL mw \<and> Rcode resp \<noteq> RcodeServerFailure
         then (let exp = max exp (em_cacheMinTTL mw) in (exp, SetMinTTL (word_of_int (exp div nsec_per_sec)) resp))
         else (exp, resp))"

definition ecs_set ::
  "('c, 'e, 's) ecsmw \<Rightarrow> msg \<Rightarrow> cache_request \<Rightarrow> bool \<Rightarrow> ('c, 's) ecs_state \<Rightarrow> msg \<times> ('c, 's) ecs_state" where
  "ecs_set mw resp cr respIsECSDependent s =
     (if FindLowestTTL resp = 0 \<or> \<not> isCacheable resp then (resp, s)
      else
        (let now = em_now mw (st_rest s);
             (exp, resp) = ecs_ttl mw resp;
             key = newCacheKey cr respIsECSDependent;
             item = \<lparr>ei_when = now, ei_msg = resp\<rparr>
         in if respIsECSDependent
            then (resp, s\<lparr>st_ecsCache := ci_SetWithExpire (em_C mw) now key item exp (st_ecsCache s)\<rparr>)
            else (resp, s\<lparr>st_cache := ci_SetWithExpire (em_C mw) now key item exp (st_cache s)\<rparr>)))"

subsection \<open>The middleware\<close>

definition ecsFamFromReq :: "'e request_info \<Rightarrow> 16 word" where
  "ecsFamFromReq ri =
     (if addr_is4 (case ri_ECS ri of Some ecs \<Rightarrow> pfx_addr (ecs_Subnet ecs) | None \<Rightarrow> ri_RemoteIP ri)
      then AddrFamilyIPv4 else AddrFamilyIPv6)"

definition locFromReq :: "'e request_info \<Rightarrow> geo_location" where
  "locFromReq ri =
     (let (ctry, subdiv, asn) =
            (case Option.bind (ri_ECS ri) ecs_Location of
               Some l \<Rightarrow> (loc_Country l, loc_TopSubdivision l, loc_ASN l)
             | None \<Rightarrow> ([], [], 0));
          (ctry, asn) =
            (if ctry = CountryNone
             then (case ri_Location ri of Some l \<Rightarrow> (loc_Country l, loc_ASN l) | None \<Rightarrow> (ctry, asn))
             else (ctry, asn))
      in \<lparr>loc_Country = ctry, loc_Continent = [], loc_TopSubdivision = subdiv, loc_ASN = asn\<rparr>)"

definition respIsECSDependent :: "('c, 'e, 's) ecsmw \<Rightarrow> 8 word \<Rightarrow> string \<Rightarrow> bool" where
  "respIsECSDependent mw scope fqdn = (if scope = 0 then False else fqdn \<notin> em_fakeECS mw)"

text \<open>The answer to the client: the subnet of the client goes into it if the client sent one.\<close>

definition answer_ecs :: "('c, 'e, 's) ecsmw \<Rightarrow> 'e request_info \<Rightarrow> 16 word \<Rightarrow> msg \<Rightarrow> ('e mw_error, msg) result" where
  "answer_ecs mw ri ecsFam resp =
     (case ri_ECS ri of None \<Rightarrow> Inr resp | Some ecs \<Rightarrow> setECS (em_lib mw) (ecs_Subnet ecs) ecsFam True resp)"

definition writeCachedResponse ::
  "('c, 'e, 's) ecsmw \<Rightarrow> 'e writer \<Rightarrow> msg \<Rightarrow> msg \<Rightarrow> 'e request_info \<Rightarrow> 16 word \<Rightarrow> 't \<Rightarrow> ('e, 't) outcome" where
  "writeCachedResponse mw rw req resp ri ecsFam s =
     (case answer_ecs mw ri ecsFam resp of
        Inl e \<Rightarrow> (Some e, rw, req, s)
      | Inr resp \<Rightarrow> write_last req resp rw s)"

definition writeUpstreamResponse ::
  "('c, 'e, 's) ecsmw \<Rightarrow> 'e writer \<Rightarrow> msg \<Rightarrow> msg \<Rightarrow> 'e request_info \<Rightarrow> cache_request \<Rightarrow> 16 word \<Rightarrow> ('c, 's) ecs_state \<Rightarrow>
     ('e, ('c, 's) ecs_state) outcome" where
  "writeUpstreamResponse mw rw req resp ri cr ecsFam s =
     (case ECSFromMsg (el_lib (em_lib mw)) (el_ipToAddr (em_lib mw)) resp of
        Inl e \<Rightarrow> (Some (ECSErr e None), rw, req, s)
      | Inr (_, scope) \<Rightarrow>
          (let resp = rmHopToHopData (ri_QType ri) (cr_reqDO cr) resp;
               respIsECS = respIsECSDependent mw scope (q_Name (question0 req));
               cr = (if respIsECS then cr else cr\<lparr>cr_subnet := el_ZeroPrefix (em_lib mw) ecsFam\<rparr>);
               (resp, s) = ecs_set mw resp cr respIsECS s;
               resp = setRespAD (AuthenticatedData req) (cr_reqDO cr) resp
           in case answer_ecs mw ri ecsFam resp of
                Inl e \<Rightarrow> (Some e, rw, req, s)
              | Inr resp \<Rightarrow> write_last req resp rw s))"

text \<open>The data of the request for the caches; looking up the subnet of a location may fail.\<close>

definition ecs_declined :: "'e request_info \<Rightarrow> bool" where
  "ecs_declined ri \<longleftrightarrow> (case ri_ECS ri of Some ecs \<Rightarrow> pfx_bits (ecs_Subnet ecs) = 0 | None \<Rightarrow> False)"

definition ecs_request ::
  "('c, 'e, 's) ecsmw \<Rightarrow> msg \<Rightarrow> 'e request_info \<Rightarrow> 's \<Rightarrow> ('e, cache_request) result \<times> 's" where
  "ecs_request mw req ri s =
     (let ecsFam = ecsFamFromReq ri;
          cr = \<lparr>cr_host = ri_Host ri, cr_subnet = el_ZeroPrefix (em_lib mw) ecsFam, cr_qType = ri_QType ri,
                cr_qClass = ri_QClass ri, cr_reqDO = IsDO (el_lib (em_lib mw)) req, cr_isECSDeclined = ecs_declined ri\<rparr>
      in if ecs_declined ri then (Inr cr, s)
         else (case em_SubnetByLocation mw (locFromReq ri) ecsFam s of
                 (Inl e, s) \<Rightarrow> (Inl e, s)
               | (Inr subnet, s) \<Rightarrow> (Inr (cr\<lparr>cr_subnet := subnet\<rparr>), s)))"

definition ecs_Wrap :: "('c, 'e, 's) ecsmw \<Rightarrow> ('e, 's) handler \<Rightarrow> ('e, ('c, 's) ecs_state) handler" where
  "ecs_Wrap mw handle cx rw req s =
     (case cx_ReqInfo cx of
        None \<Rightarrow> (Some (PanicErr NoRequestInfo), rw, req, s)
      | Some ri \<Rightarrow>
          (let ecsFam = ecsFamFromReq ri
           in case ecs_request mw req ri (st_rest s) of
                (Inl e, r) \<Rightarrow> (Some (GeoIPErr e), rw, req, s\<lparr>st_rest := r\<rparr>)
              | (Inr cr, r) \<Rightarrow>
                  (case ecs_get mw req cr (s\<lparr>st_rest := r\<rparr>) of
                     (Some (resp, _), s) \<Rightarrow> writeCachedResponse mw rw req resp ri ecsFam s
                   | (None, s) \<Rightarrow>
                       (case setECS (em_lib mw) (cr_subnet cr) ecsFam False req of
                          Inl e \<Rightarrow> (Some e, rw, req, s)
                        | Inr ecsReq \<Rightarrow>
                            (case handle cx (NewNonWriter (wr_local rw) (wr_remote rw)) ecsReq (st_rest s) of
                               (Some e, _, _, r) \<Rightarrow> (Some e, rw, req, s\<lparr>st_rest := r\<rparr>)
                             | (None, nrw, _, r) \<Rightarrow>
                                 (let s = s\<lparr>st_rest := r\<rparr>
                                  in case wr_resp nrw of
                                       None \<Rightarrow> (None, rw, req, s)
                                     | Some resp \<Rightarrow> writeUpstreamResponse mw rw req resp ri cr ecsFam s))))))"

end
