(* ===== verification/Ecs_Cache_Laws.thy ===== *)
theory Ecs_Cache_Laws
  imports Ecs_Cache Middleware_Laws Dns_Msg_Laws
begin

text \<open>
  What the ECS-aware cache guarantees: an answer from it is one that the upstream gave to a request that must not be told apart, its
  records do not outlive the TTLs of the upstream, and the upstream gets to know no subnet of a client but one of its location.
\<close>

subsection \<open>The genuine entries\<close>

text \<open>
  An entry is genuine if it comes from an answer that the upstream gave: \<open>cr\<close> is the data of the request that was answered, and
  the answer is kept without the hop-to-hop data, with its TTLs raised if it is configured so.
\<close>

definition genuine ::
  "('c, 'e, 's) ecsmw \<Rightarrow> ('e, 's) handler \<Rightarrow> bool \<Rightarrow> cache_request \<Rightarrow> msg \<Rightarrow> ecs_item \<Rightarrow> bool" where
  "genuine mw handle dep cr resp item \<longleftrightarrow>
     (\<exists>cx ri (rw :: 'e writer) req s s1 s2 ecsReq nrw q r p scope.
        cx_ReqInfo cx = Some ri \<and> ecs_request mw req ri s = (Inr cr, s1) \<and>
        setECS (em_lib mw) (cr_subnet cr) (ecsFamFromReq ri) False req = (Inr ecsReq :: ('e mw_error, msg) result) \<and>
        handle cx (NewNonWriter (wr_local rw) (wr_remote rw)) ecsReq s2 = (None, nrw, q, r) \<and> wr_resp nrw = Some resp \<and>
        ECSFromMsg (el_lib (em_lib mw)) (el_ipToAddr (em_lib mw)) resp = Inr (p, scope) \<and>
        dep = respIsECSDependent mw scope (q_Name (question0 req)) \<and>
        isCacheable (rmHopToHopData (cr_qType cr) (cr_reqDO cr) resp) \<and>
        item = \<lparr>ei_when = em_now mw r, ei_msg = snd (ecs_ttl mw (rmHopToHopData (cr_qType cr) (cr_reqDO cr) resp))\<rparr>)"

definition genuine_entry :: "('c, 'e, 's) ecsmw \<Rightarrow> ('e, 's) handler \<Rightarrow> bool \<Rightarrow> ecs_key \<Rightarrow> ecs_item \<Rightarrow> bool" where
  "genuine_entry mw handle dep key item \<longleftrightarrow> (\<exists>cr resp. key = newCacheKey cr dep \<and> genuine mw handle dep cr resp item)"

text \<open>The states that requests lead to from empty caches; anything may happen to the rest of the state in between.\<close>

inductive ecs_reachable ::
  "(time \<Rightarrow> 'c \<Rightarrow> ecs_key \<rightharpoonup> ecs_item) \<Rightarrow> ('c, 'e, 's) ecsmw \<Rightarrow> ('e, 's) handler \<Rightarrow> ('c, 's) ecs_state \<Rightarrow> bool"
  for live mw handle where
  ecs_start: "(\<forall>t. live t (st_cache s) = Map.empty \<and> live t (st_ecsCache s) = Map.empty) \<Longrightarrow> ecs_reachable live mw handle s"
| ecs_serve: "ecs_reachable live mw handle s \<Longrightarrow> ecs_Wrap mw handle cx rw req s = (err, rw', req', s') \<Longrightarrow>
    ecs_reachable live mw handle s'"
| ecs_clear: "ecs_reachable live mw handle s \<Longrightarrow> ecs_reachable live mw handle
    (s\<lparr>st_cache := (if b then ci_Clear (em_C mw) (st_cache s) else st_cache s),
       st_ecsCache := (if b' then ci_Clear (em_C mw) (st_ecsCache s) else st_ecsCache s)\<rparr>)"
| ecs_other: "ecs_reachable live mw handle s \<Longrightarrow> ecs_reachable live mw handle (s\<lparr>st_rest := r\<rparr>)"

locale ecs_caches = agdcache "em_C mw" live
  for mw :: "('c, 'e, 's) ecsmw" and live +
  fixes handle :: "('e, 's) handler"
begin

definition sound :: "('c, 's) ecs_state \<Rightarrow> bool" where
  "sound s \<longleftrightarrow> entries_sat (genuine_entry mw handle False) (st_cache s) \<and> entries_sat (genuine_entry mw handle True) (st_ecsCache s)"

lemma sound_rest [simp]: "sound (s\<lparr>st_rest := r\<rparr>) \<longleftrightarrow> sound s"
  by (simp add: sound_def)

lemma entries_sat_after: "ci_Get (em_C mw) now k c = (x, c') \<Longrightarrow> entries_sat P c \<Longrightarrow> entries_sat P c'"
  using entries_sat_get [of P c now k] by simp

lemma sound_get: "sound s \<Longrightarrow> ecs_get mw req cr s = (x, s') \<Longrightarrow> sound s' \<and> st_rest s' = st_rest s"
  by (auto simp: sound_def ecs_get_def Let_def split: prod.splits option.splits if_splits intro: entries_sat_after)

lemma sound_set:
  assumes "sound s" "FindLowestTTL resp \<noteq> 0 \<Longrightarrow> isCacheable resp \<Longrightarrow>
      genuine_entry mw handle dep (newCacheKey cr dep) \<lparr>ei_when = em_now mw (st_rest s), ei_msg = snd (ecs_ttl mw resp)\<rparr>"
  shows "sound (snd (ecs_set mw resp cr dep s))"
  using assms entries_sat_set_expire
  by (cases dep) (auto simp: sound_def ecs_set_def Let_def split: prod.splits)

lemma sound_upstream:
  assumes s: "sound s" and cx: "cx_ReqInfo cx = Some ri" and r: "ecs_request mw req ri s0 = (Inr cr, s1)"
    and e: "setECS (em_lib mw) (cr_subnet cr) (ecsFamFromReq ri) False req = (Inr ecsReq :: ('e mw_error, msg) result)"
    and h: "handle cx (NewNonWriter (wr_local rw) (wr_remote rw)) ecsReq s2 = (None, nrw, q, st_rest s)" "wr_resp nrw = Some resp"
    and w: "writeUpstreamResponse mw rw req resp ri cr fam s = (err, rw', req', s')"
  shows "sound s'"
proof (cases "ECSFromMsg (el_lib (em_lib mw)) (el_ipToAddr (em_lib mw)) resp")
  case (Inl e)
  then show ?thesis using w s by (simp add: writeUpstreamResponse_def)
next
  case (Inr ps)
  obtain p scope where ps: "ps = (p, scope)" by fastforce
  let ?dep = "respIsECSDependent mw scope (q_Name (question0 req))"
  let ?cr = "if ?dep then cr else cr\<lparr>cr_subnet := el_ZeroPrefix (em_lib mw) fam\<rparr>"
  let ?m = "rmHopToHopData (cr_qType cr) (cr_reqDO cr) resp"
  have qt: "cr_qType cr = ri_QType ri"
    using r by (auto simp: ecs_request_def Let_def split: if_splits prod.splits sum.splits)
  have k: "newCacheKey ?cr ?dep = newCacheKey cr ?dep" by (simp add: newCacheKey_def)
  have g: "genuine_entry mw handle ?dep (newCacheKey ?cr ?dep) \<lparr>ei_when = em_now mw (st_rest s), ei_msg = snd (ecs_ttl mw ?m)\<rparr>"
    if "isCacheable ?m"
    unfolding genuine_entry_def genuine_def k using that cx r e h Inr [unfolded ps] by blast
  have "sound (snd (ecs_set mw ?m ?cr ?dep s))" by (rule sound_set [OF s g])
  then show ?thesis
    using w Inr ps qt
    by (auto simp: writeUpstreamResponse_def Let_def write_last_def simp del: if_split split: prod.splits sum.splits)
qed

lemma sound_Wrap:
  assumes "sound s" "ecs_Wrap mw handle cx rw req s = (err, rw', req', s')"
  shows "sound s'"
proof (cases "cx_ReqInfo cx")
  case None
  then show ?thesis using assms by (simp add: ecs_Wrap_def)
next
  case (Some ri)
  obtain x r where x: "ecs_request mw req ri (st_rest s) = (x, r)" by fastforce
  show ?thesis
  proof (cases x)
    case (Inl e)
    then show ?thesis using assms Some x by (simp add: ecs_Wrap_def Let_def) (metis sound_rest)
  next
    case (Inr cr)
    obtain y s1 where y: "ecs_get mw req cr (s\<lparr>st_rest := r\<rparr>) = (y, s1)" by fastforce
    have s1: "sound s1" using sound_get [OF _ y] assms(1) by simp
    show ?thesis
    proof (cases y)
      case (Some z)
      obtain m b where z: "z = (m, b)" by fastforce
      have "s' = s1"
        using assms(2) \<open>cx_ReqInfo cx = Some ri\<close> x Inr y Some z
        by (auto simp: ecs_Wrap_def Let_def writeCachedResponse_def write_last_def split: sum.splits prod.splits)
      then show ?thesis using s1 by simp
    next
      case None
      note W = assms(2) [unfolded ecs_Wrap_def Let_def \<open>cx_ReqInfo cx = Some ri\<close> x Inr y None, simplified]
      show ?thesis
      proof (cases "setECS (em_lib mw) (cr_subnet cr) (ecsFamFromReq ri) False req :: ('e mw_error, msg) result")
        case (Inl e)
        then show ?thesis using W s1 x Inr y None by simp
      next
        case e: (Inr ecsReq)
        obtain err1 nrw q r1 where h:
            "handle cx (NewNonWriter (wr_local rw) (wr_remote rw)) ecsReq (st_rest s1) = (err1, nrw, q, r1)"
          by (metis prod_cases4)
        show ?thesis
        proof (cases "err1 = None \<and> wr_resp nrw \<noteq> None")
          case True
          then obtain resp where resp: "err1 = None" "wr_resp nrw = Some resp" by blast
          have "writeUpstreamResponse mw rw req resp ri cr (ecsFamFromReq ri) (s1\<lparr>st_rest := r1\<rparr>) = (err, rw', req', s')"
            using W x Inr y None e h resp by simp
          then show ?thesis
            using sound_upstream [of "s1\<lparr>st_rest := r1\<rparr>" cx ri req "st_rest s" cr r ecsReq rw "st_rest s1" nrw q resp]
              s1 Some x Inr e h resp by simp
        next
          case False
          then have "s' = s1\<lparr>st_rest := r1\<rparr>" using W x Inr y None e h by (auto split: option.splits)
          then show ?thesis using s1 by simp
        qed
      qed
    qed
  qed
qed

lemma reachable_sound: "ecs_reachable live mw handle s \<Longrightarrow> sound s"
proof (induction rule: ecs_reachable.induct)
  case (ecs_start s)
  then show ?case by (simp add: sound_def entries_sat_def)
next
  case (ecs_clear s b b')
  then show ?case using entries_sat_clear by (simp add: sound_def)
qed (auto intro: sound_Wrap)

lemma get_genuine:
  assumes "ecs_reachable live mw handle s" "ecs_get mw req cr s = (Some (m, dep), s')"
  obtains cr' resp item where "genuine mw handle dep cr' resp item" "newCacheKey cr' dep = newCacheKey cr dep"
    "m = fromCacheItem (em_lib mw) (em_now mw (st_rest s)) item req (cr_reqDO cr)" "dep \<longrightarrow> \<not> cr_isECSDeclined cr"
proof -
  have s: "sound s" by (rule reachable_sound [OF assms(1)])
  have "\<exists>item. genuine_entry mw handle dep (newCacheKey cr dep) item \<and>
      m = fromCacheItem (em_lib mw) (em_now mw (st_rest s)) item req (cr_reqDO cr) \<and> (dep \<longrightarrow> \<not> cr_isECSDeclined cr)"
    using assms(2) s
    by (auto simp: ecs_get_def Let_def sound_def split: prod.splits option.splits if_splits dest: get_sat)
  then show ?thesis using that unfolding genuine_entry_def by metis
qed

end

interpretation ecs_lru: ecs_caches "mw\<lparr>em_C := default_if (lru_std n)\<rparr>" "default_live map_of" handle for mw n handle
  unfolding ecs_caches_def by (simp add: default_cache.agdcache_axioms)

subsection \<open>Answers from the cache\<close>

lemma set_ttl_set_ttl [simp]: "set_ttl t (set_ttl u r) = set_ttl t r"
  by (simp add: set_ttl_def)

lemma ecs_ttl_sel [simp]:
  "map (set_ttl t) (Answer (snd (ecs_ttl mw m))) = map (set_ttl t) (Answer m)"
  "Ns (snd (ecs_ttl mw m)) = Ns m" "Extra (snd (ecs_ttl mw m)) = Extra m" "Rcode (snd (ecs_ttl mw m)) = Rcode m"
  "Question (snd (ecs_ttl mw m)) = Question m"
  by (auto simp: ecs_ttl_def Let_def SetMinTTL_def)

lemma fromCacheItem_sel:
  assumes "ecslib_ok E" "Question req \<noteq> []"
  shows "Id (fromCacheItem E now item req b) = Id req" "Question (fromCacheItem E now item req b) = [question0 req]"
    "Rcode (fromCacheItem E now item req b) = Rcode (ei_msg item)"
    "Answer (fromCacheItem E now item req b) = map (set_ttl (cached_ttl now item)) (Answer (ei_msg item))"
    "Ns (fromCacheItem E now item req b) = map (set_ttl (cached_ttl now item)) (Ns (ei_msg item))"
    "Extra (fromCacheItem E now item req b) = map (set_ttl (cached_ttl now item)) (Extra (ei_msg item))"
  using assms by (simp_all add: fromCacheItem_def Let_def setRespAD_def ecslib_ok_def dnslib_okD)

lemma newCacheKey_eq:
  "newCacheKey cr' dep = newCacheKey cr dep \<longleftrightarrow>
     cr_host cr' = cr_host cr \<and> cr_qType cr' = cr_qType cr \<and> cr_qClass cr' = cr_qClass cr \<and> cr_reqDO cr' = cr_reqDO cr \<and>
     (if dep then cr_subnet cr' = cr_subnet cr else cr_isECSDeclined cr' = cr_isECSDeclined cr)"
  by (auto simp: newCacheKey_def)

text \<open>
  C9: What is served from the cache.  Whatever requests have come before, an answer from the cache is one that the upstream gave to a
  request for the same host, type and class and with the same DO bit.  If the answer depends on the subnet, that request was sent with the
  same subnet, and the client has not declined the use of its subnet; else that client and this one both declined it or both did not.
  The answer has the identifier and the question of the request and the records of the upstream without the hop-to-hop data, all with the
  TTL that is left.
\<close>

theorem cached_answer_is_upstream_answer:
  assumes "simplelru_ok S kept" "em_C mw = default_if S" "ecslib_ok (em_lib mw)" "Question req \<noteq> []"
    and "ecs_reachable (default_live kept) mw handle s" "ecs_get mw req cr s = (Some (m, dep), s')"
  shows "\<exists>cr' resp item. genuine mw handle dep cr' resp item \<and>
    cr_host cr' = cr_host cr \<and> cr_qType cr' = cr_qType cr \<and> cr_qClass cr' = cr_qClass cr \<and> cr_reqDO cr' = cr_reqDO cr \<and>
    (if dep then cr_subnet cr' = cr_subnet cr \<and> \<not> cr_isECSDeclined cr else cr_isECSDeclined cr' = cr_isECSDeclined cr) \<and>
    Id m = Id req \<and> Question m = [question0 req] \<and> Rcode m = Rcode resp \<and>
    (let ttl = cached_ttl (em_now mw (st_rest s)) item
     in Answer m = map (set_ttl ttl) (rmHopToHopRRs (Answer resp) (cr_reqDO cr) (cr_qType cr)) \<and>
        Ns m = map (set_ttl ttl) (rmHopToHopRRs (Ns resp) (cr_reqDO cr) TypeNone) \<and>
        Extra m = map (set_ttl ttl) (rmHopToHopRRs (Extra resp) (cr_reqDO cr) TypeNone))"
proof -
  have "ecs_caches mw (default_live kept)"
    unfolding ecs_caches_def assms(2) by (rule default_agdcache [OF assms(1)])
  from ecs_caches.get_genuine [OF this assms(5,6)]
  obtain cr' resp item where g: "genuine mw handle dep cr' resp item" and k: "newCacheKey cr' dep = newCacheKey cr dep"
    and m: "m = fromCacheItem (em_lib mw) (em_now mw (st_rest s)) item req (cr_reqDO cr)" and d: "dep \<longrightarrow> \<not> cr_isECSDeclined cr"
    by metis
  have i: "ei_msg item = snd (ecs_ttl mw (rmHopToHopData (cr_qType cr') (cr_reqDO cr') resp))"
    using g by (auto simp: genuine_def)
  show ?thesis
    using g k d by (intro exI [of _ cr'] exI [of _ resp] exI [of _ item])
      (simp add: newCacheKey_eq m fromCacheItem_sel [OF assms(3,4)] i Let_def rmHopToHopData_def split: if_splits)
qed

subsection \<open>The TTL of cached records\<close>

lemma cached_ttl_rounds:
  assumes "ei_when item \<le> now"
  shows "2 * \<bar>uint (cached_ttl now item) * nsec_per_sec
      - max 0 (uint (FindLowestTTL (ei_msg item)) * nsec_per_sec - (now - ei_when item))\<bar> \<le> nsec_per_sec"
proof -
  let ?L = "uint (FindLowestTTL (ei_msg item))"
  let ?left = "?L * nsec_per_sec - time_sub now (ei_when item)"
  have L: "?L < 2 ^ 32" "0 \<le> ?L" using uint_lt2p [of "FindLowestTTL (ei_msg item)"] by simp_all
  have sub: "time_sub now (ei_when item) = min max_duration (now - ei_when item)"
    using assms by (simp add: time_sub_def min_duration_def max_duration_def)
  have mx: "max 0 (?L * nsec_per_sec - (now - ei_when item)) = max 0 ?left"
    using L unfolding sub max_duration_def nsec_per_sec_def by auto
  have c: "cached_ttl now item = (if 0 < ?left then word_of_int (roundDiv ?left nsec_per_sec) else 0)"
    by (simp add: cached_ttl_def Let_def)
  show ?thesis
  proof (cases "0 < ?left")
    case True
    have le: "?left \<le> ?L * nsec_per_sec" using assms by (simp add: sub max_duration_def)
    have r: "roundDiv ?left nsec_per_sec = (?left + nsec_per_sec div 2) div nsec_per_sec"
      using True by (simp add: roundDiv_def go_div_def nsec_per_sec_def)
    have b: "0 \<le> roundDiv ?left nsec_per_sec" "roundDiv ?left nsec_per_sec \<le> ?L"
      using True le unfolding r unfolding nsec_per_sec_def by auto
    have "uint (word_of_int (roundDiv ?left nsec_per_sec) :: 32 word) = roundDiv ?left nsec_per_sec"
      using b L(1) by (simp add: uint_word_of_int take_bit_int_eq_self)
    then show ?thesis using True unfolding mx c r unfolding nsec_per_sec_def by auto
  next
    case False
    then show ?thesis unfolding mx c by (simp add: nsec_per_sec_def)
  qed
qed

text \<open>
  C28: The TTL of cached records.  Every record of an answer from the cache has the time that is left of the lowest TTL of the cached
  answer, up to half a second, and zero if no time is left: no record outlives what the upstream allowed.
\<close>

theorem cached_records_age:
  assumes "ei_when item \<le> now" "ecslib_ok E" "Question req \<noteq> []" "m = fromCacheItem E now item req b"
    and "r \<in> set (Answer m @ Ns m @ Extra m)"
  shows "2 * \<bar>uint (Ttl (Hdr r)) * nsec_per_sec
      - max 0 (uint (FindLowestTTL (ei_msg item)) * nsec_per_sec - (now - ei_when item))\<bar> \<le> nsec_per_sec"
proof -
  have "Ttl (Hdr r) = cached_ttl now item"
    using assms(5) unfolding assms(4) by (auto simp: fromCacheItem_sel [OF assms(2,3)] set_ttl_def)
  then show ?thesis using cached_ttl_rounds [OF assms(1)] by simp
qed

subsection \<open>What the upstream gets to know\<close>

text \<open>The subnet options of all OPT records of a message, and the option with a subnet that a request to the upstream has.\<close>

fun subnet_of :: "edns0 \<Rightarrow> edns_subnet option" where
  "subnet_of (EDNS0_SUBNET esn) = Some esn"
| "subnet_of _ = None"

definition subnets :: "msg \<Rightarrow> edns_subnet list" where
  "subnets m = List.map_filter subnet_of (concat (map (\<lambda>r. opt_options (Data r)) (Extra m)))"

definition subnet_option :: "16 word \<Rightarrow> prefix \<Rightarrow> edns_subnet" where
  "subnet_option fam p =
     \<lparr>es_Family = fam, SourceNetmask = word_of_int (pfx_bits p), SourceScope = 0, es_Address = addr_bytes (pfx_addr p)\<rparr>"

text \<open>The subnet for a client: that of its location, or no subnet if it declined.\<close>

definition location_subnet :: "('c, 'e, 's) ecsmw \<Rightarrow> 'e request_info \<Rightarrow> 's \<Rightarrow> prefix" where
  "location_subnet mw ri s =
     (if ecs_declined ri then el_ZeroPrefix (em_lib mw) (ecsFamFromReq ri)
      else (case em_SubnetByLocation mw (locFromReq ri) (ecsFamFromReq ri) s of (Inr p, _) \<Rightarrow> p | _ \<Rightarrow> prefix_invalid))"

lemma ecs_request_subnet: "ecs_request mw req ri s = (Inr cr, s') \<Longrightarrow> cr_subnet cr = location_subnet mw ri s"
  by (auto simp: ecs_request_def location_subnet_def Let_def split: if_splits prod.splits sum.splits)

lemma map_filter_append [simp]: "List.map_filter f (xs @ ys) = List.map_filter f xs @ List.map_filter f ys"
  by (simp add: List.map_filter_def)

lemma replace_subnet_None: "replace_subnet len scope ip os = None \<longleftrightarrow> List.map_filter subnet_of os = []"
  by (induction len scope ip os rule: replace_subnet.induct) (auto simp: List.map_filter_simps)

lemma replace_subnet_Some:
  "replace_subnet len scope ip os = Some os' \<Longrightarrow> \<exists>esn rest. List.map_filter subnet_of os = esn # rest \<and>
     List.map_filter subnet_of os' = esn\<lparr>SourceNetmask := len, SourceScope := scope, es_Address := ip\<rparr> # rest"
  by (induction len scope ip os arbitrary: os' rule: replace_subnet.induct) (auto simp: List.map_filter_simps)

lemma opt_options_non_opt: "\<not> is_opt_data d \<Longrightarrow> opt_options d = []"
  by (cases d) simp_all

lemma concat_options_nil: "\<forall>r \<in> set rs. \<not> is_opt r \<Longrightarrow> concat (map (\<lambda>r. opt_options (Data r)) rs) = []"
  by (induction rs) (simp_all add: opt_options_non_opt)

lemma subnets_split:
  assumes "Extra m = xs @ r # ys" "\<forall>r \<in> set (xs @ ys). \<not> is_opt r"
  shows "subnets m = List.map_filter subnet_of (opt_options (Data r))"
  using assms by (simp add: subnets_def concat_options_nil)

lemma single_opt_split:
  assumes "length (filter is_opt rs) \<le> 1" "i < length rs" "is_opt (rs ! i)"
  shows "\<forall>r \<in> set (take i rs @ drop (Suc i) rs). \<not> is_opt r"
proof -
  have "filter is_opt rs = filter is_opt (take i rs) @ rs ! i # filter is_opt (drop (Suc i) rs)"
    using assms(2,3) by (subst id_take_nth_drop [OF assms(2)]) simp
  then have "filter is_opt (take i rs) = []" "filter is_opt (drop (Suc i) rs) = []" using assms(1) by simp_all
  then show ?thesis by (auto simp: filter_empty_conv)
qed

lemma setECS_subnets:
  assumes E: "ecslib_ok E" and m: "opt_consistent m" "length (filter is_opt (Extra m)) \<le> 1"
    and sub: "length (subnets m) \<le> 1" "\<forall>esn \<in> set (subnets m). es_Family esn = fam"
    and set: "setECS E p fam False m = (Inr m' :: ('x mw_error, msg) result)"
  shows "subnets m' = [subnet_option fam p]"
proof -
  let ?ip = "addr_bytes (pfx_addr p)"
  have ip': "addrToNetIP (pfx_addr p) fam = (Inr ?ip :: ('x mw_error, net_ip) result)"
    using set by (auto simp: setECS_def addrToNetIP_def split: if_splits)
  show ?thesis
  proof (cases "dl_IsEdns0 (el_lib E) m")
    case None
    obtain h where h: "el_SetEdns0 E DefaultEDNSUDPSize True m = m\<lparr>Extra := Extra m @ [\<lparr>Hdr = h, Data = RD_OPT []\<rparr>]\<rparr>"
      using E unfolding ecslib_ok_def by metis
    have "\<forall>r \<in> set (Extra m). \<not> is_opt r" using E None m(1) by (simp add: ecslib_ok_def dnslib_ok_edns)
    then show ?thesis
      using set None h ip'
      by (auto simp: setECS_def add_option_def subnets_def concat_options_nil List.map_filter_simps subnet_option_def Let_def
          split: sum.splits)
  next
    case (Some i)
    let ?os = "opt_options (Data (Extra m ! i))"
    have i: "i < length (Extra m)" "is_opt (Extra m ! i)"
      using E Some m(1) dnslib_ok_edns(1) unfolding ecslib_ok_def by blast+
    note rest = single_opt_split [OF m(2) i]
    have old: "subnets m = List.map_filter subnet_of ?os"
      by (rule subnets_split [OF id_take_nth_drop [OF i(1)] rest])
    let ?new = "\<lparr>es_Family = fam, SourceNetmask = word_of_int (pfx_bits p), SourceScope = 0, es_Address = ?ip\<rparr>"
    let ?os' = "case replace_subnet (word_of_int (pfx_bits p)) 0 ?ip ?os of None \<Rightarrow> ?os @ [EDNS0_SUBNET ?new] | Some os \<Rightarrow> os"
    have m': "m' = set_opt i (dl_SetUDPSize (el_lib E) DefaultEDNSUDPSize (Hdr (Extra m ! i))) ?os' m"
      using set Some ip' by (simp add: setECS_def Let_def split: sum.splits)
    have "Extra m' = take i (Extra m) @
        \<lparr>Hdr = dl_SetUDPSize (el_lib E) DefaultEDNSUDPSize (Hdr (Extra m ! i)), Data = RD_OPT ?os'\<rparr> # drop (Suc i) (Extra m)"
      unfolding m' set_opt_def by (simp add: upd_conv_take_nth_drop [OF i(1)])
    from subnets_split [OF this rest] have new: "subnets m' = List.map_filter subnet_of ?os'" by simp
    show ?thesis
    proof (cases "replace_subnet (word_of_int (pfx_bits p)) 0 ?ip ?os")
      case None
      then show ?thesis
        using new None [unfolded replace_subnet_None] by (simp add: List.map_filter_simps subnet_option_def)
    next
      case (Some os')
      from replace_subnet_Some [OF this] sub old new Some show ?thesis
        by (auto simp: subnet_option_def)
    qed
  qed
qed

text \<open>
  C18: What the upstream gets to know.  If a request has at most one subnet option, of the family of the client, then the request to the upstream
  has one subnet option: that of a subnet of the location of the client, or of no subnet if the client declined.  The outcome
  therefore does not depend on what the upstream would do with any other request; in particular, the address of
  the client and the subnet that it sent reach the upstream only through the location.
\<close>

theorem upstream_gets_location_subnet_only:
  fixes h1 h2 :: "('e, 's) handler"
  assumes "ecslib_ok (em_lib mw)" "opt_consistent req" "length (filter is_opt (Extra req)) \<le> 1"
    and "length (subnets req) \<le> 1" "\<forall>esn \<in> set (subnets req). es_Family esn = ecsFamFromReq ri" "cx_ReqInfo cx = Some ri"
    and agree: "\<And>cx rw q r. subnets q = [subnet_option (ecsFamFromReq ri) (location_subnet mw ri (st_rest s))] \<Longrightarrow>
      h1 cx rw q r = h2 cx rw q r"
  shows "ecs_Wrap mw h1 cx rw req s = ecs_Wrap mw h2 cx rw req s"
proof -
  have *: "h1 cx' rw' q r = h2 cx' rw' q r"
    if "ecs_request mw req ri (st_rest s) = (Inr cr, s')"
      "setECS (em_lib mw) (cr_subnet cr) (ecsFamFromReq ri) False req = (Inr q :: ('e mw_error, msg) result)" for cr s' q cx' rw' r
    by (rule agree, rule setECS_subnets [OF assms(1-5)])
      (use that ecs_request_subnet [OF that(1)] in simp)
  show ?thesis
    using assms(6) by (auto simp: ecs_Wrap_def Let_def * split: prod.splits sum.splits option.splits)
qed

lemma map_filter_subnet_iff: "esn \<in> set (List.map_filter subnet_of os) \<longleftrightarrow> EDNS0_SUBNET esn \<in> set os"
proof -
  have "subnet_of opt = Some esn \<longleftrightarrow> opt = EDNS0_SUBNET esn" for opt by (cases opt) auto
  then show ?thesis by (force simp: List.map_filter_def)
qed

text \<open>
  A further subnet option goes to the upstream.  If a request has a second subnet option, that option is in the request to the upstream
  as the client sent it: only the first one is replaced.
\<close>

theorem second_subnet_reaches_upstream:
  assumes "dl_IsEdns0 (el_lib E) req = Some i" "i < length (Extra req)"
    and "opt_options (Data (Extra req ! i)) = os @ EDNS0_SUBNET x # os' @ EDNS0_SUBNET y # os''"
    and "setECS E p fam False req = (Inr ecsReq :: ('e mw_error, msg) result)"
  shows "EDNS0_SUBNET y \<in> set (opt_options (Data (Extra ecsReq ! i)))"
proof -
  let ?os = "opt_options (Data (Extra req ! i))"
  obtain ip where a: "addrToNetIP (pfx_addr p) fam = (Inr ip :: ('e mw_error, net_ip) result)"
    using assms(4) by (auto simp: setECS_def split: sum.splits)
  have "List.map_filter subnet_of ?os \<noteq> []" unfolding assms(3) by (simp add: List.map_filter_simps)
  then obtain os2 where os2: "replace_subnet (word_of_int (pfx_bits p)) 0 ip ?os = Some os2"
    unfolding replace_subnet_None [symmetric, of _ "word_of_int (pfx_bits p)" 0 ip] by blast
  have opts: "opt_options (Data (Extra ecsReq ! i)) = os2"
    using assms(1,2,4) a os2 by (auto simp: setECS_def set_opt_def Let_def split: sum.splits)
  obtain esn rest where er: "List.map_filter subnet_of ?os = esn # rest"
      "List.map_filter subnet_of os2 = esn\<lparr>SourceNetmask := word_of_int (pfx_bits p), SourceScope := 0, es_Address := ip\<rparr> # rest"
    using replace_subnet_Some [OF os2] by blast
  have "List.map_filter subnet_of ?os =
      List.map_filter subnet_of os @ x # List.map_filter subnet_of os' @ y # List.map_filter subnet_of os''"
    unfolding assms(3) by (simp add: List.map_filter_simps)
  then have "y \<in> set rest" using er(1) by (cases "List.map_filter subnet_of os") auto
  then show ?thesis unfolding opts using er(2) by (simp flip: map_filter_subnet_iff)
qed

subsection \<open>Extended errors of cached answers\<close>

text \<open>
  The OPT record of a cached answer.  A cached answer keeps its OPT record if it has an extended error, and the field of the header that
  has the extended response code, the version and the DO bit is overwritten with the TTL of the records.
\<close>

theorem cached_opt_header_overwritten:
  assumes "ecslib_ok E" "Question req \<noteq> []" "r \<in> set (Extra (ei_msg item))" "is_opt r"
  shows "\<exists>r' \<in> set (Extra (fromCacheItem E now item req b)). is_opt r' \<and> Data r' = Data r \<and> Ttl (Hdr r') = cached_ttl now item"
  using assms(3,4) by (auto simp: fromCacheItem_sel [OF assms(1,2)] set_ttl_def intro!: bexI [of _ r])

subsection \<open>The chain behind the main middleware\<close>

lemma ecs_Wrap_behaves: "ecs_Wrap mw handle cx rw req s = (err, rw', req', s') \<Longrightarrow> writes rw rw' \<and> req' = req"
  by (auto simp: ecs_Wrap_def writeCachedResponse_def writeUpstreamResponse_def Let_def dest!: write_last_sel
      split: option.splits prod.splits sum.splits)

interpretation ecs_chain: inner_handler "ecs_Wrap mw handle" for mw handle
  by unfold_locales (rule ecs_Wrap_behaves)

interpretation preups_chain: inner_handler "preups_Wrap pu (ecs_Wrap mw handle)" for pu mw handle
  by unfold_locales (rule well_behavedD [OF ecs_chain.preups_behaves])

subsection \<open>Examples\<close>

text \<open>Functions of the libraries that satisfy the laws.\<close>

definition bytes_nat :: "net_ip \<Rightarrow> nat" where
  "bytes_nat bs = foldl (\<lambda>n b. n * 256 + unat b) 0 bs"

definition std_ipToAddr :: "net_ip \<Rightarrow> 16 word \<Rightarrow> addr option" where
  "std_ipToAddr bs fam =
     (if fam = AddrFamilyIPv4 \<and> length bs = 4 then Some (Addr4 (of_nat (bytes_nat bs)))
      else if fam = AddrFamilyIPv6 \<and> length bs = 16 then Some (Addr6 (of_nat (bytes_nat bs)) [])
      else None)"

lemma foldl_digits:
  fixes f :: "nat \<Rightarrow> 8 word"
  assumes "\<And>i. i < n \<Longrightarrow> unat (f i) = x div 256 ^ (n - 1 - i) mod 256"
  shows "foldl (\<lambda>n b. n * 256 + unat b) 0 (map f [0..<n]) = x mod 256 ^ n"
  using assms
proof (induction n arbitrary: x)
  case (Suc n)
  have "unat (f i) = x div 256 div 256 ^ (n - 1 - i) mod 256" if "i < n" for i
  proof -
    have "n - i = Suc (n - 1 - i)" using that by simp
    then show ?thesis using Suc.prems [of i] that by (simp add: div_mult2_eq)
  qed
  then have "foldl (\<lambda>n b. n * 256 + unat b) 0 (map f [0..<n]) = x div 256 mod 256 ^ n" by (rule Suc.IH)
  then show ?case using Suc.prems [of n] by (simp add: mod_mult2_eq)
qed simp

lemma foldl_bytes:
  "foldl (\<lambda>n b. n * 256 + unat b) 0 (map (\<lambda>i. ucast (drop_bit (8 * (n - 1 - i)) w) :: 8 word) [0..<n]) =
     unat (w :: 'a::len word) mod 256 ^ n"
proof (rule foldl_digits)
  fix i
  let ?k = "n - 1 - i"
  have "unat (ucast (drop_bit (8 * ?k) w) :: 8 word) = take_bit 8 (drop_bit (8 * ?k) (unat w))"
    by (simp only: unsigned_ucast_eq unsigned_take_bit_eq unat_drop_bit_eq) simp
  then show "unat (ucast (drop_bit (8 * ?k) w) :: 8 word) = unat w div 256 ^ ?k mod 256"
    by (simp only: drop_bit_eq_div take_bit_eq_mod power_mult) simp
qed

lemma std_ipToAddr_4: "addr_is4 a \<Longrightarrow> std_ipToAddr (addr_bytes a) AddrFamilyIPv4 = Some a"
  using foldl_bytes [of 4 "case a of Addr4 w \<Rightarrow> w | _ \<Rightarrow> 0"] unsigned_less [where ?'a = nat, of "case a of Addr4 w \<Rightarrow> w | _ \<Rightarrow> 0"]
  by (cases a) (simp_all add: std_ipToAddr_def addr_bytes_def bytes_nat_def)

lemma std_ipToAddr_6: "std_ipToAddr (addr_bytes (Addr6 w [])) AddrFamilyIPv6 = Some (Addr6 w [])"
  using foldl_bytes [of 16 w] unsigned_less [where ?'a = nat, of w]
  by (simp add: std_ipToAddr_def addr_bytes_def bytes_nat_def AddrFamilyIPv4_def AddrFamilyIPv6_def)

definition ecslib_std :: ecslib where
  "ecslib_std =
     \<lparr>el_lib = dnslib_std, el_ipToAddr = std_ipToAddr,
      el_SetRcode = (\<lambda>m req rc. (dl_SetReply dnslib_std m req)\<lparr>Rcode := rc\<rparr>),
      el_SetEdns0 = (\<lambda>n b m. m\<lparr>Extra := Extra m @
        [\<lparr>Hdr = \<lparr>rr_Name = ''.'', Rrtype = TypeOPT, rr_Class = n, Ttl = set_bit15 b 0\<rparr>, Data = RD_OPT []\<rparr>]\<rparr>),
      el_ZeroPrefix = (\<lambda>fam. prefix_from (if fam = AddrFamilyIPv4 then Addr4 0 else Addr6 0 []) 0)\<rparr>"

lemma ecslib_std_ok: "ecslib_ok ecslib_std"
proof -
  have fams: "AddrFamilyIPv4 \<noteq> AddrFamilyIPv6" by (simp add: AddrFamilyIPv4_def AddrFamilyIPv6_def)
  have "\<exists>h. el_SetEdns0 ecslib_std n b m = m\<lparr>Extra := Extra m @ [\<lparr>Hdr = h, Data = RD_OPT []\<rparr>]\<rparr> \<and> rr_Name h = ''.'' \<and>
      Rrtype h = TypeOPT \<and> dl_UDPSize (el_lib ecslib_std) h = n \<and> dl_Do (el_lib ecslib_std) h = b" for n b m
    by (rule exI [of _ "\<lparr>rr_Name = ''.'', Rrtype = TypeOPT, rr_Class = n, Ttl = set_bit15 b 0\<rparr>"])
      (simp add: ecslib_std_def dnslib_std_def)
  then show ?thesis
    unfolding ecslib_ok_def
    by (intro conjI allI impI) (simp_all add: ecslib_std_def dnslib_std_ok std_ipToAddr_4 std_ipToAddr_6 fams fams [symmetric])
qed

text \<open>A client of a location whose subnet is 5.0.0.0/24, and an upstream that answers with an address that holds for five minutes.\<close>

definition ex_ecsmw :: "((ecs_key \<times> ecs_item cache_entry) list, unit, time) ecsmw" where
  "ex_ecsmw =
     \<lparr>em_lib = ecslib_std, em_fakeECS = {}, em_C = default_if (lru_std 10), em_now = (\<lambda>t. t),
      em_SubnetByLocation = (\<lambda>l fam t. (Inr (prefix_from (Addr4 0x05000000) 24), t)), em_cacheMinTTL = 0, em_overrideTTL = False\<rparr>"

definition ex_record :: "32 word \<Rightarrow> rr" where
  "ex_record ttl = \<lparr>Hdr = \<lparr>rr_Name = ''example.org.'', Rrtype = TypeA, rr_Class = ClassINET, Ttl = ttl\<rparr>, Data = RD_A [1, 2, 3, 4]\<rparr>"

definition ex_upstream :: "(unit, time) handler" where
  "ex_upstream cx rw req t = write_last req ((dl_SetReply dnslib_std empty_msg req)\<lparr>Answer := [ex_record 300]\<rparr>) rw t"

definition ex_client_info :: "unit request_info" where
  "ex_client_info =
     \<lparr>ri_DeviceResult = None, ri_Location = None, ri_ECS = None,
      ri_FilteringGroup = \<lparr>fg_FilterConfig = \<lparr>gr_Parental = \<lparr>par_Categories = \<lparr>cat_IDs = [], cat_Enabled = False\<rparr>, PauseSchedule = None,
          BlockedServices = [], par_Enabled = False, AdultBlockingEnabled = False, SafeSearchGeneralEnabled = False,
          SafeSearchYouTubeEnabled = False\<rparr>,
        gr_RuleList = \<lparr>rlc_IDs = [], rlist_Enabled = False\<rparr>,
        gr_SafeBrowsing = \<lparr>TyposquattingEnabled = None, sb_Enabled = False, DangerousDomainsEnabled = False,
          NewlyRegisteredDomainsEnabled = False\<rparr>\<rparr>,
        fg_ID = ''default'', fg_BlockChromePrefetch = False, fg_BlockFirefoxCanary = False, fg_BlockPrivateRelay = False\<rparr>,
      ri_Messages = ex_constructor,
      ri_ServerInfo = \<lparr>si_GroupName = ''g'', si_Name = ''s'', si_DeviceDomains = [], si_Protocol = ProtoDNS, si_ProfilesEnabled = True\<rparr>,
      ri_RemoteIP = Addr4 0x05000007, ri_Host = ''example.org'', ri_QType = TypeA, ri_QClass = ClassINET\<rparr>"

definition ex_ctx :: "unit ctx" where
  "ex_ctx = \<lparr>cx_ReqInfo = Some ex_client_info, cx_SrvInfo = \<lparr>TLSServerName = None, Userinfo = None, URLPath = []\<rparr>,
     cx_StartTime = 0, cx_Err = None\<rparr>"

definition ex_writer :: "unit writer" where
  "ex_writer = \<lparr>wr_nonWriter = False, wr_local = \<lparr>ap_addr = Addr4 1, ap_port = 53\<rparr>,
     wr_remote = \<lparr>ap_addr = Addr4 0x05000007, ap_port = 1000\<rparr>, wr_resp = None, wr_sent = [], wr_fails = []\<rparr>"

definition ex_ecs_start :: "((ecs_key \<times> ecs_item cache_entry) list, time) ecs_state" where
  "ex_ecs_start = \<lparr>st_cache = [], st_ecsCache = [], st_rest = unix_epoch + 1000 * nsec_per_sec\<rparr>"

definition ex_ecs_after :: "((ecs_key \<times> ecs_item cache_entry) list, time) ecs_state" where
  "ex_ecs_after = snd (snd (snd (ecs_Wrap ex_ecsmw ex_upstream ex_ctx ex_writer (ex_request ''example.org.'' TypeA) ex_ecs_start)))
     \<lparr>st_rest := unix_epoch + 1100 * nsec_per_sec\<rparr>"

definition ex_cache_request :: cache_request where
  "ex_cache_request = \<lparr>cr_host = ''example.org'', cr_subnet = prefix_from (Addr4 0x05000000) 24, cr_qType = TypeA,
     cr_qClass = ClassINET, cr_reqDO = False, cr_isECSDeclined = False\<rparr>"

lemma ex_ecs_reached: "ecs_reachable (default_live map_of) ex_ecsmw ex_upstream ex_ecs_after"
proof -
  have "ecs_reachable (default_live map_of) ex_ecsmw ex_upstream ex_ecs_start"
    by (rule ecs_start) (simp add: ex_ecs_start_def default_live_def fun_eq_iff)
  then show ?thesis unfolding ex_ecs_after_def by (intro ecs_other) (rule ecs_serve, auto simp: prod_eq_iff)
qed

lemma ex_ecs_cached: "ecs_get ex_ecsmw (ex_request ''example.org.'' TypeA) ex_cache_request ex_ecs_after =
   (Some ((dl_SetReply dnslib_std empty_msg (ex_request ''example.org.'' TypeA))\<lparr>Answer := [ex_record 200]\<rparr>, False), ex_ecs_after)"
  by code_simp

theorem cached_answer_is_upstream_answer_witness:
  "\<exists>cr' resp item. genuine ex_ecsmw ex_upstream False cr' resp item \<and> cr_host cr' = ''example.org'' \<and> \<not> cr_isECSDeclined cr' \<and>
     [ex_record 200] = map (set_ttl (cached_ttl (unix_epoch + 1100 * nsec_per_sec) item)) (rmHopToHopRRs (Answer resp) False TypeA)"
proof -
  have "em_C ex_ecsmw = default_if (lru_std 10)" "ecslib_ok (em_lib ex_ecsmw)" "Question (ex_request ''example.org.'' TypeA) \<noteq> []"
    by (simp_all add: ex_ecsmw_def ecslib_std_ok ex_request_def)
  from cached_answer_is_upstream_answer [OF lru_std_ok this ex_ecs_reached ex_ecs_cached]
  show ?thesis by (simp add: ex_cache_request_def Let_def ex_ecsmw_def ex_ecs_after_def) metis
qed

definition ex_item :: ecs_item where
  "ex_item = \<lparr>ei_when = unix_epoch, ei_msg = empty_msg\<lparr>Answer := [ex_record 300]\<rparr>\<rparr>"

theorem cached_records_age_witness:
  "let t = unix_epoch + 1000000001; m = fromCacheItem ecslib_std t ex_item (ex_request ''a.'' TypeA) False
   in map (\<lambda>r. Ttl (Hdr r)) (Answer m) = [299] \<and>
      2 * \<bar>uint (Ttl (Hdr (hd (Answer m)))) * nsec_per_sec - max 0 (300 * nsec_per_sec - 1000000001)\<bar> \<le> nsec_per_sec"
proof -
  let ?m = "fromCacheItem ecslib_std (unix_epoch + 1000000001) ex_item (ex_request ''a.'' TypeA) False"
  have m: "map (\<lambda>r. Ttl (Hdr r)) (Answer ?m) = [299]" by code_simp
  have l: "FindLowestTTL (ei_msg ex_item) = 300" by code_simp
  have w: "ei_when ex_item = unix_epoch" by (simp add: ex_item_def)
  have q: "Question (ex_request ''a.'' TypeA) \<noteq> []" by (simp add: ex_request_def)
  have "hd (Answer ?m) \<in> set (Answer ?m @ Ns ?m @ Extra ?m)" using m by (cases "Answer ?m") auto
  from cached_records_age [OF _ ecslib_std_ok q refl this] show ?thesis using m by (simp add: l w Let_def)
qed

theorem upstream_gets_location_subnet_only_witness:
  "ecs_Wrap ex_ecsmw ex_upstream ex_ctx ex_writer (ex_request ''example.org.'' TypeA) ex_ecs_start =
   ecs_Wrap ex_ecsmw (\<lambda>cx rw q t. if subnets q = [subnet_option AddrFamilyIPv4 (prefix_from (Addr4 0x05000000) 24)]
     then ex_upstream cx rw q t else (None, rw, q, t)) ex_ctx ex_writer (ex_request ''example.org.'' TypeA) ex_ecs_start"
proof -
  have "ecsFamFromReq ex_client_info = AddrFamilyIPv4" by (simp add: ecsFamFromReq_def ex_client_info_def)
  moreover have "location_subnet ex_ecsmw ex_client_info t = prefix_from (Addr4 0x05000000) 24" for t
    by (simp add: location_subnet_def ex_ecsmw_def ecs_declined_def ex_client_info_def)
  moreover have "ecslib_ok (em_lib ex_ecsmw)" by (simp add: ex_ecsmw_def ecslib_std_ok)
  moreover have "opt_consistent (ex_request ''example.org.'' TypeA)" "Extra (ex_request ''example.org.'' TypeA) = []"
    by (simp_all add: ex_request_def opt_consistent_def empty_msg_def)
  moreover have "cx_ReqInfo ex_ctx = Some ex_client_info" by (simp add: ex_ctx_def)
  ultimately show ?thesis
    by (intro upstream_gets_location_subnet_only [where ri = ex_client_info]) (simp_all add: subnets_def List.map_filter_simps)
qed

definition ex_two_subnets :: msg where
  "ex_two_subnets = (ex_request ''a.'' TypeA)
     \<lparr>Extra := [\<lparr>Hdr = \<lparr>rr_Name = ''.'', Rrtype = TypeOPT, rr_Class = 1232, Ttl = 0\<rparr>,
        Data = RD_OPT [EDNS0_SUBNET (subnet_option AddrFamilyIPv4 (prefix_from (Addr4 0) 0)),
                       EDNS0_SUBNET (subnet_option AddrFamilyIPv4 (prefix_from (Addr4 0x05000007) 32))]\<rparr>]\<rparr>"

theorem second_subnet_reaches_upstream_witness:
  "\<exists>q. setECS ecslib_std (prefix_from (Addr4 0) 0) AddrFamilyIPv4 False ex_two_subnets = (Inr q :: (unit mw_error, msg) result) \<and>
       EDNS0_SUBNET (subnet_option AddrFamilyIPv4 (prefix_from (Addr4 0x05000007) 32)) \<in> set (opt_options (Data (Extra q ! 0)))"
proof -
  have "dl_IsEdns0 (el_lib ecslib_std) ex_two_subnets = Some 0"
    by (simp add: ecslib_std_def dnslib_std_def ex_two_subnets_def)
  moreover have "\<exists>q. setECS ecslib_std (prefix_from (Addr4 0) 0) AddrFamilyIPv4 False ex_two_subnets = (Inr q :: (unit mw_error, msg) result)"
    using calculation by (simp add: setECS_def addrToNetIP_def prefix_from_def Let_def)
  moreover have "opt_options (Data (Extra ex_two_subnets ! 0)) =
      [] @ EDNS0_SUBNET (subnet_option AddrFamilyIPv4 (prefix_from (Addr4 0) 0)) #
      [] @ EDNS0_SUBNET (subnet_option AddrFamilyIPv4 (prefix_from (Addr4 0x05000007) 32)) # []"
    by (simp add: ex_two_subnets_def)
  ultimately show ?thesis using second_subnet_reaches_upstream [of ecslib_std ex_two_subnets 0] by (fastforce simp: ex_two_subnets_def)
qed

definition ex_ede_item :: ecs_item where
  "ex_ede_item = \<lparr>ei_when = unix_epoch, ei_msg = empty_msg\<lparr>Answer := [ex_record 0x8000],
     Extra := [\<lparr>Hdr = \<lparr>rr_Name = ''.'', Rrtype = TypeOPT, rr_Class = 1232, Ttl = 0\<rparr>, Data = RD_OPT [EDNS0_EDE 3 []]\<rparr>]\<rparr>\<rparr>"

theorem cached_opt_header_overwritten_witness:
  "\<exists>r \<in> set (Extra (fromCacheItem ecslib_std unix_epoch ex_ede_item (ex_request ''a.'' TypeA) False)).
     is_opt r \<and> dl_Do dnslib_std (Hdr r)"
proof -
  have "cached_ttl unix_epoch ex_ede_item = 0x8000" by code_simp
  moreover have "hd (Extra (ei_msg ex_ede_item)) \<in> set (Extra (ei_msg ex_ede_item))" "is_opt (hd (Extra (ei_msg ex_ede_item)))"
    by (simp_all add: ex_ede_item_def)
  moreover have "Question (ex_request ''a.'' TypeA) \<noteq> []" by (simp add: ex_request_def)
  ultimately show ?thesis
    using cached_opt_header_overwritten [OF ecslib_std_ok, of "ex_request ''a.'' TypeA" _ ex_ede_item unix_epoch False]
    by (fastforce simp: dnslib_std_def bit_simps)
qed

end
