(* ===== verification/Dns_Cache.thy ===== *)
theory Dns_Cache
  imports Ecs_Cache_Laws
begin

text \<open>
  The plain DNS cache (\<open>internal/dnsserver/cache/cache.go\<close>), which is used instead of the ECS-aware one if it is configured so.  Its LRU
  cache is that of a module, with the interface of \<open>internal/agdcache\<close>.  The floating-point seconds of a duration
  are taken as exact.
\<close>

subsection \<open>Messages\<close>

definition pc_getTTLIfLower :: "rr \<Rightarrow> 32 word \<Rightarrow> 32 word" where
  "pc_getTTLIfLower r ttl =
     (case Data r of
        RD_OPT _ \<Rightarrow> ttl
      | RD_SOA s \<Rightarrow>
          (let ttl = (if 0 < soa_Minttl s \<and> soa_Minttl s < ttl then soa_Minttl s else ttl)
           in if Ttl (Hdr r) < ttl then Ttl (Hdr r) else ttl)
      | _ \<Rightarrow> if Ttl (Hdr r) < ttl then Ttl (Hdr r) else ttl)"

fun pc_lowest :: "rr list \<Rightarrow> 32 word \<Rightarrow> 32 word option" where
  "pc_lowest [] ttl = Some ttl"
| "pc_lowest (r # rs) ttl = (let ttl = pc_getTTLIfLower r ttl in if ttl = 0 then None else pc_lowest rs ttl)"

definition servFailMaxCacheTTL :: "32 word" where
  "servFailMaxCacheTTL = 30"

definition findLowestTTL :: "msg \<Rightarrow> 32 word" where
  "findLowestTTL m =
     (case pc_lowest (Answer m @ Ns m @ Extra m) (- 1) of
        None \<Rightarrow> 0
      | Some ttl \<Rightarrow>
          if Rcode m = RcodeServerFailure \<and> servFailMaxCacheTTL < ttl then servFailMaxCacheTTL
          else if ttl = - 1 then 0
          else ttl)"

definition setMinTTL :: "32 word \<Rightarrow> msg \<Rightarrow> msg" where
  "setMinTTL minTTL m = m\<lparr>Answer := map (\<lambda>r. set_ttl (max (Ttl (Hdr r)) minTTL) r) (Answer m)\<rparr>"

text \<open>The bytes of a key: the DO flag, the type, the class and the name.\<close>

definition be16 :: "16 word \<Rightarrow> string" where
  "be16 w = [char_of (unat (drop_bit 8 w)), char_of (unat w)]"

definition toCacheKey :: "dnslib \<Rightarrow> msg \<Rightarrow> string" where
  "toCacheKey L m =
     (let q = question0 m
      in (if IsDO L m then CHR 0x01 else CHR 0x00) # be16 (Qtype q) @ be16 (Qclass q) @ to_lower (q_Name q))"

subsection \<open>The cache\<close>

record plain_item =
  pi_when :: time
  pi_msg :: msg

record ('c, 's) plainmw =
  pl_lib :: dnslib
  pl_C :: "('c, string, plain_item) cache_if"
  pl_now :: "'s \<Rightarrow> time"
  pl_cacheMinTTL :: duration
  pl_overrideTTL :: bool

record ('c, 's) plain_state =
  pt_cache :: 'c
  pt_rest :: 's

definition round_sec :: "duration \<Rightarrow> int" where
  "round_sec d = sgn d * ((2 * \<bar>d\<bar> + nsec_per_sec) div (2 * nsec_per_sec))"

definition plain_ttl :: "time \<Rightarrow> plain_item \<Rightarrow> 32 word" where
  "plain_ttl now item =
     (let newTTL = findLowestTTL (pi_msg item);
          timeLeft = round_sec (uint newTTL * nsec_per_sec - time_sub now (pi_when item))
      in if 0 < timeLeft then word_of_int timeLeft else newTTL)"

definition plain_fromCacheItem :: "dnslib \<Rightarrow> time \<Rightarrow> plain_item \<Rightarrow> msg \<Rightarrow> msg" where
  "plain_fromCacheItem L now item req =
     (let m = pi_msg item;
          newTTL = plain_ttl now item
      in (dl_SetReply L empty_msg req)
           \<lparr>AuthenticatedData := AuthenticatedData m, RecursionAvailable := RecursionAvailable m, Compress := Compress m,
            Rcode := Rcode m, Answer := map (set_ttl newTTL) (Answer m), Ns := map (set_ttl newTTL) (Ns m),
            Extra := map (set_ttl newTTL) (filter (\<lambda>r. Rrtype (Hdr r) \<noteq> TypeOPT) (Extra m))\<rparr>)"

definition plain_get :: "('c, 's) plainmw \<Rightarrow> msg \<Rightarrow> ('c, 's) plain_state \<Rightarrow> msg option \<times> ('c, 's) plain_state" where
  "plain_get mw req s =
     (let now = pl_now mw (pt_rest s)
      in case ci_Get (pl_C mw) now (toCacheKey (pl_lib mw) req) (pt_cache s) of
           (None, c) \<Rightarrow> (None, s\<lparr>pt_cache := c\<rparr>)
         | (Some item, c) \<Rightarrow> (Some (plain_fromCacheItem (pl_lib mw) now item req), s\<lparr>pt_cache := c\<rparr>))"

definition plain_raise :: "('c, 's) plainmw \<Rightarrow> msg \<Rightarrow> duration \<times> msg" where
  "plain_raise mw m =
     (let exp = uint (findLowestTTL m) * nsec_per_sec
      in if pl_overrideTTL mw \<and> Rcode m \<noteq> RcodeServerFailure
         then (let exp = max exp (pl_cacheMinTTL mw) in (exp, setMinTTL (word_of_int (exp div nsec_per_sec)) m))
         else (exp, m))"

definition plain_set :: "('c, 's) plainmw \<Rightarrow> msg \<Rightarrow> ('c, 's) plain_state \<Rightarrow> msg \<times> ('c, 's) plain_state" where
  "plain_set mw m s =
     (if findLowestTTL m = 0 \<or> \<not> isCacheable m then (m, s)
      else
        (let now = pl_now mw (pt_rest s);
             (exp, m) = plain_raise mw m
         in (m, s\<lparr>pt_cache := ci_SetWithExpire (pl_C mw) now (toCacheKey (pl_lib mw) m) \<lparr>pi_when = now, pi_msg = m\<rparr> exp
               (pt_cache s)\<rparr>)))"

definition plain_Wrap :: "('c, 's) plainmw \<Rightarrow> ('e, 's) handler \<Rightarrow> ('e, ('c, 's) plain_state) handler" where
  "plain_Wrap mw handle cx rw req s =
     (case plain_get mw req s of
        (Some resp, s) \<Rightarrow> write_last req resp rw s
      | (None, s) \<Rightarrow>
          (case handle cx (NewNonWriter (wr_local rw) (wr_remote rw)) req (pt_rest s) of
             (Some e, _, req, r) \<Rightarrow> (Some e, rw, req, s\<lparr>pt_rest := r\<rparr>)
           | (None, nrw, req, r) \<Rightarrow>
               (let s = s\<lparr>pt_rest := r\<rparr>
                in case wr_resp nrw of
                     None \<Rightarrow> (None, rw, req, s)
                   | Some resp \<Rightarrow> (let (resp, s) = plain_set mw resp s in write_last req resp rw s))))"

subsection \<open>The copies of the message functions\<close>

lemma findLowestTTL_eq: "findLowestTTL m = FindLowestTTL m"
proof -
  have "pc_getTTLIfLower r ttl = getTTLIfLower r ttl" for r ttl
    by (auto simp: pc_getTTLIfLower_def getTTLIfLower_def min_def Let_def split: rdata.split)
  then have "pc_lowest rs ttl = lowest_ttl rs ttl" for rs ttl
    by (induction rs ttl rule: pc_lowest.induct) (auto simp: Let_def)
  then show ?thesis unfolding findLowestTTL_def FindLowestTTL_def servFailMaxCacheTTL_def ServFailMaxCacheTTL_def by simp
qed

lemma setMinTTL_eq: "setMinTTL = SetMinTTL"
  by (simp add: fun_eq_iff setMinTTL_def SetMinTTL_def)

subsection \<open>Keys\<close>

lemma char_of_mod_256_eq: "(char_of (m :: nat) :: char) = char_of n \<longleftrightarrow> m mod 256 = n mod 256"
  by (metis char_of_mod_256 of_char_of)

lemma be16_inj: "be16 v = be16 w \<longleftrightarrow> v = w"
proof
  assume "be16 v = be16 w"
  then have e: "unat (drop_bit 8 v) mod 256 = unat (drop_bit 8 w) mod 256" "unat v mod 256 = unat w mod 256"
    by (simp_all add: be16_def char_of_mod_256_eq)
  have "unat u = 256 * (unat (drop_bit 8 u) mod 256) + unat u mod 256" for u :: "16 word"
  proof -
    have "unat (drop_bit 8 u) = unat u div 256" by (simp only: unat_drop_bit_eq) (simp add: drop_bit_eq_div)
    moreover have "unat u < 65536" using unsigned_less [where ?'a = nat, of u] by simp
    ultimately show ?thesis by simp
  qed
  then have "unat v = unat w" using e by metis
  then show "v = w" by (rule unsigned_word_eqI)
qed simp

lemma length_be16 [simp]: "length (be16 w) = 2"
  by (simp add: be16_def)

lemma toCacheKey_eq:
  "toCacheKey L m = toCacheKey L m' \<longleftrightarrow>
     IsDO L m = IsDO L m' \<and> Qtype (question0 m) = Qtype (question0 m') \<and> Qclass (question0 m) = Qclass (question0 m') \<and>
     to_lower (q_Name (question0 m)) = to_lower (q_Name (question0 m'))"
  by (auto simp: toCacheKey_def Let_def be16_inj)

subsection \<open>Soundness\<close>

definition plain_genuine :: "('c, 's) plainmw \<Rightarrow> ('e, 's) handler \<Rightarrow> msg \<Rightarrow> plain_item \<Rightarrow> bool" where
  "plain_genuine mw handle resp item \<longleftrightarrow>
     (\<exists>cx (rw :: 'e writer) req s nrw q r.
        handle cx (NewNonWriter (wr_local rw) (wr_remote rw)) req s = (None, nrw, q, r) \<and> wr_resp nrw = Some resp \<and>
        isCacheable resp \<and> item = \<lparr>pi_when = pl_now mw r, pi_msg = snd (plain_raise mw resp)\<rparr>)"

definition plain_entry :: "('c, 's) plainmw \<Rightarrow> ('e, 's) handler \<Rightarrow> string \<Rightarrow> plain_item \<Rightarrow> bool" where
  "plain_entry mw handle key item \<longleftrightarrow> (\<exists>resp. plain_genuine mw handle resp item \<and> key = toCacheKey (pl_lib mw) (pi_msg item))"

inductive plain_reachable ::
  "(time \<Rightarrow> 'c \<Rightarrow> string \<rightharpoonup> plain_item) \<Rightarrow> ('c, 's) plainmw \<Rightarrow> ('e, 's) handler \<Rightarrow> ('c, 's) plain_state \<Rightarrow> bool"
  for live mw handle where
  plain_start: "(\<forall>t. live t (pt_cache s) = Map.empty) \<Longrightarrow> plain_reachable live mw handle s"
| plain_serve: "plain_reachable live mw handle s \<Longrightarrow> plain_Wrap mw handle cx rw req s = (err, rw', req', s') \<Longrightarrow>
    plain_reachable live mw handle s'"
| plain_other: "plain_reachable live mw handle s \<Longrightarrow> plain_reachable live mw handle (s\<lparr>pt_rest := r\<rparr>)"

locale plain_cache = agdcache "pl_C mw" live
  for mw :: "('c, 's) plainmw" and live +
  fixes handle :: "('e, 's) handler"
begin

lemma plain_after: "ci_Get (pl_C mw) now k c = (x, c') \<Longrightarrow> entries_sat P c \<Longrightarrow> entries_sat P c'"
  using entries_sat_get [of P c now k] by simp

lemma plain_get_keeps:
  "plain_get mw req s = (x, s') \<Longrightarrow> entries_sat P (pt_cache s) \<Longrightarrow> entries_sat P (pt_cache s') \<and> pt_rest s' = pt_rest s"
  by (auto simp: plain_get_def Let_def split: prod.splits option.splits intro: plain_after)

lemma plain_set_keeps:
  assumes "entries_sat (plain_entry mw handle) (pt_cache s)"
    and "isCacheable resp \<Longrightarrow> plain_genuine mw handle resp \<lparr>pi_when = pl_now mw (pt_rest s), pi_msg = snd (plain_raise mw resp)\<rparr>"
  shows "entries_sat (plain_entry mw handle) (pt_cache (snd (plain_set mw resp s)))"
proof (cases "findLowestTTL resp = 0 \<or> \<not> isCacheable resp")
  case True
  then show ?thesis using assms(1) by (simp add: plain_set_def)
next
  case False
  obtain exp m where m: "plain_raise mw resp = (exp, m)" by fastforce
  have "plain_entry mw handle (toCacheKey (pl_lib mw) m) \<lparr>pi_when = pl_now mw (pt_rest s), pi_msg = m\<rparr>"
    using assms(2) False m unfolding plain_entry_def by (intro exI [of _ resp]) simp
  then show ?thesis using assms(1) False m by (simp add: plain_set_def Let_def entries_sat_set_expire)
qed

lemma plain_Wrap_keeps:
  assumes inv: "entries_sat (plain_entry mw handle) (pt_cache s)" and w: "plain_Wrap mw handle cx rw req s = (err, rw', req', s')"
  shows "entries_sat (plain_entry mw handle) (pt_cache s')"
proof -
  obtain x s1 where x: "plain_get mw req s = (x, s1)" by fastforce
  have s1: "entries_sat (plain_entry mw handle) (pt_cache s1)" using plain_get_keeps [OF x inv] by blast
  show ?thesis
  proof (cases x)
    case (Some resp)
    then show ?thesis using w x s1 by (auto simp: plain_Wrap_def write_last_def split: prod.splits)
  next
    case None
    obtain e nrw q r where h: "handle cx (NewNonWriter (wr_local rw) (wr_remote rw)) req (pt_rest s1) = (e, nrw, q, r)"
      by (metis prod_cases4)
    show ?thesis
    proof (cases "e = None \<and> wr_resp nrw \<noteq> None")
      case True
      then obtain resp where r: "e = None" "wr_resp nrw = Some resp" by blast
      have "plain_genuine mw handle resp \<lparr>pi_when = pl_now mw r, pi_msg = snd (plain_raise mw resp)\<rparr>" if "isCacheable resp"
        unfolding plain_genuine_def using that h r by blast
      then have "entries_sat (plain_entry mw handle) (pt_cache (snd (plain_set mw resp (s1\<lparr>pt_rest := r\<rparr>))))"
        by (intro plain_set_keeps) (use s1 in auto)
      then show ?thesis using w x None h r by (auto simp: plain_Wrap_def write_last_def split: prod.splits)
    next
      case False
      then have "s' = s1\<lparr>pt_rest := r\<rparr>" using w x None h by (auto simp: plain_Wrap_def split: option.splits)
      then show ?thesis using s1 by simp
    qed
  qed
qed

lemma plain_reachable_sound: "plain_reachable live mw handle s \<Longrightarrow> entries_sat (plain_entry mw handle) (pt_cache s)"
proof (induction rule: plain_reachable.induct)
  case (plain_start s)
  then show ?case by (simp add: entries_sat_def)
qed (auto intro: plain_Wrap_keeps)

end

interpretation plain_lru: plain_cache "mw\<lparr>pl_C := LRU_if (default_if (lru_std n))\<rparr>" "default_live map_of" handle for mw n handle
  unfolding plain_cache_def by (simp add: lru_cache.agdcache_axioms)

lemma plain_raise_sel [simp]:
  "map (set_ttl t) (Answer (snd (plain_raise mw m))) = map (set_ttl t) (Answer m)"
  "Ns (snd (plain_raise mw m)) = Ns m" "Extra (snd (plain_raise mw m)) = Extra m" "Rcode (snd (plain_raise mw m)) = Rcode m"
  "Question (snd (plain_raise mw m)) = Question m"
  by (auto simp: plain_raise_def Let_def setMinTTL_def)

text \<open>
  C40: What the plain cache serves.  Whatever requests have come before, an answer from the cache is one that the upstream gave for the same
  type and class and for the same name up to the case of letters; it has the identifier and the question of the request,
  and the records of the upstream except for OPT, all with one TTL.
\<close>

theorem plain_answer_is_upstream_answer:
  assumes "agdcache (pl_C mw) live" "dnslib_ok (pl_lib mw)" "Question req \<noteq> []"
    and "plain_reachable live mw handle s" "plain_get mw req s = (Some m, s')"
  shows "\<exists>resp item. plain_genuine mw handle resp item \<and> Qtype (question0 resp) = Qtype (question0 req) \<and>
    Qclass (question0 resp) = Qclass (question0 req) \<and>
    to_lower (q_Name (question0 resp)) = to_lower (q_Name (question0 req)) \<and>
    Id m = Id req \<and> Question m = [question0 req] \<and> Rcode m = Rcode resp \<and>
    (let ttl = plain_ttl (pl_now mw (pt_rest s)) item
     in Answer m = map (set_ttl ttl) (Answer resp) \<and> Ns m = map (set_ttl ttl) (Ns resp) \<and>
        Extra m = map (set_ttl ttl) (filter (\<lambda>r. Rrtype (Hdr r) \<noteq> TypeOPT) (Extra resp)))"
proof -
  have P: "plain_cache mw live" using assms(1) by (simp add: plain_cache_def)
  obtain item where e: "plain_entry mw handle (toCacheKey (pl_lib mw) req) item"
    and m: "m = plain_fromCacheItem (pl_lib mw) (pl_now mw (pt_rest s)) item req"
    using assms(5) agdcache.get_sat [OF assms(1) plain_cache.plain_reachable_sound [OF P assms(4)]]
    unfolding plain_get_def Let_def by (fastforce split: prod.splits option.splits)
  obtain resp where g: "plain_genuine mw handle resp item" and k: "toCacheKey (pl_lib mw) req = toCacheKey (pl_lib mw) (pi_msg item)"
    using e by (auto simp: plain_entry_def)
  have i: "pi_msg item = snd (plain_raise mw resp)" using g by (auto simp: plain_genuine_def)
  show ?thesis
    using g k unfolding toCacheKey_eq
    by (intro exI [of _ resp] exI [of _ item])
      (simp add: m plain_fromCacheItem_def Let_def i dnslib_okD [OF assms(2)] assms(3) question0_def)
qed

text \<open>
  The TTL of the last half second.  In the last half second of a cached answer, and after that, its records are served with the full TTL
  that they had in the beginning instead of zero.
\<close>

theorem expiring_answer_has_full_ttl:
  assumes "dnslib_ok L" "Question req \<noteq> []" "pi_when item \<le> now"
    and "2 * (uint (FindLowestTTL (pi_msg item)) * nsec_per_sec - (now - pi_when item)) < nsec_per_sec"
    and "r \<in> set (Answer (plain_fromCacheItem L now item req))"
  shows "Ttl (Hdr r) = FindLowestTTL (pi_msg item)"
proof -
  let ?L = "uint (FindLowestTTL (pi_msg item))"
  have L: "?L < 2 ^ 32" using uint_lt2p [of "FindLowestTTL (pi_msg item)"] by simp
  have sub: "time_sub now (pi_when item) = min max_duration (now - pi_when item)"
    using assms(3) by (simp add: time_sub_def min_duration_def max_duration_def)
  have less: "2 * (?L * nsec_per_sec - time_sub now (pi_when item)) < nsec_per_sec"
    using assms(4) L unfolding sub max_duration_def nsec_per_sec_def by (auto simp: min_def)
  have "round_sec d \<le> 0" if "2 * d < nsec_per_sec" for d
    using that by (cases "d > 0") (auto simp: round_sec_def sgn_if nsec_per_sec_def)
  from this [OF less] have "plain_ttl now item = FindLowestTTL (pi_msg item)"
    by (simp add: plain_ttl_def Let_def findLowestTTL_eq)
  then show ?thesis using assms(5) by (auto simp: plain_fromCacheItem_def Let_def set_ttl_def)
qed

subsection \<open>Examples\<close>

definition ex_plainmw :: "((string \<times> plain_item cache_entry) list, time) plainmw" where
  "ex_plainmw = \<lparr>pl_lib = dnslib_std, pl_C = LRU_if (default_if (lru_std 10)), pl_now = (\<lambda>t. t), pl_cacheMinTTL = 0,
     pl_overrideTTL = False\<rparr>"

definition ex_plain_after :: "((string \<times> plain_item cache_entry) list, time) plain_state" where
  "ex_plain_after = snd (snd (snd (plain_Wrap ex_plainmw ex_upstream ex_ctx ex_writer (ex_request ''example.org.'' TypeA)
     \<lparr>pt_cache = [], pt_rest = unix_epoch + 1000 * nsec_per_sec\<rparr>))) \<lparr>pt_rest := unix_epoch + 1100 * nsec_per_sec\<rparr>"

lemma ex_plain_reached: "plain_reachable (default_live map_of) ex_plainmw ex_upstream ex_plain_after"
proof -
  have "plain_reachable (default_live map_of) ex_plainmw ex_upstream \<lparr>pt_cache = [], pt_rest = unix_epoch + 1000 * nsec_per_sec\<rparr>"
    by (rule plain_start) (simp add: default_live_def fun_eq_iff)
  then show ?thesis unfolding ex_plain_after_def by (intro plain_other) (rule plain_serve, auto simp: prod_eq_iff)
qed

lemma ex_plain_cached: "plain_get ex_plainmw (ex_request ''EXAMPLE.org.'' TypeA) ex_plain_after =
   (Some ((dl_SetReply dnslib_std empty_msg (ex_request ''EXAMPLE.org.'' TypeA))\<lparr>Answer := [ex_record 200]\<rparr>), ex_plain_after)"
  by code_simp

theorem plain_answer_is_upstream_answer_witness:
  "\<exists>resp item. plain_genuine ex_plainmw ex_upstream resp item \<and>
     to_lower (q_Name (question0 resp)) = to_lower (q_Name (question0 (ex_request ''EXAMPLE.org.'' TypeA))) \<and>
     [ex_record 200] = map (set_ttl (plain_ttl (unix_epoch + 1100 * nsec_per_sec) item)) (Answer resp)"
proof -
  have "agdcache (pl_C ex_plainmw) (default_live map_of)" "dnslib_ok (pl_lib ex_plainmw)" "Question (ex_request ''EXAMPLE.org.'' TypeA) \<noteq> []"
    by (simp_all add: ex_plainmw_def dnslib_std_ok ex_request_def lru_cache.agdcache_axioms)
  from plain_answer_is_upstream_answer [OF this ex_plain_reached ex_plain_cached]
  show ?thesis by (simp add: Let_def ex_plainmw_def ex_plain_after_def) metis
qed

theorem expiring_answer_has_full_ttl_witness:
  "let t = unix_epoch + 299600000000; item = \<lparr>pi_when = unix_epoch, pi_msg = empty_msg\<lparr>Answer := [ex_record 300]\<rparr>\<rparr>
   in map (\<lambda>r. Ttl (Hdr r)) (Answer (plain_fromCacheItem dnslib_std t item (ex_request ''a.'' TypeA))) = [300]"
proof -
  let ?item = "\<lparr>pi_when = unix_epoch, pi_msg = empty_msg\<lparr>Answer := [ex_record 300]\<rparr>\<rparr>"
  let ?m = "plain_fromCacheItem dnslib_std (unix_epoch + 299600000000) ?item (ex_request ''a.'' TypeA)"
  have l: "FindLowestTTL (pi_msg ?item) = 300" by code_simp
  have q: "Question (ex_request ''a.'' TypeA) \<noteq> []" by (simp add: ex_request_def)
  have "length (Answer ?m) = 1" by (simp add: plain_fromCacheItem_def Let_def)
  then obtain r where r: "Answer ?m = [r]" by (auto simp: length_Suc_conv)
  have "Ttl (Hdr r) = 300"
    using expiring_answer_has_full_ttl [OF dnslib_std_ok q, of ?item "unix_epoch + 299600000000" r] r l by (simp add: nsec_per_sec_def)
  then show ?thesis using r by (simp add: Let_def)
qed

end
