(* ===== verification/Stats.thy ===== *)
theory Stats
  imports Agd_Profile Agd_Server Filter_Types Go_Format Agdnet "HOL-Library.AList"
begin

text \<open>
  The statistics: billing (\<open>internal/billstat\<close>), the hits of filtering rules (\<open>internal/rulestat\<close>) and the anonymous
  database of answers (\<open>internal/dnsdb\<close>).  Uploads are steps of their own, between which requests are recorded; logging,
  metrics and the HTTP side of the uploads are left out.
\<close>

subsection \<open>Billing\<close>

text \<open>The number of queries is a 32-bit integer, whose addition wraps.\<close>

record bill_record =
  br_Time :: time
  br_Country :: string
  br_ASN :: "32 word"
  br_Queries :: "32 word"
  br_Proto :: protocol

type_synonym bill_records = "device_id \<rightharpoonup> bill_record"

definition bill_Record ::
  "device_id \<Rightarrow> string \<Rightarrow> 32 word \<Rightarrow> time \<Rightarrow> protocol \<Rightarrow> bill_records \<Rightarrow> bill_records" where
  "bill_Record i ctry asn start proto records =
     records(i \<mapsto>
       (case records i of
          None \<Rightarrow> \<lparr>br_Time = start, br_Country = ctry, br_ASN = asn, br_Queries = 1, br_Proto = proto\<rparr>
        | Some rec \<Rightarrow>
            rec\<lparr>br_Time := start, br_Country := ctry, br_ASN := asn, br_Queries := br_Queries rec + 1, br_Proto := proto\<rparr>))"

definition resetRecords :: "bill_records \<Rightarrow> bill_records \<times> bill_records" where
  "resetRecords records = (records, Map.empty)"

text \<open>The loop over the devices of the records is independent of their order.\<close>

definition remergeRecords :: "bill_records \<Rightarrow> bill_records \<Rightarrow> bill_records" where
  "remergeRecords records current =
     (\<lambda>i. case records i of
            None \<Rightarrow> current i
          | Some prev \<Rightarrow>
              (case current i of
                 None \<Rightarrow> Some prev
               | Some cur \<Rightarrow> Some (cur\<lparr>br_Queries := br_Queries cur + br_Queries prev\<rparr>)))"

text \<open>
  A refresh takes the records out, uploads them, and merges them back if the upload fails; meanwhile queries go on and other
  refreshes may run.  The state has the records and those that are being uploaded, with the numbers of queries that were
  recorded and uploaded so far for each device.
\<close>

record bill_state =
  bs_records :: bill_records
  bs_uploading :: "bill_records list"
  bs_recorded :: "device_id \<Rightarrow> 32 word"
  bs_uploaded :: "device_id \<Rightarrow> 32 word"

definition queries_of :: "bill_records \<Rightarrow> device_id \<Rightarrow> 32 word" where
  "queries_of records i = (case records i of None \<Rightarrow> 0 | Some rec \<Rightarrow> br_Queries rec)"

inductive bill_step :: "bill_state \<Rightarrow> bill_state \<Rightarrow> bool" where
  bill_query: "bill_step s
     (s\<lparr>bs_records := bill_Record i ctry asn start proto (bs_records s), bs_recorded := (bs_recorded s)(i := bs_recorded s i + 1)\<rparr>)"
| bill_start: "resetRecords (bs_records s) = (records, current) \<Longrightarrow>
     bill_step s (s\<lparr>bs_records := current, bs_uploading := records # bs_uploading s\<rparr>)"
| bill_done: "bs_uploading s = us @ records # vs \<Longrightarrow>
     bill_step s (s\<lparr>bs_uploading := us @ vs, bs_uploaded := (\<lambda>i. bs_uploaded s i + queries_of records i)\<rparr>)"
| bill_failed: "bs_uploading s = us @ records # vs \<Longrightarrow>
     bill_step s (s\<lparr>bs_uploading := us @ vs, bs_records := remergeRecords records (bs_records s)\<rparr>)"

definition bill_init :: bill_state where
  "bill_init = \<lparr>bs_records = Map.empty, bs_uploading = [], bs_recorded = (\<lambda>_. 0), bs_uploaded = (\<lambda>_. 0)\<rparr>"

lemma queries_of_Record: "queries_of (bill_Record i ctry asn start proto rs) j = queries_of rs j + (if j = i then 1 else 0)"
  by (simp add: queries_of_def bill_Record_def split: option.split)

lemma queries_of_remerge: "queries_of (remergeRecords rs cur) i = queries_of cur i + queries_of rs i"
  by (simp add: queries_of_def remergeRecords_def split: option.split)

definition bill_inv :: "bill_state \<Rightarrow> bool" where
  "bill_inv s \<longleftrightarrow>
     (\<forall>i. bs_recorded s i = bs_uploaded s i + queries_of (bs_records s) i + sum_list (map (\<lambda>rs. queries_of rs i) (bs_uploading s)))"

lemma bill_step_inv: "bill_step s s' \<Longrightarrow> bill_inv s \<Longrightarrow> bill_inv s'"
  by (induction rule: bill_step.induct)
    (auto simp: bill_inv_def queries_of_Record queries_of_remerge resetRecords_def queries_of_def [of Map.empty] algebra_simps)

text \<open>
  C19: No query is lost or billed twice.  Whatever the order of queries, uploads, failures and merges, the queries recorded for
  a device are those uploaded with those being uploaded and those kept, up to the width of the counters.
\<close>

theorem billing_conserves_queries:
  assumes "bill_step\<^sup>*\<^sup>* bill_init s"
  shows "bs_recorded s i = bs_uploaded s i + queries_of (bs_records s) i + sum_list (map (\<lambda>rs. queries_of rs i) (bs_uploading s))"
proof -
  have "bill_inv bill_init" by (simp add: bill_inv_def bill_init_def queries_of_def)
  with assms have "bill_inv s" by (induction rule: rtranclp_induct) (auto intro: bill_step_inv)
  then show ?thesis by (simp add: bill_inv_def)
qed

text \<open>A failed upload does not bring back an older time, country or protocol of a device that was active meanwhile.\<close>

lemma remerge_keeps_latest:
  "cur i = Some r \<Longrightarrow> \<exists>r'. remergeRecords rs cur i = Some r' \<and> br_Time r' = br_Time r \<and> br_Country r' = br_Country r \<and>
     br_ASN r' = br_ASN r \<and> br_Proto r' = br_Proto r"
  by (auto simp: remergeRecords_def split: option.split)

theorem billing_conserves_queries_witness:
  "\<exists>s. bill_step\<^sup>*\<^sup>* bill_init s \<and> bs_recorded s ''dev'' = 2 \<and> queries_of (bs_records s) ''dev'' = 2 \<and>
       bs_recorded s ''dev'' = bs_uploaded s ''dev'' + queries_of (bs_records s) ''dev'' +
         sum_list (map (\<lambda>rs. queries_of rs ''dev'') (bs_uploading s))"
proof -
  define r1 where "r1 = bill_Record ''dev'' ''NL'' 1 5 ProtoDoH Map.empty"
  define s1 where "s1 = bill_init\<lparr>bs_records := r1, bs_recorded := (\<lambda>_. 0)(''dev'' := 1)\<rparr>"
  define s2 where "s2 = s1\<lparr>bs_records := Map.empty, bs_uploading := [r1]\<rparr>"
  define s3 where "s3 = s2\<lparr>bs_records := r1, bs_recorded := (\<lambda>_. 0)(''dev'' := 2)\<rparr>"
  define s4 where "s4 = s3\<lparr>bs_uploading := [], bs_records := remergeRecords r1 r1\<rparr>"
  have "bill_step bill_init s1" using bill_query [of bill_init "''dev''" "''NL''" 1 5 ProtoDoH] by (simp add: s1_def r1_def bill_init_def)
  moreover have "bill_step s1 s2" using bill_start [of s1 r1 Map.empty] by (simp add: s2_def s1_def resetRecords_def bill_init_def)
  moreover have "bill_step s2 s3"
    using bill_query [of s2 "''dev''" "''NL''" 1 5 ProtoDoH] by (simp add: s3_def s2_def s1_def r1_def bill_init_def)
  moreover have "bill_step s3 s4" using bill_failed [of s3 "[]" r1 "[]"] by (simp add: s4_def s3_def s2_def)
  ultimately have "bill_step\<^sup>*\<^sup>* bill_init s4" by (meson converse_rtranclp_into_rtranclp rtranclp.rtrancl_refl)
  moreover have "bs_recorded s4 ''dev'' = 2" by (simp add: s4_def s3_def)
  moreover have "queries_of (bs_records s4) ''dev'' = 2"
    by (simp add: s4_def queries_of_remerge) (simp add: r1_def queries_of_Record queries_of_def [of Map.empty])
  ultimately show ?thesis using billing_conserves_queries [of s4 "''dev''"] by blast
qed

subsection \<open>Rule statistics\<close>

definition statFilterListLegacyID :: filter_id where "statFilterListLegacyID = ''15''"

record rule_stats =
  rs_stats :: "filter_id \<rightharpoonup> (rule_text \<rightharpoonup> 64 word)"
  rs_recordedHits :: "64 word"

definition NewHTTP :: rule_stats where
  "NewHTTP = \<lparr>rs_stats = Map.empty, rs_recordedHits = 0\<rparr>"

definition stats_Collect :: "filter_id \<Rightarrow> rule_text \<Rightarrow> rule_stats \<Rightarrow> rule_stats" where
  "stats_Collect i t s =
     (if i \<noteq> IDAdGuardDNS then s
      else (let i = statFilterListLegacyID;
                s = s\<lparr>rs_recordedHits := rs_recordedHits s + 1\<rparr>
            in case rs_stats s i of
                 Some texts \<Rightarrow> s\<lparr>rs_stats := (rs_stats s)(i \<mapsto> texts(t \<mapsto> (case texts t of None \<Rightarrow> 0 | Some n \<Rightarrow> n) + 1))\<rparr>
               | None \<Rightarrow> s\<lparr>rs_stats := (rs_stats s)(i \<mapsto> [t \<mapsto> 1])\<rparr>))"

definition replaceStats :: "rule_stats \<Rightarrow> (filter_id \<rightharpoonup> (rule_text \<rightharpoonup> 64 word)) \<times> rule_stats" where
  "replaceStats s = (rs_stats s, s\<lparr>rs_stats := Map.empty, rs_recordedHits := 0\<rparr>)"

definition hits_of :: "rule_stats \<Rightarrow> rule_text \<Rightarrow> 64 word" where
  "hits_of s t =
     (case rs_stats s statFilterListLegacyID of None \<Rightarrow> 0 | Some texts \<Rightarrow> (case texts t of None \<Rightarrow> 0 | Some n \<Rightarrow> n))"

lemma hits_of_Collect: "hits_of (stats_Collect i t s) t' = hits_of s t' + (if i = IDAdGuardDNS \<and> t = t' then 1 else 0)"
  by (auto simp: hits_of_def stats_Collect_def Let_def split: option.split)

text \<open>
  The statistics are the numbers of hits.  After any sequence of hits, the number for each rule is that of the hits of the rule
  in the main list, up to the width of the counters, and hits of other lists are not counted.
\<close>

theorem rule_hits_counted:
  "hits_of (fold (\<lambda>(i, t). stats_Collect i t) hits NewHTTP) t = of_nat (count_list hits (IDAdGuardDNS, t))"
proof -
  have "hits_of (fold (\<lambda>(i, t). stats_Collect i t) hits s) t = hits_of s t + of_nat (count_list hits (IDAdGuardDNS, t))" for s
    by (induction hits arbitrary: s) (auto simp: hits_of_Collect split: if_splits)
  then show ?thesis by (simp add: hits_of_def NewHTTP_def)
qed

subsection \<open>The database of answers\<close>

record record_key =
  rk_target :: string
  rk_qt :: "16 word"

record record_answer =
  ra_value :: string
  ra_rrType :: "16 word"
  ra_rcode :: "16 word"

record record_value =
  rv_answers :: "record_answer set"
  rv_hits :: "64 word"

record db_buffer =
  db_entries :: "(record_key \<times> record_value) list"
  db_maxSize :: int

text \<open>\<^verbatim>\<open>net.IP.String\<close> of the bytes of an address.\<close>

definition net_ip_string :: "net_ip \<Rightarrow> string" where
  "net_ip_string ip =
     (if ip = [] then ''<nil>''
      else if length ip = 4 then ip_string (Addr4 (word_rcat ip))
      else if length ip = 16 then ip_string (Addr6 (word_rcat ip) [])
      else ''?'' @ concat (map (\<lambda>b. [digit_char (unat b div 16), digit_char (unat b mod 16)]) ip))"

definition answerString :: "rr \<Rightarrow> string" where
  "answerString r =
     (case Data r of
        RD_A ip \<Rightarrow> net_ip_string ip
      | RD_AAAA ip \<Rightarrow> net_ip_string ip
      | RD_CNAME t \<Rightarrow> trim_suffix t ''.''
      | _ \<Rightarrow> [])"

definition toAnswerSet :: "rr list \<Rightarrow> 16 word \<Rightarrow> record_answer set" where
  "toAnswerSet answers rc =
     (\<lambda>a. \<lparr>ra_value = answerString a, ra_rrType = Rrtype (Hdr a), ra_rcode = rc\<rparr>) ` set (filter (\<lambda>a. answerString a \<noteq> []) answers)"

definition buffer_add :: "string \<Rightarrow> rr list \<Rightarrow> 16 word \<Rightarrow> 16 word \<Rightarrow> db_buffer \<Rightarrow> db_buffer" where
  "buffer_add target answers qt rc b =
     (if db_maxSize b \<le> int (length (db_entries b)) then b
      else (let key = \<lparr>rk_target = target, rk_qt = qt\<rparr>
            in case map_of (db_entries b) key of
                 Some prev \<Rightarrow> b\<lparr>db_entries := AList.update key (prev\<lparr>rv_hits := rv_hits prev + 1\<rparr>) (db_entries b)\<rparr>
               | None \<Rightarrow>
                   b\<lparr>db_entries := AList.update key \<lparr>rv_answers = toAnswerSet answers rc, rv_hits = 1\<rparr> (db_entries b)\<rparr>))"

definition isIgnoredMessage :: "msg option \<Rightarrow> bool" where
  "isIgnoredMessage m =
     (case m of
        None \<Rightarrow> True
      | Some m \<Rightarrow> \<not> Response m \<or> length (Question m) \<noteq> 1 \<or> Rcode m \<noteq> RcodeSuccess)"

definition isIgnoredQuestion :: "question \<Rightarrow> bool" where
  "isIgnoredQuestion q \<longleftrightarrow>
     Qtype q \<noteq> TypeA \<and> Qtype q \<noteq> TypeAAAA \<or> AndroidMetricDomainReplacement (q_Name q) \<noteq> []"

definition dnsdb_Record :: "msg option \<Rightarrow> string \<Rightarrow> db_buffer \<Rightarrow> db_buffer" where
  "dnsdb_Record m host b =
     (if isIgnoredMessage m then b
      else (let m = the m; q = question0 m
            in if isIgnoredQuestion q then b else buffer_add host (Answer m) (Qtype q) (word_of_int (Rcode m)) b))"

record db_record =
  rec_target :: string
  rec_answer :: string
  rec_hits :: "64 word"
  rec_rrType :: "16 word"
  rec_rcode :: "16 word"

text \<open>The records of a buffer, as a set, since the order of iteration is not determined.\<close>

definition entry_records :: "record_key \<times> record_value \<Rightarrow> db_record set" where
  "entry_records e =
     (let (key, val) = e
      in if rv_answers val = {}
         then {\<lparr>rec_target = rk_target key, rec_answer = [], rec_hits = rv_hits val, rec_rrType = rk_qt key, rec_rcode = 0\<rparr>}
         else (\<lambda>a. \<lparr>rec_target = rk_target key, rec_answer = ra_value a, rec_hits = rv_hits val, rec_rrType = ra_rrType a,
                    rec_rcode = ra_rcode a\<rparr>) ` rv_answers val)"

definition buffer_all :: "db_buffer \<Rightarrow> db_record set" where
  "buffer_all b = (\<Union>e \<in> set (db_entries b). entry_records e)"

definition dnsdb_reset :: "db_buffer \<Rightarrow> db_record set \<times> db_buffer" where
  "dnsdb_reset b = (buffer_all b, b\<lparr>db_entries := []\<rparr>)"

text \<open>
  The buffer stays within its size, each pair of a host and a type has one entry, and what it returns are only answers to
  the hosts that were recorded.
\<close>

definition buffer_ok :: "db_buffer \<Rightarrow> bool" where
  "buffer_ok b \<longleftrightarrow> int (length (db_entries b)) \<le> max 0 (db_maxSize b) \<and> distinct (map fst (db_entries b))"

lemma length_update: "length (AList.update k v xs) = (if k \<in> fst ` set xs then length xs else Suc (length xs))"
  by (induction xs) auto

lemma buffer_add_ok: "buffer_ok b \<Longrightarrow> buffer_ok (buffer_add target answers qt rc b)"
  by (auto simp: buffer_ok_def buffer_add_def Let_def length_update distinct_update split: option.split)

text \<open>A full buffer does not change, so that the hits of the records that it has are not counted any more.\<close>

lemma full_buffer_ignores_hits:
  "db_maxSize b \<le> int (length (db_entries b)) \<Longrightarrow> dnsdb_Record m host b = b"
  by (simp add: dnsdb_Record_def buffer_add_def Let_def)

end
