(* ===== verification/Filter_Storage_Laws.thy ===== *)
theory Filter_Storage_Laws
  imports Filter_Storage
begin

text \<open>
  Composite filters over a state with an invariant, the filters in the heap of the storage, and the parts of
  which the storage assembles the filter of a client.
\<close>

subsection \<open>Composite filters and invariants of their state\<close>

definition keeps :: "('s \<Rightarrow> bool) \<Rightarrow> ('q \<Rightarrow> 's \<Rightarrow> 'r \<times> 's) \<Rightarrow> bool" where
  "keeps I flt \<longleftrightarrow> (\<forall>q s. I s \<longrightarrow> I (snd (flt q s)))"

lemma keepsD: "keeps I flt \<Longrightarrow> I s \<Longrightarrow> flt q s = (r, s') \<Longrightarrow> I s'"
  unfolding keeps_def by (metis snd_conv)

definition composite_keeps :: "('s \<Rightarrow> bool) \<Rightarrow> 's composite \<Rightarrow> bool" where
  "composite_keeps I f \<longleftrightarrow>
     (\<forall>custom. co_custom f = Some custom \<longrightarrow> keeps I custom) \<and>
     (\<forall>rl \<in> set (co_ruleLists f) \<union> set (co_customRuleLists f) \<union> set (co_svcLists f). keeps I (rl_Set rl)) \<and>
     (\<forall>rf \<in> set (co_reqFilters f). keeps I rf)"

lemma collect_keeps:
  "\<forall>rl \<in> set rls. keeps I (rl_Set rl) \<Longrightarrow> I s \<Longrightarrow> collect_rule_lists svc q rls c s = (c', s') \<Longrightarrow> I s'"
  by (induction svc q rls c s rule: collect_rule_lists.induct) (auto split: prod.splits option.splits dest: keepsD)

lemma req_rule_lists_keeps:
  "\<forall>rl \<in> set rls. keeps I (rl_Set rl) \<Longrightarrow> I s \<Longrightarrow> req_rule_lists V req q rls c s = (r, c', s') \<Longrightarrow> I s'"
  by (induction V req q rls c s rule: req_rule_lists.induct) (auto split: prod.splits option.splits dest: keepsD)

lemma ruleLists_keeps:
  assumes "composite_keeps I f" "I s" "filterReqWithRuleLists V f req s = (r, s')"
  shows "I s'"
proof -
  let ?base = "common_uf_request (fr_RemoteIP req) (fr_QType req) (fr_Host req) False"
  let ?q = "addClientID (fr_ClientName req) ?base"
  note k = assms(1) [unfolded composite_keeps_def]
  obtain res1 c1 s1 where 1: "filterReqWithCustomFilter V f req ?q newCollector s = (res1, c1, s1)" by (metis prod_cases3)
  have s1: "I s1"
    using 1 assms(2) k by (auto simp: filterReqWithCustomFilter_def Let_def split: option.splits prod.splits dest: keepsD)
  obtain res2 c2 s2 where 2: "filterReqWithCustomRuleLists V f req ?q c1 s1 = (res2, c2, s2)" by (metis prod_cases3)
  have s2: "I s2"
    using 2 s1 k req_rule_lists_keeps [of "co_customRuleLists f" I s1]
    by (auto simp: filterReqWithCustomRuleLists_def split: option.splits prod.splits)
  obtain r3 c3 s3 where 3: "req_rule_lists V req ?base (co_ruleLists f) c2 s2 = (r3, c3, s3)" by (metis prod_cases3)
  have s3: "I s3" using req_rule_lists_keeps [where I = I, OF _ s2 3] k by auto
  obtain c4 s4 where 4: "collect_rule_lists True ?base (co_svcLists f) c3 s3 = (c4, s4)" by fastforce
  have "I s4" using collect_keeps [where I = I, OF _ s3 4] k by auto
  then show ?thesis
    using assms(3) 1 2 3 4 s1 s2 s3 unfolding filterReqWithRuleLists_def Let_def
    by (auto split: sum.splits option.splits)
qed

lemma req_filters_keeps:
  "\<forall>rf \<in> set rfs. keeps I rf \<Longrightarrow> I s \<Longrightarrow> req_filters rfs req s = (r, s') \<Longrightarrow> I s'"
  by (induction rfs req s rule: req_filters.induct) (auto split: prod.splits sum.splits option.splits dest: keepsD)

lemma composite_request_keeps:
  assumes "composite_keeps I f" "I s" "composite_FilterRequest V f req s = (r, s')"
  shows "I s'"
proof -
  obtain rl s1 where rl: "filterReqWithRuleLists V f req s = (rl, s1)" by fastforce
  note s1 = ruleLists_keeps [where I = I, OF assms(1,2) rl]
  obtain rf s2 where rf: "req_filters (co_reqFilters f) req s1 = (rf, s2)" by fastforce
  have "I s2" using req_filters_keeps [where I = I, OF _ s1 rf] assms(1) by (auto simp: composite_keeps_def)
  then show ?thesis
    using assms(3) rl rf s1 by (auto simp: composite_FilterRequest_def split: sum.splits option.splits flt_result.splits if_splits)
qed

lemma filter_hosts_keeps:
  "(\<And>h s r s'. I s \<Longrightarrow> flt h s = (r, s') \<Longrightarrow> I s') \<Longrightarrow> I s \<Longrightarrow> filter_hosts flt hs s = (r, s') \<Longrightarrow> I s'"
  by (induction flt hs s rule: filter_hosts.induct) (auto split: prod.splits sum.splits option.splits)

lemma respRuleLists_keeps:
  assumes "composite_keeps I f" "I s" "filterRespWithRuleLists V f resp host t s = (r, s')"
  shows "I s'"
proof -
  let ?base = "common_uf_request (fs_RemoteIP resp) t host True"
  let ?q = "if co_custom f = None then ?base else addClientID (fs_ClientName resp) ?base"
  note k = assms(1) [unfolded composite_keeps_def]
  obtain u s1 where 1: "(case co_custom f of None \<Rightarrow> (None, s) | Some custom \<Rightarrow> custom ?q s) = (u, s1)" by fastforce
  have s1: "I s1" using 1 assms(2) k by (auto split: option.splits dest: keepsD)
  obtain res2 c2 s2 where 2: "filterRespWithCustomRuleLists V f resp ?q t newCollector s1 = (res2, c2, s2)" by (metis prod_cases3)
  have s2: "I s2"
    using 2 collect_keeps [where I = I, OF _ s1, of "co_customRuleLists f"] k
    by (auto simp: filterRespWithCustomRuleLists_def Let_def split: prod.splits)
  obtain c3 s3 where 3: "collect_rule_lists False ?base (co_ruleLists f) c2 s2 = (c3, s3)" by fastforce
  have s3: "I s3" using collect_keeps [where I = I, OF _ s2 3] k by auto
  obtain c4 s4 where 4: "collect_rule_lists True ?base (co_svcLists f) c3 s3 = (c4, s4)" by fastforce
  have "I s4" using collect_keeps [where I = I, OF _ s3 4] k by auto
  then show ?thesis
    using assms(3) 1 2 3 4 s1 s2 unfolding filterRespWithRuleLists_def Let_def
    by (auto split: sum.splits option.splits prod.splits)
qed

lemma composite_response_keeps:
  assumes k: "composite_keeps I f"
  shows "I s \<Longrightarrow> composite_FilterResponse V f resp s = (r, s') \<Longrightarrow> I s'"
proof -
  have hint: "I s \<Longrightarrow> filterSVCBHint V f resp h s = (r, s') \<Longrightarrow> I s'" for h s r s'
    unfolding filterSVCBHint_def by (erule filter_hosts_keeps [rotated]) (auto dest: respRuleLists_keeps [where I = I, OF k])
  have ans: "I s \<Longrightarrow> filterAnswer V f resp a s = (r, s') \<Longrightarrow> I s'" for a s r s'
    unfolding filterAnswer_def filterHTTPSAnswer_def
    by (auto split: rdata.splits option.splits dest: respRuleLists_keeps [where I = I, OF k]
        elim: filter_hosts_keeps [of I, rotated] intro: hint)
  have "I s \<Longrightarrow> filter_answers V f resp as s = (r, s') \<Longrightarrow> I s'" for as
    by (induction as arbitrary: s) (auto split: prod.splits sum.splits option.splits dest: ans)
  then show "I s \<Longrightarrow> composite_FilterResponse V f resp s = (r, s') \<Longrightarrow> I s'"
    by (simp add: composite_FilterResponse_def)
qed

text \<open>A result of the request filters comes from one of them, in a state in which the invariant holds.\<close>

lemma req_filters_source_inv:
  assumes "\<forall>rf \<in> set rfs. keeps I rf" "I s" "req_filters rfs req s = (Inr (Some r), s')"
  shows "\<exists>rf \<in> set rfs. \<exists>s. I s \<and> fst (rf req s) = Inr (Some r)"
  using assms
proof (induction rfs arbitrary: s)
  case (Cons rf rfs)
  obtain res s1 where rf: "rf req s = (res, s1)" by fastforce
  have s1: "I s1" by (rule keepsD [where flt = rf and I = I, OF _ Cons.prems(2) rf]) (use Cons.prems(1) in simp)
  have here: "fst (rf req s) = res" using rf by simp
  show ?case
  proof (cases "res = Inr None")
    case True
    then have "req_filters rfs req s1 = (Inr (Some r), s')" using Cons.prems(3) rf by simp
    then show ?thesis using Cons.IH s1 Cons.prems(1) by auto
  next
    case False
    then have "res = Inr (Some r)" using Cons.prems(3) rf by (auto split: sum.splits option.splits)
    then show ?thesis using here Cons.prems(2) by auto
  qed
qed simp


subsection \<open>The filters of the heap\<close>

text \<open>A result that a filter with the identifier \<open>i\<close> may give or cache.\<close>

definition id_result :: "filter_id \<Rightarrow> flt_result option \<Rightarrow> bool" where
  "id_result i v \<longleftrightarrow> modified_result v \<and> (\<forall>x. v = Some x \<longrightarrow> fst (MatchedRule x) = i)"

definition ts_ok :: "(time \<Rightarrow> 'd \<Rightarrow> cache_key \<rightharpoonup> flt_result option) \<Rightarrow> 'd typosquatting_filter \<Rightarrow> bool" where
  "ts_ok live f \<longleftrightarrow> agdcache.entries_sat live (\<lambda>k. id_result (ts_id f)) (ts_resCache f)"

lemma rule_outcome_id: "rule_outcome rule (Inr v) \<Longrightarrow> (\<And>p. rule = Some p \<Longrightarrow> fst p = i) \<Longrightarrow> id_result i v"
  unfolding rule_outcome_def rule_result_def id_result_def by simp blast

lemma CloneModifiedResult_id: "id_result i v \<Longrightarrow> CloneModifiedResult L newId req v = Inr v' \<Longrightarrow> id_result i v'"
  using CloneModifiedResult_outcome [of "map_option MatchedRule v" v L newId req]
  by (cases v) (auto simp: id_result_def rule_result_def rule_outcome_def)

lemma set_replaced_id:
  assumes C: "agdcache C live" and sat: "agdcache.entries_sat live (\<lambda>k. id_result i) c"
    and r: "set_replaced L C newId now k replCons req i matched fam c = (res, c')"
  shows "agdcache.entries_sat live (\<lambda>k. id_result i) c'" and "res = Inr v \<Longrightarrow> id_result i v"
proof -
  have none: "id_result i None" by (simp add: id_result_def modified_result_def)
  have some: "id_result i (Some x)" "cached_modified_result newId x = Inr x' \<Longrightarrow> id_result i (Some x')"
    if "repl_New L replCons req i m fam = Inr x" for m x x'
    using repl_New_cached(1) [OF that] repl_New_cached(2) [OF that, of newId] by (auto simp: id_result_def rule_result_def)
  have "agdcache.entries_sat live (\<lambda>k. id_result i) c' \<and> (\<forall>v. res = Inr v \<longrightarrow> id_result i v)"
    using r sat none some agdcache.entries_sat_set [OF C sat]
    by (auto simp: set_replaced_def split: option.splits sum.splits)
  then show "agdcache.entries_sat live (\<lambda>k. id_result i) c'" and "res = Inr v \<Longrightarrow> id_result i v" by auto
qed

lemma ts_FilterRequest_ok:
  assumes C: "agdcache C live" and ok: "ts_ok live f"
    and r: "ts_FilterRequest L E row C newId now req f = (res, f')"
  shows "ts_ok live f'" and "res = Inr v \<Longrightarrow> id_result (ts_id f) v" and "ts_id f' = ts_id f"
proof -
  have none: "id_result i None" for i by (simp add: id_result_def modified_result_def)
  have sat: "agdcache.entries_sat live (\<lambda>k. id_result (ts_id f)) (ts_resCache f)" using ok by (simp add: ts_ok_def)
  obtain fam fl where fam: "IsFilterable (ne_famOf E) (fr_QType req) = (fam, fl)" by fastforce
  show "ts_id f' = ts_id f"
    using r by (auto simp: ts_FilterRequest_def Let_def split: if_splits prod.splits bool.splits option.splits sum.splits)
  have "ts_ok live f' \<and> (\<forall>v. res = Inr v \<longrightarrow> id_result (ts_id f) v)"
  proof (cases "ts_protectedByLen f = [] \<or> \<not> fl")
    case True
    then have "(res, f') = (Inr None, f)" using r fam by (auto simp: ts_FilterRequest_def split: if_splits)
    then show ?thesis using ok none by simp
  next
    case False
    define etld1 where "etld1 = (case EffectiveTLDPlusOne (ne_publicSuffix E) (fr_Host req) of Inl _ \<Rightarrow> fr_Host req | Inr d \<Rightarrow> d)"
    define k where "k = NewCacheKey etld1 (fr_QType req) (fr_QClass req) False"
    obtain it c where get: "ci_Get C now k (ts_resCache f) = (it, c)" by fastforce
    have sat': "agdcache.entries_sat live (\<lambda>k. id_result (ts_id f)) c"
      using agdcache.entries_sat_get [OF C sat, of now k] get by simp
    have hit: "id_result (ts_id f) x" if "it = Some x" for x
      using agdcache.get_sat [OF C sat, of now k x c] get that by simp
    define m where "m = map_option pd_Domain (if etld1 \<in> ts_exceptions f then None else matchProtectedDomain row etld1 (ts_protectedByLen f))"
    obtain res2 c2 where s: "set_replaced L C newId now k (ts_replCons f) req (ts_id f) m fam c = (res2, c2)" by fastforce
    have "(res, f') = (case it of Some x \<Rightarrow> (CloneModifiedResult L newId (fr_DNS req) x, f\<lparr>ts_resCache := c\<rparr>)
        | None \<Rightarrow> (res2, f\<lparr>ts_resCache := c2\<rparr>))"
      using r fam False get s
      by (auto simp: ts_FilterRequest_def Let_def k_def [symmetric] etld1_def [symmetric] m_def [symmetric] split: option.splits)
    then show ?thesis
      using sat' hit set_replaced_id [OF C sat' s] CloneModifiedResult_id [of "ts_id f"]
      by (auto simp: ts_ok_def split: option.splits)
  qed
  then show "ts_ok live f'" and "res = Inr v \<Longrightarrow> id_result (ts_id f) v" by auto
qed

definition heap_ok ::
  "('g, 'c, 'd) filters_env \<Rightarrow> (time \<Rightarrow> 'd \<Rightarrow> cache_key \<rightharpoonup> flt_result option) \<Rightarrow> ('g, 'c, 'd) flt_heap \<Rightarrow> bool" where
  "heap_ok N live s \<longleftrightarrow>
     (\<forall>f \<in> set (fh_domain s). df_ok (ev_E N) live f) \<and> (\<forall>f \<in> set (fh_hash s). hp_ok (ev_E N) live f) \<and>
     (\<forall>f \<in> set (fh_typo s). ts_ok live f)"

text \<open>What no request changes: the identifiers of the filters, the lists of categories, and the time.\<close>

definition heap_ids :: "('g, 'c, 'd) flt_heap \<Rightarrow>
  (filter_id \<times> blocked_service_id) list \<times> (filter_id \<times> category_id \<times> string set option \<times> nat) list \<times> filter_id list \<times> filter_id list" where
  "heap_ids s =
     (map (\<lambda>f. (bf_id f, bf_svcID f)) (fh_rules s),
      map (\<lambda>f. (df_resListID f, df_catID f, df_domains f, df_subDomainNum f)) (fh_domain s),
      map hp_id (fh_hash s), map ts_id (fh_typo s))"

lemma list_update_all: "(h < length xs \<Longrightarrow> P f) \<Longrightarrow> \<forall>x \<in> set xs. P x \<Longrightarrow> \<forall>x \<in> set (xs[h := f]). P x"
  by (cases "h < length xs") (auto simp: list_update_beyond dest!: set_update_subset_insert [THEN subsetD])

lemma map_update_same: "(h < length xs \<Longrightarrow> g f = g (xs ! h)) \<Longrightarrow> map g (xs[h := f]) = map g xs"
  by (cases "h < length xs") (simp_all add: map_update list_update_beyond list_update_same_conv)

lemma SetURLFilterResult_ids:
  "bf_id (snd (SetURLFilterResult U C now req f)) = bf_id f"
  "bf_svcID (snd (SetURLFilterResult U C now req f)) = bf_svcID f"
  by (simp_all add: SetURLFilterResult_def Let_def split: option.split prod.split)

text \<open>The filters in the heap keep its invariant.\<close>

definition request_inv ::
  "('g, 'c, 'd) filters_env \<Rightarrow> (time \<Rightarrow> 'd \<Rightarrow> cache_key \<rightharpoonup> flt_result option) \<Rightarrow> ('g, 'c, 'd) flt_heap \<Rightarrow> ('g, 'c, 'd) flt_heap \<Rightarrow> bool" where
  "request_inv N live s0 s \<longleftrightarrow> heap_ok N live s \<and> heap_ids s = heap_ids s0 \<and> fh_now s = fh_now s0 \<and> fh_files s = fh_files s0"

lemma rules_ref_keeps: "keeps (request_inv N live s0) (rl_Set (rules_ref N s1 h))"
  unfolding keeps_def
proof (intro allI impI)
  fix q s assume I: "request_inv N live s0 s"
  obtain r f where r: "SetURLFilterResult (ev_U N) (ev_C N) (fh_now s) q (fh_rules s ! h) = (r, f)" by fastforce
  then show "request_inv N live s0 (snd (rl_Set (rules_ref N s1 h) q s))"
    using I SetURLFilterResult_ids [of "ev_U N" "ev_C N" "fh_now s" q "fh_rules s ! h"]
    by (auto simp: rules_ref_def request_inv_def heap_ok_def heap_ids_def map_update_same [where g = "\<lambda>f. (bf_id f, bf_svcID f)"])
qed

lemma custom_ref_keeps: "keeps I (custom_ref N rules)"
  by (simp add: keeps_def custom_ref_def)

lemma domain_ref_keeps:
  fixes N :: "('g, 'c, 'd) filters_env"
  assumes "agdcache (ev_D N) live"
  shows "keeps (request_inv N live s0) (domain_ref N h)"
  unfolding keeps_def
proof (intro allI impI)
  fix q s assume I: "request_inv N live s0 s"
  obtain r f where r: "df_FilterRequest (ev_E N) (ev_D N) (fh_now s) q (fh_domain s ! h) = (r, f)" by fastforce
  let ?g = "\<lambda>f :: 'd domain_filter. (df_resListID f, df_catID f, df_domains f, df_subDomainNum f)"
  have all: "\<forall>x \<in> set ((fh_domain s)[h := f]). df_ok (ev_E N) live x"
    using df_FilterRequest_ok(2) [OF assms, of "ev_E N" "fh_domain s ! h" "fh_now s" q] r I
    by (intro list_update_all) (simp_all add: request_inv_def heap_ok_def)
  have ids: "map ?g ((fh_domain s)[h := f]) = map ?g (fh_domain s)"
    by (rule map_update_same) (use df_FilterRequest_fields [of "ev_E N" "ev_D N" "fh_now s" q "fh_domain s ! h"] r in simp)
  show "request_inv N live s0 (snd (domain_ref N h q s))"
    using I all ids r by (simp add: domain_ref_def request_inv_def heap_ok_def heap_ids_def)
qed

lemma hash_ref_keeps:
  assumes "agdcache (ev_D N) live"
  shows "keeps (request_inv N live s0) (hash_ref N h)"
  unfolding keeps_def
proof (intro allI impI)
  fix q s assume I: "request_inv N live s0 s"
  obtain r f where r: "hp_FilterRequest (fv_L (ev_V N)) (ev_E N) (ev_D N) (ev_newId N) (fh_now s) q (fh_hash s ! h) = (r, f)" by fastforce
  have all: "\<forall>x \<in> set ((fh_hash s)[h := f]). hp_ok (ev_E N) live x"
    using hp_FilterRequest_ok(2) [OF assms, of "ev_E N" "fh_hash s ! h" "fv_L (ev_V N)" "ev_newId N" "fh_now s" q] r I
    by (intro list_update_all) (simp_all add: request_inv_def heap_ok_def)
  have ids: "map hp_id ((fh_hash s)[h := f]) = map hp_id (fh_hash s)"
    by (rule map_update_same)
      (use hp_FilterRequest_fields(2) [of "fv_L (ev_V N)" "ev_E N" "ev_D N" "ev_newId N" "fh_now s" q "fh_hash s ! h"] r in simp)
  show "request_inv N live s0 (snd (hash_ref N h q s))"
    using I all ids r by (simp add: hash_ref_def request_inv_def heap_ok_def heap_ids_def)
qed

lemma typo_ref_keeps:
  assumes "agdcache (ev_D N) live"
  shows "keeps (request_inv N live s0) (typo_ref N h)"
  unfolding keeps_def
proof (intro allI impI)
  fix q s assume I: "request_inv N live s0 s"
  obtain r f where r: "ts_FilterRequest (fv_L (ev_V N)) (ev_E N) (ev_row N) (ev_D N) (ev_newId N) (fh_now s) q (fh_typo s ! h) = (r, f)"
    by fastforce
  have typos: "\<forall>x \<in> set (fh_typo s). ts_ok live x" using I by (simp add: request_inv_def heap_ok_def)
  then have ok: "ts_ok live (fh_typo s ! h)" if "h < length (fh_typo s)" using that by simp
  have all: "\<forall>x \<in> set ((fh_typo s)[h := f]). ts_ok live x"
    by (rule list_update_all [OF ts_FilterRequest_ok(1) [OF assms ok r] typos])
  have ids: "map ts_id ((fh_typo s)[h := f]) = map ts_id (fh_typo s)"
    by (rule map_update_same [OF ts_FilterRequest_ok(3) [OF assms ok r]])
  show "request_inv N live s0 (snd (typo_ref N h q s))"
    using I all ids r by (simp add: typo_ref_def request_inv_def heap_ok_def heap_ids_def)
qed


subsection \<open>The parts of an assembled filter\<close>

definition parental_active :: "config_parental \<Rightarrow> time \<Rightarrow> bool" where
  "parental_active c now \<longleftrightarrow>
     par_Enabled c \<and> \<not> (case PauseSchedule c of None \<Rightarrow> False | Some pause \<Rightarrow> schedule_Contains pause now)"

definition enabled_opt :: "bool \<Rightarrow> 'a option \<Rightarrow> 'a option" where
  "enabled_opt b x = (if b then x else None)"

definition cat_handles :: "('c, 'd) flt_storage \<Rightarrow> config_categories \<Rightarrow> nat list" where
  "cat_handles st c =
     (if cat_Enabled c then List.map_filter (\<lambda>i. case st_domainFilters st i of Some h \<Rightarrow> h | None \<Rightarrow> None) (cat_IDs c) else [])"

definition list_handles :: "'c rl_storage \<Rightarrow> config_rule_list \<Rightarrow> nat list" where
  "list_handles rls c = (if rlist_Enabled c then List.map_filter (\<lambda>i. map_option rd_refr (prevRuleList rls i)) (rlc_IDs c) else [])"

definition svc_handles :: "('c, 'd) flt_storage \<Rightarrow> config_parental \<Rightarrow> nat list" where
  "svc_handles st c = (case st_services st of None \<Rightarrow> [] | Some sb \<Rightarrow> List.map_filter (sb_services sb) (BlockedServices c))"

lemma AppendForListIDs_handles:
  "AppendForListIDs s orig ids = orig @ List.map_filter (\<lambda>i. map_option rd_refr (prevRuleList s i)) ids"
  unfolding AppendForListIDs_def
  by (induction ids arbitrary: orig) (auto simp: map_filter_simps prevRuleList_def split: option.splits)

lemma svc_RuleLists_handles: "svc_RuleLists f ids = List.map_filter (sb_services f) ids"
proof -
  have "fold (\<lambda>i rls. case sb_services f i of None \<Rightarrow> rls | Some rl \<Rightarrow> rls @ [rl]) ids orig =
      orig @ List.map_filter (sb_services f) ids" for orig
    by (induction ids arbitrary: orig) (auto simp: map_filter_simps split: option.splits)
  then show ?thesis by (simp add: svc_RuleLists_def map_filter_simps)
qed

lemma setDomainFilters_eq:
  "setDomainFilters N st c cc = cc\<lparr>cc_CategoryFilters := cc_CategoryFilters cc @ map (domain_ref N) (cat_handles st c)\<rparr>"
proof -
  have "fold (\<lambda>i cc. case st_domainFilters st i of
                    Some (Some h) \<Rightarrow> cc\<lparr>cc_CategoryFilters := cc_CategoryFilters cc @ [domain_ref N h]\<rparr>
                  | _ \<Rightarrow> cc) ids cc =
      cc\<lparr>cc_CategoryFilters := cc_CategoryFilters cc @
        map (domain_ref N) (List.map_filter (\<lambda>i. case st_domainFilters st i of Some h \<Rightarrow> h | None \<Rightarrow> None) ids)\<rparr>" for ids
    by (induction ids arbitrary: cc) (auto simp: map_filter_simps split: option.splits)
  then show ?thesis by (simp add: setDomainFilters_def cat_handles_def map_filter_simps)
qed

lemma setParental_eq:
  "setParental N s st c empty_comp_config =
     (if parental_active c (fh_now s)
      then empty_comp_config
        \<lparr>cc_AdultBlocking := map_option (hash_ref N) (enabled_opt (AdultBlockingEnabled c) (st_adult st)),
         cc_GeneralSafeSearch := map_option (rules_ref N s) (enabled_opt (SafeSearchGeneralEnabled c) (map_option snd (st_safeSearchGeneral st))),
         cc_YouTubeSafeSearch := map_option (rules_ref N s) (enabled_opt (SafeSearchYouTubeEnabled c) (map_option snd (st_safeSearchYouTube st))),
         cc_CategoryFilters := map (domain_ref N) (cat_handles st (par_Categories c)),
         cc_ServiceLists := map (rules_ref N s) (svc_handles st c)\<rparr>
      else empty_comp_config)"
proof (cases "parental_active c (fh_now s)")
  case True
  then have "setParental N s st c empty_comp_config = setEnabledParental N s st c empty_comp_config"
    by (simp add: setParental_def parental_active_def)
  also have "\<dots> = empty_comp_config
        \<lparr>cc_AdultBlocking := map_option (hash_ref N) (enabled_opt (AdultBlockingEnabled c) (st_adult st)),
         cc_GeneralSafeSearch := map_option (rules_ref N s) (enabled_opt (SafeSearchGeneralEnabled c) (map_option snd (st_safeSearchGeneral st))),
         cc_YouTubeSafeSearch := map_option (rules_ref N s) (enabled_opt (SafeSearchYouTubeEnabled c) (map_option snd (st_safeSearchYouTube st))),
         cc_CategoryFilters := map (domain_ref N) (cat_handles st (par_Categories c)),
         cc_ServiceLists := map (rules_ref N s) (svc_handles st c)\<rparr>"
    by (simp add: setEnabledParental_def setDomainFilters_eq empty_comp_config_def enabled_opt_def svc_handles_def
        svc_RuleLists_handles map_filter_simps Let_def split: option.split prod.split)
  finally show ?thesis using True by simp
qed (auto simp: setParental_def parental_active_def)

definition opt_list :: "'a option \<Rightarrow> 'a list" where
  "opt_list x = (case x of None \<Rightarrow> [] | Some y \<Rightarrow> [y])"

lemma opt_list_None [simp]: "opt_list None = []"
  by (simp add: opt_list_def)

lemma appendIfNotNil_eq: "appendIfNotNil x fs = fs @ opt_list x"
  by (simp add: appendIfNotNil_def opt_list_def split: option.split)

lemma fold_append_filters: "fold (\<lambda>df. appendIfNotNil (Some df)) dfs fs = fs @ dfs"
  by (induction dfs arbitrary: fs) (simp_all add: appendIfNotNil_def)

lemma setCustomRuleLists_eq:
  "setCustomRuleLists N s st c cc =
     cc\<lparr>cc_CustomRuleLists := cc_CustomRuleLists cc @ map (rules_ref N s) (list_handles (st_ruleListStorage st) c)\<rparr>"
  by (auto simp: setCustomRuleLists_def AppendForListIDs_handles list_handles_def map_filter_simps)

lemma setRuleLists_eq:
  "setRuleLists N s st c cc =
     cc\<lparr>cc_RuleLists := cc_RuleLists cc @ map (rules_ref N s) (list_handles (st_ruleListStorage st) c)\<rparr>"
  by (auto simp: setRuleLists_def AppendForListIDs_handles list_handles_def map_filter_simps)

lemma setSafeBrowsing_eq:
  assumes "cc_SafeBrowsing cc = None" "cc_NewRegisteredDomains cc = None" "cc_Typosquatting cc = None"
  shows "setSafeBrowsing N st c cc =
     cc\<lparr>cc_SafeBrowsing := map_option (hash_ref N) (enabled_opt (sb_Enabled c \<and> DangerousDomainsEnabled c) (st_dangerous st)),
        cc_NewRegisteredDomains := map_option (hash_ref N) (enabled_opt (sb_Enabled c \<and> NewlyRegisteredDomainsEnabled c) (st_newlyRegistered st)),
        cc_Typosquatting := map_option (typo_ref N) (enabled_opt (sb_Enabled c \<and> TyposquattingEnabled c = Some True) (st_typosquatting st))\<rparr>"
  using assms by (cases cc) (simp add: setSafeBrowsing_def enabled_opt_def Let_def split: option.split)

lemma map_opt_list: "opt_list (map_option g x) = map g (opt_list x)"
  by (cases x) (simp_all add: opt_list_def)

text \<open>The request filters of a client, in the order in which they are asked.\<close>

definition client_req_filters ::
  "('g, 'c, 'd) filters_env \<Rightarrow> ('g, 'c, 'd) flt_heap \<Rightarrow> ('c, 'd) flt_storage \<Rightarrow> config_client \<Rightarrow> ('g, 'c, 'd) flt_heap req_filter list" where
  "client_req_filters N s st c =
     (let p = cl_Parental c; b = cl_SafeBrowsing c; act = parental_active p (fh_now s)
      in map (hash_ref N) (opt_list (enabled_opt (sb_Enabled b \<and> DangerousDomainsEnabled b) (st_dangerous st))) @
         map (hash_ref N) (opt_list (enabled_opt (act \<and> AdultBlockingEnabled p) (st_adult st))) @
         map (ufRequestFilter (ev_V N) \<circ> rules_ref N s)
           (opt_list (enabled_opt (act \<and> SafeSearchGeneralEnabled p) (map_option snd (st_safeSearchGeneral st))) @
            opt_list (enabled_opt (act \<and> SafeSearchYouTubeEnabled p) (map_option snd (st_safeSearchYouTube st)))) @
         map (hash_ref N) (opt_list (enabled_opt (sb_Enabled b \<and> NewlyRegisteredDomainsEnabled b) (st_newlyRegistered st))) @
         map (domain_ref N) (if act then cat_handles st (par_Categories p) else []) @
         map (typo_ref N) (opt_list (enabled_opt (sb_Enabled b \<and> TyposquattingEnabled b = Some True) (st_typosquatting st))))"

lemma forClient_eq:
  "forClient N s st c =
     \<lparr>co_custom = (if cf_Enabled (CustomFilter c) then Some (custom_ref N (cf_Rules (CustomFilter c))) else None),
      co_ruleLists = map (rules_ref N s) (list_handles (st_ruleListStorage st) (cl_RuleList c)),
      co_customRuleLists = map (rules_ref N s) (list_handles (st_ruleListStorage st) (CustomRuleList c)),
      co_svcLists = map (rules_ref N s) (if parental_active (cl_Parental c) (fh_now s) then svc_handles st (cl_Parental c) else []),
      co_reqFilters = client_req_filters N s st c\<rparr>"
  unfolding forClient_def setParental_eq Let_def
  by (cases "parental_active (cl_Parental c) (fh_now s)")
    (simp_all add: setCustomRuleLists_eq setRuleLists_eq setSafeBrowsing_eq
      composite_New_def empty_comp_config_def Let_def appendIfNotNil_eq fold_append_filters client_req_filters_def enabled_opt_def
      map_opt_list option.map_comp comp_assoc)

text \<open>A group is a client without rules of its own.\<close>

definition client_of_group :: "config_group \<Rightarrow> config_client" where
  "client_of_group c =
     \<lparr>CustomFilter = \<lparr>cf_Rules = [], cf_Enabled = False\<rparr>, CustomRuleList = \<lparr>rlc_IDs = [], rlist_Enabled = False\<rparr>,
      cl_Parental = gr_Parental c, cl_RuleList = gr_RuleList c, cl_SafeBrowsing = gr_SafeBrowsing c\<rparr>"

lemma forGroup_client: "forGroup N s st c = forClient N s st (client_of_group c)"
  by (simp add: forGroup_def forClient_def client_of_group_def setCustomRuleLists_def Let_def)

end
