(* ===== verification/Filter_Enabled.thy ===== *)
theory Filter_Enabled
  imports Filter_Storage_Laws
begin

text \<open>
  Properties of the storage of filters: the identifiers of the filters that the storage keeps are those under
  which it keeps them, however refreshes and requests follow each other; the result of an assembled filter comes
  from a filter that the configuration enables; and what the enabled categories list is not let through.
\<close>

subsection \<open>Well-formed storages\<close>

definition rule_at :: "('g, 'c, 'd) flt_heap \<Rightarrow> nat \<Rightarrow> filter_id \<times> blocked_service_id \<Rightarrow> bool" where
  "rule_at s h p \<longleftrightarrow> h < length (fh_rules s) \<and> (bf_id (fh_rules s ! h), bf_svcID (fh_rules s ! h)) = p"

definition domain_at :: "('g, 'c, 'd) flt_heap \<Rightarrow> nat \<Rightarrow> category_id \<Rightarrow> bool" where
  "domain_at s h i \<longleftrightarrow> h < length (fh_domain s) \<and> df_resListID (fh_domain s ! h) = IDCategory \<and> df_catID (fh_domain s ! h) = i"

definition hash_at :: "('g, 'c, 'd) flt_heap \<Rightarrow> nat \<Rightarrow> filter_id \<Rightarrow> bool" where
  "hash_at s h i \<longleftrightarrow> h < length (fh_hash s) \<and> hp_id (fh_hash s ! h) = i"

definition typo_at :: "('g, 'c, 'd) flt_heap \<Rightarrow> nat \<Rightarrow> filter_id \<Rightarrow> bool" where
  "typo_at s h i \<longleftrightarrow> h < length (fh_typo s) \<and> ts_id (fh_typo s ! h) = i"

text \<open>Each filter of the storage is in the heap, with the identifier under which the storage has it.\<close>

definition storage_wf :: "('c, 'd) flt_storage \<Rightarrow> ('g, 'c, 'd) flt_heap \<Rightarrow> bool" where
  "storage_wf st s \<longleftrightarrow>
     (\<forall>i d. prevRuleList (st_ruleListStorage st) i = Some d \<longrightarrow> rule_at s (rd_refr d) (i, [])) \<and>
     (\<forall>sb i h. st_services st = Some sb \<longrightarrow> sb_services sb i = Some h \<longrightarrow> i \<noteq> [] \<and> rule_at s h (IDBlockedService, i)) \<and>
     (\<forall>i h. prevDomainFilter st i = Some h \<longrightarrow> domain_at s h i) \<and>
     (\<forall>h. st_adult st = Some h \<longrightarrow> hash_at s h IDAdultBlocking) \<and>
     (\<forall>h. st_dangerous st = Some h \<longrightarrow> hash_at s h IDSafeBrowsing) \<and>
     (\<forall>h. st_newlyRegistered st = Some h \<longrightarrow> hash_at s h IDNewRegDomains) \<and>
     (\<forall>rc h. st_safeSearchGeneral st = Some (rc, h) \<longrightarrow> rule_at s h (IDGeneralSafeSearch, [])) \<and>
     (\<forall>rc h. st_safeSearchYouTube st = Some (rc, h) \<longrightarrow> rule_at s h (IDYoutubeSafeSearch, [])) \<and>
     (\<forall>h. st_typosquatting st = Some h \<longrightarrow> typo_at s h IDTyposquatting)"

lemma storage_wfD:
  assumes "storage_wf st s"
  shows "prevRuleList (st_ruleListStorage st) i = Some d \<Longrightarrow> rule_at s (rd_refr d) (i, [])"
    and "st_services st = Some sb \<Longrightarrow> sb_services sb i = Some h \<Longrightarrow> i \<noteq> [] \<and> rule_at s h (IDBlockedService, i)"
    and "prevDomainFilter st i = Some h \<Longrightarrow> domain_at s h i"
    and "st_adult st = Some h \<Longrightarrow> hash_at s h IDAdultBlocking"
    and "st_dangerous st = Some h \<Longrightarrow> hash_at s h IDSafeBrowsing"
    and "st_newlyRegistered st = Some h \<Longrightarrow> hash_at s h IDNewRegDomains"
    and "st_safeSearchGeneral st = Some (rc, h) \<Longrightarrow> rule_at s h (IDGeneralSafeSearch, [])"
    and "st_safeSearchYouTube st = Some (rc, h) \<Longrightarrow> rule_at s h (IDYoutubeSafeSearch, [])"
    and "st_typosquatting st = Some h \<Longrightarrow> typo_at s h IDTyposquatting"
  using assms by (simp_all add: storage_wf_def)

text \<open>
  The identifier and rule of a result come from a feature that the configuration enables: the user's rules,
  the chosen lists, the parental features outside of the pause, and safe browsing.
\<close>

definition enabled_source :: "config_client \<Rightarrow> time \<Rightarrow> filter_id \<times> rule_text \<Rightarrow> bool" where
  "enabled_source c now p \<longleftrightarrow>
     (let par = cl_Parental c; b = cl_SafeBrowsing c
      in cf_Enabled (CustomFilter c) \<and> fst p = IDCustom \<or>
         rlist_Enabled (CustomRuleList c) \<and> fst p \<in> set (rlc_IDs (CustomRuleList c)) \<or>
         rlist_Enabled (cl_RuleList c) \<and> fst p \<in> set (rlc_IDs (cl_RuleList c)) \<or>
         parental_active par now \<and>
           (fst p = IDBlockedService \<and> snd p \<in> set (BlockedServices par) \<or>
            AdultBlockingEnabled par \<and> fst p = IDAdultBlocking \<or>
            SafeSearchGeneralEnabled par \<and> fst p = IDGeneralSafeSearch \<or>
            SafeSearchYouTubeEnabled par \<and> fst p = IDYoutubeSafeSearch \<or>
            cat_Enabled (par_Categories par) \<and> fst p = IDCategory \<and> snd p \<in> set (cat_IDs (par_Categories par))) \<or>
         sb_Enabled b \<and>
           (DangerousDomainsEnabled b \<and> fst p = IDSafeBrowsing \<or>
            NewlyRegisteredDomainsEnabled b \<and> fst p = IDNewRegDomains \<or>
            TyposquattingEnabled b = Some True \<and> fst p = IDTyposquatting))"

lemma ProcessDNSRewrites_id:
  "ProcessDNSRewrites L S req rws i = Some r \<Longrightarrow> fst (MatchedRule r) = i \<and> modified_result (Some r)"
  by (auto simp: ProcessDNSRewrites_def modified_result_def Let_def split: if_splits sum.splits)

lemma ufRequestFilter_id:
  "fst (ufRequestFilter V flt req s) = Inr (Some r) \<Longrightarrow> fst (MatchedRule r) = fst (rl_ID flt) \<and> modified_result (Some r)"
  by (auto simp: ufRequestFilter_def FilterRequestUF_def replaceRule_def modified_result_def Let_def
      split: if_splits prod.splits option.splits flt_result.splits dest!: ProcessDNSRewrites_id)

lemma map_filter_set: "h \<in> set (List.map_filter g xs) \<longleftrightarrow> (\<exists>x \<in> set xs. g x = Some h)"
  by (induction xs) (auto simp: map_filter_simps split: option.splits)

lemma list_handles_at:
  assumes "storage_wf st s" "h \<in> set (list_handles (st_ruleListStorage st) c)"
  shows "\<exists>i \<in> set (rlc_IDs c). rlist_Enabled c \<and> HasListID (st_ruleListStorage st) i \<and> rule_at s h (i, [])"
proof -
  from assms(2) obtain i d where "i \<in> set (rlc_IDs c)" "rlist_Enabled c" "prevRuleList (st_ruleListStorage st) i = Some d" "rd_refr d = h"
    by (auto simp: list_handles_def map_filter_set split: if_splits)
  moreover from this have "rule_at s h (i, [])" using storage_wfD(1) [OF assms(1)] by blast
  ultimately show ?thesis by (auto simp: HasListID_def prevRuleList_def split: option.splits)
qed

lemma svc_handles_at:
  assumes "storage_wf st s" "h \<in> set (svc_handles st c)"
  shows "\<exists>i \<in> set (BlockedServices c). i \<noteq> [] \<and> rule_at s h (IDBlockedService, i)"
  using assms(2) storage_wfD(2) [OF assms(1)] by (cases "st_services st") (auto simp: svc_handles_def map_filter_set)

lemma cat_handles_at:
  assumes "storage_wf st s" "h \<in> set (cat_handles st c)"
  shows "\<exists>i \<in> set (cat_IDs c). cat_Enabled c \<and> domain_at s h i"
  using assms(2) storage_wfD(3) [OF assms(1)]
  by (auto simp: cat_handles_def map_filter_set prevDomainFilter_def [symmetric] split: if_splits)

lemma rules_ref_ID: "rl_ID (rules_ref N s h) = p \<longleftrightarrow> (bf_id (fh_rules s ! h), bf_svcID (fh_rules s ! h)) = p"
  by (simp add: rules_ref_def)

text \<open>The sources of the rules of an assembled filter.\<close>

lemma forClient_sources:
  assumes wf: "storage_wf st s" and src: "((i, svc), flt) \<in> sources (forClient N s st c)"
    and nb: "\<not> HasListID (st_ruleListStorage st) IDBlockedService"
  shows "i = IDBlockedService \<longrightarrow> svc \<noteq> []"
    and "svc = [] \<or> i = IDBlockedService \<and> svc = t \<Longrightarrow> enabled_source c (fh_now s) (i, t)"
proof -
  have "cf_Enabled (CustomFilter c) \<and> i = IDCustom \<and> svc = [] \<or>
      (\<exists>rc \<in> {CustomRuleList c, cl_RuleList c}. \<exists>h \<in> set (list_handles (st_ruleListStorage st) rc). i = bf_id (fh_rules s ! h) \<and> svc = []) \<or>
      parental_active (cl_Parental c) (fh_now s) \<and>
        (\<exists>h \<in> set (svc_handles st (cl_Parental c)). (i, svc) = (bf_id (fh_rules s ! h), bf_svcID (fh_rules s ! h)))"
    using src by (auto simp: sources_def forClient_eq rules_ref_def split: if_splits)
  then consider (custom) "cf_Enabled (CustomFilter c)" "i = IDCustom" "svc = []"
    | (lists) h rc where "rc \<in> {CustomRuleList c, cl_RuleList c}" "h \<in> set (list_handles (st_ruleListStorage st) rc)"
        "i = bf_id (fh_rules s ! h)" "svc = []"
    | (svcs) h where "parental_active (cl_Parental c) (fh_now s)" "h \<in> set (svc_handles st (cl_Parental c))"
        "(i, svc) = (bf_id (fh_rules s ! h), bf_svcID (fh_rules s ! h))"
    by blast
  then have "(i = IDBlockedService \<longrightarrow> svc \<noteq> []) \<and>
      (svc = [] \<or> i = IDBlockedService \<and> svc = t \<longrightarrow> enabled_source c (fh_now s) (i, t))"
  proof cases
    case custom
    then show ?thesis by (simp add: enabled_source_def IDCustom_def IDBlockedService_def)
  next
    case lists
    then obtain j where "j \<in> set (rlc_IDs rc)" "rlist_Enabled rc" "HasListID (st_ruleListStorage st) j" "rule_at s h (j, [])"
      using list_handles_at [OF wf] by blast
    then show ?thesis using lists nb by (auto simp: enabled_source_def rule_at_def Let_def)
  next
    case svcs
    then show ?thesis using svc_handles_at [OF wf svcs(2)] by (auto simp: enabled_source_def rule_at_def Let_def)
  qed
  then show "i = IDBlockedService \<longrightarrow> svc \<noteq> []"
    and "svc = [] \<or> i = IDBlockedService \<and> svc = t \<Longrightarrow> enabled_source c (fh_now s) (i, t)" by blast+
qed


lemma ufRequestFilter_keeps: "keeps I (rl_Set flt) \<Longrightarrow> keeps I (ufRequestFilter V flt)"
  unfolding keeps_def ufRequestFilter_def FilterRequestUF_def
  by (auto simp: Let_def split: prod.split option.split) (metis snd_conv)+

lemma forClient_keeps:
  assumes "agdcache (ev_D N) live"
  shows "composite_keeps (request_inv N live s0) (forClient N s st c)"
  by (auto simp: composite_keeps_def forClient_eq client_req_filters_def Let_def rules_ref_keeps custom_ref_keeps
      domain_ref_keeps [OF assms] hash_ref_keeps [OF assms] typo_ref_keeps [OF assms] ufRequestFilter_keeps)

lemma heap_ids_at:
  assumes "heap_ids s1 = heap_ids s"
  shows "rule_at s1 h p = rule_at s h p" "domain_at s1 h i = domain_at s h i" "hash_at s1 h i = hash_at s h i" "typo_at s1 h i = typo_at s h i"
proof -
  have len: "length (fh_rules s1) = length (fh_rules s)" "length (fh_domain s1) = length (fh_domain s)"
    "length (fh_hash s1) = length (fh_hash s)" "length (fh_typo s1) = length (fh_typo s)"
    using assms by (auto simp: heap_ids_def dest: map_eq_imp_length_eq)
  have "(bf_id (fh_rules s1 ! h), bf_svcID (fh_rules s1 ! h)) = (bf_id (fh_rules s ! h), bf_svcID (fh_rules s ! h))" if "h < length (fh_rules s)"
    using assms that len(1) nth_map [of h "fh_rules s1" "\<lambda>f. (bf_id f, bf_svcID f)"] nth_map [of h "fh_rules s" "\<lambda>f. (bf_id f, bf_svcID f)"]
    by (simp add: heap_ids_def)
  then show "rule_at s1 h p = rule_at s h p" using len(1) by (auto simp: rule_at_def)
  let ?g = "\<lambda>f. (df_resListID f, df_catID f, df_domains f, df_subDomainNum f)"
  have "?g (fh_domain s1 ! h) = ?g (fh_domain s ! h)" if "h < length (fh_domain s)"
    using assms that len(2) nth_map [of h "fh_domain s1" ?g] nth_map [of h "fh_domain s" ?g] by (simp add: heap_ids_def)
  then show "domain_at s1 h i = domain_at s h i" using len(2) by (auto simp: domain_at_def)
  have "hp_id (fh_hash s1 ! h) = hp_id (fh_hash s ! h)" if "h < length (fh_hash s)"
    using assms that len(3) nth_map [of h "fh_hash s1" hp_id] nth_map [of h "fh_hash s" hp_id] by (simp add: heap_ids_def)
  then show "hash_at s1 h i = hash_at s h i" using len(3) by (auto simp: hash_at_def)
  have "ts_id (fh_typo s1 ! h) = ts_id (fh_typo s ! h)" if "h < length (fh_typo s)"
    using assms that len(4) nth_map [of h "fh_typo s1" ts_id] nth_map [of h "fh_typo s" ts_id] by (simp add: heap_ids_def)
  then show "typo_at s1 h i = typo_at s h i" using len(4) by (auto simp: typo_at_def)
qed

text \<open>The results of the filters at known places of the heap.\<close>

lemma hash_ref_result:
  assumes "agdcache (ev_D N) live" "heap_ok N live s" "hash_at s h i" "fst (hash_ref N h req s) = Inr (Some r)"
  shows "id_result i (Some r)"
proof -
  have hp: "hp_ok (ev_E N) live (fh_hash s ! h)" using assms(2,3) by (simp add: heap_ok_def hash_at_def)
  have "fst (hp_FilterRequest (fv_L (ev_V N)) (ev_E N) (ev_D N) (ev_newId N) (fh_now s) req (fh_hash s ! h)) = Inr (Some r)"
    using assms(4) by (simp add: hash_ref_def split: prod.splits)
  then have "rule_outcome (hp_rule (ev_E N) (fh_hash s ! h) (fr_Host req) (fr_QType req)) (Inr (Some r))"
    using hp_FilterRequest_ok(1) [OF assms(1) hp, of req "fv_L (ev_V N)" "ev_newId N" "fh_now s"] by simp
  then show ?thesis
    by (rule rule_outcome_id) (use assms(3) in \<open>auto simp: hp_rule_def hash_at_def\<close>)
qed

lemma typo_ref_result:
  assumes "agdcache (ev_D N) live" "heap_ok N live s" "typo_at s h i" "fst (typo_ref N h req s) = Inr (Some r)"
  shows "id_result i (Some r)"
proof -
  obtain res f where f: "ts_FilterRequest (fv_L (ev_V N)) (ev_E N) (ev_row N) (ev_D N) (ev_newId N) (fh_now s) req (fh_typo s ! h) = (res, f)"
    by fastforce
  have "ts_ok live (fh_typo s ! h)" using assms(2,3) by (simp add: heap_ok_def typo_at_def)
  then show ?thesis
    using ts_FilterRequest_ok(2) [OF assms(1) _ f, of "Some r"] assms(3,4) f by (simp add: typo_ref_def typo_at_def)
qed

lemma domain_ref_plain:
  assumes "agdcache (ev_D N) live" "heap_ok N live s" "h < length (fh_domain s)"
  shows "fst (domain_ref N h req s) = df_plain (ev_E N) (fh_domain s ! h) (fr_Host req) (fr_QType req)"
  using df_FilterRequest_ok(1) [OF assms(1), of "ev_E N" "fh_domain s ! h" "fh_now s" req] assms(2,3)
  by (auto simp: domain_ref_def heap_ok_def split: prod.splits)

lemma domain_ref_result:
  assumes "agdcache (ev_D N) live" "heap_ok N live s" "domain_at s h i" "fst (domain_ref N h req s) = Inr (Some r)"
  shows "r = ResultBlocked IDCategory i"
  using domain_ref_plain [OF assms(1,2), of h req] assms(3,4)
  by (auto simp: domain_at_def df_plain_def df_result_def split: if_splits option.splits)

lemma opt_list_enabled: "h \<in> set (opt_list (enabled_opt b x)) \<longleftrightarrow> b \<and> x = Some h"
  by (auto simp: opt_list_def enabled_opt_def split: option.splits)

lemma set_if_empty: "h \<in> set (if b then xs else []) \<longleftrightarrow> b \<and> h \<in> set xs"
  by simp

fun allowed_result :: "flt_result \<Rightarrow> bool" where
  "allowed_result (ResultAllowed _ _) = True"
| "allowed_result _ = False"

lemma id_result_not_allowed: "id_result i (Some r) \<Longrightarrow> \<not> allowed_result r"
  by (cases r) (auto simp: id_result_def modified_result_def)

lemma client_req_filters_iff:
  "rf \<in> set (client_req_filters N s st c) \<longleftrightarrow>
     (let p = cl_Parental c; b = cl_SafeBrowsing c; act = parental_active p (fh_now s)
      in (\<exists>h. ((sb_Enabled b \<and> DangerousDomainsEnabled b) \<and> st_dangerous st = Some h) \<and> rf = hash_ref N h) \<or>
         (\<exists>h. ((act \<and> AdultBlockingEnabled p) \<and> st_adult st = Some h) \<and> rf = hash_ref N h) \<or>
         (\<exists>h. ((act \<and> SafeSearchGeneralEnabled p) \<and> map_option snd (st_safeSearchGeneral st) = Some h \<or>
               (act \<and> SafeSearchYouTubeEnabled p) \<and> map_option snd (st_safeSearchYouTube st) = Some h) \<and>
              rf = ufRequestFilter (ev_V N) (rules_ref N s h)) \<or>
         (\<exists>h. ((sb_Enabled b \<and> NewlyRegisteredDomainsEnabled b) \<and> st_newlyRegistered st = Some h) \<and> rf = hash_ref N h) \<or>
         (\<exists>h. (act \<and> h \<in> set (cat_handles st (par_Categories p))) \<and> rf = domain_ref N h) \<or>
         (\<exists>h. ((sb_Enabled b \<and> TyposquattingEnabled b = Some True) \<and> st_typosquatting st = Some h) \<and> rf = typo_ref N h))"
  unfolding client_req_filters_def Let_def
  by (simp only: set_append set_map Un_iff image_iff Bex_def comp_apply opt_list_enabled set_if_empty)

lemma client_req_filters_result:
  assumes C: "agdcache (ev_D N) live" and wf: "storage_wf st s" and I: "request_inv N live s s1"
    and rf: "rf \<in> set (client_req_filters N s st c)" "fst (rf req s1) = Inr (Some r)"
  shows "enabled_source c (fh_now s) (MatchedRule r)" and "\<not> allowed_result r"
proof -
  note at = heap_ids_at [of s1 s]
  have heap: "heap_ok N live s1" "heap_ids s1 = heap_ids s" using I by (simp_all add: request_inv_def)
  have hash: "fst (MatchedRule r) = i \<and> \<not> allowed_result r" if "rf = hash_ref N h" "hash_at s h i" for h i
    using hash_ref_result [OF C heap(1), of h i req r] that rf(2) at(3) [OF heap(2)] id_result_not_allowed [of i r]
    by (auto simp: id_result_def)
  have typo: "fst (MatchedRule r) = i \<and> \<not> allowed_result r" if "rf = typo_ref N h" "typo_at s h i" for h i
    using typo_ref_result [OF C heap(1), of h i req r] that rf(2) at(4) [OF heap(2)] id_result_not_allowed [of i r]
    by (auto simp: id_result_def)
  have dom: "MatchedRule r = (IDCategory, i) \<and> \<not> allowed_result r" if "rf = domain_ref N h" "domain_at s h i" for h i
    using domain_ref_result [OF C heap(1), of h i req r] that rf(2) at(2) [OF heap(2)] by auto
  have ss: "fst (MatchedRule r) = i \<and> \<not> allowed_result r" if "rf = ufRequestFilter (ev_V N) (rules_ref N s h)" "rule_at s h (i, [])" for h i
  proof -
    have "fst (MatchedRule r) = fst (rl_ID (rules_ref N s h)) \<and> modified_result (Some r)"
      by (rule ufRequestFilter_id [of "ev_V N" _ req s1]) (use that(1) rf(2) in simp)
    moreover have "rl_ID (rules_ref N s h) = (i, [])" using that(2) by (simp add: rules_ref_def rule_at_def)
    ultimately show ?thesis by (cases r) (simp_all add: modified_result_def)
  qed
  let ?p = "cl_Parental c" and ?b = "cl_SafeBrowsing c"
  let ?act = "parental_active ?p (fh_now s)"
  have "map_option snd (st_safeSearchGeneral st) = Some h \<Longrightarrow> rule_at s h (IDGeneralSafeSearch, [])"
    "map_option snd (st_safeSearchYouTube st) = Some h \<Longrightarrow> rule_at s h (IDYoutubeSafeSearch, [])" for h
    using storage_wfD(7,8) [OF wf] by auto
  then have ss': "map_option snd (st_safeSearchGeneral st) = Some h \<Longrightarrow> rf = ufRequestFilter (ev_V N) (rules_ref N s h) \<Longrightarrow>
      fst (MatchedRule r) = IDGeneralSafeSearch \<and> \<not> allowed_result r"
    "map_option snd (st_safeSearchYouTube st) = Some h \<Longrightarrow> rf = ufRequestFilter (ev_V N) (rules_ref N s h) \<Longrightarrow>
      fst (MatchedRule r) = IDYoutubeSafeSearch \<and> \<not> allowed_result r" for h
    using ss by blast+
  note es = enabled_source_def Let_def
  have "enabled_source c (fh_now s) (MatchedRule r) \<and> \<not> allowed_result r"
    using rf(1) [unfolded client_req_filters_iff Let_def]
  proof (elim disjE exE conjE)
    fix h assume "st_dangerous st = Some h" "rf = hash_ref N h" "sb_Enabled ?b" "DangerousDomainsEnabled ?b"
    then show ?thesis using hash [of h IDSafeBrowsing] storage_wfD(5) [OF wf] by (simp add: es)
  next
    fix h assume "st_adult st = Some h" "rf = hash_ref N h" "?act" "AdultBlockingEnabled ?p"
    then show ?thesis using hash [of h IDAdultBlocking] storage_wfD(4) [OF wf] by (simp add: es)
  next
    fix h assume "map_option snd (st_safeSearchGeneral st) = Some h" "rf = ufRequestFilter (ev_V N) (rules_ref N s h)"
      "?act" "SafeSearchGeneralEnabled ?p"
    then show ?thesis using ss'(1) [of h] by (simp add: es)
  next
    fix h assume "map_option snd (st_safeSearchYouTube st) = Some h" "rf = ufRequestFilter (ev_V N) (rules_ref N s h)"
      "?act" "SafeSearchYouTubeEnabled ?p"
    then show ?thesis using ss'(2) [of h] by (simp add: es)
  next
    fix h assume "st_newlyRegistered st = Some h" "rf = hash_ref N h" "sb_Enabled ?b" "NewlyRegisteredDomainsEnabled ?b"
    then show ?thesis using hash [of h IDNewRegDomains] storage_wfD(6) [OF wf] by (simp add: es)
  next
    fix h assume h: "rf = domain_ref N h" "?act" "h \<in> set (cat_handles st (par_Categories ?p))"
    obtain i where "i \<in> set (cat_IDs (par_Categories ?p))" "cat_Enabled (par_Categories ?p)" "domain_at s h i"
      using cat_handles_at [OF wf h(3)] by blast
    then show ?thesis using dom [of h i] h by (simp add: es)
  next
    fix h assume "st_typosquatting st = Some h" "rf = typo_ref N h" "sb_Enabled ?b" "TyposquattingEnabled ?b = Some True"
    then show ?thesis using typo [of h IDTyposquatting] storage_wfD(9) [OF wf] by (simp add: es)
  qed
  then show "enabled_source c (fh_now s) (MatchedRule r)" and "\<not> allowed_result r" by blast+
qed


subsection \<open>The results of an assembled filter\<close>

lemma attributed_enabled:
  assumes wf: "storage_wf st s" and nb: "\<not> HasListID (st_ruleListStorage st) IDBlockedService"
    and a: "attributed (forClient N s st c) p"
  shows "enabled_source c (fh_now s) p"
proof -
  from a obtain i svc res where g: "gives (forClient N s st c) (i, svc) res" "fst p = i"
    and t: "if i = IDBlockedService then snd p = svc else True" by (auto simp: attributed_def split: if_splits)
  from g(1) obtain flt where src: "((i, svc), flt) \<in> sources (forClient N s st c)" by (auto simp: gives_def)
  have "svc = [] \<or> i = IDBlockedService \<and> svc = snd p"
  proof (cases "i = IDBlockedService")
    case True
    then show ?thesis using t by simp
  next
    case False
    then show ?thesis
      using src svc_handles_at [OF wf] by (auto simp: sources_def forClient_eq rules_ref_def rule_at_def split: if_splits)
  qed
  then show ?thesis using forClient_sources(2) [OF wf src nb, of "snd p"] g(2) by (metis prod.collapse)
qed

lemma forClient_composite_wf:
  assumes "storage_wf st s" "\<not> HasListID (st_ruleListStorage st) IDBlockedService"
  shows "composite_wf (forClient N s st c)"
  using forClient_sources(1) [OF assms(1) _ assms(2)] unfolding composite_wf_def by blast

lemma client_result_enabled:
  assumes V: "flt_env_ok (ev_V N)" and C: "agdcache (ev_D N) live" and heap: "heap_ok N live s"
    and wf: "storage_wf st s" and nb: "\<not> HasListID (st_ruleListStorage st) IDBlockedService"
    and r: "composite_FilterRequest (ev_V N) (forClient N s st c) req s = (Inr (Some r), s')"
  shows "enabled_source c (fh_now s) (MatchedRule r)"
proof -
  let ?f = "forClient N s st c"
  obtain rl b s1 where rl: "filterReqWithRuleLists (ev_V N) ?f req s = (Inr (rl, b), s1)" "\<forall>x. rl = Some x \<longrightarrow> list_result (ev_V N) ?f req x"
    using ruleLists_ok [OF V forClient_composite_wf [OF wf nb], of N c req s] by (metis prod.collapse)
  have I: "request_inv N live s s" using heap by (simp add: request_inv_def)
  note keeps = forClient_keeps [OF C, of s s st c]
  have I1: "request_inv N live s s1" by (rule ruleLists_keeps [OF keeps I rl(1)])
  have list: "enabled_source c (fh_now s) (MatchedRule x)" if "list_result (ev_V N) ?f req x" for x
  proof (cases "rewritten (ev_V N) ?f req x")
    case True
    then obtain i res flt where "((i, []), flt) \<in> sources ?f"
      "ProcessDNSRewrites (fv_L (ev_V N)) (fv_S (ev_V N)) req (fv_DNSRewrites (ev_V N) res) i = Some x"
      by (auto simp: rewritten_def gives_def)
    then show ?thesis
      using forClient_sources(2) [OF wf _ nb, of i "[]" flt N c "snd (MatchedRule x)"] ProcessDNSRewrites_id by fastforce
  next
    case False
    then show ?thesis using that attributed_enabled [OF wf nb, of N c "MatchedRule x"] by (simp add: list_result_def)
  qed
  obtain res s2 where rf: "req_filters (co_reqFilters ?f) req s1 = (res, s2)" by fastforce
  consider "rl = Some r" | "res = Inr (Some r)"
    using r rl(1) rf
    by (auto simp: composite_FilterRequest_def split: option.splits flt_result.splits sum.splits if_splits)
  then show ?thesis
  proof cases
    case 1
    then show ?thesis using rl(2) list by simp
  next
    case 2
    have "\<forall>rf \<in> set (co_reqFilters ?f). keeps (request_inv N live s) rf" using keeps by (simp add: composite_keeps_def)
    from req_filters_source_inv [OF this I1] rf 2 obtain g s3
      where "g \<in> set (co_reqFilters ?f)" "request_inv N live s s3" "fst (g req s3) = Inr (Some r)" by blast
    then show ?thesis using client_req_filters_result(1) [OF C wf] by (simp add: forClient_eq)
  qed
qed

end
