(* ===== verification/Filter_Reach.thy ===== *)
theory Filter_Reach
  imports Filter_Enabled
begin

text \<open>
  The states that the storage of filters can reach by refreshes of its parts and by requests, the invariant of
  these states, and what it means for the filters that are assembled in them.
\<close>

subsection \<open>Growing heaps\<close>

definition heap_ext :: "('g, 'c, 'd) flt_heap \<Rightarrow> ('g, 'c, 'd) flt_heap \<Rightarrow> bool" where
  "heap_ext s s' \<longleftrightarrow>
     (\<exists>xs. map (\<lambda>f. (bf_id f, bf_svcID f)) (fh_rules s') = map (\<lambda>f. (bf_id f, bf_svcID f)) (fh_rules s) @ xs) \<and>
     (\<exists>ys. map (\<lambda>f. (df_resListID f, df_catID f)) (fh_domain s') = map (\<lambda>f. (df_resListID f, df_catID f)) (fh_domain s) @ ys) \<and>
     map hp_id (fh_hash s') = map hp_id (fh_hash s) \<and> map ts_id (fh_typo s') = map ts_id (fh_typo s)"

lemma map_prefix_nth:
  assumes "map g ys = map g xs @ zs" "h < length xs"
  shows "h < length ys" and "g (ys ! h) = g (xs ! h)"
proof -
  have "length ys = length xs + length zs" using arg_cong [OF assms(1), of length] by simp
  then show *: "h < length ys" using assms(2) by simp
  show "g (ys ! h) = g (xs ! h)"
    using assms * by (metis length_map nth_append nth_map)
qed

lemma heap_ext_at:
  assumes "heap_ext s s'"
  shows "rule_at s h p \<Longrightarrow> rule_at s' h p" "domain_at s h i \<Longrightarrow> domain_at s' h i"
    "hash_at s h i \<Longrightarrow> hash_at s' h i" "typo_at s h i \<Longrightarrow> typo_at s' h i"
proof -
  obtain xs ys where ext: "map (\<lambda>f. (bf_id f, bf_svcID f)) (fh_rules s') = map (\<lambda>f. (bf_id f, bf_svcID f)) (fh_rules s) @ xs"
    "map (\<lambda>f. (df_resListID f, df_catID f)) (fh_domain s') = map (\<lambda>f. (df_resListID f, df_catID f)) (fh_domain s) @ ys"
    "map hp_id (fh_hash s') = map hp_id (fh_hash s) @ []" "map ts_id (fh_typo s') = map ts_id (fh_typo s) @ []"
    using assms by (auto simp: heap_ext_def)
  show "rule_at s h p \<Longrightarrow> rule_at s' h p" using map_prefix_nth [OF ext(1), of h] by (auto simp: rule_at_def)
  show "domain_at s h i \<Longrightarrow> domain_at s' h i" using map_prefix_nth [OF ext(2), of h] by (auto simp: domain_at_def)
  show "hash_at s h i \<Longrightarrow> hash_at s' h i" using map_prefix_nth [OF ext(3), of h] by (auto simp: hash_at_def)
  show "typo_at s h i \<Longrightarrow> typo_at s' h i" using map_prefix_nth [OF ext(4), of h] by (auto simp: typo_at_def)
qed

lemma storage_wf_ext: "storage_wf st s \<Longrightarrow> heap_ext s s' \<Longrightarrow> storage_wf st s'"
  using heap_ext_at [of s s'] unfolding storage_wf_def by simp

lemma heap_ext_ids: "heap_ids s' = heap_ids s \<Longrightarrow> heap_ext s s'"
proof -
  assume *: "heap_ids s' = heap_ids s"
  let ?g = "\<lambda>(a, b, c, d). (a, b)"
  have "map ?g (map (\<lambda>f. (df_resListID f, df_catID f, df_domains f, df_subDomainNum f)) (fh_domain s')) =
      map ?g (map (\<lambda>f. (df_resListID f, df_catID f, df_domains f, df_subDomainNum f)) (fh_domain s))"
    using * by (simp add: heap_ids_def)
  then have "map (\<lambda>f. (df_resListID f, df_catID f)) (fh_domain s') = map (\<lambda>f. (df_resListID f, df_catID f)) (fh_domain s)"
    by (simp add: o_def)
  then show "heap_ext s s'" using * by (simp add: heap_ext_def heap_ids_def)
qed

subsection \<open>What a refresh adds\<close>

definition lists_at :: "('g, 'c) rl_heap \<Rightarrow> (filter_id \<rightharpoonup> rule_list_data option) \<Rightarrow> bool" where
  "lists_at heap m \<longleftrightarrow>
     (\<forall>i d. m i = Some (Some d) \<longrightarrow>
        rd_refr d < length heap \<and> (bf_id (heap ! rd_refr d), bf_svcID (heap ! rd_refr d)) = (i, []))"

lemma lists_at_append: "lists_at heap m \<Longrightarrow> lists_at (heap @ xs) m"
  by (auto simp: lists_at_def nth_append trans_less_add1)

lemma lists_at_upd:
  "lists_at heap m \<Longrightarrow> (\<And>d. e = Some d \<Longrightarrow> rd_refr d < length heap \<and> bf_id (heap ! rd_refr d) = i \<and> bf_svcID (heap ! rd_refr d) = []) \<Longrightarrow>
     lists_at heap (m(i \<mapsto> e))"
  by (simp add: lists_at_def)

lemma refreshRuleList_at:
  assumes "lists_at heap (ls_ruleLists s)" "refreshRuleList U C W s acc i fl heap files = (r, heap', files')"
  shows "\<exists>xs. heap' = heap @ xs"
    and "resultRuleList s i r = Some d \<Longrightarrow>
      rd_refr d < length heap' \<and> bf_id (heap' ! rd_refr d) = i \<and> bf_svcID (heap' ! rd_refr d) = []"
proof -
  have prev: "rd_refr d < length heap \<and> bf_id (heap ! rd_refr d) = i \<and> bf_svcID (heap ! rd_refr d) = []"
    if "prevRuleList s i = Some d" for d
    using assms(1) that by (auto simp: lists_at_def prevRuleList_def split: option.splits)
  have new: "bf_id (rulelist_Refresh U C x (newBaseFilter U [] i [] c)) = i"
    "bf_svcID (rulelist_Refresh U C x (newBaseFilter U [] i [] c)) = []" for x c
    by (simp_all add: rulelist_Refresh_def newBaseFilter_def split: option.split)
  show "\<exists>xs. heap' = heap @ xs"
    using assms(2) by (auto simp: refreshRuleList_def Let_def split: prod.splits bool.splits option.splits sum.splits)
  show "rd_refr d < length heap' \<and> bf_id (heap' ! rd_refr d) = i \<and> bf_svcID (heap' ! rd_refr d) = []"
    if "resultRuleList s i r = Some d"
    using assms(2) that new prev
    by (auto simp: refreshRuleList_def resultRuleList_def needsUpdate_def Let_def nth_append
        split: prod.splits bool.splits option.splits sum.splits if_splits)
qed

lemma refreshRuleLists_at:
  assumes "lists_at heap (ls_ruleLists s)" "lists_at heap rls" "refreshRuleLists U C W s acc fls rls heap files = (rls', heap', files')"
  shows "lists_at heap' rls' \<and> (\<exists>xs. heap' = heap @ xs)"
  using assms
proof (induction fls arbitrary: rls heap files)
  case (Cons e fls)
  obtain i fl where e: "e = (i, fl)" by fastforce
  obtain r h1 f1 where r: "refreshRuleList U C W s acc i fl heap files = (r, h1, f1)" by (metis prod_cases3)
  obtain xs where xs: "h1 = heap @ xs" using refreshRuleList_at(1) [OF Cons.prems(1) r] by blast
  have 1: "lists_at h1 (rls(i \<mapsto> resultRuleList s i r))"
    by (rule lists_at_upd) (use lists_at_append [OF Cons.prems(2)] xs refreshRuleList_at(2) [OF Cons.prems(1) r] in auto)
  have 2: "lists_at h1 (ls_ruleLists s)" using lists_at_append [OF Cons.prems(1)] xs by simp
  have "refreshRuleLists U C W s acc fls (rls(i \<mapsto> resultRuleList s i r)) h1 f1 = (rls', heap', files')"
    using Cons.prems(3) e r by simp
  from Cons.IH [OF 2 1 this] show ?case using xs by auto
qed simp

lemma rls_refresh_at:
  assumes "lists_at heap (ls_ruleLists s)" "rls_refresh U C X W acc (s, heap, files) = (err, s', heap', files')"
  shows "lists_at heap' (ls_ruleLists s') \<and> (\<exists>xs. heap' = heap @ xs)"
proof (cases "loadIndex X W s acc files")
  case (Pair li f1)
  show ?thesis
  proof (cases li)
    case (Inl e)
    then show ?thesis using assms Pair by (auto simp: rls_refresh_def loadRuleLists_def)
  next
    case (Inr resp)
    obtain rls h f where run: "refreshRuleLists U C W s acc (index_toInternal X resp []) Map.empty heap f1 = (rls, h, f)" by (metis prod_cases3)
    have "lists_at heap Map.empty" by (simp add: lists_at_def)
    from refreshRuleLists_at [OF assms(1) this run] have at: "lists_at h rls" "\<exists>xs. h = heap @ xs" by auto
    then show ?thesis
      using assms Inr Pair run lists_at_append [OF assms(1)]
      by (auto simp: rls_refresh_def loadRuleLists_def split: option.splits)
  qed
qed

definition svcs_at :: "('g, 'c) rl_heap \<Rightarrow> (blocked_service_id \<rightharpoonup> nat) \<Rightarrow> bool" where
  "svcs_at heap m \<longleftrightarrow>
     (\<forall>i h. m i = Some h \<longrightarrow> i \<noteq> [] \<and> h < length heap \<and> (bf_id (heap ! h), bf_svcID (heap ! h)) = (IDBlockedService, i))"

lemma NewBlockedServiceID_ok: "NewBlockedServiceID i = Inr j \<Longrightarrow> j = i \<and> i \<noteq> []"
  by (auto simp: NewBlockedServiceID_def valid_id_def Inclusion_def split: option.splits if_splits)

lemma svc_index_loop_at:
  "svcs_at heap m \<Longrightarrow> svc_index_loop U nc k svcs errs m heap = (r, heap') \<Longrightarrow>
     (\<exists>xs. heap' = heap @ xs) \<and> (\<forall>es m'. r = Some (es, m') \<longrightarrow> svcs_at heap' m')"
proof (induction U nc k svcs errs m heap rule: svc_index_loop.induct)
  case (3 U nc k svc svcs errs m heap)
  show ?case
  proof (cases "NewBlockedServiceID (svc_ID svc)")
    case (Inl e)
    then show ?thesis using 3(1) [OF Inl] 3(3,4) by simp
  next
    case (Inr j)
    let ?heap = "heap @ [newBaseFilter U (RulesToBytes (svc_Rules svc)) IDBlockedService j nc]"
    have at: "svcs_at ?heap (m(j \<mapsto> length heap))"
      using 3(3) NewBlockedServiceID_ok [OF Inr] by (auto simp: svcs_at_def nth_append newBaseFilter_def less_SucI)
    have "svc_index_loop U nc (k + 1) svcs errs (m(j \<mapsto> length heap)) ?heap = (r, heap')" using 3(4) Inr by simp
    from 3(2) [OF Inr at this] show ?thesis by auto
  qed
qed auto

lemma svc_Refresh_at:
  assumes "svcs_at heap (sb_services f)" "svc_Refresh U dec W nc acc f heap files = (e, f', heap', files')"
  shows "svcs_at heap' (sb_services f') \<and> (\<exists>xs. heap' = heap @ xs)"
proof -
  have empty: "svcs_at heap Map.empty" by (simp add: svcs_at_def)
  have app: "svcs_at (heap @ xs) (sb_services f)" for xs using assms(1) by (auto simp: svcs_at_def nth_append trans_less_add1)
  show ?thesis
    using assms app empty svc_index_loop_at [OF empty]
    by (auto simp: svc_Refresh_def svc_toInternal_def split: prod.splits sum.splits option.splits if_splits) metis+
qed

definition cats_at :: "'d domain_filter list \<Rightarrow> (category_id \<rightharpoonup> nat option) \<Rightarrow> bool" where
  "cats_at heap m \<longleftrightarrow>
     (\<forall>i h. m i = Some (Some h) \<longrightarrow> h < length heap \<and> (df_resListID (heap ! h), df_catID (heap ! h)) = (IDCategory, i))"

lemma cats_at_append: "cats_at heap m \<Longrightarrow> cats_at (heap @ xs) m"
  by (auto simp: cats_at_def nth_append trans_less_add1)

lemma refreshDomainFilters_at:
  assumes D: "agdcache D live" and new: "\<And>t. live t (st_newCategoryCache st) = Map.empty"
    and "\<forall>f \<in> set heap. df_ok E live f" "cats_at heap (st_domainFilters st)" "cats_at heap dls"
    and "refreshDomainFilters D W st cats dls heap files = (dls', heap', files')"
  shows "cats_at heap' dls' \<and> (\<exists>xs. heap' = heap @ xs) \<and> (\<forall>f \<in> set heap'. df_ok E live f)"
  using assms(3-)
proof (induction cats arbitrary: dls heap files)
  case (Cons cat cats)
  obtain ld f1 where ld: "refr_load W (category_refr st cat) False files = (ld, f1)" by fastforce
  obtain r df where df: "df_refresh D ld (initDomainFilter st cat) = (r, df)" by fastforce
  define res where "res = (case r of Inl e \<Rightarrow> Inl e | Inr _ \<Rightarrow> Inr (length heap))"
  have rf: "refreshDomainFilter D W st cat heap files = (res, heap @ [df], f1)"
    by (simp add: refreshDomainFilter_def ld df res_def)
  have "df_ok E live (initDomainFilter st cat)"
    by (simp add: df_ok_def initDomainFilter_def agdcache.entries_sat_def [OF D] new)
  then have ok: "df_ok E live df" using df_refresh_ok [OF D, of E "initDomainFilter st cat" ld] df by simp
  have ids: "df_resListID df = IDCategory" "df_catID df = cd_id cat"
    using df_refresh_fields [of D ld "initDomainFilter st cat"] df by (simp_all add: initDomainFilter_def)
  have prev: "cats_at (heap @ [df]) (st_domainFilters st)" by (rule cats_at_append [OF Cons.prems(2)])
  have at: "cats_at (heap @ [df]) (dls(cd_id cat \<mapsto> resultDomainFilter st (cd_id cat) res))"
    using cats_at_append [OF Cons.prems(3), of "[df]"] prev ids
    by (auto simp: cats_at_def resultDomainFilter_def prevDomainFilter_def res_def split: sum.splits option.splits)
  have "refreshDomainFilters D W st cats (dls(cd_id cat \<mapsto> resultDomainFilter st (cd_id cat) res)) (heap @ [df]) f1 = (dls', heap', files')"
    using Cons.prems(4) rf by simp
  from Cons.IH [OF _ prev at this] Cons.prems(1) ok show ?case by auto
qed simp

lemma loadCategoryFilters_at:
  assumes D: "agdcache (ev_D N) live" and new: "\<And>t. live t (st_newCategoryCache st) = Map.empty"
    and ok: "heap_ok N live s" and at: "cats_at (fh_domain s) (st_domainFilters st)"
    and r: "loadCategoryFilters (ev_D N) X W st acc s = (r, s')"
  shows "heap_ok N live s'" and "heap_ext s s'" and "fh_rules s' = fh_rules s"
    and "r = Inr dls \<Longrightarrow> cats_at (fh_domain s') dls" and "cats_at (fh_domain s') (st_domainFilters st)"
proof -
  have "(\<exists>files. s' = s\<lparr>fh_files := files\<rparr>) \<and> (\<forall>dls. r = Inr dls \<longrightarrow> dls = Map.empty) \<or>
      (\<exists>cats files1 dls heap files. refreshDomainFilters (ev_D N) W st cats Map.empty (fh_domain s) files1 = (dls, heap, files) \<and>
         s' = s\<lparr>fh_domain := heap, fh_files := files\<rparr> \<and> (\<forall>dls'. r = Inr dls' \<longrightarrow> dls' = dls))"
  proof (cases "st_categoryDomainsIdxRefr st")
    case None
    then show ?thesis using r by (intro disjI1 conjI exI [of _ "fh_files s"]) (auto simp: loadCategoryFilters_def)
  next
    case (Some rc)
    obtain li f1 where li: "loadCategoryIndex X W rc acc (fh_files s) = (li, f1)" by fastforce
    show ?thesis
    proof (cases li)
      case (Inl e)
      then show ?thesis using r Some li by (auto simp: loadCategoryFilters_def)
    next
      case (Inr resp)
      obtain dls heap files where run: "refreshDomainFilters (ev_D N) W st (category_toInternal (dx_idx X) resp []) Map.empty (fh_domain s) f1 = (dls, heap, files)"
        by (metis prod_cases3)
      then have "s' = s\<lparr>fh_domain := heap, fh_files := files\<rparr>" "\<forall>dls'. r = Inr dls' \<longrightarrow> dls' = dls"
        using r Some li Inr by (auto simp: loadCategoryFilters_def split: option.splits)
      then show ?thesis using run by blast
    qed
  qed
  then have *: "heap_ok N live s' \<and> heap_ext s s' \<and> fh_rules s' = fh_rules s \<and>
      (\<forall>dls. r = Inr dls \<longrightarrow> cats_at (fh_domain s') dls) \<and> cats_at (fh_domain s') (st_domainFilters st)"
  proof (elim disjE exE conjE)
    fix files assume "s' = s\<lparr>fh_files := files\<rparr>" "\<forall>dls. r = Inr dls \<longrightarrow> dls = Map.empty"
    then show ?thesis using ok at by (auto simp: heap_ok_def heap_ext_def cats_at_def)
  next
    fix cats files1 dls heap files
    assume run: "refreshDomainFilters (ev_D N) W st cats Map.empty (fh_domain s) files1 = (dls, heap, files)"
      and s': "s' = s\<lparr>fh_domain := heap, fh_files := files\<rparr>" and res: "\<forall>dls'. r = Inr dls' \<longrightarrow> dls' = dls"
    have "\<forall>f \<in> set (fh_domain s). df_ok (ev_E N) live f" using ok by (simp add: heap_ok_def)
    moreover have "cats_at (fh_domain s) Map.empty" by (simp add: cats_at_def)
    ultimately have new: "cats_at heap dls" "\<forall>f \<in> set heap. df_ok (ev_E N) live f" and "\<exists>xs. heap = fh_domain s @ xs"
      using refreshDomainFilters_at [OF D new _ at _ run, of "ev_E N"] by simp_all
    then obtain xs where xs: "heap = fh_domain s @ xs" by blast
    have "cats_at heap (st_domainFilters st)" using cats_at_append [OF at] xs by simp
    then show ?thesis using new xs s' res ok by (auto simp: heap_ok_def heap_ext_def)
  qed
  then show "heap_ok N live s'" and "heap_ext s s'" and "fh_rules s' = fh_rules s"
    and "r = Inr dls \<Longrightarrow> cats_at (fh_domain s') dls" and "cats_at (fh_domain s') (st_domainFilters st)" by auto
qed


subsection \<open>Reachable states\<close>

definition fs_inv ::
  "('g, 'c, 'd) filters_env \<Rightarrow> (time \<Rightarrow> 'd \<Rightarrow> cache_key \<rightharpoonup> flt_result option) \<Rightarrow> ('c, 'd) flt_storage \<Rightarrow> ('g, 'c, 'd) flt_heap \<Rightarrow> bool" where
  "fs_inv N live st s \<longleftrightarrow>
     heap_ok N live s \<and> storage_wf st s \<and> (\<forall>t. live t (st_newCategoryCache st) = Map.empty)"

lemma storage_wf_parts:
  assumes wf: "storage_wf st s"
  shows "lists_at (fh_rules s) (ls_ruleLists (st_ruleListStorage st))"
    and "st_services st = Some sb \<Longrightarrow> svcs_at (fh_rules s) (sb_services sb)"
    and "cats_at (fh_domain s) (st_domainFilters st)"
proof -
  have "rule_at s (rd_refr d) (i, [])" if "ls_ruleLists (st_ruleListStorage st) i = Some (Some d)" for i d
    by (rule storage_wfD(1) [OF wf]) (simp add: prevRuleList_def that)
  then show "lists_at (fh_rules s) (ls_ruleLists (st_ruleListStorage st))" by (simp add: lists_at_def rule_at_def)
  show "svcs_at (fh_rules s) (sb_services sb)" if "st_services st = Some sb"
    using storage_wfD(2) [OF wf that] by (simp add: svcs_at_def rule_at_def)
  have "domain_at s h i" if "st_domainFilters st i = Some (Some h)" for i h
    by (rule storage_wfD(3) [OF wf]) (simp add: prevDomainFilter_def that)
  then show "cats_at (fh_domain s) (st_domainFilters st)" by (simp add: cats_at_def domain_at_def)
qed

lemma lists_at_wf:
  "lists_at (fh_rules s) (ls_ruleLists rls) \<Longrightarrow> prevRuleList rls i = Some d \<Longrightarrow> rule_at s (rd_refr d) (i, [])"
  by (auto simp: lists_at_def prevRuleList_def rule_at_def split: option.splits)

lemma cats_at_wf: "cats_at (fh_domain s) (st_domainFilters st) \<Longrightarrow> prevDomainFilter st i = Some h \<Longrightarrow> domain_at s h i"
  by (auto simp: cats_at_def prevDomainFilter_def domain_at_def split: option.splits)

lemma refreshServices_inv:
  assumes inv: "fs_inv N live st s" and r: "refreshServices U X W acc st s = (e, st', s')"
  shows "fs_inv N live st' s'" and "heap_ext s s'" and "st_domainFilters st' = st_domainFilters st" and "fh_domain s' = fh_domain s"
    and "st_safeSearchGeneral st' = st_safeSearchGeneral st" and "st_safeSearchYouTube st' = st_safeSearchYouTube st"
proof -
  have wf: "storage_wf st s" using inv by (simp add: fs_inv_def)
  have "fs_inv N live st' s' \<and> heap_ext s s' \<and> st_domainFilters st' = st_domainFilters st \<and> fh_domain s' = fh_domain s \<and>
      st_safeSearchGeneral st' = st_safeSearchGeneral st \<and> st_safeSearchYouTube st' = st_safeSearchYouTube st"
  proof (cases "st_services st")
    case None
    then show ?thesis using r inv by (auto simp: refreshServices_def heap_ext_def)
  next
    case (Some sb)
    obtain e1 sb1 heap files where sr: "svc_Refresh U (dx_services X) W (st_newServiceCache st) acc sb (fh_rules s) (fh_files s) = (e1, sb1, heap, files)"
      by (metis prod_cases4)
    have eq: "st' = st\<lparr>st_services := Some sb1\<rparr>" "s' = s\<lparr>fh_rules := heap, fh_files := files\<rparr>"
      using r Some sr by (simp_all add: refreshServices_def)
    obtain xs where at: "svcs_at heap (sb_services sb1)" "heap = fh_rules s @ xs"
      using svc_Refresh_at [OF storage_wf_parts(2) [OF wf Some] sr] by blast
    have ext: "heap_ext s s'" using eq(2) at(2) by (simp add: heap_ext_def)
    have "storage_wf st s'" by (rule storage_wf_ext [OF wf ext])
    then have "storage_wf st' s'"
      using at(1) eq by (auto simp: storage_wf_def svcs_at_def rule_at_def prevDomainFilter_def)
    then show ?thesis using ext eq inv by (simp add: fs_inv_def heap_ok_def)
  qed
  then show "fs_inv N live st' s'" and "heap_ext s s'" and "st_domainFilters st' = st_domainFilters st" and "fh_domain s' = fh_domain s"
    and "st_safeSearchGeneral st' = st_safeSearchGeneral st" and "st_safeSearchYouTube st' = st_safeSearchYouTube st" by blast+
qed

lemma refresh_safe_search_ids:
  assumes "refresh_safe_search U C W acc ss s = (e, s')"
  shows "heap_ids s' = heap_ids s" and "heap_ok N live s' = heap_ok N live s" and "fh_domain s' = fh_domain s"
proof -
  have ids: "map (\<lambda>f. (bf_id f, bf_svcID f)) ((fh_rules s)[h := rulelist_Refresh U C x (fh_rules s ! h)]) =
      map (\<lambda>f. (bf_id f, bf_svcID f)) (fh_rules s)" for h x
    by (rule map_update_same) (simp add: rulelist_Refresh_def split: option.split)
  show "heap_ids s' = heap_ids s" and "heap_ok N live s' = heap_ok N live s" and "fh_domain s' = fh_domain s"
    using assms ids by (auto simp: refresh_safe_search_def heap_ids_def heap_ok_def split: option.splits prod.splits sum.splits)
qed

lemma refreshSafeSearch_ids:
  assumes "refreshSafeSearch U C W acc st s = (e, s')"
  shows "heap_ids s' = heap_ids s \<and> heap_ok N live s' = heap_ok N live s \<and> fh_domain s' = fh_domain s"
proof -
  obtain e1 s1 where 1: "refresh_safe_search U C W acc (st_safeSearchGeneral st) s = (e1, s1)" by fastforce
  obtain e2 s2 where 2: "refresh_safe_search U C W acc (st_safeSearchYouTube st) s1 = (e2, s2)" by fastforce
  have "s' = s1 \<or> s' = s2" using assms 1 2 by (auto simp: refreshSafeSearch_def split: option.splits)
  then show ?thesis
    using refresh_safe_search_ids(1,3) [OF 1] refresh_safe_search_ids(2) [OF 1, of N live]
      refresh_safe_search_ids(1,3) [OF 2] refresh_safe_search_ids(2) [OF 2, of N live] by auto
qed

lemma storage_wf_domains:
  "storage_wf st s \<Longrightarrow> cats_at (fh_domain s) dls \<Longrightarrow> storage_wf (st\<lparr>st_domainFilters := dls\<rparr>) s"
  using cats_at_wf [of s "st\<lparr>st_domainFilters := dls\<rparr>"] by (simp add: storage_wf_def)

lemma fs_refresh_inv:
  assumes D: "agdcache (ev_D N) live" and inv: "fs_inv N live st s" and r: "fs_refresh N X W acc st s = (e, st', s')"
  shows "fs_inv N live st' s'"
proof -
  have wf: "storage_wf st s" "heap_ok N live s" "\<And>t. live t (st_newCategoryCache st) = Map.empty"
    using inv by (simp_all add: fs_inv_def)
  obtain r1 s1 where 1: "loadCategoryFilters (ev_D N) X W st acc s = (r1, s1)" by fastforce
  note cat = loadCategoryFilters_at [OF D wf(3,2) storage_wf_parts(3) [OF wf(1)] 1]
  have inv1: "fs_inv N live st s1" using cat(1,2) storage_wf_ext [OF wf(1)] wf(3) by (simp add: fs_inv_def)
  obtain e2 st2 s2 where 2: "refreshServices (ev_U N) X W acc st s1 = (e2, st2, s2)" by (metis prod_cases3)
  note svc = refreshServices_inv [OF inv1 2]
  obtain e3 s3 where 3: "refreshSafeSearch (ev_U N) (ev_C N) W acc st2 s2 = (e3, s3)" by fastforce
  note ss = refreshSafeSearch_ids [OF 3, of N live]
  have inv3: "fs_inv N live st2 s3"
    using svc(1) ss storage_wf_ext [of st2 s2 s3] heap_ext_ids [of s3 s2] by (simp add: fs_inv_def)
  have "fs_inv N live (st2\<lparr>st_domainFilters := dls\<rparr>) s3" if "r1 = Inr dls" for dls
    using inv3 storage_wf_domains [of st2 s3 dls] cat(4) [OF that] svc(4) ss by (simp add: fs_inv_def)
  then show ?thesis
    using r 1 2 3 inv1 svc(1) inv3 by (auto simp: fs_refresh_def split: sum.splits option.splits)
qed


text \<open>
  A configuration that names the filters by their identifiers, with the hash-prefix and typosquatting filters in the
  heap and new caches that are empty.
\<close>

definition fs_config_ok ::
  "('g, 'c, 'd) filters_env \<Rightarrow> (time \<Rightarrow> 'd \<Rightarrow> cache_key \<rightharpoonup> flt_result option) \<Rightarrow> ('c, 'd) fs_config \<Rightarrow> ('g, 'c, 'd) flt_heap \<Rightarrow> bool" where
  "fs_config_ok N live c s \<longleftrightarrow>
     heap_ok N live s \<and> (\<forall>t. live t (fsc_NewCategoryCache c) = Map.empty) \<and>
     ls_ruleLists (fsc_RuleListStorage c) = Map.empty \<and>
     ssc_ID (fsc_SafeSearchGeneral c) = IDGeneralSafeSearch \<and> ssc_ID (fsc_SafeSearchYouTube c) = IDYoutubeSafeSearch \<and>
     (\<forall>h. fsc_Adult c = Some h \<longrightarrow> hash_at s h IDAdultBlocking) \<and>
     (\<forall>h. fsc_Dangerous c = Some h \<longrightarrow> hash_at s h IDSafeBrowsing) \<and>
     (\<forall>h. fsc_NewlyRegistered c = Some h \<longrightarrow> hash_at s h IDNewRegDomains) \<and>
     (fsc_TyposquattingEnabled c \<longrightarrow> typo_at s (fsc_Typosquatting c) IDTyposquatting)"

text \<open>
  The steps: refreshes of the storage, of the rule lists, of hash-prefix filters and of typosquatting filters, with
  any outcome of the files and servers, whose errors carry no information here; requests and responses that are filtered for any configuration; and time.
\<close>

inductive fs_reach ::
  "('g, 'c, 'd) filters_env \<Rightarrow> fs_decoders \<Rightarrow> (time \<Rightarrow> 'd \<Rightarrow> cache_key \<rightharpoonup> flt_result option) \<Rightarrow>
     ('c, 'd) flt_storage \<Rightarrow> ('g, 'c, 'd) flt_heap \<Rightarrow> bool"
  for N :: "('g, 'c, 'd) filters_env" and X :: fs_decoders and live :: "time \<Rightarrow> 'd \<Rightarrow> cache_key \<rightharpoonup> flt_result option"
  where
    fs_new: "filterstorage_New (ev_U N) (dx_idx X) cache c [] = (Inr st, fh_rules s) \<Longrightarrow> fs_config_ok N live c s \<Longrightarrow> fs_reach N X live st s"
  | fs_refreshed: "fs_reach N X live st s \<Longrightarrow> fs_refresh N X (W :: unit world) acceptStale st s = (e, st', s') \<Longrightarrow> fs_reach N X live st' s'"
  | fs_lists: "fs_reach N X live st s \<Longrightarrow>
      rls_refresh (ev_U N) (ev_C N) (dx_idx X) (W :: unit world) acceptStale (st_ruleListStorage st, fh_rules s, fh_files s) = (e, rls, heap, files) \<Longrightarrow>
      fs_reach N X live (st\<lparr>st_ruleListStorage := rls\<rparr>) (s\<lparr>fh_rules := heap, fh_files := files\<rparr>)"
  | fs_hash: "fs_reach N X live st s \<Longrightarrow> hp_refresh (ev_D N) (loaded :: (unit refr_error, string) result) (fh_hash s ! h) = (r, f) \<Longrightarrow>
      fs_reach N X live st (s\<lparr>fh_hash := (fh_hash s)[h := f]\<rparr>)"
  | fs_typo: "fs_reach N X live st s \<Longrightarrow> ts_refresh (T :: unit ts_env) now acceptStale (fh_typo s ! h) file = (e, f, file') \<Longrightarrow>
      fs_reach N X live st (s\<lparr>fh_typo := (fh_typo s)[h := f]\<rparr>)"
  | fs_request: "fs_reach N X live st s \<Longrightarrow> if_FilterRequest (ev_V N) (ForConfig N s st c) req s = (r, s') \<Longrightarrow> fs_reach N X live st s'"
  | fs_response: "fs_reach N X live st s \<Longrightarrow> if_FilterResponse (ev_V N) (ForConfig N s st c) resp s = (r, s') \<Longrightarrow> fs_reach N X live st s'"
  | fs_time: "fs_reach N X live st s \<Longrightarrow> fs_reach N X live st (s\<lparr>fh_now := now\<rparr>)"

lemma newSafeSearch_at:
  assumes "newSafeSearch U X cache c dir heap = (Inr ss, heap')"
  shows "(\<exists>xs. heap' = heap @ xs) \<and>
     (\<forall>rc h. ss = Some (rc, h) \<longrightarrow> h < length heap' \<and> bf_id (heap' ! h) = ssc_ID c \<and> bf_svcID (heap' ! h) = [])"
  using assms by (auto simp: newSafeSearch_def newBaseFilter_def split: if_splits sum.splits)

lemma initSafeSearch_at:
  assumes "initSafeSearch U X cache c st heap = (None, st', heap')"
  shows "\<exists>g y. st' = st\<lparr>st_safeSearchGeneral := g, st_safeSearchYouTube := y\<rparr> \<and>
     (\<forall>rc h. g = Some (rc, h) \<longrightarrow> h < length heap' \<and> bf_id (heap' ! h) = ssc_ID (fsc_SafeSearchGeneral c) \<and> bf_svcID (heap' ! h) = []) \<and>
     (\<forall>rc h. y = Some (rc, h) \<longrightarrow> h < length heap' \<and> bf_id (heap' ! h) = ssc_ID (fsc_SafeSearchYouTube c) \<and> bf_svcID (heap' ! h) = [])"
proof -
  obtain r1 h1 where 1: "newSafeSearch U X cache (fsc_SafeSearchGeneral c) (st_cacheDir st) heap = (r1, h1)" by fastforce
  with assms obtain g where g: "r1 = Inr g" by (cases r1) (auto simp: initSafeSearch_def)
  obtain r2 h2 where 2: "newSafeSearch U X cache (fsc_SafeSearchYouTube c) (st_cacheDir st) h1 = (r2, h2)" by fastforce
  with assms 1 g obtain y where y: "r2 = Inr y" by (cases r2) (auto simp: initSafeSearch_def)
  have eq: "st' = st\<lparr>st_safeSearchGeneral := g, st_safeSearchYouTube := y\<rparr>" "heap' = h2"
    using assms 1 2 g y by (simp_all add: initSafeSearch_def)
  note at1 = newSafeSearch_at [OF 1 [unfolded g]] and at2 = newSafeSearch_at [OF 2 [unfolded y]]
  from at2 obtain xs where "h2 = h1 @ xs" by blast
  then show ?thesis
    using eq at1 at2 by (intro exI [of _ g] exI [of _ y]) (auto simp: nth_append trans_less_add1)
qed

lemma filterstorage_New_parts:
  assumes "filterstorage_New U X cache c [] = (Inr st, heap)"
  shows "\<exists>sb cat. (sb = None \<or> (\<exists>rc. sb = Some (serviceblock_New rc))) \<and>
     (\<exists>g y. st = \<lparr>st_services = sb, st_adult = fsc_Adult c, st_dangerous = fsc_Dangerous c,
                st_newlyRegistered = fsc_NewlyRegistered c, st_safeSearchGeneral = g, st_safeSearchYouTube = y,
                st_typosquatting = (if fsc_TyposquattingEnabled c then Some (fsc_Typosquatting c) else None),
                st_domainFilters = Map.empty, st_categoryDomainsIdxRefr = cat,
                st_ruleListStorage = fsc_RuleListStorage c, st_cacheDir = fsc_CacheDir c,
                st_categoryStaleness = fsc_CategoryStaleness c, st_categoryMaxSize = fsc_CategoryMaxSize c,
                st_newCategoryCache = fsc_NewCategoryCache c, st_newServiceCache = fsc_NewServiceCache c,
                st_subDomainNum = fsc_SubDomainNum c\<rparr> \<and>
        (\<forall>rc h. g = Some (rc, h) \<longrightarrow> h < length heap \<and> bf_id (heap ! h) = ssc_ID (fsc_SafeSearchGeneral c) \<and> bf_svcID (heap ! h) = []) \<and>
        (\<forall>rc h. y = Some (rc, h) \<longrightarrow> h < length heap \<and> bf_id (heap ! h) = ssc_ID (fsc_SafeSearchYouTube c) \<and> bf_svcID (heap ! h) = []))"
proof -
  define st0 where "st0 = \<lparr>st_services = None, st_adult = fsc_Adult c, st_dangerous = fsc_Dangerous c,
                st_newlyRegistered = fsc_NewlyRegistered c, st_safeSearchGeneral = None, st_safeSearchYouTube = None,
                st_typosquatting = None, st_domainFilters = Map.empty, st_categoryDomainsIdxRefr = None,
                st_ruleListStorage = fsc_RuleListStorage c, st_cacheDir = fsc_CacheDir c,
                st_categoryStaleness = fsc_CategoryStaleness c, st_categoryMaxSize = fsc_CategoryMaxSize c,
                st_newCategoryCache = fsc_NewCategoryCache c, st_newServiceCache = fsc_NewServiceCache c,
                st_subDomainNum = fsc_SubDomainNum c\<rparr>"
  obtain e1 st1 where 1: "initBlockedServices X c st0 = (e1, st1)" by fastforce
  obtain e2 st2 h2 where 2: "initSafeSearch U X cache c st1 [] = (e2, st2, h2)" by (metis prod_cases3)
  obtain e3 st3 where 3: "initCategoryDomainIdxRefr X c st2 = (e3, st3)" by fastforce
  have eq: "e2 = None" "heap = h2"
    "st = (if fsc_TyposquattingEnabled c then st3\<lparr>st_typosquatting := Some (fsc_Typosquatting c)\<rparr> else st3)"
    using assms 1 2 3 unfolding filterstorage_New_def st0_def [symmetric] fs_init_def Let_def
    by (auto split: if_splits)
  obtain g y where st2: "st2 = st1\<lparr>st_safeSearchGeneral := g, st_safeSearchYouTube := y\<rparr>"
    "\<forall>rc h. g = Some (rc, h) \<longrightarrow> h < length h2 \<and> bf_id (h2 ! h) = ssc_ID (fsc_SafeSearchGeneral c) \<and> bf_svcID (h2 ! h) = []"
    "\<forall>rc h. y = Some (rc, h) \<longrightarrow> h < length h2 \<and> bf_id (h2 ! h) = ssc_ID (fsc_SafeSearchYouTube c) \<and> bf_svcID (h2 ! h) = []"
    using initSafeSearch_at [of U X cache c st1 "[]" st2 h2] 2 eq(1) by blast
  have "st1 = st0 \<or> (\<exists>rc. st1 = st0\<lparr>st_services := Some (serviceblock_New rc)\<rparr>)"
    using 1 by (auto simp: initBlockedServices_def split: if_splits sum.splits)
  then obtain sb where sb: "sb = None \<or> (\<exists>rc. sb = Some (serviceblock_New rc))" "st1 = st0\<lparr>st_services := sb\<rparr>"
    by (auto simp: st0_def)
  have "st3 = st2 \<or> (\<exists>rc. st3 = st2\<lparr>st_categoryDomainsIdxRefr := Some rc\<rparr>)"
    using 3 by (auto simp: initCategoryDomainIdxRefr_def split: if_splits sum.splits)
  then obtain cat where st3: "st3 = st2\<lparr>st_categoryDomainsIdxRefr := cat\<rparr>"
    by (auto simp: st2(1) sb(2) st0_def)
  show ?thesis
    using sb(1) st2(2,3) eq
    by (intro exI [of _ sb] exI [of _ cat] exI [of _ g] exI [of _ y] conjI) (simp_all add: st3 st2(1) sb(2) st0_def)
qed

lemma filterstorage_New_wf:
  assumes new: "filterstorage_New U X cache c [] = (Inr st, fh_rules s)" and ok: "fs_config_ok N live c s"
  shows "fs_inv N live st s"
proof -
  have sb: "st_services st = None \<or> (\<exists>rc. st_services st = Some (serviceblock_New rc))"
    and st: "st_domainFilters st = Map.empty"
      "st_adult st = fsc_Adult c" "st_dangerous st = fsc_Dangerous c" "st_newlyRegistered st = fsc_NewlyRegistered c"
      "st_ruleListStorage st = fsc_RuleListStorage c" "st_newCategoryCache st = fsc_NewCategoryCache c"
      "st_typosquatting st = (if fsc_TyposquattingEnabled c then Some (fsc_Typosquatting c) else None)"
    and g: "\<forall>rc h. st_safeSearchGeneral st = Some (rc, h) \<longrightarrow> rule_at s h (ssc_ID (fsc_SafeSearchGeneral c), [])"
    and y: "\<forall>rc h. st_safeSearchYouTube st = Some (rc, h) \<longrightarrow> rule_at s h (ssc_ID (fsc_SafeSearchYouTube c), [])"
    using filterstorage_New_parts [OF new] by (auto simp: rule_at_def)
  have "storage_wf st s"
    unfolding storage_wf_def using ok g y sb
    by (intro conjI) (auto simp: st fs_config_ok_def prevRuleList_def prevDomainFilter_def serviceblock_New_def split: if_splits)
  then show ?thesis using ok by (simp add: st fs_inv_def fs_config_ok_def)
qed


definition client_config :: "filter_config \<Rightarrow> config_client option" where
  "client_config c =
     (case c of ConfigNil \<Rightarrow> None | ConfigClient c \<Rightarrow> Some c | ConfigGroup g \<Rightarrow> Some (client_of_group g))"

lemma ForConfig_client:
  "ForConfig N s st c = (case client_config c of None \<Rightarrow> FilterEmpty | Some cl \<Rightarrow> FilterComposite (forClient N s st cl))"
  by (simp add: ForConfig_def client_config_def forGroup_client split: filter_config.split)

lemma request_inv_fs_inv: "fs_inv N live st s \<Longrightarrow> request_inv N live s s' \<Longrightarrow> fs_inv N live st s'"
  using storage_wf_ext [of st s s'] heap_ext_ids [of s' s] by (simp add: fs_inv_def request_inv_def)

lemma fs_filter_inv:
  assumes D: "agdcache (ev_D N) live" and inv: "fs_inv N live st s"
  shows "if_FilterRequest (ev_V N) (ForConfig N s st c) req s = (r, s') \<Longrightarrow> fs_inv N live st s'"
    and "if_FilterResponse (ev_V N) (ForConfig N s st c) resp s = (r, s') \<Longrightarrow> fs_inv N live st s'"
proof -
  have I: "request_inv N live s s" using inv by (simp add: request_inv_def fs_inv_def)
  show "if_FilterRequest (ev_V N) (ForConfig N s st c) req s = (r, s') \<Longrightarrow> fs_inv N live st s'"
    using composite_request_keeps [OF forClient_keeps [OF D] I] request_inv_fs_inv [OF inv] inv
    by (auto simp: ForConfig_client split: option.splits)
  show "if_FilterResponse (ev_V N) (ForConfig N s st c) resp s = (r, s') \<Longrightarrow> fs_inv N live st s'"
    using composite_response_keeps [OF forClient_keeps [OF D] I] request_inv_fs_inv [OF inv] inv
    by (auto simp: ForConfig_client split: option.splits)
qed

lemma reach_inv:
  assumes D: "agdcache (ev_D N) live" and "fs_reach N X live st s"
  shows "fs_inv N live st s"
  using assms(2)
proof induction
  case (fs_new cache c st s)
  then show ?case by (rule filterstorage_New_wf)
next
  case (fs_refreshed st s W acceptStale e st' s')
  then show ?case using fs_refresh_inv [OF D] by blast
next
  case (fs_lists st s W acceptStale e rls heap files)
  let ?s = "s\<lparr>fh_rules := heap, fh_files := files\<rparr>"
  have wf: "storage_wf st s" using fs_lists.IH by (simp add: fs_inv_def)
  from rls_refresh_at [OF storage_wf_parts(1) [OF wf] fs_lists.hyps(2)] obtain xs
    where at: "lists_at heap (ls_ruleLists rls)" "heap = fh_rules s @ xs" by blast
  have "heap_ext s ?s" using at(2) by (simp add: heap_ext_def)
  from storage_wf_ext [OF wf this] have "storage_wf st ?s" .
  then have "storage_wf (st\<lparr>st_ruleListStorage := rls\<rparr>) ?s"
    using lists_at_wf [of ?s rls] at(1) unfolding storage_wf_def by (simp add: prevDomainFilter_def)
  then show ?case using fs_lists.IH by (simp add: fs_inv_def heap_ok_def)
next
  case (fs_hash st s loaded h r f)
  let ?s = "s\<lparr>fh_hash := (fh_hash s)[h := f]\<rparr>"
  have ok: "heap_ok N live s" "storage_wf st s" using fs_hash.IH by (simp_all add: fs_inv_def)
  have "map hp_id ((fh_hash s)[h := f]) = map hp_id (fh_hash s)"
    by (rule map_update_same) (use hp_refresh_fields(1) [of "ev_D N" loaded "fh_hash s ! h"] fs_hash.hyps(2) in simp)
  then have "storage_wf st ?s" by (intro storage_wf_ext [OF ok(2)] heap_ext_ids) (simp add: heap_ids_def)
  moreover have "\<forall>x \<in> set ((fh_hash s)[h := f]). hp_ok (ev_E N) live x"
    using hp_refresh_ok [OF D, of "ev_E N" "fh_hash s ! h" loaded] fs_hash.hyps(2) ok(1)
    by (intro list_update_all) (simp_all add: heap_ok_def)
  ultimately show ?case using fs_hash.IH by (simp add: fs_inv_def heap_ok_def)
next
  case (fs_typo st s T now acceptStale h fi e f fi')
  let ?s = "s\<lparr>fh_typo := (fh_typo s)[h := f]\<rparr>"
  have ok: "heap_ok N live s" "storage_wf st s" using fs_typo.IH by (simp_all add: fs_inv_def)
  have f: "ts_id f = ts_id (fh_typo s ! h)" "ts_resCache f = ts_resCache (fh_typo s ! h)"
    using fs_typo.hyps(2) by (auto simp: ts_refresh_def setIndexData_def split: option.splits prod.splits sum.splits)
  have "map ts_id ((fh_typo s)[h := f]) = map ts_id (fh_typo s)" by (rule map_update_same [OF f(1)])
  then have "storage_wf st ?s" by (intro storage_wf_ext [OF ok(2)] heap_ext_ids) (simp add: heap_ids_def)
  moreover have "\<forall>x \<in> set ((fh_typo s)[h := f]). ts_ok live x"
    using ok(1) f by (intro list_update_all) (simp_all add: heap_ok_def ts_ok_def)
  ultimately show ?case using fs_typo.IH by (simp add: fs_inv_def heap_ok_def)
next
  case (fs_request st s c req r s')
  then show ?case using fs_filter_inv(1) [OF D] by blast
next
  case (fs_response st s c resp r s')
  then show ?case using fs_filter_inv(2) [OF D] by blast
next
  case (fs_time st s now)
  have "heap_ext s (s\<lparr>fh_now := now\<rparr>)" by (simp add: heap_ext_def)
  then show ?case using fs_time.IH storage_wf_ext by (auto simp: fs_inv_def heap_ok_def)
qed



text \<open>A storage with one rule list and nothing else, after its initial refresh, and a client that uses the list.\<close>

definition ex_filters_env :: "(string, unit, unit) filters_env" where
  "ex_filters_env =
     \<lparr>ev_V = ex_flt_env, ev_U = ex_urlfilter False, ev_C = Empty_if, ev_D = Empty_if, ev_E = ex_net_env,
      ev_row = (\<lambda>_. []), ev_newId = 0\<rparr>"

definition ex_decoders :: fs_decoders where
  "ex_decoders = \<lparr>dx_idx = ex_idx_env, dx_categories = (\<lambda>_. None), dx_services = (\<lambda>_. None)\<rparr>"

definition ex_refr_config :: refr_config where
  "ex_refr_config = \<lparr>rcf_URL = None, rcf_CachePath = [], rcf_Staleness = 0, rcf_MaxSize = 0\<rparr>"

definition ex_fs_config :: "(unit, unit) fs_config" where
  "ex_fs_config =
     \<lparr>fsc_ServicesEnabled = False, fsc_ServicesIndex = ex_refr_config, fsc_Adult = None, fsc_Dangerous = None,
      fsc_NewlyRegistered = None,
      fsc_SafeSearchGeneral = \<lparr>ssc_Enabled = False, ssc_Refr = ex_refr_config, ssc_ID = IDGeneralSafeSearch\<rparr>,
      fsc_SafeSearchYouTube = \<lparr>ssc_Enabled = False, ssc_Refr = ex_refr_config, ssc_ID = IDYoutubeSafeSearch\<rparr>,
      fsc_CategoriesEnabled = False, fsc_CategoriesIndex = ex_refr_config, fsc_TyposquattingEnabled = False,
      fsc_Typosquatting = 0, fsc_RuleListStorage = ex_rl_storage, fsc_CacheDir = ''/'', fsc_CategoryStaleness = 0,
      fsc_CategoryMaxSize = 0, fsc_NewCategoryCache = (), fsc_NewServiceCache = None, fsc_SubDomainNum = 4\<rparr>"

definition ex_flt_storage :: "unit rl_storage \<Rightarrow> (unit, unit) flt_storage" where
  "ex_flt_storage rls =
     \<lparr>st_services = None, st_adult = None, st_dangerous = None, st_newlyRegistered = None, st_safeSearchGeneral = None,
      st_safeSearchYouTube = None, st_typosquatting = None, st_domainFilters = Map.empty, st_categoryDomainsIdxRefr = None,
      st_ruleListStorage = rls, st_cacheDir = ''/'', st_categoryStaleness = 0, st_categoryMaxSize = 0,
      st_newCategoryCache = (), st_newServiceCache = None, st_subDomainNum = 4\<rparr>"

definition ex_flt_heap :: "(string, unit) rl_heap \<Rightarrow> (string, unit, unit) flt_heap" where
  "ex_flt_heap rules = \<lparr>fh_now = 50, fh_rules = rules, fh_domain = [], fh_hash = [], fh_typo = [], fh_files = ex_files\<rparr>"

lemma ex_reach:
  "fs_reach ex_filters_env ex_decoders (\<lambda>_ _. Map.empty) (ex_flt_storage ex_loaded_storage) (ex_flt_heap ex_loaded_heap)"
proof -
  have new: "filterstorage_New (ev_U ex_filters_env) (dx_idx ex_decoders) () ex_fs_config [] =
      (Inr (ex_flt_storage ex_rl_storage), fh_rules (ex_flt_heap []))"
    by (simp add: filterstorage_New_def fs_init_def initBlockedServices_def initSafeSearch_def newSafeSearch_def
        initCategoryDomainIdxRefr_def ex_fs_config_def ex_flt_storage_def ex_flt_heap_def)
  have "fs_config_ok ex_filters_env (\<lambda>_ _. Map.empty) ex_fs_config (ex_flt_heap [])"
    by (simp add: fs_config_ok_def heap_ok_def ex_fs_config_def ex_flt_heap_def ex_rl_storage_def)
  from fs_lists [OF fs_new [OF new this], of "ex_world ''new'' 100" True None ex_loaded_storage ex_loaded_heap ex_files]
  show ?thesis
    using ex_rls_refreshed by (simp add: ex_filters_env_def ex_decoders_def ex_flt_storage_def ex_flt_heap_def)
qed

definition ex_config_client :: config_client where
  "ex_config_client =
     \<lparr>CustomFilter = \<lparr>cf_Rules = [], cf_Enabled = False\<rparr>, CustomRuleList = \<lparr>rlc_IDs = [], rlist_Enabled = False\<rparr>,
      cl_Parental = \<lparr>par_Categories = \<lparr>cat_IDs = [], cat_Enabled = False\<rparr>, PauseSchedule = None, BlockedServices = [],
        par_Enabled = False, AdultBlockingEnabled = False, SafeSearchGeneralEnabled = False, SafeSearchYouTubeEnabled = False\<rparr>,
      cl_RuleList = \<lparr>rlc_IDs = [''list'', ''gone''], rlist_Enabled = True\<rparr>,
      cl_SafeBrowsing = \<lparr>TyposquattingEnabled = None, sb_Enabled = False, DangerousDomainsEnabled = False,
        NewlyRegisteredDomainsEnabled = False\<rparr>\<rparr>"



subsection \<open>What the categories list\<close>

text \<open>A filter that always gives a result ends the request filters with a result or an error.\<close>

lemma req_filters_decided:
  assumes "\<forall>rf \<in> set rfs. keeps I rf" "I s" "g \<in> set rfs" "\<And>s. I s \<Longrightarrow> fst (g req s) \<noteq> Inr None"
  shows "fst (req_filters rfs req s) \<noteq> Inr None"
  using assms(1-3)
proof (induction rfs arbitrary: s)
  case (Cons rf rfs)
  obtain res s1 where rf: "rf req s = (res, s1)" by fastforce
  have s1: "I s1" by (rule keepsD [where flt = rf and I = I, OF _ Cons.prems(2) rf]) (use Cons.prems(1) in simp)
  show ?case
  proof (cases "res = Inr None")
    case True
    then have "rf \<noteq> g" using assms(4) [OF Cons.prems(2)] rf by auto
    then show ?thesis using Cons.IH [OF _ s1] Cons.prems(1,3) rf True by simp
  next
    case False
    then show ?thesis using rf by (auto split: sum.splits option.splits)
  qed
qed simp

lemma domain_ref_blocks:
  assumes C: "agdcache (ev_D N) live" and I: "request_inv N live s0 s" and at: "domain_at s0 h i"
    and q: "snd (IsFilterable (ne_famOf (ev_E N)) (fr_QType req))" and ds: "df_domains (fh_domain s0 ! h) = Some ds"
    and m: "df_matched (ev_E N) ds (df_subDomainNum (fh_domain s0 ! h)) (fr_Host req) \<noteq> []"
  shows "fst (domain_ref N h req s) = Inr (Some (ResultBlocked IDCategory i))"
proof -
  let ?g = "\<lambda>f. (df_resListID f, df_catID f, df_domains f, df_subDomainNum f)"
  have ids: "map ?g (fh_domain s) = map ?g (fh_domain s0)" using I by (simp add: request_inv_def heap_ids_def)
  then have len: "length (fh_domain s) = length (fh_domain s0)" by (rule map_eq_imp_length_eq)
  have h: "h < length (fh_domain s0)" using at by (simp add: domain_at_def)
  have "?g (fh_domain s ! h) = ?g (fh_domain s0 ! h)"
    using ids h len nth_map [of h "fh_domain s" ?g] nth_map [of h "fh_domain s0" ?g] by simp
  then show ?thesis
    using domain_ref_plain [OF C, of s h req] I h len q ds m at
    by (simp add: request_inv_def df_plain_def df_result_def domain_at_def)
qed



text \<open>The storage of the example with one category, after a refresh that downloads the list of the category.\<close>

definition ex_cat_config :: "(unit, unit) fs_config" where
  "ex_cat_config = ex_fs_config
     \<lparr>fsc_CategoriesEnabled := True,
      fsc_CategoriesIndex :=
        \<lparr>rcf_URL = Some \<lparr>pu_Scheme = ''https'', pu_Host = ''h'', pu_Path = ''/idx'', pu_String = ''https://h/idx''\<rparr>,
         rcf_CachePath = [], rcf_Staleness = 0, rcf_MaxSize = 9\<rparr>,
      fsc_CategoryMaxSize := 9\<rparr>"

definition ex_cat_decoders :: fs_decoders where
  "ex_cat_decoders = ex_decoders\<lparr>dx_categories := (\<lambda>b. if b = ''idx'' then Some [(''cat'', Some ''https://h/cat'')] else None)\<rparr>"

definition ex_cat_storage :: "(category_id \<rightharpoonup> nat option) \<Rightarrow> (unit, unit) flt_storage" where
  "ex_cat_storage dfs = (ex_flt_storage ex_rl_storage)
     \<lparr>st_domainFilters := dfs, st_categoryMaxSize := 9,
      st_categoryDomainsIdxRefr :=
        Some \<lparr>rf_fileURL = False, rf_staleness = 0, rf_maxSize = 9, rf_url = ''https://h/idx'', rf_cachePath = ''/index/category_filters.json''\<rparr>\<rparr>"

definition ex_cat_filter :: "unit domain_filter" where
  "ex_cat_filter =
     \<lparr>df_domains = Some {''ads.com''}, df_resCache = (), df_catID = ''cat'', df_resListID = IDCategory, df_subDomainNum = 4\<rparr>"

definition ex_cat_heap :: "(string, unit, unit) flt_heap" where
  "ex_cat_heap = (ex_flt_heap [])
     \<lparr>fh_files := ex_files(''/index/category_filters.json'' \<mapsto> \<lparr>file_data = ''idx'', file_mtime = 5\<rparr>)\<rparr>"

lemma ex_cat_refreshed:
  "\<exists>files. fs_refresh ex_filters_env ex_cat_decoders (ex_world ''ADS.com'' 100) True (ex_cat_storage Map.empty) ex_cat_heap =
     (None, ex_cat_storage [''cat'' \<mapsto> Some 0], ex_cat_heap\<lparr>fh_domain := [ex_cat_filter], fh_files := files\<rparr>)"
proof -
  let ?W = "ex_world ''ADS.com'' 100" and ?st = "ex_cat_storage Map.empty"
  let ?u = "\<lparr>pu_Scheme = ''https'', pu_Host = ''h'', pu_Path = ''/'', pu_String = ''https://h/cat''\<rparr>"
  let ?cat = "\<lparr>cd_url = ?u, cd_id = ''cat''\<rparr>"
  have idx: "loadCategoryIndex ex_cat_decoders ?W (the (st_categoryDomainsIdxRefr ?st)) True (fh_files ex_cat_heap) =
      (Inr [(''cat'', Some ''https://h/cat'')], (fh_files ex_cat_heap))"
    by (simp add: loadCategoryIndex_def ex_load_defs ex_cat_storage_def ex_cat_heap_def ex_flt_heap_def ex_files_def ex_cat_decoders_def fun_upd_twist)
  have cats: "category_toInternal ex_idx_env [(''cat'', Some ''https://h/cat'')] [] = [?cat]" by code_simp
  have "fst (refr_load ?W (category_refr ?st ?cat) False (fh_files ex_cat_heap)) = Inr ''ADS.com''" by code_simp
  then obtain files where ld: "refr_load ?W (category_refr ?st ?cat) False (fh_files ex_cat_heap) = (Inr ''ADS.com'', files)"
    by (metis prod.collapse)
  have "raw_lines ''ADS.com'' = [''ADS.com'']" "drop_cr ''ADS.com'' = ''ADS.com''" "to_lower ''ADS.com'' = ''ads.com''"
    by code_simp+
  then have "df_refresh Empty_if (Inr ''ADS.com'' :: (unit refr_error, string) result) (initDomainFilter ?st ?cat) = (Inr 1, ex_cat_filter)"
    by (simp add: df_refresh_def resetDomains_def initDomainFilter_def ex_cat_filter_def ex_cat_storage_def ex_flt_storage_def
        scan_lines_def MaxScanTokenSize_def is_list_line_def)
  then have "refreshDomainFilters Empty_if ?W ?st [?cat] Map.empty [] (fh_files ex_cat_heap) = ([''cat'' \<mapsto> Some 0], [ex_cat_filter], files)"
    by (simp add: refreshDomainFilter_def ld resultDomainFilter_def)
  with idx cats show ?thesis
    by (auto simp: fs_refresh_def loadCategoryFilters_def refreshServices_def refreshSafeSearch_def refresh_safe_search_def
        ex_filters_env_def ex_cat_heap_def ex_flt_heap_def ex_cat_decoders_def ex_decoders_def ex_cat_storage_def ex_flt_storage_def ex_world_def)
qed


definition ex_cat_client :: config_client where
  "ex_cat_client = ex_config_client
     \<lparr>cl_Parental := (cl_Parental ex_config_client)\<lparr>par_Enabled := True, par_Categories := \<lparr>cat_IDs = [''cat''], cat_Enabled = True\<rparr>\<rparr>\<rparr>"


end
