(* ===== verification/Ratelimit_Backoff.thy ===== *)
theory Ratelimit_Backoff
  imports Ratelimit
begin

text \<open>
  The backoff rate limiter against its specification: every subnet has its own request counter and
  its own number of hits, and a check touches those of one subnet only.
\<close>

subsection \<open>The counters of a subnet\<close>

definition subnet_hits :: "('c, prefix) cache_ops \<Rightarrow> time \<Rightarrow> ('e, 'c, 'r) backoff \<Rightarrow> prefix \<Rightarrow> 64 word" where
  "subnet_hits G now l k =
     (case gc_Get G now k (hitCounters l) of None \<Rightarrow> 0 | Some a \<Rightarrow> hitStore l ! a)"

definition subnet_reqs ::
  "('c, prefix) cache_ops \<Rightarrow> time \<Rightarrow> ('e, 'c, 'r) backoff \<Rightarrow> prefix \<Rightarrow> 'r request_counter option" where
  "subnet_reqs G now l k = map_option (\<lambda>a. reqStore l ! a) (gc_Get G now k (reqCounters l))"

text \<open>The entries of a cache point into the store, and entries of different keys to different places.\<close>

definition separated :: "('c, 'k) cache_ops \<Rightarrow> 'c \<Rightarrow> nat \<Rightarrow> bool" where
  "separated G c n \<longleftrightarrow>
     (\<forall>now k a. gc_Get G now k c = Some a \<longrightarrow> a < n) \<and>
     (\<forall>now now' k k' a. gc_Get G now k c = Some a \<longrightarrow> gc_Get G now' k' c = Some a \<longrightarrow> k = k')"

definition backoff_wf :: "('c, prefix) cache_ops \<Rightarrow> ('e, 'c, 'r) backoff \<Rightarrow> bool" where
  "backoff_wf G l \<longleftrightarrow>
     separated G (hitCounters l) (length (hitStore l)) \<and>
     separated G (reqCounters l) (length (reqStore l))"

declare backoff_wf_def [inv_defs]

lemma cache_okD:
  assumes "cache_ok G"
  shows "gc_Get G now k (gc_New G d) = None"
    and "gc_Get G now k (gc_SetDefault G now k v c) = Some v"
    and "k' \<noteq> k \<Longrightarrow> gc_Get G now' k' (gc_SetDefault G now k v c) = gc_Get G now' k' c"
    and "gc_Get G now' k (gc_SetDefault G now k v c) = Some a \<Longrightarrow> a = v"
proof -
  from assms obtain dur where new: "\<And>now d k. gc_Get G now k (gc_New G d) = None"
    and set: "\<And>now t k k' v c. gc_Get G now k' (gc_SetDefault G t k v c) =
      (if k' = k then (if 0 < dur c \<and> dur c < now - t then None else Some v) else gc_Get G now k' c)"
    unfolding cache_ok_def by blast
  show "gc_Get G now k (gc_New G d) = None" by (rule new)
  show "gc_Get G now k (gc_SetDefault G now k v c) = Some v" by (simp add: set)
  show "k' \<noteq> k \<Longrightarrow> gc_Get G now' k' (gc_SetDefault G now k v c) = gc_Get G now' k' c" by (simp add: set)
  show "gc_Get G now' k (gc_SetDefault G now k v c) = Some a \<Longrightarrow> a = v" by (simp add: set split: if_splits)
qed

lemma separatedD:
  assumes "separated G c n"
  shows "gc_Get G now k c = Some a \<Longrightarrow> a < n"
    and "gc_Get G now k c = Some a \<Longrightarrow> gc_Get G now' k' c = Some a \<Longrightarrow> k = k'"
  using assms unfolding separated_def by blast+

lemma separated_New: "cache_ok G \<Longrightarrow> separated G (gc_New G d) n"
  by (simp add: separated_def cache_okD(1))

lemma separated_Set:
  assumes "cache_ok G" "separated G c n"
  shows "separated G (gc_SetDefault G now k n c) (Suc n)"
proof -
  note get = cache_okD(3,4) [OF assms(1)]
  have old: "gc_Get G t k' c = Some a \<and> k' \<noteq> k \<or> a = n \<and> k' = k"
    if "gc_Get G t k' (gc_SetDefault G now k n c) = Some a" for t k' a
    using that get by (cases "k' = k") auto
  show ?thesis
    unfolding separated_def
  proof (intro conjI allI impI)
    fix t k' a
    assume "gc_Get G t k' (gc_SetDefault G now k n c) = Some a"
    then show "a < Suc n" using old separatedD(1) [OF assms(2)] less_SucI by blast
  next
    fix t t' k' k'' a
    assume "gc_Get G t k' (gc_SetDefault G now k n c) = Some a"
      and "gc_Get G t' k'' (gc_SetDefault G now k n c) = Some a"
    then show "k' = k''"
      using old separatedD [OF assms(2)] by (metis less_irrefl)
  qed
qed

lemma NewBackoff_wf: "cache_ok G \<Longrightarrow> backoff_wf G (NewBackoff G c)"
  by (simp add: backoff_wf_def NewBackoff_def separated_New)

subsection \<open>One counter store\<close>

text \<open>
  Looking up the counter of a key, or making a new one, and then changing it: the steps that
  \<open>hasHitRateLimit\<close> and \<open>incBackoff\<close> share.
\<close>

definition store_update ::
  "('c, 'k) cache_ops \<Rightarrow> time \<Rightarrow> 'k \<Rightarrow> 'v \<Rightarrow> ('v \<Rightarrow> 'v) \<Rightarrow> 'c \<times> 'v list \<Rightarrow> 'c \<times> 'v list" where
  "store_update G now k new f = (\<lambda>(c, vs).
     case gc_Get G now k c of
       Some a \<Rightarrow> (c, vs[a := f (vs ! a)])
     | None \<Rightarrow> (gc_SetDefault G now k (length vs) c, vs @ [f new]))"

definition store_get :: "('c, 'k) cache_ops \<Rightarrow> time \<Rightarrow> 'k \<Rightarrow> 'c \<times> 'v list \<Rightarrow> 'v option" where
  "store_get G now k = (\<lambda>(c, vs). map_option (\<lambda>a. vs ! a) (gc_Get G now k c))"

lemma store_update_separated:
  "cache_ok G \<Longrightarrow> separated G c (length vs) \<Longrightarrow> store_update G now k new f (c, vs) = (c', vs') \<Longrightarrow>
     separated G c' (length vs')"
  by (auto simp: store_update_def separated_Set split: option.splits)

lemma store_update_same:
  assumes "cache_ok G" "separated G c (length vs)"
  shows "store_get G now k (store_update G now k new f (c, vs)) =
           Some (f (case store_get G now k (c, vs) of None \<Rightarrow> new | Some v \<Rightarrow> v))"
  using cache_okD(2) [OF assms(1)] separatedD(1) [OF assms(2)]
  by (auto simp: store_update_def store_get_def split: option.splits)

lemma store_update_other:
  assumes "cache_ok G" "separated G c (length vs)" "k' \<noteq> k"
  shows "store_get G now' k' (store_update G now k new f (c, vs)) = store_get G now' k' (c, vs)"
proof (cases "gc_Get G now k c")
  case None
  with assms cache_okD(3) [OF assms(1)] separatedD(1) [OF assms(2)] show ?thesis
    by (auto simp: store_update_def store_get_def nth_append split: option.splits intro!: option.map_cong)
next
  case (Some a)
  with assms(3) separatedD(2) [OF assms(2)] have "gc_Get G now' k' c \<noteq> Some a" by metis
  with Some show ?thesis by (auto simp: store_update_def store_get_def intro!: option.map_cong)
qed

lemma incBackoff_store:
  "incBackoff G now key l =
     (let (c, vs) = store_update G now key 0 (\<lambda>h. h + 1) (hitCounters l, hitStore l)
      in l\<lparr>hitStore := vs, hitCounters := c\<rparr>)"
  by (auto simp: incBackoff_def store_update_def split: option.splits)

lemma hasHitRateLimit_store:
  assumes "backoff_wf G l"
  shows "hasHitRateLimit R G now key count ivl l =
     (let r = (case subnet_reqs G now l key of None \<Rightarrow> NewRequestCounter R count ivl | Some r \<Rightarrow> r);
          above = fst (counter_Add R now r);
          (c, vs) = store_update G now key (NewRequestCounter R count ivl)
                      (\<lambda>r. snd (counter_Add R now r)) (reqCounters l, reqStore l);
          l = l\<lparr>reqCounters := c, reqStore := vs\<rparr>
      in (above, if above then incBackoff G now key l else l))"
  by (auto simp: hasHitRateLimit_def subnet_reqs_def store_update_def case_prod_beta Let_def
      split: option.splits)

lemma subnet_store:
  "subnet_hits G now l k = (case store_get G now k (hitCounters l, hitStore l) of None \<Rightarrow> 0 | Some h \<Rightarrow> h)"
  "subnet_reqs G now l k = store_get G now k (reqCounters l, reqStore l)"
  by (simp_all add: subnet_hits_def subnet_reqs_def store_get_def split: option.split)

subsection \<open>A check\<close>

lemma isBackoff_hits:
  "0 < Count (bo_conf l) \<Longrightarrow> isBackoff G now k l \<longleftrightarrow> Count (bo_conf l) \<le> subnet_hits G now l k"
  by (auto simp: isBackoff_def subnet_hits_def not_le split: option.split)

lemma incBackoff_spec:
  assumes G: "cache_ok G" and wf: "backoff_wf G l"
  shows "backoff_wf G (incBackoff G now k l)"
    and "subnet_hits G now (incBackoff G now k l) k = subnet_hits G now l k + 1"
    and "k' \<noteq> k \<Longrightarrow> subnet_hits G now' (incBackoff G now k l) k' = subnet_hits G now' l k'"
    and "subnet_reqs G now' (incBackoff G now k l) k'' = subnet_reqs G now' l k''"
proof -
  from wf have sep: "separated G (hitCounters l) (length (hitStore l))" by (simp add: backoff_wf_def)
  obtain c vs where st: "store_update G now k 0 (\<lambda>h. h + 1) (hitCounters l, hitStore l) = (c, vs)" by fastforce
  then have inc: "incBackoff G now k l = l\<lparr>hitStore := vs, hitCounters := c\<rparr>" by (simp add: incBackoff_store)
  show "backoff_wf G (incBackoff G now k l)"
    using wf store_update_separated [OF G sep st] by (simp add: inc backoff_wf_def)
  show "subnet_hits G now (incBackoff G now k l) k = subnet_hits G now l k + 1"
    using store_update_same [OF G sep, of now k 0 "\<lambda>h. h + 1"] by (simp add: subnet_store inc st)
  show "k' \<noteq> k \<Longrightarrow> subnet_hits G now' (incBackoff G now k l) k' = subnet_hits G now' l k'"
    using store_update_other [OF G sep, of k' k now' now 0 "\<lambda>h. h + 1"] by (simp add: subnet_store inc st)
  show "subnet_reqs G now' (incBackoff G now k l) k'' = subnet_reqs G now' l k''"
    by (simp add: subnet_store inc)
qed

text \<open>
  C7: the limiter keeps independent counters per subnet.  A check of a request that is neither an
  ANY query to refuse nor from an allowlisted address drops it without counting while the subnet
  has reached the number of hits; otherwise it drops it exactly when the request counter of the
  subnet (a new one with the limit of the address family if there is none or the old one has
  expired) is above its limit, counts the request, and adds a hit if it was above.  The counters of
  every other subnet stay as they are at every time.
\<close>

theorem backoff_refines_per_subnet_counters:
  fixes l :: "('e, 'c, 'r) backoff" and R :: "'r ring_ops" and now :: time
  assumes G: "cache_ok G" and wf: "backoff_wf G l" and pos: "0 < Count (bo_conf l)"
    and req: "addr_is_valid ip" "Question req \<noteq> []" "\<not> (RefuseANY (bo_conf l) \<and> Qtype (question0 req) = TypeANY)"
    and allow: "bc_Allowlist (bo_conf l) ip = Inr False" and key: "subnetKey (bo_conf l) ip = Some k"
  defines "count \<equiv> if addr_is6 ip then IPv6Count (bo_conf l) else IPv4Count (bo_conf l)"
  defines "ivl \<equiv> if addr_is6 ip then IPv6Interval (bo_conf l) else IPv4Interval (bo_conf l)"
  defines "add \<equiv> counter_Add R now (case subnet_reqs G now l k of None \<Rightarrow> NewRequestCounter R count ivl | Some r \<Rightarrow> r)"
  shows "\<exists>res l'. IsRateLimited R G now req ip l = (res, l') \<and>
           (if Count (bo_conf l) \<le> subnet_hits G now l k then res = Inr (True, False) \<and> l' = l
            else res = Inr (fst add, False) \<and> backoff_wf G l' \<and>
              subnet_reqs G now l' k = Some (snd add) \<and>
              subnet_hits G now l' k = subnet_hits G now l k + (if fst add then 1 else 0) \<and>
              (\<forall>now' k'. k' \<noteq> k \<longrightarrow> subnet_reqs G now' l' k' = subnet_reqs G now' l k' \<and>
                                  subnet_hits G now' l' k' = subnet_hits G now' l k'))"
proof (cases "Count (bo_conf l) \<le> subnet_hits G now l k")
  case True
  with req allow key show ?thesis by (simp add: IsRateLimited_def isBackoff_hits [OF pos] Let_def)
next
  case False
  let ?new = "NewRequestCounter R count ivl" and ?f = "\<lambda>r. snd (counter_Add R now r)"
  from wf have sep: "separated G (reqCounters l) (length (reqStore l))" by (simp add: backoff_wf_def)
  obtain c vs where st: "store_update G now k ?new ?f (reqCounters l, reqStore l) = (c, vs)" by fastforce
  define l1 where "l1 = l\<lparr>reqCounters := c, reqStore := vs\<rparr>"
  have wf1: "backoff_wf G l1"
    using wf store_update_separated [OF G sep st] by (simp add: l1_def backoff_wf_def)
  have hits1: "subnet_hits G now' l1 k' = subnet_hits G now' l k'" for now' k'
    by (simp add: subnet_store l1_def)
  have reqs1: "subnet_reqs G now l1 k = Some (snd add)"
    using store_update_same [OF G sep, of now k ?new ?f] by (simp add: subnet_store l1_def st add_def)
  have reqs1': "subnet_reqs G now' l1 k' = subnet_reqs G now' l k'" if "k' \<noteq> k" for now' k'
    using store_update_other [OF G sep that, of now' now ?new ?f] by (simp add: subnet_store l1_def st)
  have "hasHitRateLimit R G now k count ivl l = (fst add, if fst add then incBackoff G now k l1 else l1)"
    by (simp add: hasHitRateLimit_store [OF wf] add_def st l1_def Let_def)
  then have res: "IsRateLimited R G now req ip l =
      (Inr (fst add, False), if fst add then incBackoff G now k l1 else l1)"
    using req allow key False
    by (auto simp: IsRateLimited_def isBackoff_hits [OF pos] count_def ivl_def Let_def)
  show ?thesis
    using incBackoff_spec [OF G wf1] wf1 hits1 reqs1 reqs1' False
    by (simp add: res)
qed

text \<open>A cache as a map from keys to the time an entry was set and its value.\<close>

definition cache_std :: "(duration \<times> ('k \<rightharpoonup> time \<times> nat), 'k) cache_ops" where
  "cache_std =
     \<lparr>gc_New = (\<lambda>d. (d, Map.empty)),
      gc_Get = (\<lambda>now k (d, m). case m k of
                  None \<Rightarrow> None
                | Some (t, v) \<Rightarrow> if 0 < d \<and> d < now - t then None else Some v),
      gc_SetDefault = (\<lambda>t k v (d, m). (d, m(k \<mapsto> (t, v))))\<rparr>"

lemma cache_std_ok: "cache_ok cache_std"
  unfolding cache_ok_def cache_std_def by (rule exI [of _ fst]) auto

definition ex_backoff_conf :: "unit backoff_config" where
  "ex_backoff_conf =
     \<lparr>bc_Allowlist = (\<lambda>_. Inr False), Period = 10, Duration = 20, Count = 1, ResponseSizeEstimate = 100,
      IPv4Count = 0, IPv4Interval = 5, IPv4SubnetKeyLen = 24, IPv6Count = 0, IPv6Interval = 5,
      IPv6SubnetKeyLen = 48, RefuseANY = True\<rparr>"

definition ex_query :: "string \<Rightarrow> 16 word \<Rightarrow> msg" where
  "ex_query name qt = empty_msg\<lparr>Question := [\<lparr>q_Name = name, Qtype = qt, Qclass = ClassINET\<rparr>]\<rparr>"

theorem backoff_refines_per_subnet_counters_witness:
  "\<exists>l'. IsRateLimited ring_std cache_std (unix_epoch + 1) (ex_query ''a.'' TypeA) (Addr4 0x01020304)
          (NewBackoff cache_std ex_backoff_conf) = (Inr (True, False), l') \<and>
        subnet_hits cache_std (unix_epoch + 1) l' \<lparr>pfx_addr = Addr4 0x01020300, pfx_bits = 24\<rparr> = 1"
proof -
  let ?l = "NewBackoff cache_std ex_backoff_conf :: (unit, _, nat \<times> 64 word list) backoff"
  let ?k = "\<lparr>pfx_addr = Addr4 0x01020300, pfx_bits = 24\<rparr>" and ?ip = "Addr4 0x01020304"
  have hyps: "0 < Count (bo_conf ?l)" "addr_is_valid ?ip" "Question (ex_query ''a.'' TypeA) \<noteq> []"
    "\<not> (RefuseANY (bo_conf ?l) \<and> Qtype (question0 (ex_query ''a.'' TypeA)) = TypeANY)"
    "bc_Allowlist (bo_conf ?l) ?ip = Inr False" "subnetKey (bo_conf ?l) ?ip = Some ?k"
    by (simp_all add: NewBackoff_def ex_backoff_conf_def addr_is_valid_def ex_query_def question0_def
        subnetKey_def addr_prefix_def)
  have new: "subnet_hits cache_std (unix_epoch + 1) ?l ?k = 0"
    "subnet_reqs cache_std (unix_epoch + 1) ?l ?k = None"
    by (simp_all add: subnet_hits_def subnet_reqs_def NewBackoff_def cache_okD(1) [OF cache_std_ok])
  have add: "fst (counter_Add ring_std (unix_epoch + 1) (NewRequestCounter ring_std 0 5))"
    by (simp add: counter_Add_def NewRequestCounter_def ring_std_def UnixNano_def word_sless_alt word_sle_eq)
  show ?thesis
    using backoff_refines_per_subnet_counters [OF cache_std_ok NewBackoff_wf [OF cache_std_ok] hyps,
        of ring_std "unix_epoch + 1"] new add
    by (auto simp: NewBackoff_def ex_backoff_conf_def)
qed

end
