(* ===== verification/Service.thy ===== *)
theory Service
  imports Main_Laws Dns_Cache Stats Filter_Reach Ratelimit_Backoff Device_Finder_Laws
begin

text \<open>
  The DNS service (\<open>internal/dnssvc/handler.go\<close>): the middlewares are put together over one state of the program, which has the profile database,
  the filters, the limiters, the access managers, the statistics, the query log and the caches.  The upstream behind all of them,
  the GeoIP database and the DNS check are parameters.
\<close>

subsection \<open>The state\<close>

text \<open>
  Lookups in the profile database leave tasks that run in the background.  The query log has the entries that were handed to it.
  The upstream has a state of its own, and it may take time.
\<close>

record ('e, 'g, 'c, 'd, 'b, 'r, 'k, 'p, 'u) svc =
  sv_now :: time
  sv_db :: "unit client_profile_ext db"
  sv_tasks :: "db_task list"
  sv_flt :: "('g, 'c, 'd) flt_heap"
  sv_storage :: "('c, 'd) flt_storage"
  sv_backoff :: "('e, 'b, 'r) backoff"
  sv_limiters :: "'r ratelimiter list"
  sv_global :: "'g global"
  sv_standard :: "'g standard_blocker"
  sv_access :: "'g access_profile list"
  sv_bill :: bill_records
  sv_rules :: rule_stats
  sv_log :: "ql_entry list"
  sv_dnsdb :: db_buffer
  sv_cache :: 'k
  sv_ecsCache :: 'k
  sv_plain :: 'p
  sv_upstream :: 'u

record ('e, 'g, 'c, 'd, 'b, 'r, 'k, 'p) svc_env =
  se_ecslib :: ecslib
  se_IsSubdomain :: "string \<Rightarrow> string \<Rightarrow> bool"
  se_filters :: "('g, 'c, 'd) filters_env"
  se_access :: "'g access_env"
  se_ring :: "'r ring_ops"
  se_gcache :: "('b, prefix) cache_ops"
  se_contains :: "prefix list \<Rightarrow> addr \<Rightarrow> bool"
  se_values :: "string list \<Rightarrow> string list"
  se_geoData :: "string \<Rightarrow> addr \<Rightarrow> geo_location option"
  se_SubnetByLocation :: "geo_location \<Rightarrow> 16 word \<Rightarrow> ('e, prefix) result"
  se_Check :: "msg \<Rightarrow> 'e request_info \<Rightarrow> ('e, msg option) result"
  se_ecsC :: "('k, ecs_key, ecs_item) cache_if"
  se_plainC :: "('p, string, plain_item) cache_if"
  se_fakeECS :: "string set"

abbreviation se_lib :: "('e, 'g, 'c, 'd, 'b, 'r, 'k, 'p) svc_env \<Rightarrow> dnslib" where
  "se_lib E \<equiv> el_lib (se_ecslib E)"

subsection \<open>The configuration\<close>

datatype cache_type = CacheTypeNone | CacheTypeSimple | CacheTypeECS

record cache_config =
  ca_MinTTL :: duration
  ca_Type :: cache_type
  ca_OverrideCacheTTL :: bool

text \<open>A server with its device finder; the finder of a group without profiles finds nothing.\<close>

record 'e server_group =
  sg_Name :: string
  sg_FilteringGroup :: string
  sg_DDR :: ddr_config
  sg_DeviceDomains :: "string list"
  sg_Servers :: "(server \<times> 'e finder) list"
  sg_ProfilesEnabled :: bool

record ('e, 's) handlers_config =
  hc_Cache :: cache_config
  hc_Messages :: constructor
  hc_StructuredErrors :: sde_config
  hc_EDEEnabled :: bool
  hc_NodeName :: string
  hc_HashMatcher :: "(string \<times> nat) list"
  hc_PostInitialMiddleware :: "('e, 's) middleware option"
  hc_FilteringGroups :: "string \<rightharpoonup> filtering_group"
  hc_ServerGroups :: "'e server_group list"

subsection \<open>The operations that the middlewares get\<close>

definition svc_Find ::
  "('e, 'g, 'c, 'd, 'b, 'r, 'k, 'p) svc_env \<Rightarrow> bool \<Rightarrow> 'e finder \<Rightarrow> req_info \<Rightarrow> msg \<Rightarrow> addr_port \<Rightarrow> addr_port \<Rightarrow>
     ('e, 'g, 'c, 'd, 'b, 'r, 'k, 'p, 'u) svc \<Rightarrow> 'e client_result option \<times> ('e, 'g, 'c, 'd, 'b, 'r, 'k, 'p, 'u) svc" where
  "svc_Find E profilesEnabled f info req raddr laddr s =
     (if \<not> profilesEnabled then (None, s)
      else (case Find (se_lib E) f req info raddr laddr (sv_db s) of
              (r, db, ts) \<Rightarrow> (r, s\<lparr>sv_db := db, sv_tasks := sv_tasks s @ ts\<rparr>)))"

definition svc_rlmw ::
  "('e, 'g, 'c, 'd, 'b, 'r, 'k, 'p) svc_env \<Rightarrow> ('e, 't) handlers_config \<Rightarrow> filtering_group \<Rightarrow> 'e server_group \<Rightarrow> server \<times> 'e finder \<Rightarrow>
     ('e, ('e, 'g, 'c, 'd, 'b, 'r, 'k, 'p, 'u) svc) rlmw" where
  "svc_rlmw E c fltGrp srvGrp srv =
     \<lparr>rm_lib = se_lib E, rm_ipToAddr = el_ipToAddr (se_ecslib E), rm_messages = hc_Messages c, rm_fltGrp = fltGrp,
      rm_srvInfo = \<lparr>si_GroupName = sg_Name srvGrp, si_Name = srv_Name (fst srv), si_DeviceDomains = sg_DeviceDomains srvGrp,
        si_Protocol = Protocol (fst srv), si_ProfilesEnabled = sg_ProfilesEnabled srvGrp\<rparr>,
      rm_sdeConf = hc_StructuredErrors c,
      rm_IsBlockedIP = (\<lambda>ip s. IsBlockedIP (sv_global s) ip),
      rm_IsBlockedHost = (\<lambda>host qt s. IsBlockedHost (se_access E) (sv_global s) host qt),
      rm_Find = svc_Find E (sg_ProfilesEnabled srvGrp) (snd srv),
      rm_geoData = (\<lambda>host ip s. (se_geoData E host ip, s)),
      rm_IsRateLimited = (\<lambda>req ip s.
        case IsRateLimited (se_ring E) (se_gcache E) (sv_now s) req ip (sv_backoff s) of (r, l) \<Rightarrow> (r, s\<lparr>sv_backoff := l\<rparr>)),
      rm_CountResponses = (\<lambda>resp ip s.
        case CountResponses (se_lib E) (se_ring E) (se_gcache E) (sv_now s) resp ip (sv_backoff s) of
          (r, l) \<Rightarrow> (r, s\<lparr>sv_backoff := l\<rparr>)),
      rm_accessIsBlocked = (\<lambda>n req raddr l s.
        case access_IsBlocked (se_access E) (sv_standard s) req raddr l (sv_access s ! n) of
          (b, a) \<Rightarrow> (b, s\<lparr>sv_access := (sv_access s)[n := a]\<rparr>)),
      rm_Check = (\<lambda>n req ip s.
        case rl_Check (se_ring E) (se_contains E) (sv_now s) ip (sv_limiters s ! n) of
          (r, l) \<Rightarrow> (r, s\<lparr>sv_limiters := (sv_limiters s)[n := l]\<rparr>)),
      rm_profCountResponses = (\<lambda>n resp ip s.
        case rl_CountResponses (se_lib E) (se_ring E) (se_contains E) (sv_now s) resp ip (sv_limiters s ! n) of
          None \<Rightarrow> (Some PanicDivide, s)
        | Some l \<Rightarrow> (None, s\<lparr>sv_limiters := (sv_limiters s)[n := l]\<rparr>)),
      rm_protos = [ProtoDNS], rm_edeEnabled = hc_EDEEnabled c\<rparr>"

text \<open>The filters read the clock of the state.\<close>

abbreviation flt_now :: "('e, 'g, 'c, 'd, 'b, 'r, 'k, 'p, 'u) svc \<Rightarrow> ('g, 'c, 'd) flt_heap" where
  "flt_now s \<equiv> (sv_flt s)\<lparr>fh_now := sv_now s\<rparr>"

definition svc_mainmw ::
  "('e, 'g, 'c, 'd, 'b, 'r, 'k, 'p) svc_env \<Rightarrow> ('e, 't) handlers_config \<Rightarrow>
     (('g, 'c, 'd) flt_heap filter_if, ('e, 'g, 'c, 'd, 'b, 'r, 'k, 'p, 'u) svc) mainmw" where
  "svc_mainmw E c =
     \<lparr>mm_lib = se_lib E, mm_ipToAddr = el_ipToAddr (se_ecslib E), mm_messages = hc_Messages c, mm_nodeName = hc_NodeName c,
      mm_ForConfig = (\<lambda>conf s. ForConfig (se_filters E) (flt_now s) (sv_storage s) conf),
      mm_FilterRequest = (\<lambda>f req s. case if_FilterRequest (ev_V (se_filters E)) f req (flt_now s) of (r, h) \<Rightarrow> (r, s\<lparr>sv_flt := h\<rparr>)),
      mm_FilterResponse = (\<lambda>f resp s. case if_FilterResponse (ev_V (se_filters E)) f resp (flt_now s) of (r, h) \<Rightarrow> (r, s\<lparr>sv_flt := h\<rparr>)),
      mm_Collect = (\<lambda>i t s. s\<lparr>sv_rules := stats_Collect i t (sv_rules s)\<rparr>),
      mm_Record = (\<lambda>d ctry asn start p s. s\<lparr>sv_bill := bill_Record d ctry asn start p (sv_bill s)\<rparr>),
      mm_Write = (\<lambda>e s. s\<lparr>sv_log := sv_log s @ [e]\<rparr>),
      mm_geoData = (\<lambda>host ip s. (se_geoData E host ip, s)),
      mm_now = sv_now\<rparr>"

definition svc_presvcmw ::
  "('e, 'g, 'c, 'd, 'b, 'r, 'k, 'p) svc_env \<Rightarrow> ('e, 't) handlers_config \<Rightarrow> ('e, ('e, 'g, 'c, 'd, 'b, 'r, 'k, 'p, 'u) svc) presvcmw" where
  "svc_presvcmw E c =
     \<lparr>ps_lib = se_lib E, ps_messages = hc_Messages c,
      ps_MatchByPrefix = (\<lambda>host s.
        MatchByPrefix (se_values E) (map (\<lambda>(suffix, i). (suffix, hp_hashes (fh_hash (sv_flt s) ! i))) (hc_HashMatcher c)) host),
      ps_Check = (\<lambda>req ri s. (se_Check E req ri, s))\<rparr>"

definition svc_preupsmw ::
  "('e, 'g, 'c, 'd, 'b, 'r, 'k, 'p) svc_env \<Rightarrow> ('e, ('e, 'g, 'c, 'd, 'b, 'r, 'k, 'p, 'u) svc) preupsmw" where
  "svc_preupsmw E =
     \<lparr>pu_lib = se_lib E, pu_Record = (\<lambda>m ri s. s\<lparr>sv_dnsdb := dnsdb_Record m (ri_Host ri) (sv_dnsdb s)\<rparr>)\<rparr>"

subsection \<open>The caches\<close>

text \<open>The handler of the upstream works on the clock and on its own state; a cache on these and on its entries.\<close>

definition on_upstream ::
  "('e, time \<times> 'u) handler \<Rightarrow> ('e, ('e, 'g, 'c, 'd, 'b, 'r, 'k, 'p, 'u) svc) handler" where
  "on_upstream h cx rw req s =
     (case h cx rw req (sv_now s, sv_upstream s) of (err, rw, req, (t, u)) \<Rightarrow> (err, rw, req, s\<lparr>sv_now := t, sv_upstream := u\<rparr>))"

definition on_plain ::
  "('e, ('p, time \<times> 'u) plain_state) handler \<Rightarrow> ('e, ('e, 'g, 'c, 'd, 'b, 'r, 'k, 'p, 'u) svc) handler" where
  "on_plain h cx rw req s =
     (case h cx rw req \<lparr>pt_cache = sv_plain s, pt_rest = (sv_now s, sv_upstream s)\<rparr> of
        (err, rw, req, p) \<Rightarrow>
          (err, rw, req, s\<lparr>sv_plain := pt_cache p, sv_now := fst (pt_rest p), sv_upstream := snd (pt_rest p)\<rparr>))"

definition on_ecs ::
  "('e, ('k, time \<times> 'u) ecs_state) handler \<Rightarrow> ('e, ('e, 'g, 'c, 'd, 'b, 'r, 'k, 'p, 'u) svc) handler" where
  "on_ecs h cx rw req s =
     (case h cx rw req \<lparr>st_cache = sv_cache s, st_ecsCache = sv_ecsCache s, st_rest = (sv_now s, sv_upstream s)\<rparr> of
        (err, rw, req, p) \<Rightarrow>
          (err, rw, req, s\<lparr>sv_cache := st_cache p, sv_ecsCache := st_ecsCache p, sv_now := fst (st_rest p),
             sv_upstream := snd (st_rest p)\<rparr>))"

definition svc_plainmw :: "('e, 'g, 'c, 'd, 'b, 'r, 'k, 'p) svc_env \<Rightarrow> cache_config \<Rightarrow> ('p, time \<times> 'u) plainmw" where
  "svc_plainmw E conf =
     \<lparr>pl_lib = se_lib E, pl_C = se_plainC E, pl_now = fst, pl_cacheMinTTL = ca_MinTTL conf, pl_overrideTTL = ca_OverrideCacheTTL conf\<rparr>"

definition svc_ecsmw :: "('e, 'g, 'c, 'd, 'b, 'r, 'k, 'p) svc_env \<Rightarrow> cache_config \<Rightarrow> ('k, 'e, time \<times> 'u) ecsmw" where
  "svc_ecsmw E conf =
     \<lparr>em_lib = se_ecslib E, em_fakeECS = se_fakeECS E, em_C = se_ecsC E, em_now = fst,
      em_SubnetByLocation = (\<lambda>l fam s. (se_SubnetByLocation E l fam, s)), em_cacheMinTTL = ca_MinTTL conf,
      em_overrideTTL = ca_OverrideCacheTTL conf\<rparr>"

definition wrapPreUpstreamMw ::
  "('e, 'g, 'c, 'd, 'b, 'r, 'k, 'p) svc_env \<Rightarrow> cache_config \<Rightarrow> ('e, time \<times> 'u) handler \<Rightarrow>
     ('e, ('e, 'g, 'c, 'd, 'b, 'r, 'k, 'p, 'u) svc) handler" where
  "wrapPreUpstreamMw E conf h =
     preups_Wrap (svc_preupsmw E)
       (case ca_Type conf of
          CacheTypeNone \<Rightarrow> on_upstream h
        | CacheTypeSimple \<Rightarrow> on_plain (plain_Wrap (svc_plainmw E conf) h)
        | CacheTypeECS \<Rightarrow> on_ecs (ecs_Wrap (svc_ecsmw E conf) h))"

subsection \<open>The handlers\<close>

definition mainHandler ::
  "('e, 'g, 'c, 'd, 'b, 'r, 'k, 'p) svc_env \<Rightarrow> ('e, ('e, 'g, 'c, 'd, 'b, 'r, 'k, 'p, 'u) svc) handlers_config \<Rightarrow> ('e, time \<times> 'u) handler \<Rightarrow>
     ('e, ('e, 'g, 'c, 'd, 'b, 'r, 'k, 'p, 'u) svc) handler" where
  "mainHandler E c h =
     (let handler = presvc_Wrap (svc_presvcmw E c) (main_Wrap (svc_mainmw E c) (wrapPreUpstreamMw E (hc_Cache c) h))
      in case hc_PostInitialMiddleware c of None \<Rightarrow> handler | Some m \<Rightarrow> m handler)"

definition serverHandler ::
  "('e, 'g, 'c, 'd, 'b, 'r, 'k, 'p) svc_env \<Rightarrow> ('e, ('e, 'g, 'c, 'd, 'b, 'r, 'k, 'p, 'u) svc) handlers_config \<Rightarrow> filtering_group \<Rightarrow>
     'e server_group \<Rightarrow> server \<times> 'e finder \<Rightarrow> ('e, time \<times> 'u) handler \<Rightarrow> ('e, ('e, 'g, 'c, 'd, 'b, 'r, 'k, 'p, 'u) svc) handler" where
  "serverHandler E c fltGrp srvGrp srv h =
     rl_Wrap (svc_rlmw E c fltGrp srvGrp srv)
       (initial_Wrap \<lparr>im_lib = se_lib E, im_IsSubdomain = se_IsSubdomain E, im_ddr = sg_DDR srvGrp\<rparr> (mainHandler E c h))"

text \<open>The handlers by the positions of group and server; the error is the name of a filtering group that is not there.\<close>

fun newHandlersForServers ::
  "('e, 'g, 'c, 'd, 'b, 'r, 'k, 'p) svc_env \<Rightarrow> ('e, ('e, 'g, 'c, 'd, 'b, 'r, 'k, 'p, 'u) svc) handlers_config \<Rightarrow>
     ('e, time \<times> 'u) handler \<Rightarrow> 'e server_group list \<Rightarrow>
     (string, ('e, ('e, 'g, 'c, 'd, 'b, 'r, 'k, 'p, 'u) svc) handler list list) result" where
  "newHandlersForServers E c h [] = Inr []"
| "newHandlersForServers E c h (srvGrp # srvGrps) =
     (case hc_FilteringGroups c (sg_FilteringGroup srvGrp) of
        None \<Rightarrow> Inl (sg_FilteringGroup srvGrp)
      | Some fltGrp \<Rightarrow>
          (case newHandlersForServers E c h srvGrps of
             Inl e \<Rightarrow> Inl e
           | Inr hs \<Rightarrow> Inr (map (\<lambda>srv. serverHandler E c fltGrp srvGrp srv h) (sg_Servers srvGrp) # hs)))"

definition NewHandlers ::
  "('e, 'g, 'c, 'd, 'b, 'r, 'k, 'p) svc_env \<Rightarrow> ('e, ('e, 'g, 'c, 'd, 'b, 'r, 'k, 'p, 'u) svc) handlers_config \<Rightarrow>
     ('e, time \<times> 'u) handler \<Rightarrow> (string, ('e, ('e, 'g, 'c, 'd, 'b, 'r, 'k, 'p, 'u) svc) handler list list) result" where
  "NewHandlers E c h = newHandlersForServers E c h (hc_ServerGroups c)"

end
