(* ===== verification/Limiter_Laws.thy ===== *)
theory Limiter_Laws
  imports Middleware_Laws
begin

text \<open>
  What the outermost middleware does with a request: it drops it, refuses its client subnet, or hands it once to the handler below,
  with the information about the request, and delivers what that handler answers.
\<close>

text \<open>A writer through which nothing was answered yet.\<close>

definition fresh :: "'e writer \<Rightarrow> bool" where
  "fresh rw \<longleftrightarrow> (wr_nonWriter rw \<longrightarrow> wr_resp rw = None)"

lemma fresh_answers [simp]: "fresh rw \<Longrightarrow> answers rw (err, rw, req, s) = []"
  by (auto simp: fresh_def)

lemma fresh_NonWriter [simp]:
  "fresh (NewNonWriter a b)" "wr_remote (NewNonWriter a b) = b" "wr_local (NewNonWriter a b) = a"
  by (simp_all add: fresh_def NewNonWriter_def)

lemma fresh_MakeNonWriter [simp]: "fresh rw \<Longrightarrow> fresh (MakeNonWriter rw)"
  by (simp add: MakeNonWriter_def)

text \<open>The information about a request, from the state in which the request comes in.\<close>

definition rl_info :: "('e, 's) rlmw \<Rightarrow> 'e ctx \<Rightarrow> 'e writer \<Rightarrow> msg \<Rightarrow> 's \<Rightarrow> 'e request_info option" where
  "rl_info mw cx rw req s =
     (case rl_location mw req (ap_addr (wr_remote rw)) s of
        (Inl _, _) \<Rightarrow> None
      | (Inr (loc, ecs), s) \<Rightarrow>
          Some ((fst (newRequestInfo mw cx req (wr_local rw) (wr_remote rw) s))\<lparr>ri_Location := loc, ri_ECS := ecs\<rparr>))"

text \<open>
  The operations of the middleware relate the states that they are given to those they leave.  \<open>R\<close> stands for what they leave alone.
\<close>

locale limiter_ops =
  fixes mw :: "('e, 's) rlmw" and R :: "'s \<Rightarrow> 's \<Rightarrow> bool"
  assumes R_refl: "R s s" and R_trans: "R s s' \<Longrightarrow> R s' s'' \<Longrightarrow> R s s''"
    and R_Find: "rm_Find mw i q raddr laddr s = (x1, s') \<Longrightarrow> R s s'"
    and R_geoData: "rm_geoData mw h ip s = (x2, s') \<Longrightarrow> R s s'"
    and R_IsRateLimited: "rm_IsRateLimited mw q ip s = (x3, s') \<Longrightarrow> R s s'"
    and R_CountResponses: "rm_CountResponses mw q ip s = (x4, s') \<Longrightarrow> R s s'"
    and R_accessIsBlocked: "rm_accessIsBlocked mw n q raddr l s = (x5, s') \<Longrightarrow> R s s'"
    and R_Check: "rm_Check mw n q ip s = (x6, s') \<Longrightarrow> R s s'"
    and R_profCountResponses: "rm_profCountResponses mw n q ip s = (x7, s') \<Longrightarrow> R s s'"
begin

text \<open>The handler is called once, and its answers are the only ones, or it is not called, and there are none.\<close>

definition passed :: "('e, 's) handler \<Rightarrow> 'e ctx \<Rightarrow> 'e writer \<Rightarrow> msg \<Rightarrow> 's \<Rightarrow> ('e, 's) outcome \<Rightarrow> bool" where
  "passed handle cx rw req s out \<longleftrightarrow>
     (\<exists>rw0 s0 err1 rw1 req1 s1. handle cx rw0 req s0 = (err1, rw1, req1, s1) \<and> fresh rw0 \<and> wr_remote rw0 = wr_remote rw \<and> R s s0 \<and>
        R s1 (snd (snd (snd out))) \<and> set (answers rw out) \<subseteq> set (answers rw0 (err1, rw1, req1, s1)))"

definition unanswered :: "'e writer \<Rightarrow> 's \<Rightarrow> ('e, 's) outcome \<Rightarrow> bool" where
  "unanswered rw s out \<longleftrightarrow> answers rw out = [] \<and> R s (snd (snd (snd out)))"

lemma passed_direct: "fresh rw \<Longrightarrow> R s s0 \<Longrightarrow> passed handle cx rw req s (handle cx rw req s0)"
  unfolding passed_def by (cases "handle cx rw req s0") (auto intro!: exI [of _ rw] exI [of _ s0] R_refl)

lemma passed_earlier: "passed handle cx rw req s1 out \<Longrightarrow> R s s1 \<Longrightarrow> passed handle cx rw req s out"
  unfolding passed_def using R_trans by blast

text \<open>A call with a non-writer, after which the response is counted and written.\<close>

lemma passed_counted:
  assumes f: "fresh rw" and r: "R s s0" and count: "\<And>m s x s'. count m s = (x, s') \<Longrightarrow> R s s'"
  shows "passed handle cx rw req s
     (case handle cx (NewNonWriter (wr_local rw) (wr_remote rw)) req s0 of
        (Some e, _, req, s) \<Rightarrow> (Some e, rw, req, s)
      | (None, nwrw, req, s) \<Rightarrow>
          (case wr_resp nwrw of
             None \<Rightarrow> (None, rw, req, s)
           | Some resp \<Rightarrow>
               (case count resp s of
                  (Some e, s) \<Rightarrow> (Some (LimitErr e), rw, req, s)
                | (None, s) \<Rightarrow> write_last req resp rw s)))"
    (is "passed handle cx rw req s ?out")
proof -
  let ?nw = "NewNonWriter (wr_local rw) (wr_remote rw)"
  obtain e nwrw q s1 where h: "handle cx ?nw req s0 = (e, nwrw, q, s1)" by (metis prod_cases4)
  have o: "R s1 (snd (snd (snd ?out))) \<and> set (answers rw ?out) \<subseteq> set (answers ?nw (e, nwrw, q, s1))"
  proof (cases "e = None \<and> wr_resp nwrw \<noteq> None")
    case False
    then show ?thesis using h f by (auto simp: R_refl simp del: answers.simps split: option.splits)
  next
    case True
    then obtain resp where resp: "e = None" "wr_resp nwrw = Some resp" by auto
    obtain x s2 where c: "count resp s1 = (x, s2)" by fastforce
    obtain err' rw' q' s' where w: "write_last q resp rw s2 = (err', rw', q', s')" by (metis prod_cases4)
    show ?thesis
      using h f resp c count [OF c] write_last_answers [OF w] write_last_sel [OF w] w
      by (cases x) (auto simp: NewNonWriter_def simp del: answers.simps simp: answers.simps [of "NewNonWriter _ _", unfolded NewNonWriter_def])
  qed
  show ?thesis unfolding passed_def using h r o by (intro exI) (auto simp del: answers.simps)
qed

lemma limited_once:
  assumes f: "fresh rw"
  shows "unanswered rw s (serveWithRatelimiting mw handle cx rw req ri s) \<or>
     passed handle cx rw req s (serveWithRatelimiting mw handle cx rw req ri s)"
proof -
  have glob: "unanswered rw s (serveWithGlobalRatelimiting mw handle cx rw req ri s0) \<or>
      passed handle cx rw req s (serveWithGlobalRatelimiting mw handle cx rw req ri s0)" if r: "R s s0" for s0
  proof -
    obtain x s1 where x: "rm_IsRateLimited mw req (ri_RemoteIP ri) s0 = (x, s1)" by fastforce
    have r1: "R s s1" using R_trans [OF r R_IsRateLimited [OF x]] .
    show ?thesis
      using x r1 passed_direct [OF f r1, of handle cx req]
        passed_counted [OF f r1, of "\<lambda>m. rm_CountResponses mw m (ri_RemoteIP ri)" handle cx req] f
      by (auto simp: serveWithGlobalRatelimiting_def unanswered_def R_CountResponses simp del: answers.simps split: sum.split)
  qed
  show ?thesis
  proof (cases "si_Protocol (ri_ServerInfo ri) \<in> set (rm_protos mw)")
    case False
    then show ?thesis using passed_direct [OF f R_refl] by (simp add: serveWithRatelimiting_def)
  next
    case True
    show ?thesis
    proof (cases "DeviceData ri")
      case None
      then show ?thesis using True glob [OF R_refl] by (simp add: serveWithRatelimiting_def serveWithProfileRatelimiting_def)
    next
      case (Some pd)
      obtain p d where pd: "pd = (p, d)" by fastforce
      obtain x s1 where x: "rm_Check mw (p_Ratelimiter p) req (ri_RemoteIP ri) s = (x, s1)" by fastforce
      note r1 = R_Check [OF x]
      show ?thesis
        using True Some pd x f r1 glob [OF r1]
          passed_counted [OF f r1, of "\<lambda>m. rm_profCountResponses mw (p_Ratelimiter p) m (ri_RemoteIP ri)" handle cx req]
        by (cases x)
          (auto simp: serveWithRatelimiting_def serveWithProfileRatelimiting_def unanswered_def R_profCountResponses simp del: answers.simps)
    qed
  qed
qed

text \<open>A request through the middleware: it is left unanswered, its subnet is refused, or it is passed on with its information.\<close>

lemma rl_once:
  assumes f: "fresh rw"
  obtains (dropped) "unanswered rw s (rl_Wrap mw handle cx rw req s)"
  | (refused) "rl_info mw cx rw req s = None" "R s (snd (snd (snd (rl_Wrap mw handle cx rw req s))))"
      "set (answers rw (rl_Wrap mw handle cx rw req s)) \<subseteq> {NewRespRCode (rm_lib mw) (rm_messages mw) req RcodeFormatError}"
  | (served) ri where "rl_info mw cx rw req s = Some ri"
      "passed handle (ContextWithRequestInfo ri cx) rw req s (rl_Wrap mw handle cx rw req s)"
proof (cases "ap_port (wr_remote rw) = 0")
  case True
  then show ?thesis using f by (intro dropped) (simp add: rl_Wrap_def unanswered_def R_refl del: answers.simps)
next
  case port: False
  obtain x s1 where loc: "rl_location mw req (ap_addr (wr_remote rw)) s = (x, s1)" by fastforce
  have r1: "R s s1"
    using loc by (auto simp: rl_location_def locationData_def Let_def split: prod.splits sum.splits if_splits dest!: R_geoData intro: R_trans)
  show ?thesis
  proof (cases x)
    case (Inl e)
    obtain we rw' where w: "WriteMsg req (NewRespRCode (rm_lib mw) (rm_messages mw) req RcodeFormatError) rw = (we, rw')" by fastforce
    have "rl_Wrap mw handle cx rw req s = (Some (ECSErr e we), rw', req, s1)"
      using port loc Inl w by (simp add: rl_Wrap_def processLocationErr_def)
    moreover have "set (answers rw (Some (ECSErr e we), rw', req, s1)) \<subseteq> {NewRespRCode (rm_lib mw) (rm_messages mw) req RcodeFormatError}"
      using w by (auto simp: WriteMsg_def split: if_splits list.splits option.splits)
    ultimately show ?thesis using refused loc Inl r1 by (simp add: rl_info_def)
  next
    case (Inr le)
    obtain l ecs where le: "le = (l, ecs)" by fastforce
    obtain ri0 s2 where ri0: "newRequestInfo mw cx req (wr_local rw) (wr_remote rw) s1 = (ri0, s2)" by fastforce
    have r2: "R s s2"
      using ri0 r1 by (auto simp: newRequestInfo_def Let_def split: prod.splits dest!: R_Find intro: R_trans)
    let ?ri = "ri0\<lparr>ri_Location := l, ri_ECS := ecs\<rparr>"
    have info: "rl_info mw cx rw req s = Some ?ri" using loc Inr le ri0 by (simp add: rl_info_def)
    obtain b s3 where b: "isBlockedByAccess mw ?ri req (wr_remote rw) s2 = (b, s3)" by fastforce
    have r3: "R s s3"
      using b r2
      by (auto simp: isBlockedByAccess_def DeviceData_def split: if_splits option.splits device_result.splits dest!: R_accessIsBlocked intro: R_trans)
    have W: "rl_Wrap mw handle cx rw req s =
        (case handleDeviceResult (ri_DeviceResult ri0) of
           Some err \<Rightarrow> (err, rw, req, s2)
         | None \<Rightarrow> if b then (None, rw, req, s3) else serveWithRatelimiting mw handle (ContextWithRequestInfo ?ri cx) rw req ?ri s3)"
      using port loc Inr le ri0 b by (cases b) (simp_all add: rl_Wrap_def Let_def split: option.split)
    show ?thesis
    proof (cases "handleDeviceResult (ri_DeviceResult ri0) = None \<and> \<not> b")
      case False
      then show ?thesis using dropped f r2 r3 unfolding W by (auto simp: unanswered_def simp del: answers.simps split: option.splits if_splits)
    next
      case True
      then have W': "rl_Wrap mw handle cx rw req s = serveWithRatelimiting mw handle (ContextWithRequestInfo ?ri cx) rw req ?ri s3"
        unfolding W by simp
      from limited_once [OF f, of s3 handle "ContextWithRequestInfo ?ri cx" req ?ri] show ?thesis
      proof
        assume "unanswered rw s3 (serveWithRatelimiting mw handle (ContextWithRequestInfo ?ri cx) rw req ?ri s3)"
        then show ?thesis using r3 by (intro dropped) (auto simp: W' unanswered_def intro: R_trans)
      next
        assume "passed handle (ContextWithRequestInfo ?ri cx) rw req s3 (serveWithRatelimiting mw handle (ContextWithRequestInfo ?ri cx) rw req ?ri s3)"
        then show ?thesis using passed_earlier r3 info by (intro served) (simp_all add: W')
      qed
    qed
  qed
qed

end

subsection \<open>The other middlewares of the chain\<close>

context inner_handler
begin

lemma main_finish_writes:
  assumes "main_finish mw flt ri cx fctx resp rw s = (err, rw', req', s')"
  shows "writes rw rw'"
  using assms
  by (auto simp: main_finish_def writeDebugResponse_def write_last_def WriteMsg_writes split: sum.splits if_splits prod.splits option.splits)

lemma main_writes:
  assumes w: "main_Wrap mw handle cx rw req s = (err, rw', req', s')"
  shows "writes rw rw'"
proof -
  have a: "writes rw (after_NonWriter rw nwrw)" if "handle ncx (MakeNonWriter rw) nreq s1 = (e, nwrw, q, s2)" for ncx nreq s1 e nwrw q s2
    using behaves [OF that] writes_MakeNonWriter by blast
  have "writes rw rw'"
    if "handle ncx (MakeNonWriter rw) nreq s1 = (e, nwrw, q, s2)" "main_finish mw flt ri cx f m (after_NonWriter rw nwrw) s2 = (err, rw', req', s')"
    for ncx nreq s1 e nwrw q s2 flt ri f m
    using a [OF that(1)] main_finish_writes [OF that(2)] by (rule writes_trans)
  then show ?thesis
    using w by (auto simp: main_Wrap_def Let_def split: option.splits prod.splits sum.splits if_splits intro: a)
qed

end

text \<open>The initial middleware only takes the AD bit from an answer that it did not make itself.\<close>

definition mask_AD :: "dnslib \<Rightarrow> msg \<Rightarrow> msg \<Rightarrow> msg" where
  "mask_AD L req m = m\<lparr>AuthenticatedData := AuthenticatedData m \<and> (AuthenticatedData req \<or> IsDO L req)\<rparr>"

lemma initial_answers:
  assumes h: "handle cx (MakeNonWriter rw) (req\<lparr>AuthenticatedData := True\<rparr>) s = (e, nwrw, q, s1)" and w: "writes (MakeNonWriter rw) nwrw"
    and ri: "cx_ReqInfo cx = Some ri" "reqInfoSpecialHandler im ri = None"
  shows "set (answers rw (initial_Wrap im handle cx rw req s)) \<subseteq> mask_AD (im_lib im) req ` set (answers (MakeNonWriter rw) (e, nwrw, q, s1))"
proof (cases "e = None \<and> wr_resp nwrw \<noteq> None")
  case False
  then show ?thesis
    using h ri by (auto simp: initial_Wrap_def after_error_answers [OF w] simp del: answers.simps split: option.splits)
next
  case True
  then obtain resp where resp: "e = None" "wr_resp nwrw = Some resp" by auto
  obtain err' rw' q' s' where l: "write_last q (mask_AD (im_lib im) req resp) (after_NonWriter rw nwrw) s1 = (err', rw', q', s')"
    by (metis prod_cases4)
  have "initial_Wrap im handle cx rw req s = (err', rw', q', s')"
    using h ri resp l by (simp add: initial_Wrap_def mask_AD_def Let_def)
  then show ?thesis using after_write_answers [OF w l] resp by (auto simp del: answers.simps simp: answers.simps [of "MakeNonWriter _"])
qed

text \<open>The state after the initial middleware is that after the handler below, or the one before it.\<close>

lemma initial_state:
  assumes ri: "cx_ReqInfo cx = Some ri" and i: "initial_Wrap im handle cx rw req s = (err, rw', req', s')"
  shows "s' = s \<or> (\<exists>e nwrw q. handle cx (MakeNonWriter rw) (req\<lparr>AuthenticatedData := True\<rparr>) s = (e, nwrw, q, s'))"
  using assms by (auto simp: initial_Wrap_def Let_def write_last_def split: option.splits prod.splits)

lemma presvc_state:
  assumes ri: "cx_ReqInfo cx = Some ri" and check: "\<And>m ri s. snd (ps_Check mw m ri s) = s"
    and p: "presvc_Wrap mw handle cx rw req s = (err, rw', req', s')"
  shows "s' = s \<or> handle cx rw req s = (err, rw', req', s')"
proof -
  obtain x where "ps_Check mw req ri s = (x, s)" by (metis check prod.collapse)
  then show ?thesis
    using ri p by (auto simp: presvc_Wrap_def respondWithHashes_def write_last_def split: if_splits option.splits prod.splits sum.splits)
qed

end
