(* ===== verification/Service_Laws.thy ===== *)
theory Service_Laws
  imports Service Limiter_Laws
begin

text \<open>
  What the service guarantees as a whole, from the access and rate-limiting middleware to the upstream: which answer a blocked request gets, and
  what the query log gets to know about a client.
\<close>

subsection \<open>The handlers behind the main middleware\<close>

lemma preups_frame:
  assumes h: "\<And>cx rw req s err rw' req' s'. handle cx rw req s = (err, rw', req', s') \<Longrightarrow> g s' = g s"
    and rec: "\<And>m ri s. g (pu_Record mw m ri s) = g s" and w: "preups_Wrap mw handle cx rw req s = (err, rw', req', s')"
  shows "g s' = g s"
  using w unfolding preups_Wrap_def serveAndroidMetric_def Let_def write_last_def
  by (auto simp: rec split: prod.splits option.splits if_splits dest: h)

lemma wrapPreUpstreamMw_frame:
  assumes "wrapPreUpstreamMw E conf h cx rw req s = (err, rw', req', s')"
  shows "sv_log s' = sv_log s"
  using assms unfolding wrapPreUpstreamMw_def
  by (rule preups_frame [rotated 2])
    (auto simp: svc_preupsmw_def on_upstream_def on_plain_def on_ecs_def split: cache_type.splits prod.splits)

interpretation svc_log: query_logging "svc_mainmw E c" "wrapPreUpstreamMw E conf h" sv_log for E c conf h
  by unfold_locales (auto simp: svc_mainmw_def wrapPreUpstreamMw_frame split: prod.splits)

lemma plain_Wrap_behaves:
  assumes "well_behaved h" "plain_Wrap mw h cx rw req s = (err, rw', req', s')"
  shows "writes rw rw' \<and> req' = req"
  using assms by (auto simp: plain_Wrap_def Let_def split: prod.splits option.splits dest!: write_last_sel dest: well_behavedD)

text \<open>A handler for the upstream that behaves gives handlers that do, whatever the cache.\<close>

lemma wrapPreUpstreamMw_behaves:
  assumes h: "well_behaved h"
  shows "inner_handler (wrapPreUpstreamMw E conf h)"
proof -
  let ?inner = "case ca_Type conf of
          CacheTypeNone \<Rightarrow> on_upstream h
        | CacheTypeSimple \<Rightarrow> on_plain (plain_Wrap (svc_plainmw E conf) h)
        | CacheTypeECS \<Rightarrow> on_ecs (ecs_Wrap (svc_ecsmw E conf) h)"
  have "inner_handler ?inner"
  proof
    fix cx rw req s err rw' req' s'
    assume "?inner cx rw req s = (err, rw', req', s')"
    then show "writes rw rw' \<and> req' = req"
      using well_behavedD [OF h]
      by (auto simp: on_upstream_def on_plain_def on_ecs_def split: cache_type.splits prod.splits dest: plain_Wrap_behaves [OF h] ecs_Wrap_behaves)
  qed
  from well_behavedD [OF inner_handler.preups_behaves [OF this]] show ?thesis
    unfolding wrapPreUpstreamMw_def by unfold_locales
qed

subsection \<open>The middleware around the service\<close>

text \<open>What access control and rate limiting leave alone: they only change the profile database, the limiters and the engines of access profiles.\<close>

definition svc_kept :: "('e, 'g, 'c, 'd, 'b, 'r, 'k, 'p, 'u) svc \<Rightarrow> ('e, 'g, 'c, 'd, 'b, 'r, 'k, 'p, 'u) svc \<Rightarrow> bool" where
  "svc_kept s s' \<longleftrightarrow>
     sv_now s' = sv_now s \<and> sv_flt s' = sv_flt s \<and> sv_storage s' = sv_storage s \<and> sv_global s' = sv_global s \<and>
     sv_standard s' = sv_standard s \<and> sv_bill s' = sv_bill s \<and> sv_rules s' = sv_rules s \<and> sv_log s' = sv_log s \<and>
     sv_dnsdb s' = sv_dnsdb s \<and> sv_cache s' = sv_cache s \<and> sv_ecsCache s' = sv_ecsCache s \<and> sv_plain s' = sv_plain s \<and>
     sv_upstream s' = sv_upstream s"

interpretation svc_limiter: limiter_ops "svc_rlmw E c fltGrp srvGrp srv" svc_kept for E c fltGrp srvGrp srv
  by unfold_locales (auto simp: svc_kept_def svc_rlmw_def svc_Find_def split: prod.splits if_splits option.splits)

subsection \<open>From the client to the upstream\<close>

abbreviation svc_initmw :: "('e, 'g, 'c, 'd, 'b, 'r, 'k, 'p) svc_env \<Rightarrow> 'e server_group \<Rightarrow> initmw" where
  "svc_initmw E srvGrp \<equiv> \<lparr>im_lib = se_lib E, im_IsSubdomain = se_IsSubdomain E, im_ddr = sg_DDR srvGrp\<rparr>"

lemma rl_info_sel:
  assumes "rl_info mw cx rw req s = Some ri"
  shows "ri_QType ri = Qtype (question0 req)" "ri_RemoteIP ri = ap_addr (wr_remote rw)"
  using assms by (auto simp: rl_info_def newRequestInfo_def Let_def split: prod.splits sum.splits)

lemma question0_AD [simp]: "question0 (req\<lparr>AuthenticatedData := b\<rparr>) = question0 req"
  by (simp add: question0_def)

lemma main_filter_kept:
  assumes "svc_kept s s0"
  shows "main_filter (svc_mainmw E c) ri s0 = main_filter (svc_mainmw E c) ri s"
    "fst (mm_FilterRequest (svc_mainmw E c) f q s0) = fst (mm_FilterRequest (svc_mainmw E c) f q s)"
  using assms by (simp_all add: svc_kept_def main_filter_def svc_mainmw_def split: prod.split option.split)


text \<open>
  C6: The query log gets at most one entry for a request, and only for the profile that was found for the client, if that profile has the log enabled.
  The entry has the address of the client only if the profile logs addresses.  This holds for every path through
  the service, with errors and dropped requests, and for any handler of the upstream.
\<close>

theorem service_query_log:
  assumes post: "hc_PostInitialMiddleware c = None" and rw: "fresh rw"
  shows "let log' = sv_log (snd (snd (snd (serverHandler E c fltGrp srvGrp srv h cx rw req s))))
    in log' = sv_log s \<or>
       (\<exists>ri p d e. rl_info (svc_rlmw E c fltGrp srvGrp srv) cx rw req s = Some ri \<and> DeviceData ri = Some (p, d) \<and> QueryLogEnabled p \<and>
          log' = sv_log s @ [e] \<and> ql_ProfileID e = p_ID p \<and> ql_DeviceID e = d_ID d \<and>
          ql_RemoteIP e = (if IPLogEnabled p then ap_addr (wr_remote rw) else AddrZero))"
proof -
  let ?h = "initial_Wrap (svc_initmw E srvGrp) (mainHandler E c h)" and ?rl = "svc_rlmw E c fltGrp srvGrp srv"
  have inner: "svc_log.logged ri s0 s1"
    if "?h (ContextWithRequestInfo ri cx) rw0 req s0 = (err, rw1, req1, s1)" for ri rw0 s0 err rw1 req1 s1
  proof -
    have cx: "cx_ReqInfo (ContextWithRequestInfo ri cx) = Some ri" by (simp add: ContextWithRequestInfo_def)
    from initial_state [OF cx that] show ?thesis
    proof
      assume "\<exists>e nwrw q. mainHandler E c h (ContextWithRequestInfo ri cx) (MakeNonWriter rw0) (req\<lparr>AuthenticatedData := True\<rparr>) s0 = (e, nwrw, q, s1)"
      then obtain e nwrw q where "presvc_Wrap (svc_presvcmw E c) (main_Wrap (svc_mainmw E c) (wrapPreUpstreamMw E (hc_Cache c) h))
          (ContextWithRequestInfo ri cx) (MakeNonWriter rw0) (req\<lparr>AuthenticatedData := True\<rparr>) s0 = (e, nwrw, q, s1)"
        using post by (auto simp: mainHandler_def)
      from presvc_state [OF cx _ this] show ?thesis
        using svc_log.main_logged [OF _ cx] svc_log.logged_refl by (fastforce simp: svc_presvcmw_def)
    qed (simp add: svc_log.logged_refl)
  qed
  show ?thesis
  proof (rule svc_limiter.rl_once [OF rw, of s E c fltGrp srvGrp srv ?h cx req])
    assume "svc_limiter.unanswered rw s (rl_Wrap ?rl ?h cx rw req s)"
    then show ?thesis by (simp add: svc_limiter.unanswered_def serverHandler_def svc_kept_def)
  next
    fix ri
    assume ri: "rl_info ?rl cx rw req s = Some ri" and "svc_limiter.passed ?h (ContextWithRequestInfo ri cx) rw req s (rl_Wrap ?rl ?h cx rw req s)"
    then obtain rw0 s0 err rw1 req1 s1 where o: "?h (ContextWithRequestInfo ri cx) rw0 req s0 = (err, rw1, req1, s1)"
        "svc_kept s s0" "svc_kept s1 (snd (snd (snd (rl_Wrap ?rl ?h cx rw req s))))" unfolding svc_limiter.passed_def by blast
    from inner [OF o(1)] o(2,3) ri rl_info_sel(2) [OF ri] show ?thesis
      by (auto simp: svc_log.logged_def svc_log.entry_allowed_def svc_kept_def serverHandler_def Let_def)
  qed (simp add: svc_kept_def serverHandler_def)
qed


subsection \<open>An example\<close>

text \<open>A service with one profile, whose device is found by its linked address, and with one rule list; the cache is the plain one.\<close>

definition ex_svc_prof :: client_profile where
  "ex_svc_prof = profile.extend ((ex_prof ''a'' {''d''})\<lparr>QueryLogEnabled := True\<rparr>)
     (client_profile.fields ex_config_client 0 0 (Some BlockingModeNullIP) None None)"

definition ex_svc_db :: "unit client_profile_ext db" where
  "ex_svc_db = new_db 1 1 1
     (Inr (Some \<lparr>fc_SyncTime = 1, fc_Profiles = [ex_svc_prof], fc_Devices = [ex_dev ''d'' (Addr4 0x05000007) []]\<rparr>)
        :: (unit cache_load_error, unit client_profile_ext file_cache option) result)"

definition ex_svc_env ::
  "(unit, string, unit, unit, duration \<times> (prefix \<rightharpoonup> time \<times> nat), nat \<times> 64 word list,
    (ecs_key \<times> ecs_item cache_entry) list, (string \<times> plain_item cache_entry) list) svc_env" where
  "ex_svc_env =
     \<lparr>se_ecslib = ecslib_std, se_IsSubdomain = (\<lambda>s d. s = d \<or> has_suffix s (CHR ''.'' # d)), se_filters = ex_filters_env,
      se_access = ex_access_env, se_ring = ring_std, se_gcache = cache_std,
      se_contains = (\<lambda>ps ip. list_ex (\<lambda>p. prefix_contains p ip) ps), se_values = (\<lambda>xs. xs), se_geoData = (\<lambda>_ _. None), se_SubnetByLocation = (\<lambda>_ _. Inl ()),
      se_Check = (\<lambda>_ _. Inr None), se_ecsC = default_if (lru_std 10), se_plainC = LRU_if (default_if (lru_std 10)), se_fakeECS = {}\<rparr>"

type_synonym ex_svc_state =
  "(unit, string, unit, unit, duration \<times> (prefix \<rightharpoonup> time \<times> nat), nat \<times> 64 word list,
    (ecs_key \<times> ecs_item cache_entry) list, (string \<times> plain_item cache_entry) list, unit) svc"

definition ex_svc :: ex_svc_state where
  "ex_svc =
     \<lparr>sv_now = 50, sv_db = ex_svc_db, sv_tasks = [], sv_flt = ex_flt_heap ex_loaded_heap, sv_storage = ex_flt_storage ex_loaded_storage,
      sv_backoff = NewBackoff cache_std ex_backoff_conf, sv_limiters = [], sv_global = NewGlobal ex_access_env [] [],
      sv_standard = NewStandardBlocker ex_access_env [] empty_standard_config, sv_access = [], sv_bill = Map.empty,
      sv_rules = NewHTTP, sv_log = [], sv_dnsdb = \<lparr>db_entries = [], db_maxSize = 9\<rparr>, sv_cache = [], sv_ecsCache = [], sv_plain = [], sv_upstream = ()\<rparr>"

definition ex_svc_upstream :: "(unit, time \<times> unit) handler" where
  "ex_svc_upstream cx rw req s = write_last req ((dl_SetReply dnslib_std empty_msg req)\<lparr>Answer := [ex_record 300]\<rparr>) rw s"

definition ex_svc_config :: "(unit, ex_svc_state) handlers_config" where
  "ex_svc_config =
     \<lparr>hc_Cache = \<lparr>ca_MinTTL = 0, ca_Type = CacheTypeSimple, ca_OverrideCacheTTL = False\<rparr>, hc_Messages = ex_constructor,
      hc_StructuredErrors = \<lparr>Justification = [], Organization = [], Contact = [], sde_Enabled = False\<rparr>, hc_EDEEnabled = True,
      hc_NodeName = ''node'', hc_HashMatcher = [], hc_PostInitialMiddleware = None, hc_FilteringGroups = Map.empty, hc_ServerGroups = []\<rparr>"

definition ex_svc_group :: "unit server_group" where
  "ex_svc_group =
     \<lparr>sg_Name = ''g'', sg_FilteringGroup = ''default'',
      sg_DDR = \<lparr>DeviceTargets = {}, PublicTargets = {}, DeviceRecordTemplates = [], PublicRecordTemplates = [], ddr_Enabled = False\<rparr>,
      sg_DeviceDomains = [], sg_Servers = [], sg_ProfilesEnabled = True\<rparr>"

definition ex_svc_fltGrp :: filtering_group where
  "ex_svc_fltGrp = ri_FilteringGroup ex_client_info"

definition ex_svc_ri :: "unit request_info" where
  "ex_svc_ri =
     (let rl = svc_rlmw ex_svc_env (ex_svc_config :: (unit, ex_svc_state) handlers_config) ex_svc_fltGrp ex_svc_group
          (ex_server, ex_finder ProtoDNS []) :: (unit, ex_svc_state) rlmw
      in ex_client_info
        \<lparr>ri_DeviceResult := Some (DeviceResultOK ex_svc_prof (ex_dev ''d'' (Addr4 0x05000007) [])), ri_Host := ''old'',
         ri_FilteringGroup := ex_svc_fltGrp, ri_Messages := profile_messages rl ex_svc_prof,
         ri_ServerInfo := rm_srvInfo rl\<rparr>)"

lemma ex_svc_sel: "sv_db ex_svc = ex_svc_db" "sv_log ex_svc = []"
  by (simp_all add: ex_svc_def)

lemma ex_svc_upstream_behaves: "well_behaved ex_svc_upstream"
  by (auto simp: well_behaved_def ex_svc_upstream_def dest!: write_last_sel)

lemma ex_svc_found:
  fixes s :: ex_svc_state
  assumes db: "sv_db s = ex_svc_db"
  shows "rl_info (svc_rlmw ex_svc_env ex_svc_config ex_svc_fltGrp ex_svc_group (ex_server, ex_finder ProtoDNS [])) ex_ctx ex_writer
     (ex_request ''old.'' TypeA) s = Some ex_svc_ri"
proof -
  let ?d = "ex_dev ''d'' (Addr4 0x05000007) []"
  have lookup: "ProfileByLinkedIP (Addr4 0x05000007) ex_svc_db = (Inr (ex_svc_prof, ?d), [])"
    by (simp add: ProfileByLinkedIP_def profileByDeviceID_def ex_svc_db_def ex_svc_prof_def ex_simps profile.extend_def client_profile.fields_def)
  have live: "\<not> p_Deleted ex_svc_prof" "\<not> auth_Enabled (d_Auth ?d)" by (simp_all add: ex_svc_prof_def ex_prof_def ex_dev_def profile.extend_def)
  have find: "Find dnslib_std (ex_finder ProtoDNS []) (ex_request ''old.'' TypeA) (cx_SrvInfo ex_ctx) \<lparr>ap_addr = Addr4 0x05000007, ap_port = 1000\<rparr>
      \<lparr>ap_addr = Addr4 1, ap_port = 53\<rparr> ex_svc_db = (Some (DeviceResultOK ex_svc_prof ?d), ex_svc_db, [])"
    using live
    by (simp add: Find_def supportsDeviceID_def ex_finder_def ex_server_def deviceData_def IsStdEncrypted_def
        deviceIDFromEDNS_def dnslib_std_def ex_request_def empty_msg_def findDevice_def deviceFromDB_def deviceByAddrs_def
        BindsToInterfaces_def lookup newDeviceResult_def lookup_result_def authenticatedResult_def authenticate_def Let_def)
  have ecs: "ECSFromMsg dnslib_std std_ipToAddr (ex_request ''old.'' TypeA) = Inr (prefix_invalid, 0)" by code_simp
  have host: "NormalizeDomain ''old.'' = ''old''" by code_simp
  have q: "question0 (ex_request ''old.'' TypeA) = \<lparr>q_Name = ''old.'', Qtype = TypeA, Qclass = ClassINET\<rparr>"
    by (simp add: ex_request_def question0_def)
  let ?rl = "svc_rlmw ex_svc_env ex_svc_config ex_svc_fltGrp ex_svc_group (ex_server, ex_finder ProtoDNS []) :: (unit, ex_svc_state) rlmw"
  have rl: "rm_lib ?rl = dnslib_std" "rm_ipToAddr ?rl = std_ipToAddr" "rm_geoData ?rl = (\<lambda>_ _ s. (None, s))" "rm_fltGrp ?rl = ex_svc_fltGrp"
    "rm_Find ?rl = svc_Find ex_svc_env True (ex_finder ProtoDNS [])"
    by (simp_all add: svc_rlmw_def ex_svc_env_def ecslib_std_def ex_svc_group_def)
  have "svc_Find ex_svc_env True (ex_finder ProtoDNS []) (cx_SrvInfo ex_ctx) (ex_request ''old.'' TypeA) (wr_remote ex_writer) (wr_local ex_writer) s =
      (Some (DeviceResultOK ex_svc_prof ?d), s)"
    using find db by (simp add: svc_Find_def ex_svc_env_def ecslib_std_def ex_writer_def)
  then show ?thesis
    using ecs host q
    by (simp add: rl_info_def rl_location_def locationData_def newRequestInfo_def rl ex_svc_ri_def ex_client_info_def ex_writer_def Let_def)
qed

lemma ex_svc_filtered:
  "fst (mm_FilterRequest (svc_mainmw ex_svc_env ex_svc_config) (main_filter (svc_mainmw ex_svc_env ex_svc_config) ex_svc_ri ex_svc)
     (reqInfoToFltReq ((ex_request ''old.'' TypeA)\<lparr>AuthenticatedData := True\<rparr>) ex_svc_ri) ex_svc) = Inr (Some (ResultBlocked ''list'' ''||host^''))"
proof -
  let ?s = "ex_flt_heap ex_loaded_heap" and ?st = "ex_flt_storage ex_loaded_storage"
  let ?req = "reqInfoToFltReq ((ex_request ''old.'' TypeA)\<lparr>AuthenticatedData := True\<rparr>) ex_svc_ri" and ?u = "common_uf_request (Addr4 0x05000007) TypeA ''old'' False"
  have now: "flt_now ex_svc = ?s" "sv_storage ex_svc = ?st" by (simp_all add: ex_svc_def ex_flt_heap_def)
  have flt: "main_filter (svc_mainmw ex_svc_env ex_svc_config) ex_svc_ri ex_svc = ForConfig ex_filters_env ?s ?st (ConfigClient ex_config_client)"
    by (simp add: main_filter_def svc_mainmw_def ex_svc_ri_def DeviceData_def ex_svc_prof_def ex_prof_def ex_dev_def profile.extend_def
        client_profile.fields_def ex_svc_env_def now Let_def)
  have req: "fr_Host ?req = ''old''" "fr_QType ?req = TypeA" "fr_RemoteIP ?req = Addr4 0x05000007"
    by (simp_all add: reqInfoToFltReq_def ex_svc_ri_def ex_client_info_def Let_def)
  have lists: "list_handles ex_loaded_storage (cl_RuleList ex_config_client) = [0]"
    "list_handles ex_loaded_storage (CustomRuleList ex_config_client) = []" by code_simp+
  have "co_custom f = None" "co_customRuleLists f = []" "co_svcLists f = []" "co_ruleLists f = [rules_ref ex_filters_env ?s 0]"
    if "f = forClient ex_filters_env ?s ?st ex_config_client" for f
    using lists by (simp_all add: that forClient_eq ex_flt_storage_def parental_active_def ex_config_client_def)
  moreover have "fst (rl_Set (rules_ref ex_filters_env ?s 0) ?u ?s) = Some (uf_result_reset\<lparr>ur_NetworkRule := Some ex_rule, ur_NetworkRules := [ex_rule]\<rparr>)"
    by (simp add: rules_ref_def ex_filters_env_def ex_flt_heap_def ex_loaded_heap_def newBaseFilter_def SetURLFilterResult_def
        engine_result_def ex_urlfilter_def common_uf_request_def uf_request_reset_def)
  then obtain s1 where "rl_Set (rules_ref ex_filters_env ?s 0) ?u ?s =
      (Some (uf_result_reset\<lparr>ur_NetworkRule := Some ex_rule, ur_NetworkRules := [ex_rule]\<rparr>), s1)" by (metis prod.collapse)
  moreover have "fst (rl_ID (rules_ref ex_filters_env ?s 0)) = ''list''"
    by (simp add: rules_ref_def ex_flt_heap_def ex_loaded_heap_def newBaseFilter_def)
  ultimately have "fst (if_FilterRequest ex_flt_env (ForConfig ex_filters_env ?s ?st (ConfigClient ex_config_client)) ?req ?s) =
      Inr (Some (ResultBlocked ''list'' ''||host^''))"
    by (simp add: ForConfig_def composite_FilterRequest_def filterReqWithRuleLists_def filterReqWithCustomFilter_def req
        filterReqWithCustomRuleLists_def addClientID_def ex_flt_env_def ex_rule_def ProcessDNSRewrites_def
        uf_result_reset_def collector_toInternal_def collector_add_def newCollector_def addHostRules_def netRuleDataToResult_def
        hostsRulesToResult_def rule_data_def set_ids_def IDBlockedService_def Let_def)
  moreover have "fst (mm_FilterRequest (svc_mainmw ex_svc_env ex_svc_config) f q ex_svc) = fst (if_FilterRequest ex_flt_env f q (flt_now ex_svc))" for f q
    by (simp add: svc_mainmw_def ex_svc_env_def ex_filters_env_def split: prod.split)
  ultimately show ?thesis by (simp only: flt now)
qed


theorem service_query_log_witness:
  "let log' = sv_log (snd (snd (snd (serverHandler ex_svc_env ex_svc_config ex_svc_fltGrp ex_svc_group (ex_server, ex_finder ProtoDNS []) ex_svc_upstream
       ex_ctx ex_writer (ex_request ''old.'' TypeA) ex_svc))))
   in log' = [] \<or> (\<exists>e. log' = [e] \<and> ql_ProfileID e = ''a'' \<and> ql_DeviceID e = ''d'' \<and> ql_RemoteIP e = AddrZero)"
proof -
  have "hc_PostInitialMiddleware ex_svc_config = None" "fresh ex_writer" by (simp_all add: ex_svc_config_def fresh_def ex_writer_def)
  from service_query_log [OF this, of ex_svc_env ex_svc_fltGrp ex_svc_group "(ex_server, ex_finder ProtoDNS [])" ex_svc_upstream ex_ctx
      "ex_request ''old.'' TypeA" ex_svc]
  show ?thesis
    by (simp add: ex_svc_found DeviceData_def ex_svc_ri_def ex_svc_prof_def ex_prof_def ex_dev_def profile.extend_def Let_def ex_svc_sel)
qed


end
