(* ===== verification/Spec2Isabelle.thy ===== *)
theory Spec2Isabelle
  imports Profile_DB_Sync Conn_Limiter Dns_Msg_Laws Hash_Prefix Typosquatting Service_Laws
begin

text \<open>
  A verification library for AdGuard DNS, a filtering recursive DNS service written in Go.

  \<^bold>\<open>The program.\<close>  A server hands a request to a chain of middlewares (\<open>internal/dnssvc/handler.go\<close>).  The
  outermost one finds the profile and the device of the client and drops what access settings and rate limits refuse.
  The next ones answer special domains, hash queries and the DNS check.  The main middleware filters the request, passes it on
  to the caches and the upstream, filters the response, answers the client and records the query.  Beside the requests, the
  profile database synchronises with a backend, the filter lists are refreshed, and the statistics are uploaded.

  \<^bold>\<open>Standard library and data.\<close>  \<open>Prelude\<close>, \<open>Go_Strings\<close>, \<open>Go_Format\<close> and \<open>Sha256\<close> model what the sources use of Go's standard
  library: addresses and prefixes, times, UTF-8 strings, formatting and SHA-256.  \<open>Dns_Types\<close> has the DNS messages; the functions
  of the DNS module that the sources call are the fields of \<open>dnslib\<close>, with what the code relies on as \<open>dnslib_ok\<close>.
  \<open>Agd_Ids\<close>, \<open>Agd_Profile\<close>, \<open>Agd_Server\<close> (\<open>internal/agd\<close>, \<open>internal/agdvalidate\<close>) and \<open>Agdnet\<close> (\<open>internal/agdnet\<close>) have the
  identifiers, the entities and the domain-name helpers.

  \<^bold>\<open>Profiles.\<close>  \<open>Profile_DB\<close> is the database (\<open>internal/profiledb/default.go\<close>): a record with the six maps and the times of
  synchronisation, one definition per method; its locks make each method one step, and the goroutines that clean up
  stale index entries are tasks that run at any later moment.  \<open>Profile_DB_Sync\<close> shows that lookups are sound in every reachable
  state, that a full synchronisation is exact, what a partial one does, and when which of them is due.  \<open>Device_Finder\<close> and
  \<open>Device_Finder_Laws\<close> (\<open>internal/dnssvc/internal/devicefinder\<close>) show that an attributed request belongs to a current profile and
  passed authentication, and that custom domains admit the profiles of their owners only.

  \<^bold>\<open>Limits and access.\<close>  \<open>Ratelimit\<close> and \<open>Ratelimit_Backoff\<close> (\<open>internal/dnsserver/ratelimit\<close>, \<open>internal/agd/ratelimit.go\<close>) relate the ring buffer
  to the requests of the last interval, and the backoff limiter to one counter per subnet.  \<open>Conn_Limiter\<close>
  (\<open>internal/connlimiter\<close>) is a step relation on listeners and connections, with the bound on active connections as
  an invariant.  \<open>Access\<close> (\<open>internal/access\<close>, \<open>internal/filter/filterstorage/standardaccess.go\<close>) shows what access settings decide, across
  changes of the standard settings and restarts.

  \<^bold>\<open>Messages.\<close>  \<open>Dns_Msg\<close>, \<open>Dns_Msg_Laws\<close> and \<open>Dns_Constructor\<close> (\<open>internal/dnsmsg\<close>) have the constructor of responses: the shape of blocked responses in every
  mode, extended errors, lowest TTLs and client subnets.

  \<^bold>\<open>Filters.\<close>  \<open>Filter_Types\<close> has results, configurations and schedules; \<open>Agdcache\<close> the caches, with the locale \<open>agdcache\<close> as their contract;
  \<open>Rule_List\<close>, \<open>Dns_Rewrite\<close>, \<open>Domain_Filter\<close>, \<open>Replaced_Filter\<close>, \<open>Hash_Prefix\<close>, \<open>Levenshtein\<close> and \<open>Typosquatting\<close> the single filters: result caches
  do not change results, and each filter matches exactly what it lists.  \<open>Composite\<close> and \<open>Composite_Laws\<close> put them together: every
  result has its source, and rules of the user decide first.  \<open>Refreshable\<close> and \<open>Rule_List_Storage\<close> model
  downloads and file caches, \<open>Filter_Storage\<close> the storage; \<open>Filter_Storage_Laws\<close>, \<open>Filter_Enabled\<close> and \<open>Filter_Reach\<close> have the invariant of its reachable
  states, and from it that results come from enabled filters and that enabled categories block.

  \<^bold>\<open>Requests.\<close>  \<open>Handler\<close> has contexts, writers and handlers; \<open>Ratelimit_Mw\<close>, \<open>Initial_Mw\<close>, \<open>Pre_Mw\<close> and \<open>Main_Mw\<close> the middlewares;
  \<open>Ecs_Cache\<close> and \<open>Dns_Cache\<close> the two caches of responses (\<open>internal/ecscache\<close>, \<open>internal/dnsserver/cache\<close>); \<open>Stats\<close> the statistics (\<open>internal/billstat\<close>,
  \<open>internal/rulestat\<close>, \<open>internal/dnsdb\<close>); \<open>Query_Log\<close> the log file (\<open>internal/querylog\<close>).  A handler is a function of the context, the writer, the request
  and the state, and panics are errors.  The contracts are locales: \<open>inner_handler\<close> (a handler uses its writer properly and leaves
  the request alone), \<open>query_logging\<close> (who extends the log), \<open>limiter_ops\<close> (what the outermost middleware leaves alone), \<open>ecs_caches\<close>
  and \<open>plain_cache\<close> (the operations of the caches).  \<open>Middleware_Laws\<close>, \<open>Main_Laws\<close>, \<open>Limiter_Laws\<close> and \<open>Ecs_Cache_Laws\<close> prove their lemmas.

  \<^bold>\<open>The service.\<close>  \<open>Service\<close> puts all of this together over one state, \<open>svc\<close>, as \<open>NewHandlers\<close> does, and interprets the
  operations of the middlewares by the components above.  \<open>Service_Laws\<close> interprets the locales on this chain, and shows for a request from
  the server to the upstream that a blocked one gets the response for blocked requests, that a refused
  client gets nothing and leaves no trace in logs, statistics and caches, and that the query log has what the profile allows.

  \<^bold>\<open>Parameters.\<close>  What is not in the repository is an argument: the DNS module, the rule engine, the public-suffix list, bcrypt, the ring buffer
  and the expiring cache, the LRU cache, JSON codecs, the network and the file system, given by their outcomes.  Each has a
  predicate for its documented behaviour and an executable instance (names with \<open>_std\<close> and \<open>ex_\<close>), on which the examples compute.

  \<^bold>\<open>Bounds.\<close>  No definition uses fuel: all loops of the modelled code are structural or come with a measure.  Integers keep their width where
  the code computes with them (counters, TTLs, response codes); times are unbounded, in nanoseconds, with Go's saturating
  differences written out.

  \<^bold>\<open>Not modelled.\<close>  The servers for the transports, the connections to upstream servers and their health checks, the command with its
  configuration file, GeoIP files, the DNS check and remote storages, TLS certificates, the web and debug services, gRPC and protobuf
  code, metrics and logs: they are input and output over other modules, or generated.  Concurrency is in the model
  where the code lets steps interleave (profile database, connections, statistics); a handler runs to its end without other
  requests in between, and pools of messages are left out except where they change what a response has.
\<close>

end
